(* ===== verification/Js_Number.thy ===== *)
theory Js_Number
  imports Complex_Main "HOL-Library.Log_Nat"
begin

text \<open>
  The numbers of the program. A JavaScript \<open>number\<close> is an IEEE-754 double; every arithmetic
  operator of the source returns the exact result rounded to the nearest double, ties to even.
  The model represents a finite double by the rational it denotes and writes the rounding out:
  \<open>fl\<close> rounds a rational to 53 significant bits with least exponent -1074, and \<open>nadd\<close>,
  \<open>nsub\<close>, \<open>nmul\<close>, \<open>ndiv\<close> are the operators \<open>+\<close>, \<open>-\<close>, \<open>*\<close>, \<open>/\<close> followed by \<open>fl\<close>.
  \<open>numOfBig\<close> is \<open>Number(b)\<close> on a bigint. Not represented: infinities and NaN (a function
  whose result may be one returns an option), the sign of zero, and overflow above the largest
  double, which no amount, price or share count of the program comes near. Division is only
  translated to \<open>ndiv\<close> where the source has excluded a zero divisor, or the branch is written
  out. Timestamps, identifiers and bigints are \<open>int\<close>.

  The lemmas show that \<open>fl\<close> is monotone, odd and idempotent, that it is exact on 53-bit
  significands, and that its relative error is at most one half unit in the last place. The
  locale \<open>rounding\<close> states what the rest of the development uses of a rounding function; its
  interpretation on \<open>fl\<close> discharges it.
\<close>

section \<open>Rounding to double precision\<close>

definition ilog2 :: "rat \<Rightarrow> int" where
  "ilog2 x = (let (p, q) = quotient_of x;
                  k = int (floorlog 2 (nat p)) - int (floorlog 2 (nat q))
              in if 2 powi k \<le> x then k else k - 1)"

definition rne :: "rat \<Rightarrow> int" where
  "rne y = (let f = \<lfloor>y\<rfloor>; d = y - of_int f
            in if d < 1/2 then f else if 1/2 < d then f + 1
               else if even f then f else f + 1)"

definition fl_exp :: "rat \<Rightarrow> int" where
  "fl_exp x = max (ilog2 \<bar>x\<bar> - 52) (-1074)"

definition fl :: "rat \<Rightarrow> rat" where
  "fl x = (if x = 0 then 0
           else of_int (rne (x / 2 powi fl_exp x)) * 2 powi fl_exp x)"

definition is_double :: "rat \<Rightarrow> bool" where
  "is_double x \<longleftrightarrow> fl x = x"

section \<open>The arithmetic operators\<close>

definition nadd :: "rat \<Rightarrow> rat \<Rightarrow> rat" where
  "nadd x y = fl (x + y)"

definition nsub :: "rat \<Rightarrow> rat \<Rightarrow> rat" where
  "nsub x y = fl (x - y)"

definition nmul :: "rat \<Rightarrow> rat \<Rightarrow> rat" where
  "nmul x y = fl (x * y)"

definition ndiv :: "rat \<Rightarrow> rat \<Rightarrow> rat" where
  "ndiv x y = fl (x / y)"

text \<open>The two constants of the error bound: the unit roundoff and half the least double.\<close>

definition roundoff :: rat where
  "roundoff = 1 / 2 ^ 53"

definition tiny :: rat where
  "tiny = 1 / 2 ^ 1075"

definition numOfBig :: "int \<Rightarrow> rat" where
  "numOfBig n = fl (of_int n)"

lemma pow2_le_iff: "(2::rat) powi a \<le> 2 powi b \<longleftrightarrow> a \<le> b"
proof
  assume "(2::rat) powi a \<le> 2 powi b"
  show "a \<le> b"
  proof (rule ccontr)
    assume "\<not> a \<le> b"
    then have "(2::rat) powi b < 2 powi a" by (intro power_int_strict_increasing) auto
    with \<open>(2::rat) powi a \<le> 2 powi b\<close> show False by simp
  qed
qed (auto intro: power_int_increasing)

lemma pow2_less_iff: "(2::rat) powi a < 2 powi b \<longleftrightarrow> a < b"
  using pow2_le_iff [of b a] by (simp add: not_le [symmetric])

lemma floorlog2_bounds_rat:
  assumes "0 < (n::int)"
  shows "(2::rat) powi (int (floorlog 2 (nat n)) - 1) \<le> of_int n"
    and "of_int n < (2::rat) powi int (floorlog 2 (nat n))"
proof -
  let ?a = "floorlog 2 (nat n)"
  have b: "2 ^ (?a - 1) \<le> nat n \<and> nat n < 2 ^ ?a"
    using assms by (intro floorlog_bounds) auto
  have pos: "0 < ?a"
    using assms by (simp add: floorlog_eq_zero_iff zero_less_iff_neq_zero)
  from b have "(2::int) ^ (?a - 1) \<le> n" and "n < 2 ^ ?a"
    using assms by (auto simp: le_nat_iff nat_less_iff)
  then have "(of_int (2 ^ (?a - 1)) :: rat) \<le> of_int n" and "of_int n < (of_int (2 ^ ?a) :: rat)"
    by (simp_all only: of_int_le_iff of_int_less_iff)
  moreover have "int ?a - 1 = int (?a - 1)" using pos by simp
  ultimately show "(2::rat) powi (int ?a - 1) \<le> of_int n" "of_int n < (2::rat) powi int ?a"
    by (simp_all only: power_int_of_nat of_int_power of_int_numeral)
qed

lemma ilog2_bounds:
  assumes "0 < x"
  shows "2 powi ilog2 x \<le> x" and "x < 2 powi (ilog2 x + 1)"
proof -
  obtain p q where pq: "quotient_of x = (p, q)" by (cases "quotient_of x") auto
  then have q: "0 < q" by (rule quotient_of_denom_pos)
  have x: "x = of_int p / of_int q" using pq by (rule quotient_of_div)
  have p: "0 < p" using assms q x by (simp add: zero_less_divide_iff)
  define a where "a = int (floorlog 2 (nat p))"
  define b where "b = int (floorlog 2 (nat q))"
  note P = floorlog2_bounds_rat [OF p, folded a_def]
  note Q = floorlog2_bounds_rat [OF q, folded b_def]
  have qpos: "(0::rat) < of_int q" using q by simp
  have hi: "x < 2 powi (a - b + 1)"
  proof -
    have "x < 2 powi a / of_int q" using P(2) qpos by (simp add: x divide_strict_right_mono)
    also have "\<dots> \<le> 2 powi a / 2 powi (b - 1)"
      using Q(1) qpos by (intro divide_left_mono) auto
    also have "\<dots> = 2 powi (a - b + 1)"
      by (simp add: power_int_diff [symmetric] algebra_simps)
    finally show ?thesis .
  qed
  have lo: "2 powi (a - b - 1) \<le> x"
  proof -
    have "2 powi (a - b - 1) = (2 powi (a - 1) / 2 powi b :: rat)"
      by (simp add: power_int_diff [symmetric] algebra_simps)
    also have "\<dots> \<le> 2 powi (a - 1) / of_int q"
      using Q(2) qpos by (intro divide_left_mono) auto
    also have "\<dots> \<le> x" using P(1) qpos by (simp add: x divide_right_mono)
    finally show ?thesis .
  qed
  have e: "ilog2 x = (if 2 powi (a - b) \<le> x then a - b else a - b - 1)"
    by (simp add: ilog2_def pq a_def b_def)
  show "2 powi ilog2 x \<le> x" using lo by (simp add: e)
  show "x < 2 powi (ilog2 x + 1)" using hi by (auto simp: e algebra_simps)
qed

lemma rne_of_int [simp]: "rne (of_int n) = n"
  by (simp add: rne_def)

lemma rne_bounds: "\<bar>of_int (rne y) - y\<bar> \<le> 1/2"
  unfolding rne_def Let_def by (auto simp: abs_if) linarith+

lemma rne_floor: "\<lfloor>y\<rfloor> \<le> rne y" "rne y \<le> \<lfloor>y\<rfloor> + 1"
  by (auto simp: rne_def Let_def)

lemma rne_mono: assumes "x \<le> y" shows "rne x \<le> rne y"
proof (cases "\<lfloor>x\<rfloor> = \<lfloor>y\<rfloor>")
  case True
  with assms show ?thesis by (auto simp: rne_def Let_def)
next
  case False
  with floor_mono [OF assms] have "\<lfloor>x\<rfloor> + 1 \<le> \<lfloor>y\<rfloor>" by linarith
  with rne_floor [of x] rne_floor [of y] show ?thesis by linarith
qed

lemma rne_minus: "rne (- y) = - rne y"
proof (cases "y = of_int \<lfloor>y\<rfloor>")
  case True
  have "rne (- of_int \<lfloor>y\<rfloor>) = - \<lfloor>y\<rfloor>" using rne_of_int [of "- \<lfloor>y\<rfloor>"] by simp
  moreover have "rne y = \<lfloor>y\<rfloor>" using rne_of_int [of "\<lfloor>y\<rfloor>"] True by simp
  ultimately show ?thesis using True by simp
next
  case False
  then have f: "\<lfloor>- y\<rfloor> = - \<lfloor>y\<rfloor> - 1"
    using ceiling_diff_floor_le_1 [of y] floor_less_iff [of y] le_floor_iff [of "\<lfloor>y\<rfloor> + 1" y]
    by (simp add: floor_minus ceiling_altdef)
  show ?thesis unfolding rne_def Let_def f by auto
qed

lemma fl_0 [simp]: "fl 0 = 0"
  by (simp add: fl_def)

lemma fl_exp_minus [simp]: "fl_exp (- x) = fl_exp x"
  by (simp add: fl_exp_def)

lemma fl_minus [simp]: "fl (- x) = - fl x"
  by (simp add: fl_def rne_minus)

lemma fl_exp_ge: "-1074 \<le> fl_exp x"
  by (simp add: fl_exp_def)

lemma pow2_split: "(2::rat) powi a / 2 powi b = 2 powi (a - b)"
  by (simp add: power_int_diff)

lemma fl_le_pow2:
  assumes "0 < x" "x \<le> 2 powi k" "fl_exp x \<le> k"
  shows "fl x \<le> 2 powi k"
proof -
  let ?e = "fl_exp x"
  have int: "(2::rat) powi (k - ?e) = of_int (2 ^ nat (k - ?e))"
    using assms(3) by (simp add: power_int_def)
  have "x / 2 powi ?e \<le> 2 powi (k - ?e)"
    using assms(2) by (simp add: divide_right_mono pow2_split [symmetric])
  then have "rne (x / 2 powi ?e) \<le> 2 ^ nat (k - ?e)"
    unfolding int by (metis rne_mono rne_of_int)
  then have "(of_int (rne (x / 2 powi ?e)) :: rat) \<le> 2 powi (k - ?e)"
    unfolding int by (simp only: of_int_le_iff)
  then have "of_int (rne (x / 2 powi ?e)) * 2 powi ?e \<le> 2 powi (k - ?e) * (2::rat) powi ?e"
    by (intro mult_right_mono) auto
  then show ?thesis using assms(1) by (simp add: fl_def power_int_add [symmetric])
qed

lemma fl_ge_pow2:
  assumes "2 powi k \<le> x" "fl_exp x \<le> k"
  shows "2 powi k \<le> fl x"
proof -
  have "(0::rat) < 2 powi k" by simp
  with assms(1) have "0 < x" by linarith
  let ?e = "fl_exp x"
  have int: "(2::rat) powi (k - ?e) = of_int (2 ^ nat (k - ?e))"
    using assms(2) by (simp add: power_int_def)
  have "2 powi (k - ?e) \<le> x / 2 powi ?e"
    using assms(1) by (simp add: divide_right_mono pow2_split [symmetric])
  then have "2 ^ nat (k - ?e) \<le> rne (x / 2 powi ?e)"
    unfolding int by (metis rne_mono rne_of_int)
  then have "2 powi (k - ?e) \<le> (of_int (rne (x / 2 powi ?e)) :: rat)"
    unfolding int by (simp only: of_int_le_iff)
  then have "2 powi (k - ?e) * (2::rat) powi ?e \<le> of_int (rne (x / 2 powi ?e)) * 2 powi ?e"
    by (intro mult_right_mono) auto
  then show ?thesis using \<open>0 < x\<close> by (simp add: fl_def power_int_add [symmetric])
qed

lemma ilog2_mono: assumes "0 < x" "x \<le> y" shows "ilog2 x \<le> ilog2 y"
proof -
  have "2 powi ilog2 x < (2::rat) powi (ilog2 y + 1)"
    using ilog2_bounds [of x] ilog2_bounds [of y] assms by linarith
  then show ?thesis by (simp add: pow2_less_iff)
qed

lemma fl_mono_pos: assumes "0 < x" "x \<le> y" shows "fl x \<le> fl y"
proof (cases "fl_exp x = fl_exp y")
  case True
  have "x / 2 powi fl_exp y \<le> y / 2 powi fl_exp y" using assms by (simp add: divide_right_mono)
  then have "rne (x / 2 powi fl_exp y) \<le> rne (y / 2 powi fl_exp y)" by (rule rne_mono)
  with assms True show ?thesis by (auto simp: fl_def intro!: mult_right_mono)
next
  case False
  have "ilog2 x \<le> ilog2 y" using assms by (rule ilog2_mono)
  with False assms have lt: "fl_exp x < fl_exp y" and ey: "fl_exp y = ilog2 y - 52"
    by (auto simp: fl_exp_def)
  have ex: "ilog2 x \<le> fl_exp x + 52" using assms by (simp add: fl_exp_def)
  let ?k = "fl_exp y + 52"
  have "2 powi ?k \<le> y" using ilog2_bounds [of y] assms ey by simp
  then have 1: "2 powi ?k \<le> fl y" by (rule fl_ge_pow2) simp
  have "x \<le> 2 powi (ilog2 x + 1)" using ilog2_bounds [of x] assms by simp
  also have "\<dots> \<le> 2 powi ?k" unfolding pow2_le_iff using ex lt by simp
  finally have "fl x \<le> 2 powi ?k" using assms lt by (intro fl_le_pow2) auto
  with 1 show ?thesis by simp
qed

lemma fl_nonneg: assumes "0 \<le> x" shows "0 \<le> fl x"
proof (cases "x = 0")
  case False
  with assms have "0 \<le> rne (x / 2 powi fl_exp x)"
    using rne_mono [of 0 "x / 2 powi fl_exp x"] rne_of_int [of 0] by simp
  with False show ?thesis by (simp add: fl_def)
qed simp

lemma fl_mono: assumes "x \<le> y" shows "fl x \<le> fl y"
proof -
  consider "0 < x" | "x \<le> 0" "0 \<le> y" | "y < 0" by linarith
  then show ?thesis
  proof cases
    case 1
    with assms show ?thesis by (rule fl_mono_pos [rotated])
  next
    case 2
    then have "0 \<le> fl (- x)" and "0 \<le> fl y"
      using fl_nonneg [of "- x"] fl_nonneg [of y] by simp_all
    then show ?thesis by simp
  next
    case 3
    with assms have "fl (- y) \<le> fl (- x)" by (intro fl_mono_pos) auto
    then show ?thesis by simp
  qed
qed

lemma fl_exact:
  assumes m: "\<bar>m\<bar> < 2 ^ 53" and e: "-1074 \<le> e"
  shows "fl (of_int m * 2 powi e) = of_int m * 2 powi e"
proof (cases "m = 0")
  case False
  let ?x = "of_int m * 2 powi e :: rat"
  have ax: "\<bar>?x\<bar> = of_int \<bar>m\<bar> * 2 powi e" by (simp add: abs_mult)
  have "(of_int \<bar>m\<bar> :: rat) < of_int (2 ^ 53)" using m by (simp only: of_int_less_iff)
  then have "\<bar>?x\<bar> < 2 powi 53 * 2 powi e"
    unfolding ax by (intro mult_strict_right_mono) simp_all
  also have "\<dots> = 2 powi (e + 53)" by (simp add: power_int_add)
  finally have "2 powi ilog2 \<bar>?x\<bar> < (2::rat) powi (e + 53)"
    using ilog2_bounds(1) [of "\<bar>?x\<bar>"] False by simp
  then have le: "fl_exp ?x \<le> e" using e by (simp add: pow2_less_iff fl_exp_def)
  have "?x / 2 powi fl_exp ?x = of_int m * 2 powi (e - fl_exp ?x)"
    by (simp add: power_int_diff)
  also have "\<dots> = of_int (m * 2 ^ nat (e - fl_exp ?x))"
    using le by (simp add: power_int_def)
  finally have q: "?x / 2 powi fl_exp ?x = of_int (m * 2 ^ nat (e - fl_exp ?x))" .
  have "fl ?x = of_int (rne (?x / 2 powi fl_exp ?x)) * 2 powi fl_exp ?x"
    using False by (simp add: fl_def)
  also have "\<dots> = ?x / 2 powi fl_exp ?x * 2 powi fl_exp ?x"
    unfolding q rne_of_int ..
  finally show ?thesis by simp
qed simp

lemma fl_of_int: assumes "\<bar>n\<bar> < 2 ^ 53" shows "fl (of_int n) = of_int n"
  using fl_exact [OF assms, of 0] by simp

lemma fl_idem [simp]: "fl (fl x) = fl x"
proof (cases "x = 0")
  case False
  let ?e = "fl_exp x" let ?m = "rne (x / 2 powi fl_exp x)"
  have "\<bar>x\<bar> < 2 powi (ilog2 \<bar>x\<bar> + 1)" using ilog2_bounds(2) [of "\<bar>x\<bar>"] False by simp
  also have "\<dots> \<le> 2 powi (?e + 53)" unfolding pow2_le_iff by (simp add: fl_exp_def)
  finally have "\<bar>x\<bar> / 2 powi ?e \<le> 2 powi (?e + 53) / 2 powi ?e"
    by (intro divide_right_mono) auto
  then have "\<bar>x / 2 powi ?e\<bar> \<le> of_int (2 ^ 53)" by (simp add: pow2_split)
  then have "- of_int (2 ^ 53) \<le> x / 2 powi ?e" "x / 2 powi ?e \<le> of_int (2 ^ 53)"
    by linarith+
  then have "- (2 ^ 53) \<le> ?m" "?m \<le> 2 ^ 53"
    using rne_mono [of "of_int (- (2 ^ 53))" "x / 2 powi ?e"]
      rne_mono [of "x / 2 powi ?e" "of_int (2 ^ 53)"] unfolding rne_of_int by simp_all
  then consider "\<bar>?m\<bar> < 2 ^ 53" | "?m = 2 ^ 53" | "?m = - (2 ^ 53)" by linarith
  then show ?thesis
  proof cases
    case 1
    with False show ?thesis using fl_exact [OF 1 fl_exp_ge [of x]] by (simp add: fl_def)
  next
    case 2
    then have "fl x = of_int (2 ^ 52) * 2 powi (?e + 1)"
      using False by (simp add: fl_def power_int_add)
    then show ?thesis using fl_exact [of "2 ^ 52" "?e + 1"] fl_exp_ge [of x] by simp
  next
    case 3
    then have "fl x = of_int (- (2 ^ 52)) * 2 powi (?e + 1)"
      using False by (simp add: fl_def power_int_add)
    then show ?thesis using fl_exact [of "- (2 ^ 52)" "?e + 1"] fl_exp_ge [of x] by simp
  qed
qed simp

lemma fl_error: "\<bar>fl x - x\<bar> \<le> \<bar>x\<bar> / 2 ^ 53 + 1 / 2 ^ 1075"
proof (cases "x = 0")
  case False
  let ?e = "fl_exp x" let ?q = "x / 2 powi fl_exp x"
  have "\<bar>fl x - x\<bar> = \<bar>(of_int (rne ?q) - ?q) * 2 powi ?e\<bar>"
    using False by (simp add: fl_def algebra_simps)
  also have "\<dots> \<le> 1/2 * 2 powi ?e"
    unfolding abs_mult using rne_bounds [of ?q] by (intro mult_mono) auto
  also have "\<dots> \<le> \<bar>x\<bar> / 2 ^ 53 + 1 / 2 ^ 1075"
  proof (cases "?e = -1074")
    case True
    have "1/2 * (2::rat) powi (-1074) = 1 / 2 ^ 1075" by (simp add: power_int_minus)
    with True show ?thesis by simp
  next
    case F: False
    then have "?e = ilog2 \<bar>x\<bar> - 52" by (auto simp: fl_exp_def)
    then have "2 powi ?e = 2 powi ilog2 \<bar>x\<bar> / (2::rat) ^ 52" by (simp add: power_int_diff)
    also have "\<dots> \<le> \<bar>x\<bar> / 2 ^ 52"
      using ilog2_bounds(1) [of "\<bar>x\<bar>"] False by (intro divide_right_mono) auto
    finally have "1/2 * 2 powi ?e \<le> \<bar>x\<bar> / 2 ^ 53" by simp
    moreover have "(0::rat) \<le> 1 / 2 ^ 1075" by simp
    ultimately show ?thesis by linarith
  qed
  finally show ?thesis .
qed simp

lemma fl_numeral [simp]: "(numeral n :: int) < 2 ^ 53 \<Longrightarrow> fl (numeral n) = numeral n"
  using fl_of_int [of "numeral n"] by simp

lemma fl_1 [simp]: "fl 1 = 1"
  using fl_of_int [of 1] by simp

lemma fl_dyadic:
  assumes "\<bar>m\<bar> < 2 ^ 53" "k \<le> 1074"
  shows "fl (of_int m / 2 ^ k) = of_int m / 2 ^ k"
  using fl_exact [OF assms(1), of "- int k"] assms(2)
  by (simp add: power_int_minus divide_inverse)

lemma fl_numeral_half [simp]:
  "(numeral n :: int) < 2 ^ 53 \<Longrightarrow> fl (numeral n / 2) = numeral n / 2"
  using fl_dyadic [of "numeral n" 1] by simp

lemma fl_half [simp]: "fl (1 / 2) = 1 / 2"
  using fl_dyadic [of 1 1] by simp

lemmas num_op_defs = nadd_def nsub_def nmul_def ndiv_def numOfBig_def

section \<open>What the clients use of a rounding function\<close>

locale rounding =
  fixes rnd :: "rat \<Rightarrow> rat"
  assumes rnd_mono: "x \<le> y \<Longrightarrow> rnd x \<le> rnd y"
    and rnd_0: "rnd 0 = 0"
    and rnd_1: "rnd 1 = 1"
    and rnd_idem: "rnd (rnd x) = rnd x"
    and rnd_error: "\<bar>rnd x - x\<bar> \<le> \<bar>x\<bar> * roundoff + tiny"
begin

lemma rnd_nonneg: "0 \<le> x \<Longrightarrow> 0 \<le> rnd x"
  using rnd_mono [of 0 x] by (simp add: rnd_0)

lemma rnd_le_double: "rnd b = b \<Longrightarrow> x \<le> b \<Longrightarrow> rnd x \<le> b"
  using rnd_mono [of x b] by simp

lemma rnd_ge_double: "rnd b = b \<Longrightarrow> b \<le> x \<Longrightarrow> b \<le> rnd x"
  using rnd_mono [of b x] by simp

text \<open>A quotient of a part by the whole is a fraction.\<close>

lemma rnd_fraction:
  assumes "0 \<le> a" "a \<le> b" "0 < b"
  shows "0 \<le> rnd (a / b)" and "rnd (a / b) \<le> 1"
  using assms by (auto intro: rnd_nonneg rnd_le_double rnd_1)

text \<open>Scaling a double by a fraction and subtracting a part from it stay within it.\<close>

lemma rnd_scale:
  assumes "rnd s = s" "0 \<le> s" "0 \<le> q" "q \<le> 1"
  shows "0 \<le> rnd (s * q)" and "rnd (s * q) \<le> s"
  using assms by (auto intro!: rnd_nonneg rnd_le_double mult_left_le)

lemma rnd_remainder:
  assumes "rnd s = s" "0 \<le> f" "f \<le> s"
  shows "0 \<le> rnd (s - f)" and "rnd (s - f) \<le> s"
  using assms by (auto intro!: rnd_nonneg rnd_le_double)

text \<open>The relative error, as the two one-sided bounds used in estimates.\<close>

lemma rnd_upper:
  assumes "0 \<le> x"
  shows "rnd x \<le> x * (1 + roundoff) + tiny"
  using rnd_error [of x] assms by (simp add: algebra_simps abs_le_iff)

lemma rnd_lower:
  assumes "0 \<le> x"
  shows "x * (1 - roundoff) - tiny \<le> rnd x"
  using rnd_error [of x] assms by (simp add: algebra_simps abs_le_iff)

end

interpretation dbl: rounding fl
proof
  show "\<bar>fl x - x\<bar> \<le> \<bar>x\<bar> * roundoff + tiny" for x
    using fl_error [of x] by (simp only: roundoff_def tiny_def times_divide_eq_right mult_1_right)
qed (auto intro: fl_mono)

end
