(* ===== verification/Prelude.thy ===== *)
theory Prelude
  imports Js_String
begin

text \<open>
  What every component shares: the result of a call that may throw, the exceptions and
  transactions of the storage layer as a state-and-exception computation, SQL tables with an
  \<open>AUTOINCREMENT\<close> key, and the generic lemmas about them. \<open>exn_simps\<close> collects the rewrite
  rules that run a computation, \<open>table_simps\<close> those of the table operations.
\<close>

named_theorems exn_simps
named_theorems table_simps

section \<open>Calls that may throw\<close>

text \<open>An exception is represented by its message, \<open>(e as Error).message\<close>, which is all the
  handlers look at. \<open>('s, 'a) exn\<close> is a computation on a store of type \<open>'s\<close>: it returns the store
  it leaves behind also when it throws, so that a caller that catches sees the writes that
  happened before the throw.\<close>

type_synonym js_error = string
type_synonym 'a result = "js_error + 'a"
type_synonym ('s, 'a) exn = "'s \<Rightarrow> 'a result \<times> 's"

definition ret :: "'a \<Rightarrow> ('s, 'a) exn" where
  "ret x s = (Inr x, s)"

definition throw :: "js_error \<Rightarrow> ('s, 'a) exn" where
  "throw e s = (Inl e, s)"

definition andThen :: "('s, 'a) exn \<Rightarrow> ('a \<Rightarrow> ('s, 'b) exn) \<Rightarrow> ('s, 'b) exn" where
  "andThen m f s = (case m s of (Inl e, s') \<Rightarrow> (Inl e, s') | (Inr x, s') \<Rightarrow> f x s')"

definition gets :: "('s \<Rightarrow> 'a) \<Rightarrow> ('s, 'a) exn" where
  "gets f s = (Inr (f s), s)"

definition modify :: "('s \<Rightarrow> 's) \<Rightarrow> ('s, unit) exn" where
  "modify f s = (Inr (), f s)"

text \<open>\<open>try { m } catch (e) { h e }\<close>.\<close>

definition tryCatch :: "('s, 'a) exn \<Rightarrow> (js_error \<Rightarrow> ('s, 'a) exn) \<Rightarrow> ('s, 'a) exn" where
  "tryCatch m h s = (case m s of (Inl e, s') \<Rightarrow> h e s' | (Inr x, s') \<Rightarrow> (Inr x, s'))"

text \<open>A transaction: on a throw the store is the one from before.\<close>

definition atomically :: "('s, 'a) exn \<Rightarrow> ('s, 'a) exn" where
  "atomically m s = (case m s of (Inl e, _) \<Rightarrow> (Inl e, s) | (Inr x, s') \<Rightarrow> (Inr x, s'))"

text \<open>A call of the environment that may throw.\<close>

definition lift :: "'a result \<Rightarrow> ('s, 'a) exn" where
  "lift r s = (r, s)"

text \<open>A component whose effects outside the database matter runs on a pair of the database and a
  log of those effects: \<open>onDb\<close> runs a computation of the database there, \<open>emit\<close> appends to the log.\<close>

definition onDb :: "('s, 'a) exn \<Rightarrow> ('s \<times> 'c, 'a) exn" where
  "onDb m s = (case m (fst s) of (r, d) \<Rightarrow> (r, (d, snd s)))"

definition emit :: "'e list \<Rightarrow> ('s \<times> 'e list, unit) exn" where
  "emit es s = (Inr (), (fst s, snd s @ es))"

text \<open>JavaScript truth of a nullable string: \<open>null\<close> and the empty string are false.\<close>

definition truthy :: "string option \<Rightarrow> bool" where
  "truthy s \<longleftrightarrow> (case s of None \<Rightarrow> False | Some t \<Rightarrow> t \<noteq> [])"

text \<open>The text of a message, as the fragments of a template literal: literal ASCII text, code points, and the
  formatted values \<open>x.toFixed(n)\<close>, \<open>x.toLocaleString\<close>, \<open>String(x)\<close> and \<open>toISOString\<close> of a time, whole or
  cut after the minutes.\<close>

datatype frag = Lit string | Cp nat | Fixed nat rat | Locale rat | Num rat | Iso int | IsoMinutes int

section \<open>Tables\<close>

text \<open>A table with an \<open>INTEGER PRIMARY KEY AUTOINCREMENT\<close>: its rows in insertion order and the
  largest key ever assigned. \<open>updateRows\<close> is \<open>UPDATE ... WHERE\<close>, which also returns the number
  of rows changed.\<close>

record 'r table =
  rows :: "'r list"
  lastId :: int

definition emptyTable :: "'r table" where
  "emptyTable = \<lparr>rows = [], lastId = 0\<rparr>"

definition insertRow :: "(int \<Rightarrow> 'r) \<Rightarrow> 'r table \<Rightarrow> 'r table" where
  "insertRow mk t = \<lparr>rows = rows t @ [mk (lastId t + 1)], lastId = lastId t + 1\<rparr>"

definition updateWhere :: "('r \<Rightarrow> bool) \<Rightarrow> ('r \<Rightarrow> 'r) \<Rightarrow> 'r list \<Rightarrow> 'r list" where
  "updateWhere P f rs = map (\<lambda>r. if P r then f r else r) rs"

definition changes :: "('r \<Rightarrow> bool) \<Rightarrow> 'r list \<Rightarrow> nat" where
  "changes P rs = length (filter P rs)"

definition updateRows :: "('r \<Rightarrow> bool) \<Rightarrow> ('r \<Rightarrow> 'r) \<Rightarrow> 'r table \<Rightarrow> 'r table" where
  "updateRows P f t = t\<lparr>rows := updateWhere P f (rows t)\<rparr>"

text \<open>The keys are assigned in increasing order.\<close>

definition wfTable :: "('r \<Rightarrow> int) \<Rightarrow> 'r table \<Rightarrow> bool" where
  "wfTable key t \<longleftrightarrow>
     sorted_wrt (<) (map key (rows t)) \<and> (\<forall>r\<in>set (rows t). 0 < key r \<and> key r \<le> lastId t) \<and> 0 \<le> lastId t"

section \<open>Running computations\<close>

lemma ret_run [exn_simps]: "ret x s = (Inr x, s)"
  by (simp add: ret_def)

lemma throw_run [exn_simps]: "throw e s = (Inl e, s)"
  by (simp add: throw_def)

lemma gets_run [exn_simps]: "gets f s = (Inr (f s), s)"
  by (simp add: gets_def)

lemma modify_run [exn_simps]: "modify f s = (Inr (), f s)"
  by (simp add: modify_def)

lemma lift_run [exn_simps]: "lift r s = (r, s)"
  by (simp add: lift_def)

lemma onDb_run [exn_simps]: "m d = (r, d') \<Longrightarrow> onDb m (d, c) = (r, (d', c))"
  by (simp add: onDb_def)

lemma emit_run [exn_simps]: "emit es (d, c) = (Inr (), (d, c @ es))"
  by (simp add: emit_def)

lemma andThen_run [exn_simps]:
  "m s = (Inr x, s') \<Longrightarrow> andThen m f s = f x s'"
  "m s = (Inl e, s') \<Longrightarrow> andThen m f s = (Inl e, s')"
  by (simp_all add: andThen_def)

lemma tryCatch_run [exn_simps]:
  "m s = (Inr x, s') \<Longrightarrow> tryCatch m h s = (Inr x, s')"
  "m s = (Inl e, s') \<Longrightarrow> tryCatch m h s = h e s'"
  by (simp_all add: tryCatch_def)

lemma atomically_run [exn_simps]:
  "m s = (Inr x, s') \<Longrightarrow> atomically m s = (Inr x, s')"
  "m s = (Inl e, s') \<Longrightarrow> atomically m s = (Inl e, s)"
  by (simp_all add: atomically_def)

text \<open>Either a transaction throws and the store is unchanged, or its body succeeded.\<close>

lemma atomically_cases:
  obtains (rolled_back) e s' where "m s = (Inl e, s')" "atomically m s = (Inl e, s)"
  | (committed) x s' where "m s = (Inr x, s')" "atomically m s = (Inr x, s')"
proof (cases "m s")
  case (Pair r s')
  with that show ?thesis by (cases r) (auto simp: exn_simps)
qed

lemma atomically_Inr: "atomically m s = (Inr x, s') \<longleftrightarrow> m s = (Inr x, s')"
  by (cases rule: atomically_cases [of m s]) auto

lemma atomically_Inl: "atomically m s = (Inl e, s') \<Longrightarrow> s' = s"
  by (cases rule: atomically_cases [of m s]) auto

lemma andThen_Inr:
  "andThen m f s = (Inr y, t) \<longleftrightarrow> (\<exists>x s'. m s = (Inr x, s') \<and> f x s' = (Inr y, t))"
  by (auto simp: andThen_def split: prod.splits sum.splits)

section \<open>Facts about tables\<close>

lemma in_block_iff:
  fixes t n k :: int
  assumes "0 < k"
  shows "n * k \<le> t \<and> t < n * k + k \<longleftrightarrow> t div k = n"
proof
  assume "n * k \<le> t \<and> t < n * k + k"
  then show "t div k = n" by (intro int_div_pos_eq [of t k n "t - n * k"]) auto
next
  assume "t div k = n"
  then have "t = n * k + t mod k" by auto
  with pos_mod_bound [OF assms, of t] pos_mod_sign [OF assms, of t]
  show "n * k \<le> t \<and> t < n * k + k" by auto
qed

lemma rows_insertRow [table_simps]: "rows (insertRow mk t) = rows t @ [mk (lastId t + 1)]"
  by (simp add: insertRow_def)

lemma lastId_insertRow [table_simps]: "lastId (insertRow mk t) = lastId t + 1"
  by (simp add: insertRow_def)

lemma rows_updateRows [table_simps]: "rows (updateRows P f t) = updateWhere P f (rows t)"
  by (simp add: updateRows_def)

lemma lastId_updateRows [table_simps]: "lastId (updateRows P f t) = lastId t"
  by (simp add: updateRows_def)

lemma updateWhere_none: "(\<And>r. r \<in> set rs \<Longrightarrow> \<not> P r) \<Longrightarrow> updateWhere P f rs = rs"
  by (induction rs) (auto simp: updateWhere_def)

lemma in_updateWhere:
  "r \<in> set (updateWhere P f rs) \<longleftrightarrow> (\<exists>r0\<in>set rs. r = (if P r0 then f r0 else r0))"
  by (auto simp: updateWhere_def)

lemma map_key_updateWhere [table_simps]:
  "(\<And>r. key (f r) = key r) \<Longrightarrow> map key (updateWhere P f rs) = map key rs"
  by (auto simp: updateWhere_def)

lemma wfTable_empty: "wfTable key emptyTable"
  by (simp add: wfTable_def emptyTable_def)

lemma wfTable_insertRow:
  assumes "wfTable key t" "\<And>i. key (mk i) = i"
  shows "wfTable key (insertRow mk t)"
  using assms by (fastforce simp: wfTable_def table_simps sorted_wrt_append)

lemma wfTable_updateRows:
  assumes "wfTable key t" "\<And>r. key (f r) = key r"
  shows "wfTable key (updateRows P f t)"
  using assms
  by (auto simp: wfTable_def table_simps in_updateWhere split: if_splits)

lemma wfTable_distinct: "wfTable key t \<Longrightarrow> distinct (map key (rows t))"
  using strict_sorted_iff by (auto simp: wfTable_def)

lemma wfTable_unique:
  "wfTable key t \<Longrightarrow> r \<in> set (rows t) \<Longrightarrow> r' \<in> set (rows t) \<Longrightarrow> key r = key r' \<Longrightarrow> r = r'"
  using wfTable_distinct [of key t] by (auto simp: distinct_map dest: inj_onD)

lemma find_key_in:
  assumes "distinct (map key rs)" "r \<in> set rs"
  shows "find (\<lambda>x. key x = key r) rs = Some r"
  using assms by (induction rs) auto

lemma find_updateWhere:
  assumes "\<And>r. key (f r) = key r"
  shows "find (\<lambda>r. key r = k) (updateWhere P f rs) =
         map_option (\<lambda>r. if P r then f r else r) (find (\<lambda>r. key r = k) rs)"
  by (induction rs) (auto simp: updateWhere_def assms)

lemma find_append: "find P (xs @ ys) = (case find P xs of None \<Rightarrow> find P ys | r \<Rightarrow> r)"
  by (induction xs) auto

lemma find_None_iff_ball: "find P xs = None \<longleftrightarrow> (\<forall>x\<in>set xs. \<not> P x)"
  by (auto simp: find_None_iff)

lemma find_SomeD: "find P xs = Some x \<Longrightarrow> x \<in> set xs \<and> P x"
  by (auto simp: find_Some_iff)

lemma changes_key:
  assumes "distinct (map key rs)"
  shows "changes (\<lambda>r. key r = k \<and> Q r) rs =
         (case find (\<lambda>r. key r = k) rs of Some r \<Rightarrow> if Q r then 1 else 0 | None \<Rightarrow> 0)"
  using assms
proof (induction rs)
  case (Cons r rs)
  show ?case
  proof (cases "key r = k")
    case True
    with Cons.prems have "filter (\<lambda>r. key r = k \<and> Q r) rs = []"
      by (auto simp: filter_empty_conv) (metis imageI)
    with True show ?thesis by (simp add: changes_def)
  next
    case False
    with Cons show ?thesis by (simp add: changes_def)
  qed
qed (simp add: changes_def)

section \<open>What a computation may do to the store\<close>

text \<open>\<open>stays R m\<close>: whatever \<open>m\<close> returns or throws, the store it leaves is related to the one it
  found. For a reflexive and transitive \<open>R\<close> this is compositional.\<close>

definition stays :: "('s \<Rightarrow> 's \<Rightarrow> bool) \<Rightarrow> ('s, 'a) exn \<Rightarrow> bool" where
  "stays R m \<longleftrightarrow> (\<forall>s. R s (snd (m s)))"

lemma staysD: "stays R m \<Longrightarrow> R s (snd (m s))"
  by (simp add: stays_def)

locale store_order =
  fixes R :: "'s \<Rightarrow> 's \<Rightarrow> bool"
  assumes refl: "R s s" and trans: "R s t \<Longrightarrow> R t u \<Longrightarrow> R s u"
begin

lemma stays_pure [intro]:
  "stays R (ret x)" "stays R (throw e)" "stays R (gets f)" "stays R (lift r)"
  by (simp_all add: stays_def ret_def throw_def gets_def lift_def refl)

lemma stays_modify [intro]: "(\<And>s. R s (f s)) \<Longrightarrow> stays R (modify f)"
  by (simp add: stays_def modify_def)

lemma stays_andThen [intro]:
  assumes "stays R m" "\<And>x. stays R (f x)" shows "stays R (andThen m f)"
  unfolding stays_def
proof
  fix s
  show "R s (snd (andThen m f s))"
  proof (cases "m s")
    case (Pair r s')
    then have "R s s'" using staysD [OF assms(1), of s] by simp
    with Pair trans staysD [OF assms(2), of s'] show ?thesis
      by (cases r) (auto simp: andThen_def)
  qed
qed

lemma stays_tryCatch [intro]:
  assumes "stays R m" "\<And>e. stays R (h e)" shows "stays R (tryCatch m h)"
  unfolding stays_def
proof
  fix s
  show "R s (snd (tryCatch m h s))"
  proof (cases "m s")
    case (Pair r s')
    then have "R s s'" using staysD [OF assms(1), of s] by simp
    with Pair trans staysD [OF assms(2), of s'] show ?thesis
      by (cases r) (auto simp: tryCatch_def)
  qed
qed

lemma stays_atomically [intro]: "stays R m \<Longrightarrow> stays R (atomically m)"
  unfolding stays_def
proof
  fix s
  assume "\<forall>s. R s (snd (m s))"
  then show "R s (snd (atomically m s))"
    by (cases rule: atomically_cases [of m s]) (metis refl snd_conv)+
qed

end

end
