(* ===== verification/State_Store.thy ===== *)
theory State_Store
  imports Prelude
begin

text \<open>
  \<open>src/src/stateStore.ts\<close>: the SQLite database and the \<open>StateStore\<close> class. The record \<open>db\<close> has one
  field per table of \<open>SCHEMA_SQL\<close>; the row records have the columns of the table, with a nullable
  column as an option. Every method is a function on \<open>db\<close>, or a computation in \<open>exn\<close> where it may
  throw. The clock (\<open>Date.now()\<close>) is an argument. The vault tables of the schema are used by
  \<open>Depositor_Store\<close>. The two interface types of the vault, \<open>NavSnapshotRow\<close> and so on, are the row
  records themselves, because the row mappers only rename columns.
\<close>

section \<open>Rows\<close>

record StoredPosition =
  sp_nftMint :: string
  sp_lowerUsd :: rat
  sp_upperUsd :: rat
  sp_centerUsd :: rat
  sp_openedAt :: int

record RebalanceRecord =
  rr_ts :: int
  rr_oldCenterUsd :: rat
  rr_newCenterUsd :: rat
  rr_feesCollectedUsd :: rat

record OperatorAction =
  oa_ts :: int
  oa_command :: string
  oa_osUser :: string

record flag_row =
  fl_key :: string
  fl_value :: string
  fl_updated_at :: int
  fl_reason :: "string option"

datatype role = Operator | Depositor

type_synonym bytes = "nat list"

record user_row =
  u_telegram_id :: int
  u_role :: role
  u_deposit_address :: string
  u_deposit_secret_enc :: bytes
  u_deposit_secret_iv :: bytes
  u_totp_secret_enc :: "bytes option"
  u_totp_secret_iv :: "bytes option"
  u_totp_enrolled_at :: "int option"
  u_totp_last_used_counter :: "int option"
  u_whitelist_address :: "string option"
  u_whitelist_set_at :: "int option"
  u_disclaimer_at :: int
  u_created_at :: int

record share_row =
  s_telegram_id :: int
  s_shares :: rat

record VaultDeposit =
  d_id :: int
  d_telegramId :: int
  d_inboundTxSig :: string
  d_sweepTxSig :: "string option"
  d_solLamports :: int
  d_bertRaw :: int
  d_solUsd :: rat
  d_bertUsd :: rat
  d_navPerShareAt :: rat
  d_sharesMinted :: rat
  d_confirmedAt :: int
  d_sweptAt :: "int option"

datatype WithdrawalStatus = Queued | Processing | Completed | Failed

record VaultWithdrawal =
  w_id :: int
  w_telegramId :: int
  w_status :: WithdrawalStatus
  w_destination :: string
  w_sharesBurned :: rat
  w_feeShares :: rat
  w_navPerShareAt :: "rat option"
  w_solLamportsOut :: "int option"
  w_bertRawOut :: "int option"
  w_txSig :: "string option"
  w_failureReason :: "string option"
  w_queuedAt :: int
  w_processedAt :: "int option"

datatype ChangeStatus = Pending | Activated | Cancelled

record PendingWhitelistChange =
  c_id :: int
  c_telegramId :: int
  c_oldAddress :: "string option"
  c_newAddress :: string
  c_requestedAt :: int
  c_activatesAt :: int
  c_status :: ChangeStatus
  c_cancelReason :: "string option"

datatype NavSource = Hourly | DepositSource | WithdrawalSource | Bootstrap

record NavSnapshotRow =
  n_ts :: int
  n_totalValueUsd :: rat
  n_totalShares :: rat
  n_navPerShare :: rat
  n_source :: NavSource

text \<open>The column \<open>details_json\<close> holds \<open>JSON.stringify\<close> of an object, read back with
  \<open>JSON.parse\<close>; the model stores the value itself.\<close>

datatype json = JNum rat | JInt int | JStr string | JBool bool | JNull | JObj "(string \<times> json) list"

text \<open>The property \<open>obj.key\<close> of a parsed object; \<open>None\<close> is \<open>undefined\<close>.\<close>

fun jget :: "string \<Rightarrow> json \<Rightarrow> json option" where
  "jget key (JObj fs) = map_of fs key"
| "jget key _ = None"

record audit_row =
  a_id :: int
  a_ts :: int
  a_telegram_id :: "int option"
  a_event :: string
  a_details :: json

section \<open>The database\<close>

record db =
  position_state :: "StoredPosition option"
  rebalance_log :: "RebalanceRecord list"
  flags :: "flag_row list"
  operator_actions :: "OperatorAction list"
  vault_users :: "user_row list"
  vault_shares :: "share_row list"
  vault_deposits :: "VaultDeposit table"
  vault_withdrawals :: "VaultWithdrawal table"
  vault_pending_whitelist_changes :: "PendingWhitelistChange table"
  vault_nav_snapshots :: "NavSnapshotRow list"
  vault_audit_log :: "audit_row table"

type_synonym 'a dbm = "(db, 'a) exn"

definition init_db :: db where
  "init_db = \<lparr>position_state = None, rebalance_log = [], flags = [], operator_actions = [],
     vault_users = [], vault_shares = [], vault_deposits = emptyTable,
     vault_withdrawals = emptyTable, vault_pending_whitelist_changes = emptyTable,
     vault_nav_snapshots = [], vault_audit_log = emptyTable\<rparr>"

section \<open>Position and rebalance log\<close>

definition getCurrentPosition :: "db \<Rightarrow> StoredPosition option" where
  "getCurrentPosition d = position_state d"

definition setCurrentPosition :: "StoredPosition \<Rightarrow> db \<Rightarrow> db" where
  "setCurrentPosition p d = d\<lparr>position_state := Some p\<rparr>"

definition clearCurrentPosition :: "db \<Rightarrow> db" where
  "clearCurrentPosition d = d\<lparr>position_state := None\<rparr>"

definition recordRebalance :: "RebalanceRecord \<Rightarrow> db \<Rightarrow> db" where
  "recordRebalance r d = d\<lparr>rebalance_log := rebalance_log d @ [r]\<rparr>"

definition getRebalancesToday :: "int \<Rightarrow> db \<Rightarrow> nat" where
  "getRebalancesToday nowMs d =
     (let startOfDay = (nowMs div 86400000) * 86400000; endOfDay = startOfDay + 86400000
      in length (filter (\<lambda>r. startOfDay \<le> rr_ts r \<and> rr_ts r < endOfDay) (rebalance_log d)))"

definition lastRebalanceAt :: "db \<Rightarrow> int option" where
  "lastRebalanceAt d =
     (case map rr_ts (rebalance_log d) of [] \<Rightarrow> None | t # ts \<Rightarrow> Some (fold max ts t))"

definition listRebalancesSince :: "int \<Rightarrow> db \<Rightarrow> RebalanceRecord list" where
  "listRebalancesSince sinceMs d =
     rev (sort_key rr_ts (filter (\<lambda>r. sinceMs \<le> rr_ts r) (rebalance_log d)))"

section \<open>Flags\<close>

text \<open>\<open>INSERT ... ON CONFLICT(key) DO UPDATE\<close>.\<close>

definition upsertFlag :: "flag_row \<Rightarrow> flag_row list \<Rightarrow> flag_row list" where
  "upsertFlag r fs =
     (if list_ex (\<lambda>f. fl_key f = fl_key r) fs
      then updateWhere (\<lambda>f. fl_key f = fl_key r) (\<lambda>_. r) fs
      else fs @ [r])"

definition setFlag :: "int \<Rightarrow> string \<Rightarrow> string \<Rightarrow> string option \<Rightarrow> db \<Rightarrow> db" where
  "setFlag now key value reason d =
     d\<lparr>flags := upsertFlag \<lparr>fl_key = key, fl_value = value, fl_updated_at = now, fl_reason = reason\<rparr> (flags d)\<rparr>"

definition getFlag :: "string \<Rightarrow> db \<Rightarrow> string option" where
  "getFlag key d = map_option fl_value (find (\<lambda>f. fl_key f = key) (flags d))"

definition setDegraded :: "int \<Rightarrow> bool \<Rightarrow> string \<Rightarrow> db \<Rightarrow> db" where
  "setDegraded now value reason d =
     d\<lparr>flags := upsertFlag \<lparr>fl_key = ''degraded'', fl_value = (if value then ''1'' else ''0''),
                             fl_updated_at = now, fl_reason = Some reason\<rparr> (flags d)\<rparr>"

definition isDegraded :: "db \<Rightarrow> bool" where
  "isDegraded d \<longleftrightarrow> map_option fl_value (find (\<lambda>f. fl_key f = ''degraded'') (flags d)) = Some ''1''"

section \<open>Transactions and operator actions\<close>

definition withTransaction :: "'a dbm \<Rightarrow> 'a dbm" where
  "withTransaction fn = atomically fn"

definition recordOperatorAction :: "OperatorAction \<Rightarrow> db \<Rightarrow> db" where
  "recordOperatorAction a d = d\<lparr>operator_actions := operator_actions d @ [a]\<rparr>"

definition listOperatorActions :: "nat \<Rightarrow> db \<Rightarrow> OperatorAction list" where
  "listOperatorActions limit d = take limit (rev (sort_key oa_ts (operator_actions d)))"

definition listOperatorActionsSince :: "int \<Rightarrow> db \<Rightarrow> OperatorAction list" where
  "listOperatorActionsSince sinceMs d =
     rev (sort_key oa_ts (filter (\<lambda>a. sinceMs \<le> oa_ts a) (operator_actions d)))"

section \<open>Facts\<close>

lemmas state_store_defs =
  getCurrentPosition_def setCurrentPosition_def clearCurrentPosition_def recordRebalance_def
  setFlag_def getFlag_def setDegraded_def isDegraded_def recordOperatorAction_def

lemma find_upsertFlag:
  "find (\<lambda>f. fl_key f = k) (upsertFlag r fs) =
     (if k = fl_key r then Some r else find (\<lambda>f. fl_key f = k) fs)"
proof -
  have upd: "find (\<lambda>f. fl_key f = k) (updateWhere (\<lambda>f. fl_key f = fl_key r) (\<lambda>_. r) fs) =
     (if k = fl_key r \<and> list_ex (\<lambda>f. fl_key f = fl_key r) fs then Some r
      else find (\<lambda>f. fl_key f = k) fs)"
    by (induction fs) (auto simp: updateWhere_def)
  have app: "find (\<lambda>f. fl_key f = k) (fs @ [r]) =
     (if k = fl_key r \<and> \<not> list_ex (\<lambda>f. fl_key f = fl_key r) fs then Some r
      else if k = fl_key r then find (\<lambda>f. fl_key f = k) fs
      else find (\<lambda>f. fl_key f = k) fs)" if "\<not> list_ex (\<lambda>f. fl_key f = fl_key r) fs"
    using that by (induction fs) auto
  show ?thesis using upd app by (auto simp: upsertFlag_def)
qed

lemma getFlag_setFlag:
  "getFlag k (setFlag now key value reason d) = (if k = key then Some value else getFlag k d)"
  by (simp add: getFlag_def setFlag_def find_upsertFlag)

lemma isDegraded_setDegraded: "isDegraded (setDegraded now v r d) \<longleftrightarrow> v"
  by (simp add: isDegraded_def setDegraded_def find_upsertFlag)

lemma isDegraded_setFlag:
  "key \<noteq> ''degraded'' \<Longrightarrow> isDegraded (setFlag now key value reason d) \<longleftrightarrow> isDegraded d"
  by (simp add: isDegraded_def setFlag_def find_upsertFlag)

text \<open>The computed start of the day is the only one whose day contains the instant, so the
  counter counts exactly the rebalances of the same UTC day.\<close>

lemma getRebalancesToday_same_day:
  "getRebalancesToday now d =
     length (filter (\<lambda>r. rr_ts r div 86400000 = now div 86400000) (rebalance_log d))"
  by (simp add: getRebalancesToday_def Let_def in_block_iff)

lemma getRebalancesToday_record:
  "getRebalancesToday now (recordRebalance r d) =
     getRebalancesToday now d + (if rr_ts r div 86400000 = now div 86400000 then 1 else 0)"
  by (simp add: getRebalancesToday_same_day recordRebalance_def)

end
