(* ===== verification/Share_Math.thy ===== *)
theory Share_Math
  imports State_Store
begin

text \<open>
  \<open>src/src/vault/shareMath.ts\<close> and \<open>src/src/vault/navSnapshot.ts\<close>: the arithmetic of shares, fees
  and net asset value, operator by operator in double arithmetic. The lemmas bound what rounding
  can do: fees and fractions stay within their ranges, and the value paid out for an amount never
  exceeds it by more than a few units in the last place.
\<close>

section \<open>shareMath.ts\<close>

definition SOL_DECIMALS :: nat where
  "SOL_DECIMALS = 9"

definition BERT_DECIMALS :: nat where
  "BERT_DECIMALS = 6"

definition computeNavPerShare :: "rat \<Rightarrow> rat \<Rightarrow> rat" where
  "computeNavPerShare totalUsd totalShares =
     (if totalShares \<le> 0 then 1 else ndiv totalUsd totalShares)"

definition computeSharesForDeposit :: "rat \<Rightarrow> rat \<Rightarrow> rat result" where
  "computeSharesForDeposit depositUsd navPerShare =
     (if navPerShare \<le> 0 then Inl ''computeSharesForDeposit: navPerShare must be > 0''
      else Inr (ndiv depositUsd navPerShare))"

text \<open>The pair is \<open>(feeShares, netShares)\<close>.\<close>

definition splitFee :: "rat \<Rightarrow> rat \<Rightarrow> rat \<times> rat" where
  "splitFee sharesBurned feeBps =
     (let feeShares = nmul sharesBurned (ndiv feeBps 10000)
      in (feeShares, nsub sharesBurned feeShares))"

definition usdForShares :: "rat \<Rightarrow> rat \<Rightarrow> rat" where
  "usdForShares netShares navPerShare = nmul netShares navPerShare"

text \<open>The pair is \<open>(solLamports, bertRaw)\<close>, both results of \<open>Math.floor\<close>.\<close>

definition splitUsdIntoTokens :: "rat \<Rightarrow> rat \<Rightarrow> rat \<Rightarrow> rat \<Rightarrow> (int \<times> int) result" where
  "splitUsdIntoTokens usd solFrac solUsd bertUsd =
     (if solUsd \<le> 0 \<or> bertUsd \<le> 0 then Inl ''splitUsdIntoTokens: prices must be > 0''
      else
        let solUsdShare = nmul usd solFrac;
            bertUsdShare = nmul usd (nsub 1 solFrac);
            solLamports = \<lfloor>nmul (ndiv solUsdShare solUsd) (10 ^ SOL_DECIMALS)\<rfloor>;
            bertRaw = \<lfloor>nmul (ndiv bertUsdShare bertUsd) (10 ^ BERT_DECIMALS)\<rfloor>
        in Inr (solLamports, bertRaw))"

section \<open>navSnapshot.ts\<close>

record NavInputs =
  freeSolLamports :: int
  freeBertRaw :: int
  positionTotalValueUsd :: rat
  uncollectedFeesBert :: int
  uncollectedFeesSol :: int
  ni_solUsd :: rat
  ni_bertUsd :: rat

record NavSnapshot =
  totalUsd :: rat
  freeUsd :: rat
  positionUsd :: rat
  feesUsd :: rat
  solFrac :: rat

definition computeNav :: "NavInputs \<Rightarrow> NavSnapshot" where
  "computeNav i =
     (let freeSol = ndiv (numOfBig (freeSolLamports i)) (10 ^ SOL_DECIMALS);
          freeBert = ndiv (numOfBig (freeBertRaw i)) (10 ^ BERT_DECIMALS);
          feeBert = ndiv (numOfBig (uncollectedFeesBert i)) (10 ^ BERT_DECIMALS);
          feeSol = ndiv (numOfBig (uncollectedFeesSol i)) (10 ^ SOL_DECIMALS);
          free = nadd (nmul freeSol (ni_solUsd i)) (nmul freeBert (ni_bertUsd i));
          fees = nadd (nmul feeBert (ni_bertUsd i)) (nmul feeSol (ni_solUsd i));
          pos = positionTotalValueUsd i;
          total = nadd (nadd free pos) fees;
          freeSolUsd = nmul freeSol (ni_solUsd i);
          frac = (if free > 0 then ndiv freeSolUsd free else 1/2)
      in \<lparr>totalUsd = total, freeUsd = free, positionUsd = pos, feesUsd = fees, solFrac = frac\<rparr>)"

record VaultStats =
  vs_depositorCount :: nat
  vs_tvlUsd :: rat
  vs_totalShares :: rat
  vs_navPerShare :: rat
  vs_navPerShareDelta24hPct :: rat
  vs_queuedWithdrawals :: nat

text \<open>The arguments are the fields of \<open>VaultStatsInputs\<close> in order.\<close>

definition computeVaultStats ::
    "nat \<Rightarrow> rat \<Rightarrow> rat \<Rightarrow> nat \<Rightarrow> NavSnapshotRow option \<Rightarrow> VaultStats" where
  "computeVaultStats depositorCount totalShares tvlUsd queuedWithdrawals snapshot24hAgo =
     (let nps = computeNavPerShare tvlUsd totalShares;
          delta = (case snapshot24hAgo of
                     Some s \<Rightarrow> if n_navPerShare s > 0
                       then nmul (ndiv (nsub nps (n_navPerShare s)) (n_navPerShare s)) 100 else 0
                   | None \<Rightarrow> 0)
      in \<lparr>vs_depositorCount = depositorCount, vs_tvlUsd = tvlUsd, vs_totalShares = totalShares,
          vs_navPerShare = nps, vs_navPerShareDelta24hPct = delta,
          vs_queuedWithdrawals = queuedWithdrawals\<rparr>)"

section \<open>Ranges\<close>

lemma is_double_ops:
  "is_double (nadd x y)" "is_double (nsub x y)" "is_double (nmul x y)" "is_double (ndiv x y)"
  "is_double (numOfBig n)"
  by (simp_all add: is_double_def num_op_defs)

lemma nmul_nonneg: "0 \<le> x \<Longrightarrow> 0 \<le> y \<Longrightarrow> 0 \<le> nmul x y"
  by (simp add: nmul_def dbl.rnd_nonneg)

lemma ndiv_nonneg: "0 \<le> x \<Longrightarrow> 0 \<le> y \<Longrightarrow> 0 \<le> ndiv x y"
  by (simp add: ndiv_def dbl.rnd_nonneg)

lemma nadd_nonneg: "0 \<le> x \<Longrightarrow> 0 \<le> y \<Longrightarrow> 0 \<le> nadd x y"
  by (simp add: nadd_def dbl.rnd_nonneg)

lemma numOfBig_nonneg: "0 \<le> n \<Longrightarrow> 0 \<le> numOfBig n"
  by (simp add: numOfBig_def dbl.rnd_nonneg)

lemma nadd_ge_left: "is_double x \<Longrightarrow> 0 \<le> y \<Longrightarrow> x \<le> nadd x y"
  by (simp add: nadd_def is_double_def dbl.rnd_ge_double)

lemmas num_nonneg = nmul_nonneg ndiv_nonneg nadd_nonneg numOfBig_nonneg

lemma splitFee_range:
  assumes "is_double s" "0 \<le> s" "0 \<le> bps" "bps \<le> 10000"
  shows "0 \<le> fst (splitFee s bps)" "fst (splitFee s bps) \<le> s"
    and "0 \<le> snd (splitFee s bps)" "snd (splitFee s bps) \<le> s"
proof -
  have q: "0 \<le> ndiv bps 10000" "ndiv bps 10000 \<le> 1"
    using assms dbl.rnd_fraction [of bps 10000] by (simp_all add: ndiv_def)
  have f: "0 \<le> nmul s (ndiv bps 10000)" "nmul s (ndiv bps 10000) \<le> s"
    using assms q dbl.rnd_scale [of s "ndiv bps 10000"] by (simp_all add: nmul_def is_double_def)
  then show "0 \<le> fst (splitFee s bps)" "fst (splitFee s bps) \<le> s"
    by (simp_all add: splitFee_def Let_def)
  show "0 \<le> snd (splitFee s bps)" "snd (splitFee s bps) \<le> s"
    using f assms dbl.rnd_remainder [of s "nmul s (ndiv bps 10000)"]
    by (simp_all add: splitFee_def Let_def nsub_def is_double_def)
qed

lemma computeNav_parts_nonneg:
  assumes "0 \<le> freeSolLamports i" "0 \<le> freeBertRaw i" "0 \<le> uncollectedFeesBert i"
    "0 \<le> uncollectedFeesSol i" "0 \<le> positionTotalValueUsd i" "0 \<le> ni_solUsd i" "0 \<le> ni_bertUsd i"
  shows "0 \<le> freeUsd (computeNav i)" "0 \<le> feesUsd (computeNav i)" "0 \<le> totalUsd (computeNav i)"
  using assms by (simp_all add: computeNav_def Let_def num_nonneg)

lemma solFrac_range:
  assumes "0 \<le> freeSolLamports i" "0 \<le> freeBertRaw i" "0 \<le> ni_solUsd i" "0 \<le> ni_bertUsd i"
  shows "0 \<le> solFrac (computeNav i)" and "solFrac (computeNav i) \<le> 1"
proof -
  let ?s = "nmul (ndiv (numOfBig (freeSolLamports i)) (10 ^ SOL_DECIMALS)) (ni_solUsd i)"
  let ?b = "nmul (ndiv (numOfBig (freeBertRaw i)) (10 ^ BERT_DECIMALS)) (ni_bertUsd i)"
  have s: "0 \<le> ?s" and b: "0 \<le> ?b" using assms by (auto intro!: num_nonneg)
  have "?s \<le> nadd ?s ?b" using b by (intro nadd_ge_left is_double_ops)
  with s have "0 < nadd ?s ?b \<longrightarrow> 0 \<le> ndiv ?s (nadd ?s ?b) \<and> ndiv ?s (nadd ?s ?b) \<le> 1"
    using dbl.rnd_fraction [of ?s "nadd ?s ?b"] by (simp add: ndiv_def)
  then show "0 \<le> solFrac (computeNav i)" "solFrac (computeNav i) \<le> 1"
    by (simp_all add: computeNav_def Let_def)
qed

section \<open>Error bounds\<close>

lemma roundoff_pos: "0 < roundoff" "roundoff < 1"
  by (simp_all add: roundoff_def)

lemma tiny_pos: "0 < tiny"
  by (simp add: tiny_def)

text \<open>One step of the error analysis: if \<open>x\<close> is at most \<open>a\<close> grown \<open>n\<close> times by the unit roundoff
  plus \<open>t\<close>, its rounding is at most \<open>a\<close> grown once more.\<close>

lemma fl_grow:
  assumes "0 \<le> x" "x \<le> a * (1 + roundoff) ^ n + t"
  shows "fl x \<le> a * (1 + roundoff) ^ Suc n + (t * (1 + roundoff) + tiny)"
proof -
  have "fl x \<le> x * (1 + roundoff) + tiny" by (rule dbl.rnd_upper [OF assms(1)])
  also have "\<dots> \<le> (a * (1 + roundoff) ^ n + t) * (1 + roundoff) + tiny"
    using assms(2) roundoff_pos by (intro add_right_mono mult_right_mono) auto
  finally show ?thesis by (simp add: algebra_simps)
qed

text \<open>The tokens bought with a part of an amount: their value is at most the part, up to three
  roundings.\<close>

lemma floor_tokens_value:
  assumes "0 \<le> part" "0 < price" "0 < scale"
  defines "tok \<equiv> \<lfloor>nmul (ndiv part price) scale\<rfloor>"
  shows "of_int tok / scale * price \<le>
    part * (1 + roundoff) ^ 2 + (tiny * (1 + roundoff) + tiny / scale) * price"
proof -
  have d: "ndiv part price \<le> part / price * (1 + roundoff) + tiny"
    unfolding ndiv_def using assms by (intro dbl.rnd_upper) auto
  have d0: "0 \<le> ndiv part price" using assms by (intro num_nonneg) auto
  have "of_int tok \<le> nmul (ndiv part price) scale" by (simp add: tok_def)
  also have "\<dots> \<le> ndiv part price * scale * (1 + roundoff) + tiny"
    unfolding nmul_def using d0 assms by (intro dbl.rnd_upper) auto
  also have "\<dots> \<le> (part / price * (1 + roundoff) + tiny) * scale * (1 + roundoff) + tiny"
    using d roundoff_pos assms by (intro add_right_mono mult_right_mono) auto
  finally have "of_int tok / scale * price \<le>
      ((part / price * (1 + roundoff) + tiny) * scale * (1 + roundoff) + tiny) / scale * price"
    using assms by (intro mult_right_mono divide_right_mono) auto
  also have "\<dots> = part * (1 + roundoff) ^ 2 + (tiny * (1 + roundoff) + tiny / scale) * price"
    using assms by (simp add: field_simps power2_eq_square)
  finally show ?thesis .
qed

lemma roundoff_pow: "(1 + roundoff) ^ 2 \<le> 2" "(1 + roundoff) ^ 3 \<le> 2" "1 \<le> (1 + roundoff) ^ n"
  using roundoff_pos by (simp_all add: roundoff_def power2_eq_square power3_eq_cube)

lemma nmul_upper: "0 \<le> x \<Longrightarrow> 0 \<le> y \<Longrightarrow> nmul x y \<le> x * y * (1 + roundoff) + tiny"
  unfolding nmul_def by (intro dbl.rnd_upper) auto

lemma one_minus_upper:
  assumes "0 \<le> f" "f \<le> 1"
  shows "0 \<le> nsub 1 f" "nsub 1 f \<le> (1 - f) * (1 + roundoff) + tiny"
  unfolding nsub_def using assms by (auto intro: dbl.rnd_upper dbl.rnd_nonneg)

lemma floor_tokens_value_le:
  assumes "0 \<le> part" "part \<le> p" "0 < price" "1 \<le> scale"
  shows "of_int \<lfloor>nmul (ndiv part price) scale\<rfloor> / scale * price \<le> p * (1 + roundoff) ^ 2 + 3 * tiny * price"
proof -
  have "tiny / scale \<le> tiny" using assms tiny_pos by (simp add: field_simps)
  moreover have "tiny * (1 + roundoff) \<le> tiny * 2" using tiny_pos roundoff_pos by (intro mult_left_mono) auto
  ultimately have "(tiny * (1 + roundoff) + tiny / scale) * price \<le> 3 * tiny * price"
    using assms by (intro mult_right_mono) auto
  moreover have "part * (1 + roundoff) ^ 2 \<le> p * (1 + roundoff) ^ 2"
    using assms roundoff_pos by (intro mult_right_mono) auto
  ultimately show ?thesis using floor_tokens_value [of part price scale] assms by linarith
qed

text \<open>The two parts of an amount, before their conversion to tokens.\<close>

lemma usd_parts_le:
  assumes "0 \<le> usd" "0 \<le> f" "f \<le> 1"
  shows "0 \<le> nmul usd f" "nmul usd f \<le> usd * f * (1 + roundoff) + tiny"
    and "0 \<le> nmul usd (nsub 1 f)"
    and "nmul usd (nsub 1 f) \<le> usd * ((1 - f) * (1 + roundoff) + tiny) * (1 + roundoff) + tiny"
proof -
  note g = one_minus_upper [OF assms(2,3)]
  show "0 \<le> nmul usd f" "0 \<le> nmul usd (nsub 1 f)" "nmul usd f \<le> usd * f * (1 + roundoff) + tiny"
    using assms g by (auto intro: num_nonneg nmul_upper)
  have "nmul usd (nsub 1 f) \<le> usd * nsub 1 f * (1 + roundoff) + tiny"
    using assms g by (intro nmul_upper) auto
  also have "\<dots> \<le> usd * ((1 - f) * (1 + roundoff) + tiny) * (1 + roundoff) + tiny"
    using assms g roundoff_pos by (intro add_right_mono mult_right_mono mult_left_mono) auto
  finally show "nmul usd (nsub 1 f) \<le> \<dots>" .
qed

lemma usd_parts_sum:
  assumes "0 \<le> usd" "0 \<le> f" "f \<le> 1"
  defines "u \<equiv> 1 + roundoff"
  shows "(usd * f * u + tiny) * u ^ 2 + (usd * ((1 - f) * u + tiny) * u + tiny) * u ^ 2
    \<le> usd * u ^ 4 + tiny * (4 + 2 * usd)"
proof -
  have e1: "usd * f * u ^ 3 \<le> usd * f * u ^ 4"
    using assms roundoff_pos by (intro mult_left_mono power_increasing) (auto simp: u_def)
  have e2: "tiny * u ^ 2 \<le> tiny * 2"
    using roundoff_pow tiny_pos by (intro mult_left_mono) (auto simp: u_def)
  have e3: "usd * tiny * u ^ 3 \<le> usd * tiny * 2"
    using assms roundoff_pow tiny_pos by (intro mult_left_mono) auto
  have "(usd * f * u + tiny) * u ^ 2 + (usd * ((1 - f) * u + tiny) * u + tiny) * u ^ 2
      = usd * f * u ^ 3 + usd * (1 - f) * u ^ 4 + usd * tiny * u ^ 3 + 2 * (tiny * u ^ 2)"
    by algebra
  also have "\<dots> \<le> usd * f * u ^ 4 + usd * (1 - f) * u ^ 4 + usd * tiny * 2 + 2 * (tiny * 2)"
    using e1 e2 e3 by simp
  finally show ?thesis by (simp add: algebra_simps)
qed

lemma splitUsdIntoTokens_value:
  assumes "0 \<le> usd" "0 \<le> f" "f \<le> 1" "0 < solUsd" "0 < bertUsd"
  obtains l b where "splitUsdIntoTokens usd f solUsd bertUsd = Inr (l, b)" "0 \<le> l" "0 \<le> b"
    "of_int l / 10 ^ SOL_DECIMALS * solUsd + of_int b / 10 ^ BERT_DECIMALS * bertUsd
       \<le> usd * (1 + roundoff) ^ 4 + tiny * (4 + 2 * usd + 3 * solUsd + 3 * bertUsd)"
proof -
  let ?s = "nmul usd f" and ?b = "nmul usd (nsub 1 f)"
  let ?l = "\<lfloor>nmul (ndiv ?s solUsd) (10 ^ SOL_DECIMALS)\<rfloor>"
  let ?r = "\<lfloor>nmul (ndiv ?b bertUsd) (10 ^ BERT_DECIMALS)\<rfloor>"
  note p = usd_parts_le [OF assms(1-3)]
  have "of_int ?l / 10 ^ SOL_DECIMALS * solUsd + of_int ?r / 10 ^ BERT_DECIMALS * bertUsd
       \<le> usd * (1 + roundoff) ^ 4 + tiny * (4 + 2 * usd) + 3 * tiny * solUsd + 3 * tiny * bertUsd"
    using floor_tokens_value_le [OF p(1,2) assms(4), of "10 ^ SOL_DECIMALS"]
      floor_tokens_value_le [OF p(3,4) assms(5), of "10 ^ BERT_DECIMALS"] usd_parts_sum [OF assms(1-3)]
    by simp
  moreover have "0 \<le> ?l" "0 \<le> ?r" using p assms by (auto intro!: num_nonneg)
  ultimately show ?thesis
    using assms by (intro that [of ?l ?r]) (simp_all add: splitUsdIntoTokens_def Let_def algebra_simps)
qed

text \<open>For a nonnegative amount, a fraction in \<open>[0, 1]\<close> and positive prices the split succeeds,
  both amounts are nonnegative, and the tokens are together worth at most the amount itself, up to
  four roundings (relative error \<open>2^-53\<close> each) and underflow.\<close>

theorem splitUsdIntoTokens_bound:
  assumes "0 \<le> usd" "0 \<le> f" "f \<le> 1" "0 < solUsd" "0 < bertUsd"
  shows "\<exists>l b. splitUsdIntoTokens usd f solUsd bertUsd = Inr (l, b) \<and> 0 \<le> l \<and> 0 \<le> b \<and>
    of_int l / 10 ^ SOL_DECIMALS * solUsd + of_int b / 10 ^ BERT_DECIMALS * bertUsd
       \<le> usd * (1 + roundoff) ^ 4 + tiny * (4 + 2 * usd + 3 * solUsd + 3 * bertUsd)"
  using splitUsdIntoTokens_value [OF assms] by metis

theorem splitUsdIntoTokens_bound_witness:
  "\<exists>l b. splitUsdIntoTokens 100 (1/4) 150 (1/32) = Inr (l, b) \<and> 0 \<le> l \<and> 0 \<le> b \<and>
    of_int l / 10 ^ SOL_DECIMALS * 150 + of_int b / 10 ^ BERT_DECIMALS * (1/32)
       \<le> 100 * (1 + roundoff) ^ 4 + tiny * (4 + 2 * 100 + 3 * 150 + 3 * (1/32))"
  using splitUsdIntoTokens_bound [of 100 "1/4" 150 "1/32"] by simp

end
