(* ===== verification/Price_Oracle.thy ===== *)
theory Price_Oracle
  imports Share_Math "HOL-Library.Sublist"
begin

text \<open>
  \<open>src/src/priceOracle.ts\<close>, the three sources of \<open>src/src/priceFetchers.ts\<close>, and the price types of
  \<open>src/src/types.ts\<close>. A quotient by zero, which is not a
  number of the model, is spelt out where the source may compute one. The properties say that only
  positive prices enter and that the trusted price is bounded by them.
\<close>

record PriceSample =
  ps_source :: string
  ps_bertUsd :: rat
  ps_solUsd :: rat
  ps_bertPerSol :: rat
  ps_ts :: int

text \<open>\<open>bertPerSol\<close> is \<open>None\<close> where the source divides by a zero price.\<close>

record MidPrice =
  mp_bertPerSol :: "rat option"
  mp_bertUsd :: rat
  mp_solUsd :: rat
  mp_ts :: int
  mp_sources :: "string list"

definition meanOf :: "rat list \<Rightarrow> rat" where
  "meanOf xs = ndiv (foldl nadd 0 xs) (of_nat (length xs))"

text \<open>\<open>((max - min) / median) * 10000 > divergenceBps\<close>; with a zero median the quotient is infinite or, if all
  prices are equal, not a number, and then the comparison is false.\<close>

definition diverges :: "rat \<Rightarrow> rat \<Rightarrow> rat \<Rightarrow> rat \<Rightarrow> bool" where
  "diverges lo hi median divergenceBps \<longleftrightarrow>
     (if median = 0 then nsub hi lo > 0
      else nmul (ndiv (nsub hi lo) median) 10000 > divergenceBps)"

definition computeTrustedMid :: "PriceSample list \<Rightarrow> rat \<Rightarrow> int \<Rightarrow> rat \<Rightarrow> MidPrice option" where
  "computeTrustedMid samples solUsd now divergenceBps =
     (if length samples < 2 then None
      else
        let prices = sort (map ps_bertUsd samples);
            lo = prices ! 0;
            hi = prices ! (length prices - 1);
            median = prices ! (length prices div 2)
        in if diverges lo hi median divergenceBps then None
           else
             let mean = meanOf prices;
                 validSolSamples = filter (\<lambda>s. ps_solUsd s > 0) samples;
                 solUsdMean = (if validSolSamples \<noteq> [] then meanOf (map ps_solUsd validSolSamples) else solUsd)
             in Some \<lparr>mp_bertPerSol = (if mean = 0 then None else Some (ndiv solUsdMean mean)),
                      mp_bertUsd = mean, mp_solUsd = solUsdMean, mp_ts = now, mp_sources = map ps_source samples\<rparr>)"

text \<open>\<open>Promise.allSettled\<close> of the three fetchers: a rejected one and one that yields null are left out.\<close>

definition fetchAllSources :: "PriceSample option result list \<Rightarrow> PriceSample list" where
  "fetchAllSources results = List.map_filter (\<lambda>r. case r of Inr (Some s) \<Rightarrow> Some s | _ \<Rightarrow> None) results"

section \<open>priceFetchers.ts\<close>

definition BERT_MINT :: string where
  "BERT_MINT = ''HgBRWfYxEfvPhtqkaeymCQtHCrKE46qQ43pKe8HCpump''"

definition SOL_MINT :: string where
  "SOL_MINT = ''So11111111111111111111111111111111111111112''"

text \<open>The answer to a request: \<open>Inl\<close> when it throws, \<open>Inr None\<close> when it is not \<open>ok\<close>, else its body.\<close>

type_synonym 'a http = "'a option result"

text \<open>\<open>pool\<close> holds the two prices of the pool state.\<close>

definition fetchRaydium :: "(rat \<times> rat) result \<Rightarrow> int \<Rightarrow> PriceSample option" where
  "fetchRaydium pool now =
     (case pool of
        Inl _ \<Rightarrow> None
      | Inr (bertUsd, solUsd) \<Rightarrow>
          if bertUsd \<le> 0 \<or> solUsd \<le> 0 then None
          else Some \<lparr>ps_source = ''raydium'', ps_bertUsd = bertUsd, ps_solUsd = solUsd,
                     ps_bertPerSol = ndiv solUsd bertUsd, ps_ts = now\<rparr>)"

text \<open>The two quotes hold their \<open>outAmount\<close>. A value that is not finite is \<open>None\<close>.\<close>

definition fetchJupiter :: "string http \<Rightarrow> string http \<Rightarrow> int \<Rightarrow> PriceSample option" where
  "fetchJupiter quote solQuote now =
     (case (quote, solQuote) of
        (Inr (Some outAmount), Inr (Some solOutAmount)) \<Rightarrow>
          (case (stringToNumber outAmount, stringToNumber solOutAmount) of
             (Some out, Some usdc) \<Rightarrow>
               let solOut = ndiv out (10 ^ 9); solUsd = ndiv usdc (10 ^ 6)
               in (case finiteDouble (solOut * solUsd) of
                     None \<Rightarrow> None
                   | Some bertUsd \<Rightarrow>
                       if bertUsd \<le> 0 \<or> solUsd \<le> 0 then None
                       else Some \<lparr>ps_source = ''jupiter'', ps_bertUsd = bertUsd, ps_solUsd = solUsd,
                                  ps_bertPerSol = (if solUsd > 0 then ndiv solUsd bertUsd else 0), ps_ts = now\<rparr>)
           | _ \<Rightarrow> None)
      | _ \<Rightarrow> None)"

record DexPair =
  dp_priceUsd :: "string option"
  dp_priceNative :: "string option"
  dp_baseToken :: "string option"
  dp_quoteToken :: "string option"

text \<open>The SOL price that the native price of the pair implies, 0 if there is none.\<close>

definition dexSolUsd :: "DexPair \<Rightarrow> rat \<Rightarrow> rat" where
  "dexSolUsd p bertUsd =
     (if \<not> truthy (dp_priceNative p) then 0
      else case stringToNumber (the (dp_priceNative p)) of
        None \<Rightarrow> 0
      | Some priceNative \<Rightarrow>
          let x = (if dp_baseToken p = Some BERT_MINT \<and> dp_quoteToken p = Some SOL_MINT \<and> priceNative > 0
                   then finiteDouble (bertUsd / priceNative)
                   else if dp_baseToken p = Some SOL_MINT \<and> dp_quoteToken p = Some BERT_MINT \<and> priceNative > 0
                   then finiteDouble (bertUsd * priceNative)
                   else Some 0)
          in case x of None \<Rightarrow> 0 | Some solUsd \<Rightarrow> if solUsd \<le> 0 then 0 else solUsd)"

definition fetchDexScreener :: "DexPair list http \<Rightarrow> int \<Rightarrow> PriceSample option" where
  "fetchDexScreener answer now =
     (case answer of
        Inr (Some (target # _)) \<Rightarrow>
          if \<not> truthy (dp_priceUsd target) then None
          else (case stringToNumber (the (dp_priceUsd target)) of
                  None \<Rightarrow> None
                | Some bertUsd \<Rightarrow>
                    let solUsd = dexSolUsd target bertUsd
                    in if bertUsd \<le> 0 then None
                       else Some \<lparr>ps_source = ''dexscreener'', ps_bertUsd = bertUsd, ps_solUsd = solUsd,
                                  ps_bertPerSol = (if solUsd > 0 then ndiv solUsd bertUsd else 0), ps_ts = now\<rparr>)
      | _ \<Rightarrow> None)"

text \<open>Whatever the three services answer, every price that reaches the oracle is positive, at most one per
  source and in their order, and its SOL price is positive or, for DexScreener alone, zero.\<close>

theorem fetched_prices_positive:
  "\<exists>samples. fetchAllSources [Inr (fetchRaydium pool t), Inr (fetchJupiter quote solQuote t), Inr (fetchDexScreener answer t)]
       = samples
     \<and> subseq (map ps_source samples) [''raydium'', ''jupiter'', ''dexscreener'']
     \<and> list_all (\<lambda>s. 0 < ps_bertUsd s \<and> (0 < ps_solUsd s \<or> ps_source s = ''dexscreener'' \<and> ps_solUsd s = 0)) samples"
proof -
  have r: "fetchRaydium pool t = Some s \<Longrightarrow> ps_source s = ''raydium'' \<and> 0 < ps_bertUsd s \<and> 0 < ps_solUsd s" for s
    by (auto simp: fetchRaydium_def split: sum.splits if_splits)
  have j: "fetchJupiter quote solQuote t = Some s \<Longrightarrow> ps_source s = ''jupiter'' \<and> 0 < ps_bertUsd s \<and> 0 < ps_solUsd s" for s
    by (auto simp: fetchJupiter_def Let_def split: sum.splits option.splits if_splits)
  have x: "0 \<le> dexSolUsd p b" for p b
    by (auto simp: dexSolUsd_def Let_def split: option.splits)
  have d: "fetchDexScreener answer t = Some s \<Longrightarrow> ps_source s = ''dexscreener'' \<and> 0 < ps_bertUsd s \<and> 0 \<le> ps_solUsd s" for s
    using x by (auto simp: fetchDexScreener_def Let_def split: sum.splits option.splits list.splits if_splits)
  show ?thesis
    using r [of "the (fetchRaydium pool t)"] j [of "the (fetchJupiter quote solQuote t)"]
      d [of "the (fetchDexScreener answer t)"]
    by (cases "fetchRaydium pool t"; cases "fetchJupiter quote solQuote t"; cases "fetchDexScreener answer t")
      (simp_all add: fetchAllSources_def List.map_filter_def le_less)
qed

section \<open>The mean\<close>

lemma nadd_mono: "a \<le> c \<Longrightarrow> b \<le> d \<Longrightarrow> nadd a b \<le> nadd c d"
  by (simp add: nadd_def fl_mono add_mono)

lemma ndiv_mono: "a \<le> b \<Longrightarrow> 0 \<le> n \<Longrightarrow> ndiv a n \<le> ndiv b n"
  by (simp add: ndiv_def fl_mono divide_right_mono)

lemma sum_mono_list:
  assumes "list_all2 (\<le>) xs ys" "a \<le> b"
  shows "foldl nadd a xs \<le> foldl nadd b ys"
  using assms by (induction xs ys arbitrary: a b rule: list_all2_induct) (auto intro: nadd_mono)

lemma meanOf_mono: "list_all2 (\<le>) xs ys \<Longrightarrow> meanOf xs \<le> meanOf ys"
  unfolding meanOf_def by (metis list_all2_lengthD ndiv_mono sum_mono_list order_refl of_nat_0_le_iff)

lemma meanOf_nonneg: "\<forall>x\<in>set xs. 0 \<le> x \<Longrightarrow> 0 \<le> meanOf xs"
proof -
  have "0 \<le> foldl nadd a xs" if "0 \<le> a" "\<forall>x\<in>set xs. 0 \<le> x" for a
    using that by (induction xs arbitrary: a) (auto intro: nadd_nonneg)
  then show "\<forall>x\<in>set xs. 0 \<le> x \<Longrightarrow> 0 \<le> meanOf xs" by (simp add: meanOf_def ndiv_nonneg)
qed

text \<open>The rounding errors of summing \<open>n\<close> equal prices one by one and dividing by \<open>n\<close>.\<close>

lemma roundoff_range: "0 < roundoff" "roundoff < 1" "0 < tiny"
  by (simp_all add: roundoff_def tiny_def)

lemma sum_copies_Suc: "foldl nadd 0 (replicate (Suc n) x) = nadd (foldl nadd 0 (replicate n x)) x"
proof -
  have "replicate (Suc n) x = replicate n x @ [x]" by (simp add: replicate_append_same)
  then show ?thesis by (simp only: foldl_append foldl.simps)
qed

lemma nadd_bounds:
  assumes "0 \<le> a" "0 \<le> b"
  shows "nadd a b \<le> (a + b) * (1 + roundoff) + tiny" "(a + b) * (1 - roundoff) - tiny \<le> nadd a b"
  using dbl.rnd_upper [of "a + b"] dbl.rnd_lower [of "a + b"] assms by (simp_all add: nadd_def)

lemma ndiv_bounds:
  assumes "0 \<le> a" "0 \<le> b"
  shows "ndiv a b \<le> a / b * (1 + roundoff) + tiny" "a / b * (1 - roundoff) - tiny \<le> ndiv a b"
  using dbl.rnd_upper [of "a / b"] dbl.rnd_lower [of "a / b"] assms by (simp_all add: ndiv_def)

lemma sum_copies_nonneg: "0 \<le> x \<Longrightarrow> 0 \<le> foldl nadd 0 (replicate n x)"
  by (induction n) (simp_all only: sum_copies_Suc nadd_nonneg, simp)

lemma sum_copies_upper:
  assumes "0 \<le> x"
  shows "foldl nadd 0 (replicate n x) \<le> of_nat n * (x + tiny) * (1 + roundoff) ^ n"
proof (induction n)
  case (Suc n)
  let ?u = "1 + roundoff" and ?s = "foldl nadd 0 (replicate n x)"
  have u: "1 \<le> ?u" "1 \<le> ?u ^ n" "1 \<le> ?u ^ Suc n"
    using roundoff_range one_le_power [of ?u n] one_le_power [of ?u "Suc n"] by (simp_all del: power_Suc)
  have "nadd ?s x \<le> (?s + x) * ?u + tiny"
    using sum_copies_nonneg [OF assms, of n] assms by (intro nadd_bounds)
  also have "\<dots> \<le> (of_nat n * (x + tiny) * ?u ^ n + x) * ?u + tiny"
    using Suc u by (intro add_right_mono mult_right_mono) auto
  also have "\<dots> = of_nat n * (x + tiny) * ?u ^ Suc n + x * ?u + tiny" by (simp add: algebra_simps)
  also have "\<dots> \<le> of_nat n * (x + tiny) * ?u ^ Suc n + (x * ?u ^ Suc n + tiny * ?u ^ Suc n)"
  proof -
    have "?u * 1 \<le> ?u * ?u ^ n" using u by (intro mult_left_mono) auto
    then have "x * ?u \<le> x * ?u ^ Suc n" using assms by (intro mult_left_mono) auto
    moreover have "tiny * 1 \<le> tiny * ?u ^ Suc n" using roundoff_range u(3) by (intro mult_left_mono) auto
    ultimately show ?thesis by linarith
  qed
  also have "\<dots> = of_nat (Suc n) * (x + tiny) * ?u ^ Suc n" by (simp add: algebra_simps)
  finally show ?case by (simp only: sum_copies_Suc)
qed simp

lemma sum_copies_lower:
  assumes "0 \<le> x"
  shows "of_nat n * (x * (1 - roundoff) ^ n - tiny) \<le> foldl nadd 0 (replicate n x)"
proof (induction n)
  case (Suc n)
  let ?d = "1 - roundoff" and ?s = "foldl nadd 0 (replicate n x)"
  have d: "0 \<le> ?d" "?d \<le> 1" "?d ^ n \<le> 1" using roundoff_range power_le_one [of ?d n] by simp_all
  have "?d * ?d ^ n \<le> ?d * 1" using d by (intro mult_left_mono) auto
  then have "x * ?d ^ Suc n \<le> x * ?d" using assms by (intro mult_left_mono) auto
  moreover have "of_nat n * tiny * ?d \<le> of_nat n * tiny * 1" using d roundoff_range by (intro mult_left_mono) auto
  ultimately have "of_nat (Suc n) * (x * ?d ^ Suc n - tiny) \<le>
      (of_nat n * (x * ?d ^ n - tiny) + x) * ?d - tiny" by (simp add: algebra_simps)
  also have "\<dots> \<le> (?s + x) * ?d - tiny"
    using Suc d by (intro diff_right_mono mult_right_mono) auto
  also have "\<dots> \<le> nadd ?s x"
    using sum_copies_nonneg [OF assms, of n] assms by (intro nadd_bounds)
  finally show ?case by (simp only: sum_copies_Suc)
qed simp

lemma mean_copies_upper:
  assumes "0 \<le> x" "0 < n"
  shows "meanOf (replicate n x) \<le> (x + 2 * tiny) * (1 + roundoff) ^ Suc n"
proof -
  let ?u = "1 + roundoff" and ?s = "foldl nadd 0 (replicate n x)"
  have u: "1 \<le> ?u" "1 \<le> ?u ^ Suc n" using roundoff_range one_le_power [of ?u "Suc n"] by (simp_all del: power_Suc)
  have "?s / of_nat n \<le> (x + tiny) * ?u ^ n"
    using sum_copies_upper [OF assms(1), of n] assms(2) by (simp add: divide_simps algebra_simps)
  then have "?s / of_nat n * ?u + tiny \<le> (x + tiny) * ?u ^ n * ?u + tiny"
    using u by (intro add_right_mono mult_right_mono) auto
  also have "\<dots> = (x + tiny) * ?u ^ Suc n + tiny" by (simp add: algebra_simps)
  also have "\<dots> \<le> (x + tiny) * ?u ^ Suc n + tiny * ?u ^ Suc n"
    using u(2) roundoff_range mult_left_mono [of 1 "?u ^ Suc n" tiny] by simp
  finally have "?s / of_nat n * ?u + tiny \<le> (x + 2 * tiny) * ?u ^ Suc n" by (simp add: algebra_simps)
  moreover have "meanOf (replicate n x) \<le> ?s / of_nat n * ?u + tiny"
    unfolding meanOf_def length_replicate using sum_copies_nonneg [OF assms(1), of n] by (intro ndiv_bounds) auto
  ultimately show ?thesis by simp
qed

lemma mean_copies_lower:
  assumes "0 \<le> x" "0 < n"
  shows "x * (1 - roundoff) ^ Suc n - 2 * tiny \<le> meanOf (replicate n x)"
proof -
  let ?d = "1 - roundoff" and ?s = "foldl nadd 0 (replicate n x)"
  have d: "0 \<le> ?d" "?d \<le> 1" using roundoff_range by simp_all
  have "x * ?d ^ n - tiny \<le> ?s / of_nat n"
    using sum_copies_lower [OF assms(1), of n] assms(2) by (simp add: divide_simps algebra_simps)
  then have "(x * ?d ^ n - tiny) * ?d - tiny \<le> ?s / of_nat n * ?d - tiny"
    using d by (intro diff_right_mono mult_right_mono) auto
  moreover have "x * ?d ^ Suc n - 2 * tiny \<le> (x * ?d ^ n - tiny) * ?d - tiny"
    using d roundoff_range mult_left_mono [of ?d 1 tiny] by (simp add: algebra_simps)
  moreover have "?s / of_nat n * ?d - tiny \<le> meanOf (replicate n x)"
    unfolding meanOf_def length_replicate using sum_copies_nonneg [OF assms(1), of n] by (intro ndiv_bounds) auto
  ultimately show ?thesis by simp
qed

text \<open>The mean of prices between \<open>lo\<close> and \<open>hi\<close> lies between them, up to the rounding.\<close>

lemma meanOf_between:
  assumes "xs \<noteq> []" "\<forall>x\<in>set xs. lo \<le> x \<and> x \<le> hi" "0 \<le> lo"
  shows "lo * (1 - roundoff) ^ Suc (length xs) - 2 * tiny \<le> meanOf xs"
    and "meanOf xs \<le> (hi + 2 * tiny) * (1 + roundoff) ^ Suc (length xs)"
proof -
  have "list_all2 (\<le>) (replicate (length xs) lo) xs" "list_all2 (\<le>) xs (replicate (length xs) hi)"
    using assms(2) by (auto simp: list_all2_conv_all_nth)
  then have "meanOf (replicate (length xs) lo) \<le> meanOf xs" "meanOf xs \<le> meanOf (replicate (length xs) hi)"
    by (auto intro: meanOf_mono)
  moreover have "0 < length xs" "0 \<le> hi" using assms by (auto simp: neq_Nil_conv)
  ultimately show "lo * (1 - roundoff) ^ Suc (length xs) - 2 * tiny \<le> meanOf xs"
    "meanOf xs \<le> (hi + 2 * tiny) * (1 + roundoff) ^ Suc (length xs)"
    using mean_copies_lower [OF assms(3), of "length xs"] mean_copies_upper [of hi "length xs"] by linarith+
qed

section \<open>The trusted price\<close>

lemma sorted_between:
  assumes "x \<in> set xs"
  shows "sort xs ! 0 \<le> x" "x \<le> sort xs ! (length (sort xs) - 1)"
proof -
  from assms obtain i where i: "i < length (sort xs)" "sort xs ! i = x"
    by (metis in_set_conv_nth set_sort)
  then show "sort xs ! 0 \<le> x" using sorted_nth_mono [OF sorted_sort, of 0 i xs] by simp
  from i show "x \<le> sort xs ! (length (sort xs) - 1)"
    using sorted_nth_mono [OF sorted_sort, of i "length (sort xs) - 1" xs] by simp
qed

lemma sort_ends:
  assumes "xs \<noteq> []"
  shows "sort xs ! 0 = Min (set xs)" "sort xs ! (length (sort xs) - 1) = Max (set xs)"
proof -
  have "sort xs ! 0 \<in> set xs" "sort xs ! (length (sort xs) - 1) \<in> set xs"
    using assms by (metis nth_mem set_sort length_sort length_greater_0_conv diff_less zero_less_one)+
  then show "sort xs ! 0 = Min (set xs)" "sort xs ! (length (sort xs) - 1) = Max (set xs)"
    using sorted_between [of _ xs] by (metis Min_eqI finite_set, metis Max_eqI finite_set)
qed

text \<open>What makes a price trusted: two sources, and a spread within the limit.\<close>

definition agree :: "PriceSample list \<Rightarrow> rat \<Rightarrow> bool" where
  "agree samples divergenceBps \<longleftrightarrow>
     2 \<le> length samples
     \<and> (let prices = ps_bertUsd ` set samples
        in \<exists>median\<in>prices. \<not> diverges (Min prices) (Max prices) median divergenceBps)"

lemma computeTrustedMid_Some:
  assumes "computeTrustedMid samples solUsd now divergenceBps = Some m"
  shows "agree samples divergenceBps"
    and "mp_bertUsd m = meanOf (sort (map ps_bertUsd samples))"
    and "mp_sources m = map ps_source samples"
    and "mp_solUsd m = (if filter (\<lambda>s. ps_solUsd s > 0) samples \<noteq> []
                        then meanOf (map ps_solUsd (filter (\<lambda>s. ps_solUsd s > 0) samples)) else solUsd)"
proof -
  let ?p = "map ps_bertUsd samples"
  let ?median = "sort ?p ! (length (sort ?p) div 2)"
  have two: "2 \<le> length samples" using assms by (auto simp: computeTrustedMid_def split: if_splits)
  then have "?median \<in> set (sort ?p)" by (intro nth_mem) auto
  then have "?median \<in> ps_bertUsd ` set samples" by simp
  moreover have "\<not> diverges (Min (ps_bertUsd ` set samples)) (Max (ps_bertUsd ` set samples)) ?median divergenceBps"
  proof -
    have "samples \<noteq> []" using two by auto
    then have "sort ?p ! 0 = Min (ps_bertUsd ` set samples)"
      "sort ?p ! (length (sort ?p) - 1) = Max (ps_bertUsd ` set samples)" using sort_ends [of ?p] by simp_all
    then show ?thesis using assms by (auto simp: computeTrustedMid_def Let_def split: if_splits)
  qed
  ultimately show "agree samples divergenceBps" using two by (auto simp: agree_def Let_def)
qed (use assms in \<open>auto simp: computeTrustedMid_def Let_def split: if_splits\<close>)

text \<open>C27: A price is trusted only if at least two sources answered and the spread between the lowest and the
  highest of their prices, relative to one of them, is within the divergence limit. It then lies between the
  lowest and the highest price, up to the rounding errors of the sum and the quotient. The SOL price is the mean
  of the positive SOL prices alone, so it lies between any bounds of those, likewise.\<close>

theorem trusted_mid_sound:
  assumes mid: "computeTrustedMid samples solUsd now divergenceBps = Some m"
    and bert: "\<forall>s\<in>set samples. lo \<le> ps_bertUsd s \<and> ps_bertUsd s \<le> hi" "0 \<le> lo"
    and sol: "\<forall>s\<in>set samples. ps_solUsd s > 0 \<longrightarrow> a \<le> ps_solUsd s \<and> ps_solUsd s \<le> b" "0 \<le> a"
    and some: "\<exists>s\<in>set samples. ps_solUsd s > 0"
  shows "agree samples divergenceBps
       \<and> mp_sources m = map ps_source samples
       \<and> lo * (1 - roundoff) ^ Suc (length samples) - 2 * tiny \<le> mp_bertUsd m
       \<and> mp_bertUsd m \<le> (hi + 2 * tiny) * (1 + roundoff) ^ Suc (length samples)
       \<and> a * (1 - roundoff) ^ Suc (length samples) - 2 * tiny \<le> mp_solUsd m
       \<and> mp_solUsd m \<le> (b + 2 * tiny) * (1 + roundoff) ^ Suc (length samples)"
proof -
  note m = computeTrustedMid_Some [OF mid]
  let ?p = "sort (map ps_bertUsd samples)" and ?v = "map ps_solUsd (filter (\<lambda>s. ps_solUsd s > 0) samples)"
  have "2 \<le> length samples" using m(1) by (simp add: agree_def)
  then have "?p \<noteq> []" by (metis length_map length_sort list.size(3) not_numeral_le_zero)
  moreover have "\<forall>x\<in>set ?p. lo \<le> x \<and> x \<le> hi" using bert by simp
  ultimately have p: "lo * (1 - roundoff) ^ Suc (length samples) - 2 * tiny \<le> meanOf ?p"
    "meanOf ?p \<le> (hi + 2 * tiny) * (1 + roundoff) ^ Suc (length samples)"
    using meanOf_between [of ?p lo hi] bert by simp_all
  have v: "?v \<noteq> []" "\<forall>x\<in>set ?v. a \<le> x \<and> x \<le> b" using sol some by (auto simp: filter_empty_conv)
  have le: "Suc (length ?v) \<le> Suc (length samples)" by simp
  have b: "0 \<le> b" using v sol(2) by (fastforce simp: neq_Nil_conv)
  have "(1 - roundoff) ^ Suc (length samples) \<le> (1 - roundoff) ^ Suc (length ?v)"
    using roundoff_range le by (intro power_decreasing) auto
  then have "a * (1 - roundoff) ^ Suc (length samples) - 2 * tiny \<le> a * (1 - roundoff) ^ Suc (length ?v) - 2 * tiny"
    using sol(2) by (intro diff_right_mono mult_left_mono) auto
  also have "\<dots> \<le> meanOf ?v" by (rule meanOf_between(1) [OF v sol(2)])
  finally have lower: "a * (1 - roundoff) ^ Suc (length samples) - 2 * tiny \<le> meanOf ?v" .
  have "meanOf ?v \<le> (b + 2 * tiny) * (1 + roundoff) ^ Suc (length ?v)" by (rule meanOf_between(2) [OF v sol(2)])
  also have "\<dots> \<le> (b + 2 * tiny) * (1 + roundoff) ^ Suc (length samples)"
    using roundoff_range le b by (intro mult_left_mono power_increasing) auto
  finally show ?thesis using m p lower v(1) by simp
qed

definition sample_demo :: "string \<Rightarrow> rat \<Rightarrow> rat \<Rightarrow> PriceSample" where
  "sample_demo src bert sol = \<lparr>ps_source = src, ps_bertUsd = bert, ps_solUsd = sol, ps_bertPerSol = 0, ps_ts = 0\<rparr>"

theorem trusted_mid_sound_witness:
  "\<exists>m. computeTrustedMid [sample_demo ''raydium'' 2 150, sample_demo ''dexscreener'' 2 0] 0 7 150 = Some m
       \<and> mp_bertUsd m \<le> (2 + 2 * tiny) * (1 + roundoff) ^ 3"
proof -
  have "\<exists>m. computeTrustedMid [sample_demo ''raydium'' 2 150, sample_demo ''dexscreener'' 2 0] 0 7 150 = Some m"
    by (simp add: computeTrustedMid_def sample_demo_def diverges_def num_op_defs Let_def)
  then obtain m where
    m: "computeTrustedMid [sample_demo ''raydium'' 2 150, sample_demo ''dexscreener'' 2 0] 0 7 150 = Some m" ..
  from trusted_mid_sound [OF m, of 2 2 150 150] m show ?thesis
    by (auto simp: sample_demo_def eval_nat_numeral)
qed

end
