(* ===== verification/Strategy.thy ===== *)
theory Strategy
  imports Price_Oracle State_Store
begin

text \<open>
  The decision of a tick: \<open>src/src/strategy.ts\<close>, the comparison of the stored position with the chain at
  start-up, \<open>src/src/reconciler.ts\<close>, and the types of \<open>src/src/types.ts\<close> they use. The properties say exactly when
  each decision is taken and what a successful comparison guarantees.
\<close>

record Range =
  rg_lowerBertUsd :: rat
  rg_upperBertUsd :: rat
  rg_centerBertUsd :: rat
  rg_widthPct :: rat

record PositionSnapshot =
  po_nftMint :: string
  po_range :: Range
  po_bertAmount :: int
  po_solAmount :: int
  po_uncollectedFeesBert :: int
  po_uncollectedFeesSol :: int
  po_totalValueUsd :: rat
  po_openedAt :: int

record BotState =
  bs_price :: "MidPrice option"
  bs_priceHistory :: "MidPrice list"
  bs_position :: "PositionSnapshot option"
  bs_lastRebalanceAt :: "int option"
  bs_rebalancesToday :: nat
  bs_killSwitchTripped :: bool
  bs_degraded :: bool
  bs_now :: int

datatype Decision =
    HOLD "frag list"
  | REBALANCE "frag list" rat
  | PAUSE "frag list"
  | ALERT_ONLY "frag list"

record StrategyParams =
  st_rangeWidthPct :: rat
  st_sustainedMinutes :: rat
  st_minRebalanceIntervalMin :: rat
  st_maxRebalancesPerDay :: rat
  st_oracleStaleMinutes :: rat
  st_pollIntervalSec :: rat

text \<open>\<open>Math.round\<close>.\<close>

definition mathRound :: "rat \<Rightarrow> int" where
  "mathRound x = \<lfloor>x + 1 / 2\<rfloor>"

definition minutesBetween :: "int \<Rightarrow> int \<Rightarrow> rat" where
  "minutesBetween later earlier = ndiv (of_int (later - earlier)) 60000"

text \<open>The checks of the decision, in the order of the source.\<close>

definition isStale :: "StrategyParams \<Rightarrow> BotState \<Rightarrow> MidPrice \<Rightarrow> bool" where
  "isStale params state price \<longleftrightarrow>
     of_int (bs_now state - mp_ts price) > nmul (st_oracleStaleMinutes params) 60000"

definition inRange :: "Range \<Rightarrow> rat \<Rightarrow> bool" where
  "inRange r price \<longleftrightarrow> price \<ge> rg_lowerBertUsd r \<and> price \<le> rg_upperBertUsd r"

definition recentSamples :: "StrategyParams \<Rightarrow> BotState \<Rightarrow> MidPrice list" where
  "recentSamples params state =
     (let cutoff = nsub (of_int (bs_now state)) (nmul (st_sustainedMinutes params) 60000)
      in filter (\<lambda>s. of_int (mp_ts s) \<ge> cutoff) (bs_priceHistory state))"

definition cooldownActive :: "StrategyParams \<Rightarrow> BotState \<Rightarrow> bool" where
  "cooldownActive params state \<longleftrightarrow>
     (case bs_lastRebalanceAt state of None \<Rightarrow> False
      | Some t \<Rightarrow> minutesBetween (bs_now state) t < st_minRebalanceIntervalMin params)"

definition decide :: "BotState \<Rightarrow> StrategyParams \<Rightarrow> Decision" where
  "decide state params =
     (if bs_killSwitchTripped state then PAUSE [Lit ''kill switch tripped'']
      else if bs_degraded state then PAUSE [Lit ''degraded flag set'']
      else case bs_price state of
        None \<Rightarrow> HOLD [Lit ''oracle returned null (divergent sources)'']
      | Some price \<Rightarrow>
          if isStale params state price
          then PAUSE [Lit ''oracle stale by '', Num (of_int (mathRound (minutesBetween (bs_now state) (mp_ts price)))), Lit '' min'']
          else case bs_position state of
            None \<Rightarrow> HOLD [Lit ''no position yet (initial state)'']
          | Some pos \<Rightarrow>
              let currentPrice = mp_bertUsd price; recent = recentSamples params state
              in if inRange (po_range pos) currentPrice then HOLD [Lit ''price in range'']
                 else if of_nat (length recent) < st_sustainedMinutes params
                 then HOLD [Lit ''not enough history yet'']
                 else if \<not> list_all (\<lambda>s. mp_bertUsd s < rg_lowerBertUsd (po_range pos)
                                        \<or> mp_bertUsd s > rg_upperBertUsd (po_range pos)) recent
                 then HOLD [Lit ''not sustained out-of-range'']
                 else if cooldownActive params state
                 then ALERT_ONLY [Lit ''out-of-range but cooldown active ('',
                        Fixed 1 (minutesBetween (bs_now state) (the (bs_lastRebalanceAt state))), Lit ''/'',
                        Num (st_minRebalanceIntervalMin params), Lit '' min)'']
                 else if of_nat (bs_rebalancesToday state) \<ge> st_maxRebalancesPerDay params
                 then ALERT_ONLY [Lit ''out-of-range but daily cap reached ('', Num (of_nat (bs_rebalancesToday state)),
                        Lit ''/'', Num (st_maxRebalancesPerDay params), Lit '')'']
                 else REBALANCE [Lit ''sustained out-of-range; triggers cleared''] currentPrice)"

section \<open>Reconciliation\<close>

datatype ReconcileResult = OK_EMPTY | OK_MATCH | MISMATCH "frag list"

text \<open>The literal \<open>0.10\<close> is the double nearest to one tenth.\<close>

definition approxEqual :: "rat \<Rightarrow> rat \<Rightarrow> bool" where
  "approxEqual a b \<longleftrightarrow>
     (if a = 0 \<and> b = 0 then True
      else if a = 0 \<or> b = 0 then False
      else let denom = max \<bar>a\<bar> \<bar>b\<bar> in ndiv \<bar>nsub a b\<bar> denom < fl (1 / 10))"

definition reconcile :: "StoredPosition option \<Rightarrow> PositionSnapshot option \<Rightarrow> ReconcileResult" where
  "reconcile stored onchain =
     (case (stored, onchain) of
        (None, None) \<Rightarrow> OK_EMPTY
      | (None, Some _) \<Rightarrow> MISMATCH [Lit ''chain has position but state.db does not'']
      | (Some _, None) \<Rightarrow> MISMATCH [Lit ''state.db has position but chain does not'']
      | (Some s, Some c) \<Rightarrow>
          if sp_nftMint s \<noteq> po_nftMint c
          then MISMATCH [Lit ''nft mint differs: stored='', Lit (sp_nftMint s), Lit '' chain='', Lit (po_nftMint c)]
          else if \<not> approxEqual (sp_lowerUsd s) (rg_lowerBertUsd (po_range c))
          then MISMATCH [Lit ''lower price differs: stored='', Num (sp_lowerUsd s),
                         Lit '' chain='', Num (rg_lowerBertUsd (po_range c))]
          else if \<not> approxEqual (sp_upperUsd s) (rg_upperBertUsd (po_range c))
          then MISMATCH [Lit ''upper price differs'']
          else OK_MATCH)"

section \<open>When each decision is taken\<close>

text \<open>The out-of-range condition: the current price and every recorded price of the window are outside, and the
  window holds enough samples.\<close>

definition sustainedOut :: "StrategyParams \<Rightarrow> BotState \<Rightarrow> MidPrice \<Rightarrow> PositionSnapshot \<Rightarrow> bool" where
  "sustainedOut params state price pos \<longleftrightarrow>
     \<not> inRange (po_range pos) (mp_bertUsd price)
     \<and> st_sustainedMinutes params \<le> of_nat (length (recentSamples params state))
     \<and> (\<forall>s\<in>set (recentSamples params state). \<not> inRange (po_range pos) (mp_bertUsd s))"

definition halted :: "BotState \<Rightarrow> StrategyParams \<Rightarrow> bool" where
  "halted state params \<longleftrightarrow>
     bs_killSwitchTripped state \<or> bs_degraded state
     \<or> (\<exists>price. bs_price state = Some price \<and> isStale params state price)"

definition outOfRange :: "BotState \<Rightarrow> StrategyParams \<Rightarrow> bool" where
  "outOfRange state params \<longleftrightarrow>
     (\<exists>price pos. bs_price state = Some price \<and> bs_position state = Some pos
        \<and> sustainedOut params state price pos)"

definition throttled :: "BotState \<Rightarrow> StrategyParams \<Rightarrow> bool" where
  "throttled state params \<longleftrightarrow>
     cooldownActive params state \<or> st_maxRebalancesPerDay params \<le> of_nat (bs_rebalancesToday state)"

text \<open>C25: The decision table. The bot pauses exactly when the kill switch is set, it is degraded, or the price is
  stale. Otherwise, when the price has been out of range for the whole recorded window, it rebalances around the
  current price unless the cool-down or the daily cap holds, and then it only alerts. In every other case it
  holds.\<close>

theorem decision_table:
  "((\<exists>r. decide state params = PAUSE r) \<longleftrightarrow> halted state params)
   \<and> (\<forall>c. (\<exists>r. decide state params = REBALANCE r c) \<longleftrightarrow>
        \<not> halted state params \<and> outOfRange state params \<and> \<not> throttled state params
        \<and> map_option mp_bertUsd (bs_price state) = Some c)
   \<and> ((\<exists>r. decide state params = ALERT_ONLY r) \<longleftrightarrow>
        \<not> halted state params \<and> outOfRange state params \<and> throttled state params)"
proof (cases "bs_killSwitchTripped state \<or> bs_degraded state \<or> bs_price state = None \<or> bs_position state = None")
  case True
  then show ?thesis
    by (auto simp: decide_def halted_def outOfRange_def split: option.splits)
next
  case False
  then obtain price pos where p: "bs_price state = Some price" "bs_position state = Some pos"
    "\<not> bs_killSwitchTripped state" "\<not> bs_degraded state" by auto
  have out: "list_all (\<lambda>s. mp_bertUsd s < rg_lowerBertUsd (po_range pos) \<or> mp_bertUsd s > rg_upperBertUsd (po_range pos)) ss
      \<longleftrightarrow> (\<forall>s\<in>set ss. \<not> inRange (po_range pos) (mp_bertUsd s))" for ss
    by (auto simp: list_all_iff inRange_def)
  show ?thesis
    using p unfolding halted_def outOfRange_def throttled_def sustainedOut_def
    by (simp add: decide_def out Let_def not_less)
qed

text \<open>A bot that has been polling every thirty seconds, \<open>n\<close> times so far, and has always seen the same price.\<close>

definition midAt :: "rat \<Rightarrow> int \<Rightarrow> MidPrice" where
  "midAt price ts = \<lparr>mp_bertPerSol = None, mp_bertUsd = price, mp_solUsd = 150, mp_ts = ts, mp_sources = []\<rparr>"

definition polledState :: "int \<Rightarrow> rat \<Rightarrow> nat \<Rightarrow> PositionSnapshot \<Rightarrow> BotState" where
  "polledState now price n pos =
     \<lparr>bs_price = Some (midAt price now), bs_priceHistory = map (\<lambda>i. midAt price (now - 30000 * int i)) (rev [0..<n]),
      bs_position = Some pos, bs_lastRebalanceAt = None, bs_rebalancesToday = 0,
      bs_killSwitchTripped = False, bs_degraded = False, bs_now = now\<rparr>"

lemma polled_recent:
  assumes "60000 * int n < 2 ^ 52" "0 \<le> now" "now < 2 ^ 52" "st_sustainedMinutes params = of_nat n"
  shows "recentSamples params (polledState now price n pos) = bs_priceHistory (polledState now price n pos)"
proof -
  have "nmul (of_nat n) 60000 = of_int (60000 * int n)"
    using fl_of_int [of "60000 * int n"] assms by (simp add: nmul_def mult.commute)
  then have cutoff: "nsub (of_int now) (nmul (of_nat n) 60000) = of_int (now - 60000 * int n)"
    using fl_of_int [of "now - 60000 * int n"] assms by (simp add: nsub_def)
  then have "recentSamples params (polledState now price n pos) =
      filter (\<lambda>s. mp_ts s \<ge> now - 60000 * int n) (bs_priceHistory (polledState now price n pos))"
    using assms(4) by (simp only: recentSamples_def polledState_def Let_def BotState.simps cutoff of_int_le_iff)
  also have "\<dots> = bs_priceHistory (polledState now price n pos)"
    by (auto simp: polledState_def midAt_def intro!: filter_True)
  finally show ?thesis .
qed

text \<open>The sustained window is counted in samples, not in minutes: when the bot polls every thirty seconds and
  \<open>n\<close> minutes out of range are asked for, \<open>n\<close> samples are enough, and the oldest of them is younger than half the
  window.\<close>

theorem sustained_counts_samples:
  assumes "0 < n" "60000 * int n < 2 ^ 52" "0 \<le> now" "now < 2 ^ 52"
    and "st_sustainedMinutes params = of_nat n" "0 \<le> st_oracleStaleMinutes params" "0 < st_maxRebalancesPerDay params"
    and "\<not> inRange (po_range pos) price"
  shows "(\<exists>r. decide (polledState now price n pos) params = REBALANCE r price)
       \<and> (\<forall>s\<in>set (bs_priceHistory (polledState now price n pos)). 2 * (now - mp_ts s) < 60000 * int n)"
proof -
  have "0 \<le> nmul (st_oracleStaleMinutes params) 60000" using assms by (simp add: nmul_nonneg)
  then have "\<exists>r. decide (polledState now price n pos) params = REBALANCE r price"
    using assms unfolding decide_def polled_recent [OF assms(2-5)]
    by (auto simp: polledState_def midAt_def isStale_def cooldownActive_def inRange_def list_all_iff Let_def)
  moreover have "\<forall>s\<in>set (bs_priceHistory (polledState now price n pos)). 2 * (now - mp_ts s) < 60000 * int n"
    by (auto simp: polledState_def midAt_def)
  ultimately show ?thesis by simp
qed

definition params_demo :: StrategyParams where
  "params_demo = \<lparr>st_rangeWidthPct = 20, st_sustainedMinutes = 4, st_minRebalanceIntervalMin = 60,
     st_maxRebalancesPerDay = 4, st_oracleStaleMinutes = 5, st_pollIntervalSec = 30\<rparr>"

definition position_demo :: PositionSnapshot where
  "position_demo = \<lparr>po_nftMint = ''mint'', po_range = \<lparr>rg_lowerBertUsd = 1, rg_upperBertUsd = 3, rg_centerBertUsd = 2,
     rg_widthPct = 20\<rparr>, po_bertAmount = 10, po_solAmount = 10, po_uncollectedFeesBert = 0,
     po_uncollectedFeesSol = 0, po_totalValueUsd = 5, po_openedAt = 0\<rparr>"

theorem sustained_counts_samples_witness:
  "\<exists>r. decide (polledState 1000000 4 4 position_demo) params_demo = REBALANCE r 4"
  using sustained_counts_samples [of 4 1000000 params_demo position_demo 4]
  by (simp add: params_demo_def position_demo_def inRange_def)

section \<open>What a match guarantees\<close>

lemma approxEqual_sound:
  assumes "approxEqual a b" "a \<noteq> 0 \<or> b \<noteq> 0"
  shows "\<bar>a - b\<bar> * (1 - roundoff) - tiny < max \<bar>a\<bar> \<bar>b\<bar> / 10"
proof -
  have nz: "a \<noteq> 0" "b \<noteq> 0" using assms by (auto simp: approxEqual_def split: if_splits)
  then have "0 < max \<bar>a\<bar> \<bar>b\<bar>" by (simp add: max_def)
  moreover have "\<bar>nsub a b\<bar> / max \<bar>a\<bar> \<bar>b\<bar> < 1 / 10"
    using assms nz fl_mono [of "1 / 10" "\<bar>nsub a b\<bar> / max \<bar>a\<bar> \<bar>b\<bar>"]
    by (simp only: approxEqual_def ndiv_def Let_def simp_thms if_False) (meson not_less)
  ultimately have "\<bar>nsub a b\<bar> < max \<bar>a\<bar> \<bar>b\<bar> / 10" by (simp add: divide_simps mult.commute)
  moreover have "\<bar>a - b\<bar> * (1 - roundoff) - tiny \<le> \<bar>nsub a b\<bar>"
    using dbl.rnd_error [of "a - b"] by (simp add: nsub_def algebra_simps)
  ultimately show ?thesis by linarith
qed

text \<open>Two bounds a successful comparison lets through.\<close>

definition closeTo :: "rat \<Rightarrow> rat \<Rightarrow> bool" where
  "closeTo a b \<longleftrightarrow> (a = 0 \<longleftrightarrow> b = 0) \<and> (a = b \<or> \<bar>a - b\<bar> * (1 - roundoff) - tiny < max \<bar>a\<bar> \<bar>b\<bar> / 10)"

text \<open>The bot starts only when database and chain agree: both have no position, or both have the position of the
  same mint, and each bound of the range differs by less than a tenth of the larger value, up to the rounding of
  the difference; a stored bound of zero matches only zero. Equal bounds always match.\<close>

theorem reconcile_sound:
  "(reconcile stored onchain = OK_EMPTY \<longleftrightarrow> stored = None \<and> onchain = None)
   \<and> (reconcile stored onchain = OK_MATCH \<longrightarrow>
        (\<exists>s c. stored = Some s \<and> onchain = Some c \<and> sp_nftMint s = po_nftMint c
          \<and> closeTo (sp_lowerUsd s) (rg_lowerBertUsd (po_range c))
          \<and> closeTo (sp_upperUsd s) (rg_upperBertUsd (po_range c))))
   \<and> (\<forall>s c. sp_nftMint s = po_nftMint c \<longrightarrow> sp_lowerUsd s = rg_lowerBertUsd (po_range c) \<longrightarrow>
        sp_upperUsd s = rg_upperBertUsd (po_range c) \<longrightarrow> reconcile (Some s) (Some c) = OK_MATCH)"
proof -
  have "0 < fl (1 / 10)"
    using dbl.rnd_lower [of "1 / 10"] by (simp add: roundoff_def tiny_def)
  then have same: "approxEqual a a" for a
    by (simp add: approxEqual_def nsub_def ndiv_def)
  have close: "closeTo a b" if "approxEqual a b" for a b
    using that approxEqual_sound [OF that] by (auto simp: closeTo_def approxEqual_def split: if_splits)
  show ?thesis
    by (auto simp: reconcile_def same close split: option.splits if_splits)
qed

definition stored_demo :: StoredPosition where
  "stored_demo = \<lparr>sp_nftMint = ''mint'', sp_lowerUsd = 1, sp_upperUsd = 3, sp_centerUsd = 2, sp_openedAt = 0\<rparr>"

theorem reconcile_sound_witness: "reconcile (Some stored_demo) (Some position_demo) = OK_MATCH"
  using reconcile_sound [of "Some stored_demo" "Some position_demo"]
  by (simp add: stored_demo_def position_demo_def)

end
