(* ===== verification/Depositor_Store.thy ===== *)
theory Depositor_Store
  imports Share_Math
begin

text \<open>
  \<open>src/src/vault/depositorStore.ts\<close>: the \<open>DepositorStore\<close> class, one definition per method in the
  order of the source, with the constraints of the schema (primary keys, \<open>UNIQUE\<close>, the foreign key
  of \<open>vault_shares\<close>) as the branches that throw. \<open>sqlSum\<close> is SQLite's \<open>SUM\<close> over the column values,
  whose rounding the program does not control; it is a parameter. The invariant of the store and
  the laws its clients rely on are in \<open>Store_Laws\<close>.
\<close>

section \<open>Users\<close>

record VaultUser =
  vu_telegramId :: int
  vu_role :: role
  vu_depositAddress :: string
  vu_totpEnrolledAt :: "int option"
  vu_totpLastUsedCounter :: "int option"
  vu_whitelistAddress :: "string option"
  vu_whitelistSetAt :: "int option"
  vu_disclaimerAt :: int
  vu_createdAt :: int

text \<open>Zero in \<open>totp_enrolled_at\<close> means "secret stored but not confirmed".\<close>

definition rowToUser :: "user_row \<Rightarrow> VaultUser" where
  "rowToUser r =
     \<lparr>vu_telegramId = u_telegram_id r, vu_role = u_role r, vu_depositAddress = u_deposit_address r,
      vu_totpEnrolledAt = (if u_totp_enrolled_at r = Some 0 then None else u_totp_enrolled_at r),
      vu_totpLastUsedCounter = u_totp_last_used_counter r,
      vu_whitelistAddress = u_whitelist_address r, vu_whitelistSetAt = u_whitelist_set_at r,
      vu_disclaimerAt = u_disclaimer_at r, vu_createdAt = u_created_at r\<rparr>"

definition findUserRow :: "int \<Rightarrow> db \<Rightarrow> user_row option" where
  "findUserRow tid d = find (\<lambda>r. u_telegram_id r = tid) (vault_users d)"

definition createUser ::
    "int \<Rightarrow> role \<Rightarrow> string \<Rightarrow> bytes \<Rightarrow> bytes \<Rightarrow> int \<Rightarrow> int \<Rightarrow> unit dbm" where
  "createUser telegramId role depositAddress secretEnc secretIv disclaimerAt createdAt d =
     (if list_ex (\<lambda>r. u_telegram_id r = telegramId) (vault_users d)
      then (Inl ''UNIQUE constraint failed: vault_users.telegram_id'', d)
      else if list_ex (\<lambda>r. u_deposit_address r = depositAddress) (vault_users d)
      then (Inl ''UNIQUE constraint failed: vault_users.deposit_address'', d)
      else (Inr (), d\<lparr>vault_users := vault_users d @
        [\<lparr>u_telegram_id = telegramId, u_role = role, u_deposit_address = depositAddress,
          u_deposit_secret_enc = secretEnc, u_deposit_secret_iv = secretIv,
          u_totp_secret_enc = None, u_totp_secret_iv = None, u_totp_enrolled_at = None,
          u_totp_last_used_counter = None, u_whitelist_address = None, u_whitelist_set_at = None,
          u_disclaimer_at = disclaimerAt, u_created_at = createdAt\<rparr>]\<rparr>))"

definition getUser :: "int \<Rightarrow> db \<Rightarrow> VaultUser option" where
  "getUser telegramId d = map_option rowToUser (findUserRow telegramId d)"

definition getUserByDepositAddress :: "string \<Rightarrow> db \<Rightarrow> VaultUser option" where
  "getUserByDepositAddress addr d =
     map_option rowToUser (find (\<lambda>r. u_deposit_address r = addr) (vault_users d))"

definition listUsers :: "db \<Rightarrow> VaultUser list" where
  "listUsers d = map rowToUser (sort_key u_created_at (vault_users d))"

record UserSecrets =
  us_depositSecretEnc :: bytes
  us_depositSecretIv :: bytes
  us_totpSecretEnc :: "bytes option"
  us_totpSecretIv :: "bytes option"

definition getUserSecrets :: "int \<Rightarrow> db \<Rightarrow> UserSecrets option" where
  "getUserSecrets telegramId d =
     map_option (\<lambda>r. \<lparr>us_depositSecretEnc = u_deposit_secret_enc r,
                       us_depositSecretIv = u_deposit_secret_iv r,
                       us_totpSecretEnc = u_totp_secret_enc r,
                       us_totpSecretIv = u_totp_secret_iv r\<rparr>)
       (findUserRow telegramId d)"

definition updateUser :: "int \<Rightarrow> (user_row \<Rightarrow> user_row) \<Rightarrow> db \<Rightarrow> db" where
  "updateUser tid f d =
     d\<lparr>vault_users := updateWhere (\<lambda>r. u_telegram_id r = tid) f (vault_users d)\<rparr>"

definition setTotp :: "int \<Rightarrow> bytes \<Rightarrow> bytes \<Rightarrow> int \<Rightarrow> db \<Rightarrow> db" where
  "setTotp telegramId secretEnc secretIv enrolledAt d =
     updateUser telegramId (\<lambda>r. r\<lparr>u_totp_secret_enc := Some secretEnc,
       u_totp_secret_iv := Some secretIv, u_totp_enrolled_at := Some enrolledAt\<rparr>) d"

definition setTotpLastCounter :: "int \<Rightarrow> int \<Rightarrow> db \<Rightarrow> db" where
  "setTotpLastCounter telegramId counter d =
     updateUser telegramId (\<lambda>r. r\<lparr>u_totp_last_used_counter := Some counter\<rparr>) d"

definition clearUserTotp :: "int \<Rightarrow> unit dbm" where
  "clearUserTotp telegramId d =
     (let d' = updateUser telegramId (\<lambda>r. r\<lparr>u_totp_secret_enc := None, u_totp_secret_iv := None,
                 u_totp_enrolled_at := None, u_totp_last_used_counter := None\<rparr>) d
      in if changes (\<lambda>r. u_telegram_id r = telegramId) (vault_users d) \<noteq> 1
         then (Inl (''clearUserTotp: no user with telegram_id='' @ bigToString telegramId), d')
         else (Inr (), d'))"

definition setWhitelistImmediate :: "int \<Rightarrow> string \<Rightarrow> int \<Rightarrow> db \<Rightarrow> db" where
  "setWhitelistImmediate telegramId address ts d =
     updateUser telegramId (\<lambda>r. r\<lparr>u_whitelist_address := Some address, u_whitelist_set_at := Some ts\<rparr>) d"

section \<open>Shares\<close>

definition findShares :: "int \<Rightarrow> db \<Rightarrow> rat option" where
  "findShares telegramId d =
     map_option s_shares (find (\<lambda>r. s_telegram_id r = telegramId) (vault_shares d))"

definition getShares :: "int \<Rightarrow> db \<Rightarrow> rat" where
  "getShares telegramId d = (case findShares telegramId d of None \<Rightarrow> 0 | Some x \<Rightarrow> x)"

definition addShares :: "int \<Rightarrow> rat \<Rightarrow> unit dbm" where
  "addShares telegramId delta d =
     (case findShares telegramId d of
        Some existing \<Rightarrow>
          (Inr (), d\<lparr>vault_shares := updateWhere (\<lambda>r. s_telegram_id r = telegramId)
                       (\<lambda>r. r\<lparr>s_shares := nadd existing delta\<rparr>) (vault_shares d)\<rparr>)
      | None \<Rightarrow>
          (if findUserRow telegramId d = None
           then (Inl ''FOREIGN KEY constraint failed'', d)
           else (Inr (), d\<lparr>vault_shares := vault_shares d @
                            [\<lparr>s_telegram_id = telegramId, s_shares = delta\<rparr>]\<rparr>)))"

definition totalShares :: "(rat list \<Rightarrow> rat) \<Rightarrow> db \<Rightarrow> rat" where
  "totalShares sqlSum d =
     (if vault_shares d = [] then 0 else sqlSum (map s_shares (vault_shares d)))"

section \<open>Deposits\<close>

definition insertDeposit :: "VaultDeposit \<Rightarrow> int dbm" where
  "insertDeposit args d =
     (if list_ex (\<lambda>r. d_inboundTxSig r = d_inboundTxSig args) (rows (vault_deposits d))
      then (Inl ''UNIQUE constraint failed: vault_deposits.inbound_tx_sig'', d)
      else (Inr (lastId (vault_deposits d) + 1),
            d\<lparr>vault_deposits := insertRow (\<lambda>i. args\<lparr>d_id := i\<rparr>) (vault_deposits d)\<rparr>))"

text \<open>The \<open>d_id\<close> field of the argument is ignored (\<open>Omit<VaultDeposit, 'id'>\<close>).\<close>

definition creditDeposit :: "VaultDeposit \<Rightarrow> int dbm" where
  "creditDeposit args =
     withTransaction
       (andThen (insertDeposit args)
          (\<lambda>i. andThen (addShares (d_telegramId args) (d_sharesMinted args)) (\<lambda>_. ret i)))"

definition hasDeposit :: "string \<Rightarrow> db \<Rightarrow> bool" where
  "hasDeposit inboundTxSig d \<longleftrightarrow>
     list_ex (\<lambda>r. d_inboundTxSig r = inboundTxSig) (rows (vault_deposits d))"

definition listDepositsForUser :: "int \<Rightarrow> db \<Rightarrow> VaultDeposit list" where
  "listDepositsForUser telegramId d =
     sort_key d_id (filter (\<lambda>r. d_telegramId r = telegramId) (rows (vault_deposits d)))"

section \<open>Withdrawals\<close>

definition updateWithdrawals ::
    "(VaultWithdrawal \<Rightarrow> bool) \<Rightarrow> (VaultWithdrawal \<Rightarrow> VaultWithdrawal) \<Rightarrow> db \<Rightarrow> db" where
  "updateWithdrawals P f d = d\<lparr>vault_withdrawals := updateRows P f (vault_withdrawals d)\<rparr>"

text \<open>Returns the new id and the database.\<close>

definition enqueueWithdrawal :: "int \<Rightarrow> string \<Rightarrow> rat \<Rightarrow> rat \<Rightarrow> int \<Rightarrow> db \<Rightarrow> int \<times> db" where
  "enqueueWithdrawal telegramId destination sharesBurned feeShares queuedAt d =
     (lastId (vault_withdrawals d) + 1,
      d\<lparr>vault_withdrawals := insertRow (\<lambda>i.
          \<lparr>w_id = i, w_telegramId = telegramId, w_status = Queued, w_destination = destination,
           w_sharesBurned = sharesBurned, w_feeShares = feeShares, w_navPerShareAt = None,
           w_solLamportsOut = None, w_bertRawOut = None, w_txSig = None, w_failureReason = None,
           w_queuedAt = queuedAt, w_processedAt = None\<rparr>) (vault_withdrawals d)\<rparr>)"

definition setWithdrawalProcessing :: "int \<Rightarrow> db \<Rightarrow> db" where
  "setWithdrawalProcessing i d =
     updateWithdrawals (\<lambda>w. w_id w = i \<and> w_status w = Queued) (\<lambda>w. w\<lparr>w_status := Processing\<rparr>) d"

definition markWithdrawalSent :: "int \<Rightarrow> string \<Rightarrow> unit dbm" where
  "markWithdrawalSent i txSig d =
     (let P = (\<lambda>w. w_id w = i \<and> w_txSig w = None);
          d' = updateWithdrawals P (\<lambda>w. w\<lparr>w_txSig := Some txSig\<rparr>) d
      in if changes P (rows (vault_withdrawals d)) \<noteq> 1
         then (Inl (''markWithdrawalSent: no row updated (id='' @ bigToString i @
                    '', tx_sig may already be populated)''), d')
         else (Inr (), d'))"

definition getWithdrawalById :: "int \<Rightarrow> db \<Rightarrow> VaultWithdrawal option" where
  "getWithdrawalById i d = find (\<lambda>w. w_id w = i) (rows (vault_withdrawals d))"

definition completeWithdrawal :: "int \<Rightarrow> string \<Rightarrow> int \<Rightarrow> int \<Rightarrow> rat \<Rightarrow> int \<Rightarrow> unit dbm" where
  "completeWithdrawal i txSig solLamportsOut bertRawOut navPerShareAt processedAt =
     withTransaction
       (andThen (gets (getWithdrawalById i))
          (\<lambda>w. case w of
             None \<Rightarrow> throw (''completeWithdrawal: id '' @ bigToString i @ '' not found'')
           | Some w \<Rightarrow>
               andThen (modify (updateWithdrawals (\<lambda>r. w_id r = i)
                   (\<lambda>r. r\<lparr>w_status := Completed, w_txSig := Some txSig,
                           w_solLamportsOut := Some solLamportsOut,
                           w_bertRawOut := Some bertRawOut,
                           w_navPerShareAt := Some navPerShareAt,
                           w_processedAt := Some processedAt\<rparr>)))
                 (\<lambda>_. addShares (w_telegramId w) (- w_sharesBurned w))))"

definition failWithdrawal :: "int \<Rightarrow> string \<Rightarrow> int \<Rightarrow> db \<Rightarrow> db" where
  "failWithdrawal i reason processedAt d =
     updateWithdrawals (\<lambda>w. w_id w = i)
       (\<lambda>w. w\<lparr>w_status := Failed, w_failureReason := Some reason, w_processedAt := Some processedAt\<rparr>) d"

definition listWithdrawalsByStatus :: "WithdrawalStatus \<Rightarrow> db \<Rightarrow> VaultWithdrawal list" where
  "listWithdrawalsByStatus status d =
     sort_key w_id (filter (\<lambda>w. w_status w = status) (rows (vault_withdrawals d)))"

fun showStatus :: "WithdrawalStatus \<Rightarrow> string" where
  "showStatus Queued = ''queued''"
| "showStatus Processing = ''processing''"
| "showStatus Completed = ''completed''"
| "showStatus Failed = ''failed''"

definition requeueFailedWithdrawal :: "int \<Rightarrow> unit dbm" where
  "requeueFailedWithdrawal i d =
     (case getWithdrawalById i d of
        None \<Rightarrow> (Inl (''requeueFailedWithdrawal: id '' @ bigToString i @ '' not found''), d)
      | Some row \<Rightarrow>
          if w_status row \<noteq> Failed
          then (Inl (''requeueFailedWithdrawal: id '' @ bigToString i @ '' is in status '' @ [CHR 0x27] @
                      showStatus (w_status row) @ [CHR 0x27] @ '', not '' @ [CHR 0x27] @ ''failed'' @ [CHR 0x27]), d)
          else if truthy (w_txSig row)
          then (Inl (''requeueFailedWithdrawal: id '' @ bigToString i @
                      '' has tx_sig populated - funds may already be on-chain. Refusing to requeue.''), d)
          else (Inr (), updateWithdrawals (\<lambda>w. w_id w = i)
                  (\<lambda>w. w\<lparr>w_status := Queued, w_failureReason := None, w_processedAt := None\<rparr>) d))"

definition MS_24H :: int where
  "MS_24H = 24 * 3600 * 1000"

text \<open>\<open>COALESCE(SUM(...), 0)\<close> over the selected rows; a row whose \<open>nav_per_share_at\<close> is null
  contributes a null, which \<open>SUM\<close> skips.\<close>

definition sqlSum0 :: "(rat list \<Rightarrow> rat) \<Rightarrow> rat list \<Rightarrow> rat" where
  "sqlSum0 sqlSum xs = (if xs = [] then 0 else sqlSum xs)"

definition sumCompletedWithdrawalUsdLast24h :: "(rat list \<Rightarrow> rat) \<Rightarrow> int \<Rightarrow> int \<Rightarrow> db \<Rightarrow> rat" where
  "sumCompletedWithdrawalUsdLast24h sqlSum telegramId nowMs d =
     sqlSum0 sqlSum
       (List.map_filter (\<lambda>w.
          if w_telegramId w = telegramId \<and> w_status w = Completed \<and>
             (case w_processedAt w of None \<Rightarrow> False | Some t \<Rightarrow> nowMs - MS_24H \<le> t)
          then map_option (nmul (nsub (w_sharesBurned w) (w_feeShares w))) (w_navPerShareAt w)
          else None) (rows (vault_withdrawals d)))"

definition countPendingWithdrawals :: "db \<Rightarrow> nat" where
  "countPendingWithdrawals d =
     length (filter (\<lambda>w. w_status w = Queued \<or> w_status w = Processing) (rows (vault_withdrawals d)))"

definition countsTowardsCap :: "int \<Rightarrow> int \<Rightarrow> VaultWithdrawal \<Rightarrow> bool" where
  "countsTowardsCap telegramId nowMs w \<longleftrightarrow>
     w_telegramId w = telegramId \<and>
     (w_status w = Queued \<or> w_status w = Processing \<or> w_status w = Completed) \<and>
     nowMs - MS_24H \<le> w_queuedAt w"

definition countUserWithdrawalsLast24h :: "int \<Rightarrow> int \<Rightarrow> db \<Rightarrow> nat" where
  "countUserWithdrawalsLast24h telegramId nowMs d =
     length (filter (countsTowardsCap telegramId nowMs) (rows (vault_withdrawals d)))"

definition latestNavSnapshot :: "db \<Rightarrow> NavSnapshotRow option" where
  "latestNavSnapshot d =
     (case rev (sort_key n_ts (vault_nav_snapshots d)) of [] \<Rightarrow> None | r # _ \<Rightarrow> Some r)"

definition sumUserWithdrawalUsdLast24h :: "(rat list \<Rightarrow> rat) \<Rightarrow> int \<Rightarrow> int \<Rightarrow> db \<Rightarrow> rat" where
  "sumUserWithdrawalUsdLast24h sqlSum telegramId nowMs d =
     sqlSum0 sqlSum
       (map (\<lambda>w. nmul (nsub (w_sharesBurned w) (w_feeShares w))
               (case w_navPerShareAt w of
                  Some n \<Rightarrow> n
                | None \<Rightarrow> (case latestNavSnapshot d of Some s \<Rightarrow> n_navPerShare s | None \<Rightarrow> 1)))
          (filter (countsTowardsCap telegramId nowMs) (rows (vault_withdrawals d))))"

section \<open>Whitelist changes\<close>

definition enqueueWhitelistChange ::
    "int \<Rightarrow> string option \<Rightarrow> string \<Rightarrow> int \<Rightarrow> int \<Rightarrow> ChangeStatus \<Rightarrow> db \<Rightarrow> int \<times> db" where
  "enqueueWhitelistChange telegramId oldAddress newAddress requestedAt activatesAt initialStatus d =
     (lastId (vault_pending_whitelist_changes d) + 1,
      d\<lparr>vault_pending_whitelist_changes := insertRow (\<lambda>i.
          \<lparr>c_id = i, c_telegramId = telegramId, c_oldAddress = oldAddress, c_newAddress = newAddress,
           c_requestedAt = requestedAt, c_activatesAt = activatesAt, c_status = initialStatus,
           c_cancelReason = None\<rparr>) (vault_pending_whitelist_changes d)\<rparr>)"

definition listDueWhitelistChanges :: "int \<Rightarrow> db \<Rightarrow> PendingWhitelistChange list" where
  "listDueWhitelistChanges nowMs d =
     sort_key c_activatesAt
       (filter (\<lambda>c. c_status c = Pending \<and> c_activatesAt c \<le> nowMs)
          (rows (vault_pending_whitelist_changes d)))"

definition mostRecentPendingChange :: "int \<Rightarrow> db \<Rightarrow> PendingWhitelistChange option" where
  "mostRecentPendingChange telegramId d =
     (case rev (sort_key c_requestedAt
             (filter (\<lambda>c. c_telegramId c = telegramId \<and> c_status c = Pending)
                (rows (vault_pending_whitelist_changes d)))) of
        [] \<Rightarrow> None | c # _ \<Rightarrow> Some c)"

definition updateChange ::
    "int \<Rightarrow> (PendingWhitelistChange \<Rightarrow> PendingWhitelistChange) \<Rightarrow> db \<Rightarrow> db" where
  "updateChange i f d =
     d\<lparr>vault_pending_whitelist_changes :=
         updateRows (\<lambda>c. c_id c = i) f (vault_pending_whitelist_changes d)\<rparr>"

definition markWhitelistActivated :: "int \<Rightarrow> db \<Rightarrow> db" where
  "markWhitelistActivated i d = updateChange i (\<lambda>c. c\<lparr>c_status := Activated\<rparr>) d"

definition cancelPendingWhitelist :: "int \<Rightarrow> string \<Rightarrow> db \<Rightarrow> db" where
  "cancelPendingWhitelist i reason d =
     updateChange i (\<lambda>c. c\<lparr>c_status := Cancelled, c_cancelReason := Some reason\<rparr>) d"

definition countPendingWhitelistChanges :: "db \<Rightarrow> nat" where
  "countPendingWhitelistChanges d =
     length (filter (\<lambda>c. c_status c = Pending) (rows (vault_pending_whitelist_changes d)))"

section \<open>NAV snapshots and audit log\<close>

definition insertNavSnapshot :: "NavSnapshotRow \<Rightarrow> db \<Rightarrow> db" where
  "insertNavSnapshot row d =
     d\<lparr>vault_nav_snapshots :=
         (if list_ex (\<lambda>r. n_ts r = n_ts row) (vault_nav_snapshots d)
          then updateWhere (\<lambda>r. n_ts r = n_ts row) (\<lambda>_. row) (vault_nav_snapshots d)
          else vault_nav_snapshots d @ [row])\<rparr>"

definition navSnapshotAtOrBefore :: "int \<Rightarrow> db \<Rightarrow> NavSnapshotRow option" where
  "navSnapshotAtOrBefore ts d =
     (case rev (sort_key n_ts (filter (\<lambda>r. n_ts r \<le> ts) (vault_nav_snapshots d))) of
        [] \<Rightarrow> None | r # _ \<Rightarrow> Some r)"

definition writeAudit :: "int \<Rightarrow> int option \<Rightarrow> string \<Rightarrow> json \<Rightarrow> db \<Rightarrow> db" where
  "writeAudit ts telegramId event details d =
     d\<lparr>vault_audit_log := insertRow (\<lambda>i.
         \<lparr>a_id = i, a_ts = ts, a_telegram_id = telegramId, a_event = event, a_details = details\<rparr>)
         (vault_audit_log d)\<rparr>"

definition listAudit :: "int \<Rightarrow> nat \<Rightarrow> db \<Rightarrow> audit_row list" where
  "listAudit sinceTs limit d =
     take limit (rev (sort_key a_ts (filter (\<lambda>r. sinceTs \<le> a_ts r) (rows (vault_audit_log d)))))"

definition listRecentAuditEvents :: "nat \<Rightarrow> db \<Rightarrow> audit_row list" where
  "listRecentAuditEvents limit d = take limit (rev (sort_key a_ts (rows (vault_audit_log d))))"

end
