(* ===== verification/Store_Laws.thy ===== *)
theory Store_Laws
  imports Depositor_Store
begin

text \<open>
  The invariant \<open>store_wf\<close> of the database and that every operation of the two stores keeps it, and
  the two contracts the rest of the program relies on, each a locale interpreted on the operations
  of \<open>Depositor_Store\<close>: \<open>share_ledger\<close> (what a balance is after a sequence of postings) and
  \<open>payout_rows\<close> (the life of a withdrawal row, and which rows may be paid again).
\<close>

section \<open>The invariant\<close>

definition users_wf :: "user_row list \<Rightarrow> bool" where
  "users_wf us \<longleftrightarrow> distinct (map u_telegram_id us) \<and> distinct (map u_deposit_address us)"

definition shares_wf :: "user_row list \<Rightarrow> share_row list \<Rightarrow> bool" where
  "shares_wf us ss \<longleftrightarrow> distinct (map s_telegram_id ss) \<and>
     set (map s_telegram_id ss) \<subseteq> set (map u_telegram_id us) \<and> (\<forall>s\<in>set ss. is_double (s_shares s))"

definition deposits_wf :: "VaultDeposit table \<Rightarrow> bool" where
  "deposits_wf t \<longleftrightarrow> wfTable d_id t \<and> distinct (map d_inboundTxSig (rows t))"

text \<open>A row that waits or has failed carries no signature, and a completed row carries one.\<close>

definition row_ok :: "VaultWithdrawal \<Rightarrow> bool" where
  "row_ok w \<longleftrightarrow> is_double (w_sharesBurned w) \<and>
     (w_status w = Queued \<or> w_status w = Failed \<longrightarrow> w_txSig w = None) \<and>
     (w_status w = Completed \<longrightarrow> w_txSig w \<noteq> None)"

definition withdrawals_wf :: "user_row list \<Rightarrow> VaultWithdrawal table \<Rightarrow> bool" where
  "withdrawals_wf us t \<longleftrightarrow> wfTable w_id t \<and>
     (\<forall>w\<in>set (rows t). row_ok w \<and> w_telegramId w \<in> u_telegram_id ` set us)"

definition store_wf :: "db \<Rightarrow> bool" where
  "store_wf d \<longleftrightarrow> users_wf (vault_users d) \<and> shares_wf (vault_users d) (vault_shares d) \<and>
     deposits_wf (vault_deposits d) \<and> withdrawals_wf (vault_users d) (vault_withdrawals d) \<and>
     wfTable c_id (vault_pending_whitelist_changes d) \<and> wfTable a_id (vault_audit_log d)"

lemmas wf_defs = users_wf_def shares_wf_def deposits_wf_def withdrawals_wf_def store_wf_def

lemma store_wfD:
  assumes "store_wf d"
  shows "distinct (map u_telegram_id (vault_users d))" "distinct (map s_telegram_id (vault_shares d))"
    "wfTable w_id (vault_withdrawals d)" "distinct (map w_id (rows (vault_withdrawals d)))"
    "wfTable d_id (vault_deposits d)" "distinct (map d_inboundTxSig (rows (vault_deposits d)))"
    "wfTable c_id (vault_pending_whitelist_changes d)" "wfTable a_id (vault_audit_log d)"
  using assms by (auto simp: wf_defs wfTable_distinct)

lemma store_wf_init: "store_wf init_db"
  by (simp add: wf_defs init_db_def wfTable_empty) (simp add: emptyTable_def)

section \<open>Reads after writes\<close>

text \<open>The operations that only touch the flags, the position, the logs or the NAV snapshots leave
  the vault tables alone.\<close>

lemmas aux_defs = setCurrentPosition_def clearCurrentPosition_def recordRebalance_def setFlag_def
  setDegraded_def recordOperatorAction_def insertNavSnapshot_def

lemma store_wf_aux [simp]:
  "store_wf (setCurrentPosition p d) = store_wf d" "store_wf (clearCurrentPosition d) = store_wf d"
  "store_wf (recordRebalance r d) = store_wf d" "store_wf (setFlag now k v rs d) = store_wf d"
  "store_wf (setDegraded now b rs2 d) = store_wf d" "store_wf (recordOperatorAction a d) = store_wf d"
  "store_wf (insertNavSnapshot row d) = store_wf d"
  by (simp_all add: store_wf_def aux_defs)

lemma store_wf_writeAudit [simp, intro]: "store_wf d \<Longrightarrow> store_wf (writeAudit ts tid ev det d)"
  by (simp add: store_wf_def writeAudit_def wfTable_insertRow)

lemma updateUser_ids:
  assumes "\<And>r. u_telegram_id (f r) = u_telegram_id r"
  shows "map u_telegram_id (vault_users (updateUser tid f d)) = map u_telegram_id (vault_users d)"
    and "findUserRow t (updateUser tid f d) =
      map_option (\<lambda>r. if u_telegram_id r = tid then f r else r) (findUserRow t d)"
  using assms by (simp_all add: updateUser_def map_key_updateWhere findUserRow_def find_updateWhere)

lemma store_wf_updateUser:
  assumes "\<And>r. u_telegram_id (f r) = u_telegram_id r" "\<And>r. u_deposit_address (f r) = u_deposit_address r"
    "store_wf d"
  shows "store_wf (updateUser tid f d)"
proof -
  have m: "map u_telegram_id (updateWhere P f us) = map u_telegram_id us"
    "map u_deposit_address (updateWhere P f us) = map u_deposit_address us" for P us
    using assms by (auto simp: updateWhere_def)
  then have "u_telegram_id ` set (updateWhere P f us) = u_telegram_id ` set us" for P us
    by (metis list.set_map)
  with assms(3) m show ?thesis by (simp add: wf_defs updateUser_def)
qed

lemmas user_update_defs = setTotp_def setTotpLastCounter_def setWhitelistImmediate_def

lemma store_wf_user_updates [intro]:
  assumes "store_wf d"
  shows "store_wf (setTotp tid e iv t d)" "store_wf (setTotpLastCounter tid c d)"
    "store_wf (setWhitelistImmediate tid a t d)" "store_wf (snd (clearUserTotp tid d))"
  using assms by (auto simp: user_update_defs clearUserTotp_def Let_def intro!: store_wf_updateUser)

lemma store_wf_createUser [intro]:
  assumes "store_wf d" shows "store_wf (snd (createUser tid r a e iv t c d))"
  using assms
  by (auto simp: createUser_def wf_defs list_ex_iff)

lemma store_wf_enqueueWhitelistChange [simp, intro]:
  "store_wf d \<Longrightarrow> store_wf (snd (enqueueWhitelistChange tid oa na t ta st d))"
  by (simp add: store_wf_def enqueueWhitelistChange_def wfTable_insertRow)

lemma store_wf_updateChange:
  "(\<And>c. c_id (f c) = c_id c) \<Longrightarrow> store_wf d \<Longrightarrow> store_wf (updateChange i f d)"
  by (simp add: store_wf_def updateChange_def wfTable_updateRows)

lemma store_wf_changes [simp, intro]:
  "store_wf d \<Longrightarrow> store_wf (markWhitelistActivated i d)"
  "store_wf d \<Longrightarrow> store_wf (cancelPendingWhitelist i r d)"
  by (simp_all add: markWhitelistActivated_def cancelPendingWhitelist_def store_wf_updateChange)

section \<open>Shares\<close>

lemma findShares_None: "findShares tid d = None \<longleftrightarrow> tid \<notin> set (map s_telegram_id (vault_shares d))"
  by (auto simp: findShares_def find_None_iff_ball)

lemma findUserRow_None: "findUserRow tid d = None \<longleftrightarrow> tid \<notin> set (map u_telegram_id (vault_users d))"
  by (auto simp: findUserRow_def find_None_iff_ball)

lemma findUserRow_Some:
  "findUserRow tid d = Some r \<Longrightarrow> r \<in> set (vault_users d) \<and> u_telegram_id r = tid"
  by (auto simp: findUserRow_def dest: find_SomeD)

lemma getUser_None: "getUser tid d = None \<longleftrightarrow> findUserRow tid d = None"
  by (simp add: getUser_def)

text \<open>A posting succeeds for every user, and throws only for a user that does not exist.\<close>

lemma addShares_ok:
  assumes "findUserRow tid d \<noteq> None" shows "fst (addShares tid \<delta> d) = Inr ()"
  using assms by (simp add: addShares_def split: option.splits)

lemma addShares_users [simp]: "vault_users (snd (addShares tid \<delta> d)) = vault_users d"
  by (simp add: addShares_def split: option.splits)

lemma addShares_frame [simp]:
  "vault_withdrawals (snd (addShares tid \<delta> d)) = vault_withdrawals d"
  "vault_deposits (snd (addShares tid \<delta> d)) = vault_deposits d"
  "vault_audit_log (snd (addShares tid \<delta> d)) = vault_audit_log d"
  "vault_pending_whitelist_changes (snd (addShares tid \<delta> d)) = vault_pending_whitelist_changes d"
  "flags (snd (addShares tid \<delta> d)) = flags d"
  by (simp_all add: addShares_def split: option.splits)

lemma addShares_getShares:
  assumes "is_double \<delta>" "fst (addShares tid \<delta> d) = Inr ()"
  shows "getShares v (snd (addShares tid \<delta> d)) = (if v = tid then nadd (getShares tid d) \<delta> else getShares v d)"
proof (cases "findShares tid d")
  case None
  then have "findShares v (snd (addShares tid \<delta> d)) = (if v = tid then Some \<delta> else findShares v d)"
    using assms(2) by (auto simp: addShares_def findShares_def find_append split: option.splits)
  moreover have "nadd 0 \<delta> = \<delta>" using assms(1) by (simp add: nadd_def is_double_def)
  ultimately show ?thesis using None by (simp add: getShares_def)
next
  case (Some x)
  then have "findShares v (snd (addShares tid \<delta> d)) = (if v = tid then Some (nadd x \<delta>) else findShares v d)"
    by (cases "find (\<lambda>r. s_telegram_id r = v) (vault_shares d)")
      (auto simp: addShares_def findShares_def find_updateWhere dest: find_SomeD)
  with Some show ?thesis by (simp add: getShares_def)
qed

lemma shares_wf_addShares:
  assumes "shares_wf (vault_users d) (vault_shares d)" "is_double \<delta>"
  shows "shares_wf (vault_users d) (vault_shares (snd (addShares tid \<delta> d)))"
proof (cases "findShares tid d")
  case None
  with assms show ?thesis
    by (auto simp: addShares_def shares_wf_def findUserRow_None)
      (auto simp: findShares_None)
next
  case (Some x)
  let ?ss = "updateWhere (\<lambda>r. s_telegram_id r = tid) (\<lambda>r. r\<lparr>s_shares := nadd x \<delta>\<rparr>) (vault_shares d)"
  have m: "map s_telegram_id ?ss = map s_telegram_id (vault_shares d)" by (auto simp: updateWhere_def)
  have "shares_wf (vault_users d) ?ss"
    using assms(1) unfolding shares_wf_def m by (auto simp: in_updateWhere is_double_ops)
  with Some show ?thesis by (simp add: addShares_def)
qed

lemma store_wf_addShares [intro]:
  "store_wf d \<Longrightarrow> is_double \<delta> \<Longrightarrow> store_wf (snd (addShares tid \<delta> d))"
  using shares_wf_addShares [of d \<delta> tid] by (simp add: store_wf_def)

lemma getShares_double: "store_wf d \<Longrightarrow> is_double (getShares tid d)"
  by (auto simp: getShares_def findShares_def wf_defs is_double_def dest: find_SomeD split: option.splits)

text \<open>The contract of a share ledger: a posting for a holder succeeds, changes no other balance, and
  adds to the holder's own balance in double arithmetic.\<close>

locale share_ledger =
  fixes bal :: "'s \<Rightarrow> int \<Rightarrow> rat"
    and post :: "int \<Rightarrow> rat \<Rightarrow> 's \<Rightarrow> unit result \<times> 's"
    and holder :: "'s \<Rightarrow> int \<Rightarrow> bool"
  assumes post_ok: "holder s u \<Longrightarrow> fst (post u \<delta> s) = Inr ()"
    and post_holder: "holder (snd (post u \<delta> s)) v \<longleftrightarrow> holder s v"
    and post_bal: "is_double \<delta> \<Longrightarrow> fst (post u \<delta> s) = Inr () \<Longrightarrow>
      bal (snd (post u \<delta> s)) v = (if v = u then nadd (bal s u) \<delta> else bal s v)"
begin

text \<open>A sequence of postings leaves each holder with the sum of his own postings, in their order.\<close>

lemma replay:
  assumes "\<forall>p\<in>set ps. holder s (fst p) \<and> is_double (snd p)"
  shows "bal (fold (\<lambda>p s. snd (post (fst p) (snd p) s)) ps s) v
    = foldl nadd (bal s v) (map snd (filter (\<lambda>p. fst p = v) ps))"
  using assms
proof (induction ps arbitrary: s)
  case (Cons p ps)
  let ?s = "snd (post (fst p) (snd p) s)"
  have "bal ?s v = (if v = fst p then nadd (bal s v) (snd p) else bal s v)"
    using Cons.prems post_bal [of "snd p" "fst p" s v] post_ok [of s "fst p"] by auto
  with Cons.IH [of ?s] Cons.prems show ?case by (auto simp: post_holder)
qed simp

end

interpretation ledger: share_ledger "\<lambda>d u. getShares u d" addShares "\<lambda>d u. findUserRow u d \<noteq> None"
proof unfold_locales
  fix s u \<delta> v
  show "findUserRow u s \<noteq> None \<Longrightarrow> fst (addShares u \<delta> s) = Inr ()" by (rule addShares_ok)
  show "(findUserRow v (snd (addShares u \<delta> s)) \<noteq> None) = (findUserRow v s \<noteq> None)"
    by (simp add: findUserRow_def)
  show "is_double \<delta> \<Longrightarrow> fst (addShares u \<delta> s) = Inr () \<Longrightarrow> getShares v (snd (addShares u \<delta> s)) =
      (if v = u then nadd (getShares u s) \<delta> else getShares v s)"
    by (rule addShares_getShares)
qed

section \<open>Deposits\<close>

lemma hasDeposit_iff: "hasDeposit sig d \<longleftrightarrow> sig \<in> d_inboundTxSig ` set (rows (vault_deposits d))"
  by (auto simp: hasDeposit_def list_ex_iff)

text \<open>What \<open>creditDeposit\<close> does, case by case: a signature seen before and a missing user throw, and
  nothing is written; otherwise the row is added and the shares are posted.\<close>

lemma creditDeposit_dup:
  assumes "hasDeposit (d_inboundTxSig args) d"
  shows "creditDeposit args d = (Inl ''UNIQUE constraint failed: vault_deposits.inbound_tx_sig'', d)"
  using assms
  by (simp add: creditDeposit_def withTransaction_def hasDeposit_def insertDeposit_def exn_simps)

lemma creditDeposit_no_user:
  assumes "\<not> hasDeposit (d_inboundTxSig args) d" "findUserRow (d_telegramId args) d = None"
    "findShares (d_telegramId args) d = None"
  shows "creditDeposit args d = (Inl ''FOREIGN KEY constraint failed'', d)"
  using assms
  by (simp add: creditDeposit_def withTransaction_def hasDeposit_def insertDeposit_def exn_simps
      addShares_def findUserRow_def findShares_def)

lemma creditDeposit_ok:
  assumes "\<not> hasDeposit (d_inboundTxSig args) d" "findUserRow (d_telegramId args) d \<noteq> None"
  defines "d1 \<equiv> d\<lparr>vault_deposits := insertRow (\<lambda>i. args\<lparr>d_id := i\<rparr>) (vault_deposits d)\<rparr>"
  shows "creditDeposit args d =
    (Inr (lastId (vault_deposits d) + 1), snd (addShares (d_telegramId args) (d_sharesMinted args) d1))"
proof -
  have "fst (addShares (d_telegramId args) (d_sharesMinted args) d1) = Inr ()"
    using assms(2) by (intro addShares_ok) (simp add: d1_def findUserRow_def)
  then show ?thesis
    using assms(1)
    by (cases "addShares (d_telegramId args) (d_sharesMinted args) d1")
      (simp add: creditDeposit_def withTransaction_def hasDeposit_def insertDeposit_def exn_simps
        d1_def)
qed

lemma creditDeposit_cases:
  assumes "store_wf d"
  obtains (dup) "hasDeposit (d_inboundTxSig args) d" "\<exists>e. creditDeposit args d = (Inl e, d)"
  | (no_user) "findUserRow (d_telegramId args) d = None" "\<exists>e. creditDeposit args d = (Inl e, d)"
  | (ok) "\<not> hasDeposit (d_inboundTxSig args) d" "findUserRow (d_telegramId args) d \<noteq> None"
proof -
  have "findUserRow u d = None \<Longrightarrow> findShares u d = None" for u
    using assms by (auto simp: findUserRow_None findShares_None wf_defs)
  with that show ?thesis using creditDeposit_dup creditDeposit_no_user by blast
qed

lemma store_wf_insertDeposit:
  assumes "store_wf d" "\<not> hasDeposit (d_inboundTxSig args) d"
  shows "store_wf (d\<lparr>vault_deposits := insertRow (\<lambda>i. args\<lparr>d_id := i\<rparr>) (vault_deposits d)\<rparr>)"
  using assms by (simp add: wf_defs hasDeposit_iff wfTable_insertRow table_simps)

lemma store_wf_creditDeposit [intro]:
  assumes "store_wf d" "is_double (d_sharesMinted args)"
  shows "store_wf (snd (creditDeposit args d))"
  using assms(1)
proof (cases rule: creditDeposit_cases [where args = args])
  case ok
  then show ?thesis using assms by (simp add: creditDeposit_ok store_wf_addShares store_wf_insertDeposit)
qed (use assms in auto)

section \<open>Withdrawals\<close>

lemma getWithdrawalById_Some:
  "getWithdrawalById i d = Some w \<Longrightarrow> w \<in> set (rows (vault_withdrawals d)) \<and> w_id w = i"
  by (auto simp: getWithdrawalById_def dest: find_SomeD)

lemma getWithdrawalById_in:
  "store_wf d \<Longrightarrow> w \<in> set (rows (vault_withdrawals d)) \<Longrightarrow> getWithdrawalById (w_id w) d = Some w"
  by (simp add: getWithdrawalById_def find_key_in store_wfD)

lemma withdrawal_row_ok: "store_wf d \<Longrightarrow> getWithdrawalById i d = Some w \<Longrightarrow> row_ok w"
  by (auto simp: wf_defs dest: getWithdrawalById_Some)

lemma withdrawal_user:
  "store_wf d \<Longrightarrow> getWithdrawalById i d = Some w \<Longrightarrow> findUserRow (w_telegramId w) d \<noteq> None"
  by (auto simp: wf_defs findUserRow_None dest: getWithdrawalById_Some)

lemma getWithdrawalById_update:
  assumes "\<And>w. w_id (f w) = w_id w"
  shows "getWithdrawalById j (updateWithdrawals P f d) =
    map_option (\<lambda>w. if P w then f w else w) (getWithdrawalById j d)"
  using assms by (simp add: getWithdrawalById_def updateWithdrawals_def table_simps find_updateWhere)

lemma updateWithdrawals_frame [simp]:
  "vault_users (updateWithdrawals P f d) = vault_users d"
  "vault_shares (updateWithdrawals P f d) = vault_shares d"
  "vault_deposits (updateWithdrawals P f d) = vault_deposits d"
  "vault_audit_log (updateWithdrawals P f d) = vault_audit_log d"
  "vault_pending_whitelist_changes (updateWithdrawals P f d) = vault_pending_whitelist_changes d"
  "flags (updateWithdrawals P f d) = flags d"
  by (simp_all add: updateWithdrawals_def)

text \<open>An update keeps the invariant when it keeps the key and the owner of every row it touches and
  leaves them in order.\<close>

lemma store_wf_updateWithdrawals:
  assumes "store_wf d" "\<And>w. w_id (f w) = w_id w" "\<And>w. w_telegramId (f w) = w_telegramId w"
    "\<And>w. w \<in> set (rows (vault_withdrawals d)) \<Longrightarrow> P w \<Longrightarrow> row_ok w \<Longrightarrow> row_ok (f w)"
  shows "store_wf (updateWithdrawals P f d)"
proof -
  have "withdrawals_wf (vault_users d) (updateRows P f (vault_withdrawals d))"
    using assms unfolding withdrawals_wf_def
    by (auto simp: wf_defs wfTable_updateRows table_simps in_updateWhere split: if_splits)
  with assms(1) show ?thesis by (simp add: store_wf_def) (simp add: updateWithdrawals_def)
qed

lemma enqueueWithdrawal_frame [simp]:
  "vault_users (snd (enqueueWithdrawal tid dst sb fs q d)) = vault_users d"
  "vault_shares (snd (enqueueWithdrawal tid dst sb fs q d)) = vault_shares d"
  "vault_deposits (snd (enqueueWithdrawal tid dst sb fs q d)) = vault_deposits d"
  "vault_audit_log (snd (enqueueWithdrawal tid dst sb fs q d)) = vault_audit_log d"
  by (simp_all add: enqueueWithdrawal_def)

lemma store_wf_enqueueWithdrawal [intro]:
  assumes "store_wf d" "is_double sb" "findUserRow tid d \<noteq> None"
  shows "store_wf (snd (enqueueWithdrawal tid dst sb fs q d))"
  using assms
  by (auto simp: wf_defs enqueueWithdrawal_def wfTable_insertRow table_simps row_ok_def findUserRow_None)

lemma getWithdrawalById_enqueue:
  assumes "store_wf d"
  shows "getWithdrawalById j (snd (enqueueWithdrawal tid dst sb fs q d)) =
    (if j = fst (enqueueWithdrawal tid dst sb fs q d)
     then Some \<lparr>w_id = j, w_telegramId = tid, w_status = Queued, w_destination = dst, w_sharesBurned = sb,
       w_feeShares = fs, w_navPerShareAt = None, w_solLamportsOut = None, w_bertRawOut = None,
       w_txSig = None, w_failureReason = None, w_queuedAt = q, w_processedAt = None\<rparr>
     else getWithdrawalById j d)"
proof -
  have "find (\<lambda>w. w_id w = lastId (vault_withdrawals d) + 1) (rows (vault_withdrawals d)) = None"
    using store_wfD(3) [OF assms] by (auto simp: wfTable_def find_None_iff_ball)
  then show ?thesis
    by (auto simp: getWithdrawalById_def enqueueWithdrawal_def table_simps find_append split: option.splits)
qed

lemma store_wf_withdrawal_ops [intro]:
  assumes "store_wf d"
  shows "store_wf (setWithdrawalProcessing i d)"
    and "(\<And>w. getWithdrawalById i d = Some w \<Longrightarrow> w_txSig w = None) \<Longrightarrow> store_wf (failWithdrawal i r t d)"
    and "(\<And>w. getWithdrawalById i d = Some w \<Longrightarrow> w_status w = Processing \<or> w_status w = Completed)
      \<Longrightarrow> store_wf (snd (markWithdrawalSent i g d))"
  using assms getWithdrawalById_in [OF assms]
  by (auto simp: setWithdrawalProcessing_def failWithdrawal_def markWithdrawalSent_def Let_def row_ok_def
      intro!: store_wf_updateWithdrawals)

lemma requeue_cases:
  obtains (refused) e where "requeueFailedWithdrawal i d = (Inl e, d)"
  | (requeued) w where "getWithdrawalById i d = Some w" "w_status w = Failed" "\<not> truthy (w_txSig w)"
    "requeueFailedWithdrawal i d = (Inr (), updateWithdrawals (\<lambda>w. w_id w = i)
       (\<lambda>w. w\<lparr>w_status := Queued, w_failureReason := None, w_processedAt := None\<rparr>) d)"
proof (cases "getWithdrawalById i d")
  case None
  then show ?thesis by (intro refused) (simp add: requeueFailedWithdrawal_def)
next
  case (Some w)
  show ?thesis
  proof (cases "w_status w = Failed \<and> \<not> truthy (w_txSig w)")
    case True
    with Some show ?thesis by (intro requeued [of w]) (simp_all add: requeueFailedWithdrawal_def)
  next
    case False
    with Some have "\<exists>e. requeueFailedWithdrawal i d = (Inl e, d)"
      by (cases "w_status w = Failed") (simp_all add: requeueFailedWithdrawal_def)
    with refused show ?thesis by blast
  qed
qed

lemma store_wf_requeue [intro]:
  assumes "store_wf d" shows "store_wf (snd (requeueFailedWithdrawal i d))"
proof (cases rule: requeue_cases [of i d])
  case (requeued w)
  then show ?thesis
    using assms getWithdrawalById_in [OF assms]
    by (auto simp: row_ok_def intro!: store_wf_updateWithdrawals)
qed (use assms in simp)

lemma changes_unsent:
  assumes "store_wf d"
  shows "changes (\<lambda>w. w_id w = i \<and> w_txSig w = None) (rows (vault_withdrawals d)) =
    (case getWithdrawalById i d of Some w \<Rightarrow> if w_txSig w = None then 1 else 0 | None \<Rightarrow> 0)"
  using changes_key [OF store_wfD(4) [OF assms], of i "\<lambda>w. w_txSig w = None"]
  by (simp add: getWithdrawalById_def)

text \<open>\<open>markWithdrawalSent\<close> succeeds exactly once per row.\<close>

lemma markWithdrawalSent_ok_iff:
  assumes "store_wf d"
  shows "fst (markWithdrawalSent i g d) = Inr () \<longleftrightarrow> (\<exists>w. getWithdrawalById i d = Some w \<and> w_txSig w = None)"
  using assms by (auto simp: markWithdrawalSent_def Let_def changes_unsent split: option.splits)

lemma completeWithdrawal_none:
  "getWithdrawalById i d = None \<Longrightarrow> \<exists>e. completeWithdrawal i g s b n t d = (Inl e, d)"
  by (simp add: completeWithdrawal_def withTransaction_def exn_simps)

definition completedRow :: "string \<Rightarrow> int \<Rightarrow> int \<Rightarrow> rat \<Rightarrow> int \<Rightarrow> VaultWithdrawal \<Rightarrow> VaultWithdrawal" where
  "completedRow g s b n t r = r\<lparr>w_status := Completed, w_txSig := Some g, w_solLamportsOut := Some s,
     w_bertRawOut := Some b, w_navPerShareAt := Some n, w_processedAt := Some t\<rparr>"

text \<open>On a row of the store the completion never throws: the row is completed and its shares are
  burned, both or neither.\<close>

lemma completeWithdrawal_ok:
  assumes "store_wf d" "getWithdrawalById i d = Some w"
  shows "completeWithdrawal i g s b n t d = (Inr (), snd (addShares (w_telegramId w) (- w_sharesBurned w)
    (updateWithdrawals (\<lambda>r. w_id r = i) (completedRow g s b n t) d)))"
proof -
  let ?d = "updateWithdrawals (\<lambda>r. w_id r = i) (completedRow g s b n t) d"
  have "findUserRow (w_telegramId w) ?d \<noteq> None"
    using withdrawal_user [OF assms] by (simp add: findUserRow_def)
  then have "fst (addShares (w_telegramId w) (- w_sharesBurned w) ?d) = Inr ()" by (rule addShares_ok)
  then show ?thesis using assms(2)
    by (cases "addShares (w_telegramId w) (- w_sharesBurned w) ?d")
      (simp add: completeWithdrawal_def withTransaction_def exn_simps completedRow_def [abs_def])
qed

lemma is_double_uminus: "is_double x \<Longrightarrow> is_double (- x)"
  by (simp add: is_double_def fl_minus)

lemma store_wf_completeWithdrawal [intro]:
  assumes "store_wf d" shows "store_wf (snd (completeWithdrawal i g s b n t d))"
proof (cases "getWithdrawalById i d")
  case None
  then show ?thesis using completeWithdrawal_none [OF None, of g s b n t] assms by auto
next
  case (Some w)
  then have "is_double (w_sharesBurned w)" using withdrawal_row_ok [OF assms] by (auto simp: row_ok_def)
  then show ?thesis using assms Some
    by (auto simp: completeWithdrawal_ok row_ok_def completedRow_def
        intro!: store_wf_addShares store_wf_updateWithdrawals is_double_uminus)
qed

lemma getWithdrawalById_addShares [simp]:
  "getWithdrawalById i (snd (addShares u \<delta> d)) = getWithdrawalById i d"
  by (simp add: getWithdrawalById_def)

section \<open>The life of a withdrawal row\<close>

text \<open>What the executor and the operator's requeue command rely on: the state of a row is its
  status and its recorded signature.\<close>

definition rowState :: "db \<Rightarrow> int \<Rightarrow> (WithdrawalStatus \<times> string option) option" where
  "rowState d i = map_option (\<lambda>w. (w_status w, w_txSig w)) (getWithdrawalById i d)"

locale payout_rows =
  fixes inv :: "'s \<Rightarrow> bool"
    and st :: "'s \<Rightarrow> int \<Rightarrow> (WithdrawalStatus \<times> string option) option"
    and start :: "int \<Rightarrow> 's \<Rightarrow> 's"
    and sent :: "int \<Rightarrow> string \<Rightarrow> 's \<Rightarrow> unit result \<times> 's"
    and complete :: "int \<Rightarrow> string \<Rightarrow> int \<Rightarrow> int \<Rightarrow> rat \<Rightarrow> int \<Rightarrow> 's \<Rightarrow> unit result \<times> 's"
    and fail :: "int \<Rightarrow> string \<Rightarrow> int \<Rightarrow> 's \<Rightarrow> 's"
    and requeue :: "int \<Rightarrow> 's \<Rightarrow> unit result \<times> 's"
  assumes start_st: "st (start i s) j =
      (if j = i then map_option (\<lambda>(k, g). (if k = Queued then Processing else k, g)) (st s i) else st s j)"
    and sent_st: "inv s \<Longrightarrow> st (snd (sent i g s)) j =
      (if j = i then map_option (\<lambda>(k, h). (k, if h = None then Some g else h)) (st s i) else st s j)"
    and sent_ok: "inv s \<Longrightarrow> fst (sent i g s) = Inr () \<longleftrightarrow> (\<exists>k. st s i = Some (k, None))"
    and complete_st: "inv s \<Longrightarrow> st (snd (complete i g a b n t s)) j =
      (if j = i then map_option (\<lambda>_. (Completed, Some g)) (st s i) else st s j)"
    and fail_st: "st (fail i r t s) j =
      (if j = i then map_option (\<lambda>(k, g). (Failed, g)) (st s i) else st s j)"
    and requeue_st: "st (snd (requeue i s)) j =
      (if j = i then map_option (\<lambda>(k, g). (if k = Failed \<and> \<not> truthy g then Queued else k, g)) (st s i)
       else st s j)"
    and requeue_ok: "fst (requeue i s) = Inr () \<longleftrightarrow> (\<exists>g. st s i = Some (Failed, g) \<and> \<not> truthy g)"
begin

text \<open>A row in the state \<open>paid\<close> (processing or completed) stays in it under every operation but
  \<open>fail\<close>, is never taken up again, and cannot be requeued.\<close>

abbreviation paid :: "'s \<Rightarrow> int \<Rightarrow> bool" where
  "paid s i \<equiv> (\<exists>k g. st s i = Some (k, g) \<and> (k = Processing \<or> k = Completed))"

lemma paid_kept:
  assumes "paid s i"
  shows "paid (start j s) i" "inv s \<Longrightarrow> paid (snd (sent j g s)) i"
    "inv s \<Longrightarrow> paid (snd (complete j g a b n t s)) i" "paid (snd (requeue j s)) i"
    "i \<noteq> j \<Longrightarrow> paid (fail j r t s) i"
  using assms by (auto simp: start_st sent_st complete_st requeue_st fail_st)

lemma paid_not_requeued:
  assumes "paid s i" shows "\<exists>e. fst (requeue i s) = Inl e"
proof -
  have "fst (requeue i s) \<noteq> Inr ()" using assms requeue_ok by auto
  then show ?thesis by (cases "fst (requeue i s)") auto
qed

lemma sent_blocks_requeue:
  assumes "inv s" "fst (sent i g s) = Inr ()" "g \<noteq> []"
  shows "\<exists>e. fst (requeue i (fail i r t (snd (sent i g s)))) = Inl e"
proof -
  have "truthy (Some g)" using assms(3) by (simp add: truthy_def)
  then have "fst (requeue i (fail i r t (snd (sent i g s)))) \<noteq> Inr ()"
    using assms by (auto simp: requeue_ok fail_st sent_st sent_ok)
  then show ?thesis by (cases "fst (requeue i (fail i r t (snd (sent i g s))))") auto
qed

lemma sent_once:
  assumes "inv s" "inv (snd (sent i g s))" shows "\<exists>e. fst (sent i h (snd (sent i g s))) = Inl e"
proof -
  have "fst (sent i h (snd (sent i g s))) \<noteq> Inr ()" using assms by (auto simp: sent_ok sent_st)
  then show ?thesis by (cases "fst (sent i h (snd (sent i g s)))") auto
qed

end

lemma rowState_update:
  assumes "\<And>w. w_id (f w) = w_id w"
  shows "rowState (updateWithdrawals P f d) j =
    map_option (\<lambda>w. if P w then (w_status (f w), w_txSig (f w)) else (w_status w, w_txSig w)) (getWithdrawalById j d)"
  using assms by (cases "getWithdrawalById j d") (simp_all add: rowState_def getWithdrawalById_update)

interpretation rows: payout_rows store_wf rowState setWithdrawalProcessing markWithdrawalSent
  completeWithdrawal failWithdrawal requeueFailedWithdrawal
proof unfold_locales
  fix s :: db and i j t :: int and g r :: string and a b :: int and n :: rat
  show "rowState (setWithdrawalProcessing i s) j =
      (if j = i then map_option (\<lambda>(k, g). (if k = Queued then Processing else k, g)) (rowState s i)
       else rowState s j)"
    by (cases "getWithdrawalById j s")
      (auto simp: setWithdrawalProcessing_def rowState_update dest: getWithdrawalById_Some, auto simp: rowState_def)
  show "rowState (failWithdrawal i r t s) j =
      (if j = i then map_option (\<lambda>(k, g). (Failed, g)) (rowState s i) else rowState s j)"
    by (cases "getWithdrawalById j s")
      (auto simp: failWithdrawal_def rowState_update dest: getWithdrawalById_Some, auto simp: rowState_def)
  show "rowState (snd (markWithdrawalSent i g s)) j =
      (if j = i then map_option (\<lambda>(k, h). (k, if h = None then Some g else h)) (rowState s i)
       else rowState s j)"
    by (cases "getWithdrawalById j s")
      (auto simp: markWithdrawalSent_def Let_def rowState_update dest: getWithdrawalById_Some,
        auto simp: rowState_def)
  show "rowState (snd (requeueFailedWithdrawal i s)) j =
      (if j = i then map_option (\<lambda>(k, g). (if k = Failed \<and> \<not> truthy g then Queued else k, g)) (rowState s i)
       else rowState s j)"
    by (cases "getWithdrawalById j s")
      (auto simp: requeueFailedWithdrawal_def rowState_update dest: getWithdrawalById_Some split: option.splits,
        auto simp: rowState_def)
  show "fst (requeueFailedWithdrawal i s) = Inr () \<longleftrightarrow> (\<exists>g. rowState s i = Some (Failed, g) \<and> \<not> truthy g)"
    by (auto simp: requeueFailedWithdrawal_def rowState_def split: option.splits)
  assume wf: "store_wf s"
  show "fst (markWithdrawalSent i g s) = Inr () \<longleftrightarrow> (\<exists>k. rowState s i = Some (k, None))"
    using markWithdrawalSent_ok_iff [OF wf] by (auto simp: rowState_def)
  show "rowState (snd (completeWithdrawal i g a b n t s)) j =
      (if j = i then map_option (\<lambda>_. (Completed, Some g)) (rowState s i) else rowState s j)"
  proof (cases "getWithdrawalById i s")
    case None
    then show ?thesis using completeWithdrawal_none [OF None, of g a b n t] by (auto simp: rowState_def)
  next
    case (Some w)
    then show ?thesis using wf
      by (cases "getWithdrawalById j s")
        (auto simp: completeWithdrawal_ok rowState_def getWithdrawalById_update completedRow_def
          dest: getWithdrawalById_Some)
  qed
qed

end
