(* ===== verification/Credit.thy ===== *)
theory Credit
  imports Store_Laws "HOL-Library.Sublist"
begin

text \<open>
  The deposit side of the vault: \<open>creditEngine.ts\<close>, \<open>sweeper.ts\<close>, \<open>depositPipeline.ts\<close> and
  \<open>depositWatcher.ts\<close> under \<open>src/src/vault/\<close>. What the Solana libraries, the RPC node, the oracle and
  the cipher return is in the environment records, one field per call, each a \<open>result\<close> because the
  call may reject. The fields \<open>..._meanwhile\<close> are what other tasks did to the database while a
  call was awaited. The pipeline runs on the database and the log of the sweeps that were
  confirmed.
\<close>

section \<open>creditEngine.ts\<close>

record CreditParams =
  cp_telegramId :: int
  cp_inboundTxSig :: string
  cp_sweepTxSig :: string
  cp_solLamports :: int
  cp_bertRaw :: int
  cp_solUsd :: rat
  cp_bertUsd :: rat
  cp_navPerShareAtDeposit :: rat
  cp_confirmedAt :: int
  cp_sweptAt :: int
  cp_now :: int

definition depositUsd :: "int \<Rightarrow> int \<Rightarrow> rat \<Rightarrow> rat \<Rightarrow> rat" where
  "depositUsd solLamports bertRaw solUsd bertUsd =
     nadd (nmul (ndiv (numOfBig solLamports) (10 ^ SOL_DECIMALS)) solUsd)
          (nmul (ndiv (numOfBig bertRaw) (10 ^ BERT_DECIMALS)) bertUsd)"

definition depositRow :: "CreditParams \<Rightarrow> rat \<Rightarrow> VaultDeposit" where
  "depositRow p sharesMinted =
     \<lparr>d_id = 0, d_telegramId = cp_telegramId p, d_inboundTxSig = cp_inboundTxSig p,
      d_sweepTxSig = Some (cp_sweepTxSig p), d_solLamports = cp_solLamports p,
      d_bertRaw = cp_bertRaw p, d_solUsd = cp_solUsd p, d_bertUsd = cp_bertUsd p,
      d_navPerShareAt = cp_navPerShareAtDeposit p, d_sharesMinted = sharesMinted,
      d_confirmedAt = cp_confirmedAt p, d_sweptAt = Some (cp_sweptAt p)\<rparr>"

definition creditAudit :: "CreditParams \<Rightarrow> rat \<Rightarrow> rat \<Rightarrow> db \<Rightarrow> db" where
  "creditAudit p usd sharesMinted =
     writeAudit (cp_now p) (Some (cp_telegramId p)) ''deposit_credited''
       (JObj [(''inboundTxSig'', JStr (cp_inboundTxSig p)), (''depositUsd'', JNum usd),
              (''sharesMinted'', JNum sharesMinted), (''navPerShare'', JNum (cp_navPerShareAtDeposit p))])"

definition creditSnapshot :: "(rat list \<Rightarrow> rat) \<Rightarrow> CreditParams \<Rightarrow> db \<Rightarrow> db" where
  "creditSnapshot sqlSum p d =
     (let total = totalShares sqlSum d; nav = cp_navPerShareAtDeposit p
      in insertNavSnapshot \<lparr>n_ts = cp_now p, n_totalValueUsd = nmul total nav, n_totalShares = total,
                            n_navPerShare = nav, n_source = DepositSource\<rparr> d)"

definition credit :: "(rat list \<Rightarrow> rat) \<Rightarrow> CreditParams \<Rightarrow> unit dbm" where
  "credit sqlSum p =
     (let usd = depositUsd (cp_solLamports p) (cp_bertRaw p) (cp_solUsd p) (cp_bertUsd p)
      in andThen (lift (computeSharesForDeposit usd (cp_navPerShareAtDeposit p))) (\<lambda>sharesMinted.
         withTransaction
           (andThen (creditDeposit (depositRow p sharesMinted)) (\<lambda>_.
            andThen (modify (creditSnapshot sqlSum p)) (\<lambda>_.
              modify (creditAudit p usd sharesMinted))))))"

section \<open>sweeper.ts\<close>

text \<open>Public keys are their base58 strings. The instructions name what the library calls
  \<open>SystemProgram.transfer\<close>, \<open>createTransferCheckedInstruction\<close> and
  \<open>createAssociatedTokenAccountIdempotentInstruction\<close> with their arguments in order; \<open>ata\<close> is
  \<open>getAssociatedTokenAddressSync(mint, owner, allowOwnerOffCurve)\<close>.\<close>

datatype instr =
    SystemTransfer string string rat
  | TransferChecked string string string string int nat
  | CreateAtaIdempotent string string string string

type_synonym ata_fn = "string \<Rightarrow> string \<Rightarrow> bool \<Rightarrow> string result"

definition buildSweepInstructions ::
    "ata_fn \<Rightarrow> string \<Rightarrow> string \<Rightarrow> int \<Rightarrow> int \<Rightarrow> string \<Rightarrow> int \<Rightarrow> instr list result" where
  "buildSweepInstructions ata from toWallet solLamports bertRaw bertMint rentReserveLamports =
     (let solToSend = (if solLamports > rentReserveLamports then solLamports - rentReserveLamports else 0)
      in if solLamports > 0 \<and> solToSend = 0
         then Inl (''sweep: insufficient SOL (have '' @ bigToString solLamports @ '', reserve '' @
                   bigToString rentReserveLamports @ '')'')
         else
           let sol = (if solToSend > 0 then [SystemTransfer from toWallet (numOfBig solToSend)] else [])
           in if bertRaw > 0
              then (case ata bertMint from False of
                      Inl e \<Rightarrow> Inl e
                    | Inr fromAta \<Rightarrow>
                        (case ata bertMint toWallet False of
                           Inl e \<Rightarrow> Inl e
                         | Inr toAta \<Rightarrow>
                             Inr (sol @ [TransferChecked fromAta bertMint toAta from bertRaw BERT_DECIMALS])))
              else Inr sol)"

section \<open>depositPipeline.ts\<close>

record InflowEvent =
  ie_depositAddress :: string
  ie_inboundTxSig :: string
  ie_solLamports :: int
  ie_bertRaw :: int
  ie_confirmedAt :: int

text \<open>\<open>pe_decrypt\<close> is \<open>decrypt\<close> followed by \<open>Keypair.fromSecretKey\<close>, and yields the public key of the
  pair; \<open>pe_submit\<close> is \<open>submitTx\<close> of the transaction with these instructions.\<close>

record PipelineEnv =
  pe_detectedAt :: int
  pe_preflightMid :: "(rat \<times> rat) option result"
  pe_deferredAt :: int
  pe_decrypt :: "bytes \<Rightarrow> bytes \<Rightarrow> string result"
  pe_blockhash :: "string result"
  pe_submit :: "instr list \<Rightarrow> string result"
  pe_sweptAt :: int
  pe_mid :: "(rat \<times> rat) option result"
  pe_navPerShare :: "db \<Rightarrow> rat result"
  pe_failedAt :: int
  pe_meanwhile1 :: "db \<Rightarrow> db"
  pe_meanwhile2 :: "db \<Rightarrow> db"
  pe_meanwhile3 :: "db \<Rightarrow> db"

record PipelineCfg =
  pc_payer :: string
  pc_bertMint :: string
  pc_ata :: ata_fn
  pc_rentReserveLamports :: int
  pc_sqlSum :: "rat list \<Rightarrow> rat"

text \<open>A confirmed sweep: the inbound signature it is for, its instructions and its own signature.\<close>

type_synonym sweep = "string \<times> instr list \<times> string"

definition recordSweepFailure :: "PipelineEnv \<Rightarrow> int \<Rightarrow> InflowEvent \<Rightarrow> string \<Rightarrow> db \<Rightarrow> db" where
  "recordSweepFailure e telegramId ev reason =
     writeAudit (pe_failedAt e) (Some telegramId) ''deposit_sweep_failed''
       (JObj [(''inboundTxSig'', JStr (ie_inboundTxSig ev)), (''reason'', JStr reason)])"

text \<open>The \<open>try\<close> block around the credit.\<close>

definition creditParamsOf :: "PipelineEnv \<Rightarrow> int \<Rightarrow> InflowEvent \<Rightarrow> string \<Rightarrow> rat \<Rightarrow> rat \<Rightarrow> rat \<Rightarrow> CreditParams" where
  "creditParamsOf e telegramId ev sweepSig solUsd bertUsd nav =
     \<lparr>cp_telegramId = telegramId, cp_inboundTxSig = ie_inboundTxSig ev,
      cp_sweepTxSig = sweepSig, cp_solLamports = ie_solLamports ev,
      cp_bertRaw = ie_bertRaw ev, cp_solUsd = solUsd, cp_bertUsd = bertUsd,
      cp_navPerShareAtDeposit = nav, cp_confirmedAt = ie_confirmedAt ev,
      cp_sweptAt = pe_sweptAt e, cp_now = pe_sweptAt e\<rparr>"

definition creditOrRecord ::
    "PipelineCfg \<Rightarrow> PipelineEnv \<Rightarrow> int \<Rightarrow> InflowEvent \<Rightarrow> string \<Rightarrow> rat \<Rightarrow> rat \<Rightarrow> rat \<Rightarrow> unit dbm" where
  "creditOrRecord c e telegramId ev sweepSig solUsd bertUsd nav =
     tryCatch (credit (pc_sqlSum c) (creditParamsOf e telegramId ev sweepSig solUsd bertUsd nav))
       (\<lambda>reason. modify (recordSweepFailure e telegramId ev (''credit_failed: '' @ reason)))"

definition sweptAudit :: "PipelineEnv \<Rightarrow> int \<Rightarrow> InflowEvent \<Rightarrow> string \<Rightarrow> db \<Rightarrow> db" where
  "sweptAudit e telegramId ev sweepSig =
     writeAudit (pe_sweptAt e) (Some telegramId) ''deposit_swept''
        (JObj [(''inboundTxSig'', JStr (ie_inboundTxSig ev)), (''sweepTxSig'', JStr sweepSig),
               (''solLamports'', JStr (bigToString (ie_solLamports ev))),
               (''bertRaw'', JStr (bigToString (ie_bertRaw ev))),
               (''confirmedAt'', JInt (ie_confirmedAt ev))])"

text \<open>From the confirmed sweep on.\<close>

definition creditSwept ::
    "PipelineCfg \<Rightarrow> PipelineEnv \<Rightarrow> int \<Rightarrow> InflowEvent \<Rightarrow> string \<Rightarrow> unit dbm" where
  "creditSwept c e telegramId ev sweepSig =
     andThen (modify (sweptAudit e telegramId ev sweepSig)) (\<lambda>_.
     andThen (modify (pe_meanwhile3 e)) (\<lambda>_.
     andThen (lift (pe_mid e)) (\<lambda>mid.
       case mid of
         None \<Rightarrow> modify (recordSweepFailure e telegramId ev ''oracle_unavailable_after_sweep'')
       | Some (solUsd, bertUsd) \<Rightarrow>
           andThen (\<lambda>d. (pe_navPerShare e d, d)) (creditOrRecord c e telegramId ev sweepSig solUsd bertUsd))))"

text \<open>From the decryption of the deposit key to the submission of the sweep.\<close>

definition sweepInflow ::
    "PipelineCfg \<Rightarrow> PipelineEnv \<Rightarrow> int \<Rightarrow> InflowEvent \<Rightarrow> (db \<times> sweep list, unit) exn" where
  "sweepInflow c e telegramId ev =
     andThen (onDb (gets (getUserSecrets telegramId))) (\<lambda>secrets.
       case secrets of
         None \<Rightarrow> ret ()
       | Some s \<Rightarrow>
         (case pe_decrypt e (us_depositSecretEnc s) (us_depositSecretIv s) of
            Inl _ \<Rightarrow> onDb (modify (recordSweepFailure e telegramId ev ''decrypt_failed''))
          | Inr from \<Rightarrow>
            (case buildSweepInstructions (pc_ata c) from (pc_payer c) (ie_solLamports ev)
                    (ie_bertRaw ev) (pc_bertMint c) (pc_rentReserveLamports c) of
               Inl reason \<Rightarrow>
                 onDb (modify (recordSweepFailure e telegramId ev (''sweep_build_failed: '' @ reason)))
             | Inr ixs \<Rightarrow>
                 if ixs = [] then ret ()
                 else
                   andThen (onDb (modify (pe_meanwhile2 e))) (\<lambda>_.
                   andThen (lift (pe_blockhash e)) (\<lambda>_.
                     case pe_submit e ixs of
                       Inl reason \<Rightarrow>
                         onDb (modify (recordSweepFailure e telegramId ev (''sweep_submit_failed: '' @ reason)))
                     | Inr sweepSig \<Rightarrow>
                         andThen (emit [(ie_inboundTxSig ev, ixs, sweepSig)]) (\<lambda>_.
                           onDb (creditSwept c e telegramId ev sweepSig)))))))"

definition detectedAudit :: "PipelineEnv \<Rightarrow> int \<Rightarrow> InflowEvent \<Rightarrow> db \<Rightarrow> db" where
  "detectedAudit e telegramId ev =
     writeAudit (pe_detectedAt e) (Some telegramId) ''deposit_detected''
       (JObj [(''inboundTxSig'', JStr (ie_inboundTxSig ev)),
              (''solLamports'', JStr (bigToString (ie_solLamports ev))),
              (''bertRaw'', JStr (bigToString (ie_bertRaw ev)))])"

definition onInflow :: "PipelineCfg \<Rightarrow> PipelineEnv \<Rightarrow> InflowEvent \<Rightarrow> (db \<times> sweep list, unit) exn" where
  "onInflow c e ev =
     andThen (onDb (gets (getUserByDepositAddress (ie_depositAddress ev)))) (\<lambda>user.
       case user of
         None \<Rightarrow> ret ()
       | Some u \<Rightarrow>
         andThen (onDb (modify (detectedAudit e (vu_telegramId u) ev))) (\<lambda>_.
         andThen (onDb (modify (pe_meanwhile1 e))) (\<lambda>_.
         andThen (lift (pe_preflightMid e)) (\<lambda>mid.
           if mid = None
           then onDb (modify (writeAudit (pe_deferredAt e) (Some (vu_telegramId u))
                  ''deposit_deferred_oracle_unavailable''
                  (JObj [(''inboundTxSig'', JStr (ie_inboundTxSig ev))])))
           else sweepInflow c e (vu_telegramId u) ev))))"

section \<open>depositWatcher.ts\<close>

record SignatureInfo =
  si_signature :: string
  si_err :: "string option"
  si_blockTime :: "int option"

record TokenBalance =
  tb_owner :: string
  tb_mint :: string
  tb_amount :: string

record TxMeta =
  tm_preBalances :: "int list"
  tm_postBalances :: "int list"
  tm_preTokenBalances :: "TokenBalance list option"
  tm_postTokenBalances :: "TokenBalance list option"

record ParsedTx =
  pt_accountKeys :: "string list"
  pt_meta :: "TxMeta option"

definition indexOf :: "'a \<Rightarrow> 'a list \<Rightarrow> nat option" where
  "indexOf x xs = (let i = length (takeWhile (\<lambda>y. y \<noteq> x) xs) in if i < length xs then Some i else None)"

definition nthOr0 :: "int list \<Rightarrow> nat \<Rightarrow> int" where
  "nthOr0 xs i = (if i < length xs then xs ! i else 0)"

fun sumBig :: "int \<Rightarrow> string list \<Rightarrow> int result" where
  "sumBig a [] = Inr a"
| "sumBig a (s # ss) =
     (case stringToBig s of
        None \<Rightarrow> Inl (''Cannot convert '' @ s @ '' to a BigInt'')
      | Some n \<Rightarrow> sumBig (a + n) ss)"

definition sumForAddress :: "string \<Rightarrow> string \<Rightarrow> TokenBalance list \<Rightarrow> int result" where
  "sumForAddress bertMint address rs =
     sumBig 0 (map tb_amount (filter (\<lambda>r. tb_owner r = address \<and> tb_mint r = bertMint) rs))"

definition solDelta :: "TxMeta \<Rightarrow> string list \<Rightarrow> string \<Rightarrow> int" where
  "solDelta meta keys address =
     (case indexOf address keys of
        None \<Rightarrow> 0
      | Some idx \<Rightarrow>
          let delta = nthOr0 (tm_postBalances meta) idx - nthOr0 (tm_preBalances meta) idx
          in if delta < 0 then 0 else delta)"

definition computeDeltas :: "string \<Rightarrow> TxMeta \<Rightarrow> string list \<Rightarrow> string \<Rightarrow> (int \<times> int) result" where
  "computeDeltas bertMint meta keys address =
     (case sumForAddress bertMint address (case tm_postTokenBalances meta of None \<Rightarrow> [] | Some r \<Rightarrow> r) of
        Inl e \<Rightarrow> Inl e
      | Inr post \<Rightarrow>
          (case sumForAddress bertMint address (case tm_preTokenBalances meta of None \<Rightarrow> [] | Some r \<Rightarrow> r) of
             Inl e \<Rightarrow> Inl e
           | Inr pre \<Rightarrow>
               let bertDelta = post - pre
               in Inr (solDelta meta keys address, if bertDelta < 0 then 0 else bertDelta)))"

text \<open>\<open>seen\<close> and \<open>sigs\<close>: the first occurrence of every signature, in order.\<close>

fun dedupe :: "string list \<Rightarrow> SignatureInfo list \<Rightarrow> SignatureInfo list" where
  "dedupe seen [] = []"
| "dedupe seen (s # ss) =
     (if si_signature s \<in> set seen then dedupe seen ss
      else s # dedupe (seen @ [si_signature s]) ss)"

text \<open>\<open>we_bertAta\<close> are the constructors of the public keys and the derivation of the token account.\<close>

record WatcherEnv =
  we_bertAta :: "string \<Rightarrow> string result"
  we_signatures :: "string \<Rightarrow> SignatureInfo list result"
  we_parsed :: "string \<Rightarrow> ParsedTx option result"
  we_meanwhile :: "string \<Rightarrow> db \<Rightarrow> db"
  we_nowMs :: int

definition pollEvent :: "WatcherEnv \<Rightarrow> string \<Rightarrow> SignatureInfo \<Rightarrow> int \<times> int \<Rightarrow> InflowEvent" where
  "pollEvent e address s deltas =
     \<lparr>ie_depositAddress = address, ie_inboundTxSig = si_signature s,
      ie_solLamports = fst deltas, ie_bertRaw = snd deltas,
      ie_confirmedAt =
        (case si_blockTime s of Some t \<Rightarrow> t | None \<Rightarrow> \<lfloor>ndiv (of_int (we_nowMs e)) 1000\<rfloor>) * 1000\<rparr>"

fun pollSignatures ::
    "string \<Rightarrow> WatcherEnv \<Rightarrow> (InflowEvent \<Rightarrow> (db \<times> 'c, unit) exn) \<Rightarrow> string \<Rightarrow> SignatureInfo list
      \<Rightarrow> (db \<times> 'c, unit) exn" where
  "pollSignatures bertMint e inflow address [] = ret ()"
| "pollSignatures bertMint e inflow address (s # ss) =
     (let continue = pollSignatures bertMint e inflow address ss in
      if si_err s \<noteq> None then continue
      else andThen (onDb (gets (hasDeposit (si_signature s)))) (\<lambda>credited.
        if credited then continue
        else
          andThen (onDb (modify (we_meanwhile e (si_signature s)))) (\<lambda>_.
          andThen (lift (we_parsed e (si_signature s))) (\<lambda>tx.
            case tx of
              None \<Rightarrow> continue
            | Some tx \<Rightarrow>
              (case pt_meta tx of
                 None \<Rightarrow> continue
               | Some meta \<Rightarrow>
                   andThen (lift (computeDeltas bertMint meta (pt_accountKeys tx) address)) (\<lambda>deltas.
                     if deltas = (0, 0) then continue
                     else andThen (inflow (pollEvent e address s deltas)) (\<lambda>_. continue)))))))"

definition pollAddress ::
    "string \<Rightarrow> WatcherEnv \<Rightarrow> (InflowEvent \<Rightarrow> (db \<times> 'c, unit) exn) \<Rightarrow> string \<Rightarrow> (db \<times> 'c, unit) exn" where
  "pollAddress bertMint e inflow address =
     andThen (lift (we_bertAta e address)) (\<lambda>bertAta.
     andThen (lift (we_signatures e address)) (\<lambda>sigsMain.
     andThen (lift (we_signatures e bertAta)) (\<lambda>sigsAta.
       pollSignatures bertMint e inflow address (dedupe [] (sigsMain @ sigsAta)))))"

section \<open>Crediting\<close>

definition mintedShares :: "CreditParams \<Rightarrow> rat" where
  "mintedShares p =
     ndiv (depositUsd (cp_solLamports p) (cp_bertRaw p) (cp_solUsd p) (cp_bertUsd p)) (cp_navPerShareAtDeposit p)"

lemma mintedShares_double: "is_double (mintedShares p)"
  by (simp add: mintedShares_def is_double_ops)

lemma depositRow_simps [simp]:
  "d_telegramId (depositRow p x) = cp_telegramId p" "d_inboundTxSig (depositRow p x) = cp_inboundTxSig p"
  "d_sharesMinted (depositRow p x) = x"
  by (simp_all add: depositRow_def)

text \<open>A credit either throws and leaves the database as it was, or does all four writes.\<close>

lemma credit_cases:
  assumes "store_wf d"
  obtains (rejected) e where "credit sqlSum p d = (Inl e, d)"
    "cp_navPerShareAtDeposit p \<le> 0 \<or> hasDeposit (cp_inboundTxSig p) d \<or> findUserRow (cp_telegramId p) d = None"
  | (credited) usd where "0 < cp_navPerShareAtDeposit p" "\<not> hasDeposit (cp_inboundTxSig p) d"
      "findUserRow (cp_telegramId p) d \<noteq> None"
      "credit sqlSum p d = (Inr (), creditAudit p usd (mintedShares p) (creditSnapshot sqlSum p
         (snd (creditDeposit (depositRow p (mintedShares p)) d))))"
proof (cases "cp_navPerShareAtDeposit p \<le> 0")
  case True
  then show ?thesis
    by (intro rejected) (simp_all add: credit_def Let_def computeSharesForDeposit_def exn_simps)
next
  case False
  let ?dep = "depositRow p (mintedShares p)"
  let ?usd = "depositUsd (cp_solLamports p) (cp_bertRaw p) (cp_solUsd p) (cp_bertUsd p)"
  have run: "credit sqlSum p d = atomically (andThen (creditDeposit ?dep) (\<lambda>_.
      andThen (modify (creditSnapshot sqlSum p)) (\<lambda>_. modify (creditAudit p ?usd (mintedShares p))))) d"
    using False by (simp add: credit_def Let_def computeSharesForDeposit_def mintedShares_def exn_simps
        withTransaction_def)
  show ?thesis using assms
  proof (cases rule: creditDeposit_cases [where args = ?dep])
    case dup
    then obtain e where "creditDeposit ?dep d = (Inl e, d)" by blast
    then show ?thesis using run dup by (intro rejected [of e]) (simp_all add: exn_simps)
  next
    case no_user
    then obtain e where "creditDeposit ?dep d = (Inl e, d)" by blast
    then show ?thesis using run no_user by (intro rejected [of e]) (simp_all add: exn_simps)
  next
    case ok
    then obtain i where "creditDeposit ?dep d = (Inr i, snd (creditDeposit ?dep d))"
      using creditDeposit_ok [of ?dep d] by simp
    then have "credit sqlSum p d = (Inr (), creditAudit p ?usd (mintedShares p) (creditSnapshot sqlSum p
         (snd (creditDeposit ?dep d))))"
      using run by (simp add: exn_simps)
    then show ?thesis using ok False by (intro credited) simp_all
  qed
qed

lemma creditAudit_frame [simp]:
  "vault_users (creditAudit p usd x d) = vault_users d" "vault_shares (creditAudit p usd x d) = vault_shares d"
  "vault_deposits (creditAudit p usd x d) = vault_deposits d"
  "vault_withdrawals (creditAudit p usd x d) = vault_withdrawals d"
  by (simp_all add: creditAudit_def writeAudit_def)

lemma creditSnapshot_frame [simp]:
  "vault_users (creditSnapshot q p d) = vault_users d" "vault_shares (creditSnapshot q p d) = vault_shares d"
  "vault_deposits (creditSnapshot q p d) = vault_deposits d" "vault_audit_log (creditSnapshot q p d) = vault_audit_log d"
  "vault_withdrawals (creditSnapshot q p d) = vault_withdrawals d"
  by (simp_all add: creditSnapshot_def Let_def insertNavSnapshot_def)

lemma creditDeposit_effect:
  assumes "\<not> hasDeposit (d_inboundTxSig args) d" "findUserRow (d_telegramId args) d \<noteq> None"
    "is_double (d_sharesMinted args)"
  defines "d' \<equiv> snd (creditDeposit args d)"
  shows "getShares v d' = (if v = d_telegramId args then nadd (getShares v d) (d_sharesMinted args) else getShares v d)"
    and "hasDeposit g d' \<longleftrightarrow> g = d_inboundTxSig args \<or> hasDeposit g d"
    and "vault_withdrawals d' = vault_withdrawals d" "vault_audit_log d' = vault_audit_log d"
    and "vault_users d' = vault_users d"
proof -
  let ?d = "d\<lparr>vault_deposits := insertRow (\<lambda>i. args\<lparr>d_id := i\<rparr>) (vault_deposits d)\<rparr>"
  have u: "findUserRow (d_telegramId args) ?d \<noteq> None" using assms(2) by (simp add: findUserRow_def)
  have d': "d' = snd (addShares (d_telegramId args) (d_sharesMinted args) ?d)"
    using creditDeposit_ok [OF assms(1,2)] by (simp add: d'_def)
  have g: "getShares v ?d = getShares v d" for v by (simp add: getShares_def findShares_def)
  have "getShares v d' = (if v = d_telegramId args then nadd (getShares (d_telegramId args) ?d) (d_sharesMinted args)
      else getShares v ?d)"
    unfolding d' by (rule ledger.post_bal [OF assms(3) ledger.post_ok [OF u]])
  then show "getShares v d' = (if v = d_telegramId args then nadd (getShares v d) (d_sharesMinted args) else getShares v d)"
    by (simp add: g)
  show "hasDeposit g d' \<longleftrightarrow> g = d_inboundTxSig args \<or> hasDeposit g d"
    by (auto simp: d' hasDeposit_iff table_simps)
qed (simp_all add: d'_def creditDeposit_ok [OF assms(1,2)])

lemma store_wf_credit [intro]: assumes "store_wf d" shows "store_wf (snd (credit q p d))"
  using assms
proof (cases rule: credit_cases [where sqlSum = q and p = p])
  case (credited usd)
  have "store_wf (snd (creditDeposit (depositRow p (mintedShares p)) d))"
    using assms mintedShares_double by (intro store_wf_creditDeposit) simp_all
  then show ?thesis using credited by (simp add: creditAudit_def creditSnapshot_def Let_def)
qed (use assms in simp)

section \<open>Sweeping\<close>

fun lamportsOf :: "instr \<Rightarrow> rat" where
  "lamportsOf (SystemTransfer _ _ n) = n"
| "lamportsOf _ = 0"

fun tokensOf :: "instr \<Rightarrow> int" where
  "tokensOf (TransferChecked _ _ _ _ n _) = n"
| "tokensOf _ = 0"

lemma numOfBig_exact: "\<bar>n\<bar> < 2 ^ 53 \<Longrightarrow> numOfBig n = of_int n"
  unfolding numOfBig_def by (rule fl_of_int)

lemma buildSweep_cases:
  assumes "buildSweepInstructions ata from to sol bert mint reserve = Inr ixs" "0 \<le> reserve" "0 \<le> sol" "0 \<le> bert"
  obtains fa ta where "ixs = (if sol > 0 then [SystemTransfer from to (numOfBig (sol - reserve))] else []) @
      (if bert > 0 then [TransferChecked fa mint ta from bert BERT_DECIMALS] else [])"
    "sol = 0 \<or> reserve < sol"
  using assms
  by (auto simp: buildSweepInstructions_def Let_def split: if_splits sum.splits)

section \<open>The pipeline without interference\<close>

definition quiet :: "PipelineEnv \<Rightarrow> bool" where
  "quiet e \<longleftrightarrow> (\<forall>d. pe_meanwhile1 e d = d \<and> pe_meanwhile2 e d = d \<and> pe_meanwhile3 e d = d)"

text \<open>The two possible outcomes for the balances: nothing is minted, or this event is.\<close>

definition unminted :: "db \<Rightarrow> db \<Rightarrow> bool" where
  "unminted d d' \<longleftrightarrow> vault_shares d' = vault_shares d \<and> vault_deposits d' = vault_deposits d"

definition minted :: "int \<Rightarrow> InflowEvent \<Rightarrow> rat \<Rightarrow> db \<Rightarrow> db \<Rightarrow> bool" where
  "minted tid ev shares d d' \<longleftrightarrow> \<not> hasDeposit (ie_inboundTxSig ev) d \<and> hasDeposit (ie_inboundTxSig ev) d' \<and>
     (\<forall>v. getShares v d' = (if v = tid then nadd (getShares v d) shares else getShares v d))"

lemma unminted_audit [simp]: "unminted d (writeAudit ts t evt det d') = unminted d d'"
  by (simp add: unminted_def writeAudit_def)

lemma unminted_records [simp]:
  "unminted d (recordSweepFailure e tid ev r d') = unminted d d'"
  "unminted d (sweptAudit e tid ev g d') = unminted d d'"
  "unminted d (detectedAudit e tid ev d') = unminted d d'"
  by (simp_all add: recordSweepFailure_def sweptAudit_def detectedAudit_def)

lemma store_wf_sweptAudit [simp, intro]:
  "store_wf d \<Longrightarrow> store_wf (sweptAudit e tid ev g d)" "store_wf d \<Longrightarrow> store_wf (detectedAudit e tid ev d)"
  by (simp_all add: sweptAudit_def detectedAudit_def)

lemma unminted_refl [simp]: "unminted d d"
  by (simp add: unminted_def)

lemma minted_credit:
  assumes "store_wf d" "unminted d0 d" "credit q p d = (Inr (), d')" "cp_inboundTxSig p = ie_inboundTxSig ev"
  shows "minted (cp_telegramId p) ev (mintedShares p) d0 d'"
  using assms(1)
proof (cases rule: credit_cases [where sqlSum = q and p = p])
  case (credited usd)
  note eff = creditDeposit_effect [of "depositRow p (mintedShares p)" d, simplified,
      OF credited(2) credited(3) [simplified] mintedShares_double]
  have "getShares v d = getShares v d0" "hasDeposit g d = hasDeposit g d0" for v g
    using assms by (simp_all add: getShares_def findShares_def hasDeposit_def unminted_def)
  then show ?thesis using eff credited assms
    by (auto simp: minted_def) (auto simp: getShares_def findShares_def hasDeposit_def)
qed (use assms in auto)

lemma creditOrRecord_outcome:
  assumes "store_wf d" "unminted d0 d" "creditOrRecord c e tid ev g solUsd bertUsd nav d = (r, d')"
  shows "unminted d0 d' \<or> 0 < nav \<and>
    minted tid ev (ndiv (depositUsd (ie_solLamports ev) (ie_bertRaw ev) solUsd bertUsd) nav) d0 d'"
  using assms(1)
proof (cases rule: credit_cases [where sqlSum = "pc_sqlSum c"
      and p = "creditParamsOf e tid ev g solUsd bertUsd nav"])
  case (rejected err)
  then show ?thesis using assms by (auto simp: creditOrRecord_def exn_simps)
next
  case (credited usd)
  let ?p = "creditParamsOf e tid ev g solUsd bertUsd nav"
  have "credit (pc_sqlSum c) ?p d = (Inr (), d')"
    using credited assms(3) by (auto simp: creditOrRecord_def exn_simps)
  from minted_credit [OF assms(1,2) this, of ev] credited(1) show ?thesis
    by (simp add: creditParamsOf_def mintedShares_def)
qed

lemma creditSwept_outcome:
  assumes "quiet e" "store_wf d" "unminted d0 d" "creditSwept c e tid ev sweepSig d = (r, d')"
  shows "unminted d0 d' \<or> (\<exists>solUsd bertUsd nav. pe_mid e = Inr (Some (solUsd, bertUsd)) \<and> 0 < nav \<and>
    minted tid ev (ndiv (depositUsd (ie_solLamports ev) (ie_bertRaw ev) solUsd bertUsd) nav) d0 d')"
proof -
  let ?d = "sweptAudit e tid ev sweepSig d"
  have d: "store_wf ?d" "unminted d0 ?d" using assms by auto
  note run = assms(4) [unfolded creditSwept_def]
  consider (err) x where "pe_mid e = Inl x" | (none) "pe_mid e = Inr None"
    | (nav_err) s b x where "pe_mid e = Inr (Some (s, b))" "pe_navPerShare e ?d = Inl x"
    | (prices) s b nav where "pe_mid e = Inr (Some (s, b))" "pe_navPerShare e ?d = Inr nav"
    by (cases "pe_mid e"; cases "projr (pe_mid e)"; cases "the (projr (pe_mid e))"; cases "pe_navPerShare e ?d")
      auto
  then show ?thesis
  proof cases
    case prices
    then have "creditOrRecord c e tid ev sweepSig s b nav ?d = (r, d')"
      using run assms(1) by (simp add: exn_simps quiet_def)
    from creditOrRecord_outcome [OF d this] prices show ?thesis by auto
  qed (use run assms(1) d in \<open>auto simp: exn_simps quiet_def\<close>)
qed

lemma sweepInflow_outcome:
  assumes "quiet e" "store_wf d" "unminted d0 d" "sweepInflow c e tid ev (d, sw) = (r, (d', sw'))"
  shows "unminted d0 d' \<and> (sw' = sw \<or> (\<exists>ixs g. sw' = sw @ [(ie_inboundTxSig ev, ixs, g)])) \<or>
    (\<exists>ixs g solUsd bertUsd nav. sw' = sw @ [(ie_inboundTxSig ev, ixs, g)] \<and> ixs \<noteq> [] \<and>
      pe_mid e = Inr (Some (solUsd, bertUsd)) \<and> 0 < nav \<and>
      minted tid ev (ndiv (depositUsd (ie_solLamports ev) (ie_bertRaw ev) solUsd bertUsd) nav) d0 d')"
proof (cases "\<exists>s from ixs b g. getUserSecrets tid d = Some s \<and>
    pe_decrypt e (us_depositSecretEnc s) (us_depositSecretIv s) = Inr from \<and>
    buildSweepInstructions (pc_ata c) from (pc_payer c) (ie_solLamports ev) (ie_bertRaw ev) (pc_bertMint c)
      (pc_rentReserveLamports c) = Inr ixs \<and> ixs \<noteq> [] \<and> pe_blockhash e = Inr b \<and> pe_submit e ixs = Inr g")
  case True
  then obtain ixs g where x: "ixs \<noteq> []"
    "sweepInflow c e tid ev (d, sw) = onDb (creditSwept c e tid ev g) (d, sw @ [(ie_inboundTxSig ev, ixs, g)])"
    using assms(1) by (auto simp: sweepInflow_def exn_simps quiet_def)
  obtain r1 d1 where y: "creditSwept c e tid ev g d = (r1, d1)" by (cases "creditSwept c e tid ev g d")
  have "d' = d1" "sw' = sw @ [(ie_inboundTxSig ev, ixs, g)]" using x(2) y assms(4) by (simp_all add: exn_simps)
  with creditSwept_outcome [OF assms(1-3) y] x(1) show ?thesis by blast
next
  case False
  then have "unminted d0 d' \<and> sw' = sw"
    using assms
    by (cases "pe_blockhash e")
      (auto simp: sweepInflow_def exn_simps quiet_def split: option.splits sum.splits if_splits)
  then show ?thesis by simp
qed

section \<open>Polling\<close>

lemma dedupe_spec:
  "distinct (map si_signature (dedupe seen ss)) \<and> set (map si_signature (dedupe seen ss)) = set (map si_signature ss) - set seen"
  by (induction seen ss rule: dedupe.induct) auto

lemma computeDeltas_nonneg: "computeDeltas mint meta keys addr = Inr (s, b) \<Longrightarrow> 0 \<le> s \<and> 0 \<le> b"
  by (auto simp: computeDeltas_def solDelta_def Let_def split: option.splits sum.splits if_splits)

definition eventOk :: "string \<Rightarrow> db \<Rightarrow> InflowEvent \<Rightarrow> bool" where
  "eventOk addr d ev \<longleftrightarrow> ie_depositAddress ev = addr \<and> \<not> hasDeposit (ie_inboundTxSig ev) d \<and>
     0 \<le> ie_solLamports ev \<and> 0 \<le> ie_bertRaw ev \<and> (ie_solLamports ev, ie_bertRaw ev) \<noteq> (0, 0)"

text \<open>One signature: it is skipped, ends the poll with an error, or yields one event.\<close>

lemma poll_step:
  fixes mint addr :: string
  assumes "\<And>g d. we_meanwhile e g d = d"
  defines "poll \<equiv> pollSignatures mint e (\<lambda>ev. emit [ev]) addr"
  obtains (skip) "poll (s # ss) (d, evs) = poll ss (d, evs)"
  | (stop) x where "poll (s # ss) (d, evs) = (Inl x, (d, evs))"
  | (event) ev where "poll (s # ss) (d, evs) = poll ss (d, evs @ [ev])" "ie_inboundTxSig ev = si_signature s"
      "eventOk addr d ev"
proof (cases "si_err s \<noteq> None \<or> hasDeposit (si_signature s) d")
  case True
  then show ?thesis by (intro skip) (auto simp: poll_def Let_def exn_simps)
next
  case False
  then have s: "si_err s = None" "\<not> hasDeposit (si_signature s) d" by simp_all
  have run: "poll (s # ss) (d, evs) = (case we_parsed e (si_signature s) of
      Inl x \<Rightarrow> (Inl x, (d, evs))
    | Inr tx \<Rightarrow> (case Option.bind tx pt_meta of
         None \<Rightarrow> poll ss (d, evs)
       | Some meta \<Rightarrow> (case computeDeltas mint meta (pt_accountKeys (the tx)) addr of
            Inl x \<Rightarrow> (Inl x, (d, evs))
          | Inr deltas \<Rightarrow> if deltas = (0, 0) then poll ss (d, evs)
              else poll ss (d, evs @ [pollEvent e addr s deltas]))))"
    unfolding poll_def using s
    by (simp add: Let_def) (simp add: exn_simps assms(1) split: sum.splits option.splits)
  show ?thesis
  proof (cases "we_parsed e (si_signature s)")
    case (Inl x)
    with run show ?thesis by (intro stop [of x]) simp
  next
    case (Inr tx)
    show ?thesis
    proof (cases "Option.bind tx pt_meta")
      case None
      with run Inr show ?thesis by (intro skip) simp
    next
      case (Some meta)
      show ?thesis
      proof (cases "computeDeltas mint meta (pt_accountKeys (the tx)) addr")
        case (Inl x)
        with run Inr Some show ?thesis by (intro stop [of x]) simp
      next
        case deltas: (Inr deltas)
        then have "0 \<le> fst deltas \<and> 0 \<le> snd deltas"
          by (intro computeDeltas_nonneg [of mint meta "pt_accountKeys (the tx)" addr]) simp
        then have "eventOk addr d (pollEvent e addr s deltas)" if "deltas \<noteq> (0, 0)"
          using that s by (auto simp: eventOk_def pollEvent_def prod_eq_iff)
        with run Inr Some deltas show ?thesis
          by (cases "deltas = (0, 0)") (auto intro: skip event [of "pollEvent e addr s deltas"] simp: pollEvent_def)
      qed
    qed
  qed
qed

text \<open>The polling loop only appends events, each for a signature of its list and in its order.\<close>

lemma pollSignatures_events:
  assumes "\<And>g d. we_meanwhile e g d = d"
  shows "\<exists>r new. pollSignatures mint e (\<lambda>ev. emit [ev]) addr ss (d, evs) = (r, (d, evs @ new)) \<and>
    subseq (map ie_inboundTxSig new) (map si_signature ss) \<and> (\<forall>ev\<in>set new. eventOk addr d ev)"
proof (induction ss arbitrary: evs)
  case (Cons s ss)
  show ?case
  proof (rule poll_step [OF assms, where mint = mint and addr = addr and s = s and ss = ss and d = d and evs = evs])
    assume "pollSignatures mint e (\<lambda>ev. emit [ev]) addr (s # ss) (d, evs) =
      pollSignatures mint e (\<lambda>ev. emit [ev]) addr ss (d, evs)"
    with Cons [of evs] show ?thesis by (auto intro: list_emb_Cons)
  next
    fix ev
    assume event: "pollSignatures mint e (\<lambda>ev. emit [ev]) addr (s # ss) (d, evs) =
        pollSignatures mint e (\<lambda>ev. emit [ev]) addr ss (d, evs @ [ev])"
      "ie_inboundTxSig ev = si_signature s" "eventOk addr d ev"
    obtain r new where "pollSignatures mint e (\<lambda>ev. emit [ev]) addr ss (d, evs @ [ev]) = (r, (d, (evs @ [ev]) @ new))"
      "subseq (map ie_inboundTxSig new) (map si_signature ss)" "\<forall>ev\<in>set new. eventOk addr d ev"
      using Cons [of "evs @ [ev]"] by blast
    with event show ?thesis by (intro exI [of _ r] exI [of _ "ev # new"]) simp
  qed auto
qed (simp add: exn_simps)

section \<open>Properties\<close>

text \<open>C7: a credit is all or nothing. It throws exactly when the NAV per share is not positive, the inbound
  signature has been credited before or the user does not exist, and then the database is unchanged;
  otherwise it mints the deposit's USD value divided by the NAV per share to that user and to nobody
  else, and the signature counts as credited from then on.\<close>

theorem credit_atomic:
  assumes "store_wf d"
  shows "if cp_navPerShareAtDeposit p \<le> 0 \<or> hasDeposit (cp_inboundTxSig p) d \<or> findUserRow (cp_telegramId p) d = None
    then \<exists>e. credit sqlSum p d = (Inl e, d)
    else \<exists>d'. credit sqlSum p d = (Inr (), d') \<and> store_wf d' \<and> hasDeposit (cp_inboundTxSig p) d' \<and>
      (\<forall>v. getShares v d' = (if v = cp_telegramId p then nadd (getShares v d)
         (ndiv (depositUsd (cp_solLamports p) (cp_bertRaw p) (cp_solUsd p) (cp_bertUsd p)) (cp_navPerShareAtDeposit p))
       else getShares v d))"
  using assms
proof (cases rule: credit_cases [where sqlSum = sqlSum and p = p])
  case (credited usd)
  let ?row = "depositRow p (mintedShares p)"
  note eff = creditDeposit_effect [of ?row d, simplified, OF credited(2) credited(3) [simplified] mintedShares_double]
  have "store_wf (snd (credit sqlSum p d))" using assms by (rule store_wf_credit)
  with credited eff show ?thesis
    by (simp add: hasDeposit_def getShares_def findShares_def mintedShares_def)
qed auto

definition credit_demo :: CreditParams where
  "credit_demo = \<lparr>cp_telegramId = 7, cp_inboundTxSig = ''in'', cp_sweepTxSig = ''sw'', cp_solLamports = 2000000000,
     cp_bertRaw = 0, cp_solUsd = 100, cp_bertUsd = 1, cp_navPerShareAtDeposit = 1, cp_confirmedAt = 1,
     cp_sweptAt = 2, cp_now = 2\<rparr>"

definition user_demo :: db where
  "user_demo = snd (createUser 7 Depositor ''addr'' [] [] 1 1 init_db)"

lemma store_wf_user_demo: "store_wf user_demo"
  by (simp add: user_demo_def store_wf_createUser store_wf_init)

theorem credit_atomic_witness:
  "if cp_navPerShareAtDeposit credit_demo \<le> 0 \<or> hasDeposit (cp_inboundTxSig credit_demo) user_demo \<or>
      findUserRow (cp_telegramId credit_demo) user_demo = None
    then \<exists>e. credit sum_list credit_demo user_demo = (Inl e, user_demo)
    else \<exists>d'. credit sum_list credit_demo user_demo = (Inr (), d') \<and> store_wf d' \<and> hasDeposit (cp_inboundTxSig credit_demo) d' \<and>
      (\<forall>v. getShares v d' = (if v = cp_telegramId credit_demo then nadd (getShares v user_demo)
         (ndiv (depositUsd (cp_solLamports credit_demo) (cp_bertRaw credit_demo) (cp_solUsd credit_demo) (cp_bertUsd credit_demo))
           (cp_navPerShareAtDeposit credit_demo))
       else getShares v user_demo))"
  by (rule credit_atomic [OF store_wf_user_demo])

text \<open>The transfers of a sweep. With a nonnegative reserve and amounts below \<open>2^53\<close>, a sweep that is built
  moves all the BERT of the deposit, and its SOL less the reserve: the credited amount exceeds what
  reaches the pool by exactly the reserve whenever SOL is deposited. A deposit whose SOL does not
  exceed the reserve is refused.\<close>

theorem sweep_transfers:
  assumes "0 \<le> reserve" "0 \<le> sol" "sol < 2 ^ 53" "0 \<le> bert"
  shows "case buildSweepInstructions ata from to sol bert mint reserve of
      Inr ixs \<Rightarrow> sum_list (map lamportsOf ixs) = of_int (if sol = 0 then 0 else sol - reserve) \<and>
        sum_list (map tokensOf ixs) = bert \<and> (sol = 0 \<or> reserve < sol) \<and> (ixs = [] \<longleftrightarrow> sol = 0 \<and> bert = 0)
    | Inl _ \<Rightarrow> 0 < sol \<and> sol \<le> reserve \<or> 0 < bert \<and>
        (\<exists>e. ata mint from False = Inl e \<or> ata mint to False = Inl e)"
proof (cases "buildSweepInstructions ata from to sol bert mint reserve")
  case (Inl e)
  then show ?thesis by (auto simp: buildSweepInstructions_def Let_def split: if_splits sum.splits)
next
  case (Inr ixs)
  have "numOfBig (sol - reserve) = of_int (sol - reserve)" if "reserve < sol"
    using assms that by (intro numOfBig_exact) auto
  with Inr assms show ?thesis by (auto elim!: buildSweep_cases split: if_splits)
qed

theorem sweep_transfers_witness:
  "case buildSweepInstructions (\<lambda>m w off. Inr (w @ m)) ''from'' ''to'' 5000000 7 ''mint'' 2039280 of
      Inr ixs \<Rightarrow> sum_list (map lamportsOf ixs) = of_int (if (5000000::int) = 0 then 0 else 5000000 - 2039280) \<and>
        sum_list (map tokensOf ixs) = 7 \<and> ((5000000::int) = 0 \<or> 2039280 < (5000000::int)) \<and>
        (ixs = [] \<longleftrightarrow> (5000000::int) = 0 \<and> (7::int) = 0)
    | Inl _ \<Rightarrow> 0 < (5000000::int) \<and> (5000000::int) \<le> 2039280 \<or> 0 < (7::int) \<and>
        (\<exists>e. (Inr (''from'' @ ''mint'') :: string result) = Inl e \<or> (Inr (''to'' @ ''mint'') :: string result) = Inl e)"
  using sweep_transfers [of 2039280 5000000 7 "\<lambda>m w off. Inr (w @ m)" "''mint''" "''from''" "''to''"] by simp


definition env_demo :: PipelineEnv where
  "env_demo = \<lparr>pe_detectedAt = 1, pe_preflightMid = Inr (Some (100, 1)), pe_deferredAt = 1,
     pe_decrypt = (\<lambda>_ _. Inr ''addr''), pe_blockhash = Inr ''bh'', pe_submit = (\<lambda>_. Inr ''sweep''), pe_sweptAt = 2,
     pe_mid = Inr (Some (100, 1)), pe_navPerShare = (\<lambda>_. Inr 1), pe_failedAt = 3,
     pe_meanwhile1 = (\<lambda>d. d), pe_meanwhile2 = (\<lambda>d. d), pe_meanwhile3 = (\<lambda>d. d)\<rparr>"

definition cfg_demo :: PipelineCfg where
  "cfg_demo = \<lparr>pc_payer = ''pool'', pc_bertMint = ''mint'', pc_ata = (\<lambda>m w _. Inr (w @ m)),
     pc_rentReserveLamports = 2039280, pc_sqlSum = sum_list\<rparr>"

definition event_demo :: InflowEvent where
  "event_demo = \<lparr>ie_depositAddress = ''addr'', ie_inboundTxSig = ''in'', ie_solLamports = 2000000000, ie_bertRaw = 0,
     ie_confirmedAt = 1\<rparr>"


text \<open>What one poll hands to the pipeline. No signature is handed over twice, also when it is listed for
  both the address and its token account; none has failed on chain or was credited before the poll;
  the amounts are nonnegative and not both zero.\<close>

theorem pollAddress_events:
  assumes "\<And>g d. we_meanwhile e g d = d" "pollAddress mint e (\<lambda>ev. emit [ev]) addr (d, []) = (r, (d', evs))"
  shows "distinct (map ie_inboundTxSig evs) \<and>
    (\<forall>ev\<in>set evs. ie_depositAddress ev = addr \<and> \<not> hasDeposit (ie_inboundTxSig ev) d \<and>
      0 \<le> ie_solLamports ev \<and> 0 \<le> ie_bertRaw ev \<and> (ie_solLamports ev, ie_bertRaw ev) \<noteq> (0, 0))"
proof -
  have distinct: "distinct (map ie_inboundTxSig new)"
    if "subseq (map ie_inboundTxSig new) (map si_signature (dedupe [] ss))" for new ss
    using that dedupe_spec [of "[]" ss] subseq_conv_nths distinct_nthsI by metis
  consider (stop) "evs = []" | (go) ss where
    "pollSignatures mint e (\<lambda>ev. emit [ev]) addr (dedupe [] ss) (d, []) = (r, (d', evs))"
    using assms(2)
    by (cases "we_bertAta e addr"; cases "we_signatures e addr"; cases "we_signatures e (projr (we_bertAta e addr))")
      (auto simp: pollAddress_def exn_simps)
  then show ?thesis
  proof cases
    case go
    with pollSignatures_events [OF assms(1), where d = d and evs = "[]" and ss = "dedupe [] ss" and addr = addr and mint = mint]
    show ?thesis using distinct by (auto simp: eventOk_def)
  qed simp
qed

theorem pollAddress_events_witness:
  "\<exists>e r d' evs. pollAddress ''mint'' e (\<lambda>ev. emit [ev]) ''addr'' (user_demo, []) = (r, (d', evs)) \<and> evs \<noteq> [] \<and>
    distinct (map ie_inboundTxSig evs) \<and>
    (\<forall>ev\<in>set evs. ie_depositAddress ev = ''addr'' \<and> \<not> hasDeposit (ie_inboundTxSig ev) user_demo \<and>
      0 \<le> ie_solLamports ev \<and> 0 \<le> ie_bertRaw ev \<and> (ie_solLamports ev, ie_bertRaw ev) \<noteq> (0, 0))"
proof -
  let ?e = "\<lparr>we_bertAta = (\<lambda>_. Inr ''ata''),
    we_signatures = (\<lambda>_. Inr [\<lparr>si_signature = ''in'', si_err = None, si_blockTime = Some 5\<rparr>]),
    we_parsed = (\<lambda>_. Inr (Some \<lparr>pt_accountKeys = [''addr''], pt_meta = Some \<lparr>tm_preBalances = [1], tm_postBalances = [4],
       tm_preTokenBalances = None, tm_postTokenBalances = None\<rparr>\<rparr>)), we_meanwhile = (\<lambda>_ d. d), we_nowMs = 9\<rparr>"
  let ?ev = "\<lparr>ie_depositAddress = ''addr'', ie_inboundTxSig = ''in'', ie_solLamports = 3, ie_bertRaw = 0,
    ie_confirmedAt = 5000\<rparr>"
  have run: "pollAddress ''mint'' ?e (\<lambda>ev. emit [ev]) ''addr'' (user_demo, []) = (Inr (), (user_demo, [?ev]))"
    by code_simp
  have "\<And>g d. we_meanwhile ?e g d = d" by simp
  from pollAddress_events [OF this run] run show ?thesis by blast
qed

end
