(* ===== verification/Tx_Submitter.thy ===== *)
theory Tx_Submitter
  imports Credit
begin

text \<open>
  Sending transactions: \<open>src/src/txSubmitter.ts\<close> and \<open>src/src/jitoClient.ts\<close>. A transaction is the list of
  its instructions; those that the caller built are of a type \<open>'i\<close> of their own. The state is the log of
  the transactions that landed on chain. What the RPC node and the block engine answer is given per attempt
  together with whether the transaction landed, because a time-out reports a failure although the transaction may
  land. The lemmas state that truthful reports make a submission land at most once.
\<close>

datatype 'i txi = SetComputeUnitPrice rat | TipTransfer string string rat | Ix 'i

type_synonym 'i tx = "'i txi list"
type_synonym ('i, 'a) chainm = "('i tx list, 'a) exn"

section \<open>jitoClient.ts\<close>

definition DEFAULT_JITO_TIP_ACCOUNTS :: "string list" where
  "DEFAULT_JITO_TIP_ACCOUNTS =
    [''96gYZGLnJYVFmbjzopPSU6QiEV5fGqZNyN9nmNhvrZU5'', ''HFqU5x63VTqvQss8hp11i4wVV8bD44PvwucfZ2bU7gRe'',
     ''Cw8CFyM9FkoMi7K7Crf6HNQqf4uEMzpKw6QNghXLvLkY'', ''ADaUMid9yfUytqMBgopwjb2DTLSokTSzL1zt6iGPaS49'',
     ''DfXygSm4jCyNCybVYYK6DwvWqjKee8pbDmJGcLWNDXjh'', ''ADuUkR4vqLUMWXxW9gh6D6L8pMSawimctcNZ5pGwDcEt'',
     ''DttWaMuVvTiduZRnguLF7jNxTgiMBZ1hyAumKUiL2KRL'', ''3AVi9Tg9Uo68tJfuvoKvqKNWKkC5wPdSSdeBnizKZ6jT'']"

text \<open>The answer to \<open>getTipAccounts\<close>: \<open>result\<close> and the message of \<open>error\<close>, each possibly missing. \<open>parse\<close> is
  \<open>new PublicKey\<close>.\<close>

definition refreshTipAccounts ::
    "(string \<Rightarrow> string result) \<Rightarrow> (string list option \<times> string option) result \<Rightarrow> string list \<Rightarrow> string list" where
  "refreshTipAccounts parse answer tipAccounts =
     (case answer of
        Inl e \<Rightarrow> tipAccounts
      | Inr (None, _) \<Rightarrow> tipAccounts
      | Inr (Some [], _) \<Rightarrow> tipAccounts
      | Inr (Some as, _) \<Rightarrow>
          if list_all (\<lambda>a. case parse a of Inl _ \<Rightarrow> False | Inr _ \<Rightarrow> True) as
          then map (\<lambda>a. case parse a of Inl _ \<Rightarrow> a | Inr k \<Rightarrow> k) as
          else tipAccounts)"

text \<open>One entry of \<open>getBundleStatuses\<close>, with the first of its transactions.\<close>

record BundleStatus =
  bu_confirmation :: "string option"
  bu_err :: "string option"
  bu_transaction :: "string option"

text \<open>What one bundle meets: the random number, the block hash with which it is signed (giving the
  signature), the answer to \<open>sendBundle\<close> (\<open>Inr (bundleId, error message)\<close>), the answers to the status
  requests sent before the deadline, and whether the bundle landed.\<close>

record JitoEnv =
  je_random :: rat
  je_sign :: "string result"
  je_send :: "(string \<times> string option) result"
  je_polls :: "BundleStatus option result list"
  je_landed :: bool

record JitoClient =
  jc_payer :: string
  jc_tipAccounts :: "string list"
  jc_tipLamports :: rat

fun pollBundle :: "string \<Rightarrow> BundleStatus option result list \<Rightarrow> string option" where
  "pollBundle expectedSig [] = None"
| "pollBundle expectedSig (Inr (Some status) # polls) =
     (if bu_err status \<noteq> None then pollBundle expectedSig polls
      else if bu_confirmation status = Some ''confirmed'' \<or> bu_confirmation status = Some ''finalized''
      then Some (case bu_transaction status of Some g \<Rightarrow> g | None \<Rightarrow> expectedSig)
      else pollBundle expectedSig polls)"
| "pollBundle expectedSig (_ # polls) = pollBundle expectedSig polls"

definition tipAccount :: "JitoClient \<Rightarrow> rat \<Rightarrow> string" where
  "tipAccount jc random = jc_tipAccounts jc ! nat \<lfloor>nmul random (of_nat (length (jc_tipAccounts jc)))\<rfloor>"

definition protectedTx :: "JitoClient \<Rightarrow> rat \<Rightarrow> 'i tx \<Rightarrow> 'i tx" where
  "protectedTx jc random tx = tx @ [TipTransfer (jc_payer jc) (tipAccount jc random) (jc_tipLamports jc)]"

definition jitoSubmitProtected :: "JitoClient \<Rightarrow> JitoEnv \<Rightarrow> 'i tx \<Rightarrow> ('i, string option) chainm" where
  "jitoSubmitProtected jc e tx =
     andThen (lift (je_sign e)) (\<lambda>expectedSig.
       case je_send e of
         Inl err \<Rightarrow> andThen (modify (\<lambda>chain. if je_landed e then chain @ [protectedTx jc (je_random e) tx] else chain))
                     (\<lambda>_. ret None)
       | Inr (bundleId, error) \<Rightarrow>
           andThen (modify (\<lambda>chain. if je_landed e then chain @ [protectedTx jc (je_random e) tx] else chain)) (\<lambda>_.
             if error \<noteq> None then ret None else ret (pollBundle expectedSig (je_polls e))))"

section \<open>txSubmitter.ts\<close>

record SubmitOptions =
  so_priorityFeeMicroLamports :: "rat option"
  so_maxRetries :: "nat option"
  so_dryRun :: bool

text \<open>One \<open>sendAndConfirmTransaction\<close>: its result, and whether the transaction landed. \<open>sb_string\<close> is \<open>String\<close>
  of an error, which shows the name of its class.\<close>

record Attempt =
  at_result :: "string result"
  at_landed :: bool

record SubmitEnv =
  sb_attempt :: "nat \<Rightarrow> Attempt"
  sb_jito :: JitoEnv
  sb_string :: "js_error \<Rightarrow> string"

fun submitAttempts :: "SubmitEnv \<Rightarrow> 'i tx \<Rightarrow> nat \<Rightarrow> nat \<Rightarrow> string \<Rightarrow> ('i, string) chainm" where
  "submitAttempts e tx maxRetries 0 lastErr =
     throw (''tx submit failed after '' @ bigToString (int maxRetries) @ '' attempts: '' @ lastErr)"
| "submitAttempts e tx maxRetries (Suc left) lastErr =
     (let a = sb_attempt e (maxRetries - Suc left) in
      andThen (modify (\<lambda>chain. if at_landed a then chain @ [tx] else chain)) (\<lambda>_.
        case at_result a of
          Inr sig \<Rightarrow> ret sig
        | Inl err \<Rightarrow> submitAttempts e tx maxRetries left (sb_string e err)))"

definition budgetedTx :: "SubmitOptions \<Rightarrow> 'i tx \<Rightarrow> 'i tx" where
  "budgetedTx opts tx =
     SetComputeUnitPrice (case so_priorityFeeMicroLamports opts of Some p \<Rightarrow> p | None \<Rightarrow> 10000) # tx"

definition submit :: "SubmitEnv \<Rightarrow> SubmitOptions \<Rightarrow> 'i tx \<Rightarrow> ('i, string) chainm" where
  "submit e opts tx =
     (if so_dryRun opts then ret ''DRY_RUN_SIGNATURE''
      else let maxRetries = (case so_maxRetries opts of Some n \<Rightarrow> n | None \<Rightarrow> 3)
           in submitAttempts e (budgetedTx opts tx) maxRetries maxRetries ''undefined'')"

definition submitProtected ::
    "JitoClient option \<Rightarrow> SubmitEnv \<Rightarrow> SubmitOptions \<Rightarrow> 'i tx \<Rightarrow> ('i, string) chainm" where
  "submitProtected jito e opts tx =
     (case jito of
        None \<Rightarrow> submit e opts tx
      | Some jc \<Rightarrow>
          if so_dryRun opts then ret ''DRY_RUN_SIGNATURE''
          else andThen (tryCatch (jitoSubmitProtected jc (sb_jito e) tx) (\<lambda>_. ret None)) (\<lambda>sig.
                 if truthy sig then ret (the sig) else submit e opts tx))"

section \<open>What lands\<close>

text \<open>The transactions that may land for \<open>tx\<close>: it is sent with a price for its computation, or with a tip at its end.\<close>

definition carries :: "JitoClient option \<Rightarrow> SubmitOptions \<Rightarrow> 'i tx \<Rightarrow> 'i tx \<Rightarrow> bool" where
  "carries jito opts tx tx' \<longleftrightarrow>
     tx' = budgetedTx opts tx \<or> (\<exists>jc r. jito = Some jc \<and> tx' = protectedTx jc r tx)"

text \<open>A report is truthful when it says that a transaction was confirmed exactly if it landed.\<close>

definition confirmedByJito :: "JitoEnv \<Rightarrow> bool" where
  "confirmedByJito e \<longleftrightarrow>
     (\<exists>expectedSig bundleId. je_sign e = Inr expectedSig \<and> je_send e = Inr (bundleId, None)
        \<and> truthy (pollBundle expectedSig (je_polls e)))"

definition truthful :: "SubmitEnv \<Rightarrow> bool" where
  "truthful e \<longleftrightarrow>
     (\<forall>n. at_landed (sb_attempt e n) \<longleftrightarrow> (\<exists>g. at_result (sb_attempt e n) = Inr g))
     \<and> (je_landed (sb_jito e) \<longleftrightarrow> confirmedByJito (sb_jito e))"

text \<open>The interface of a way to send: \<open>sub e opts tx\<close> appends to the chain what it landed, and a truthful
  environment makes the result say whether that is one transaction or none.\<close>

locale landing =
  fixes sub :: "SubmitEnv \<Rightarrow> SubmitOptions \<Rightarrow> 'i tx \<Rightarrow> ('i, string) chainm"
    and form :: "SubmitOptions \<Rightarrow> 'i tx \<Rightarrow> 'i tx \<Rightarrow> bool"
    and limit :: "SubmitOptions \<Rightarrow> nat"
  assumes only: "sub e opts tx chain = (r, chain') \<Longrightarrow>
      \<exists>new. chain' = chain @ new \<and> (\<forall>t\<in>set new. form opts tx t) \<and> length new \<le> limit opts"
    and dry: "so_dryRun opts \<Longrightarrow> sub e opts tx chain = (Inr ''DRY_RUN_SIGNATURE'', chain)"
    and confirmed: "truthful e \<Longrightarrow> \<not> so_dryRun opts \<Longrightarrow> sub e opts tx chain = (Inr g, chain') \<Longrightarrow>
      \<exists>t. chain' = chain @ [t]"
    and refused: "truthful e \<Longrightarrow> sub e opts tx chain = (Inl err, chain') \<Longrightarrow> chain' = chain"
begin

lemma outcome:
  assumes "truthful e" "sub e opts tx chain = (r, chain')"
  obtains (sent) g t where "r = Inr g" "chain' = chain @ [t]" "form opts tx t" "\<not> so_dryRun opts"
  | (dryrun) "r = Inr ''DRY_RUN_SIGNATURE''" "chain' = chain" "so_dryRun opts"
  | (failed) err where "r = Inl err" "chain' = chain" "\<not> so_dryRun opts"
proof (cases "so_dryRun opts")
  case True
  with assms(2) dry dryrun show ?thesis by auto
next
  case False
  show ?thesis
  proof (cases r)
    case (Inl err)
    with False assms refused failed show ?thesis by blast
  next
    case (Inr g)
    with False assms confirmed obtain t where t: "chain' = chain @ [t]" by blast
    with only [OF assms(2)] have "form opts tx t" by auto
    with Inr t False sent show ?thesis by blast
  qed
qed

end

lemma submitAttempts_only:
  "submitAttempts e tx n left lastErr chain = (r, chain') \<Longrightarrow>
     \<exists>k. chain' = chain @ replicate k tx \<and> k \<le> left"
proof (induction e tx n left lastErr arbitrary: chain rule: submitAttempts.induct)
  case (2 e tx n left lastErr)
  let ?a = "sb_attempt e (n - Suc left)" and ?c = "\<lambda>a. if at_landed a then chain @ [tx] else chain"
  show ?case
  proof (cases "at_result ?a")
    case (Inr g)
    with "2.prems" have "chain' = ?c ?a" by (simp add: Let_def andThen_def modify_def ret_def)
    then show ?thesis by (intro exI [of _ "if at_landed ?a then 1 else 0"]) simp
  next
    case (Inl err)
    with "2.prems" have "submitAttempts e tx n left (sb_string e err) (?c ?a) = (r, chain')"
      by (simp add: Let_def andThen_def modify_def)
    from "2.IH" [OF HOL.refl Inl this] obtain k where "chain' = ?c ?a @ replicate k tx" "k \<le> left" by blast
    then show ?thesis by (intro exI [of _ "if at_landed ?a then Suc k else k"]) simp
  qed
qed (simp add: throw_def)

lemma submitAttempts_truthful:
  assumes "\<forall>n. at_landed (sb_attempt e n) \<longleftrightarrow> (\<exists>g. at_result (sb_attempt e n) = Inr g)"
    and "submitAttempts e tx n left lastErr chain = (r, chain')"
  shows "chain' = (case r of Inr _ \<Rightarrow> chain @ [tx] | Inl _ \<Rightarrow> chain)"
  using assms(2)
proof (induction left arbitrary: lastErr)
  case (Suc left)
  then show ?case
    using assms(1) by (auto simp: Let_def andThen_def modify_def ret_def split: sum.splits if_splits)
qed (auto simp: throw_def)

definition maxAttempts :: "SubmitOptions \<Rightarrow> nat" where
  "maxAttempts opts = (case so_maxRetries opts of Some n \<Rightarrow> n | None \<Rightarrow> 3)"

interpretation rpc: landing submit "\<lambda>opts tx t. t = budgetedTx opts tx" maxAttempts
proof
  fix e :: SubmitEnv and opts :: SubmitOptions and tx :: "'a tx" and chain chain' :: "'a tx list" and r
  assume "submit e opts tx chain = (r, chain')"
  then show "\<exists>new. chain' = chain @ new \<and> (\<forall>t\<in>set new. t = budgetedTx opts tx) \<and> length new \<le> maxAttempts opts"
    by (auto simp: submit_def ret_def Let_def maxAttempts_def split: if_splits dest!: submitAttempts_only)
qed (auto simp: submit_def ret_def truthful_def Let_def split: if_splits dest!: submitAttempts_truthful [rotated])

text \<open>The bundle lands or not, whatever its answers; they decide whether the result is a signature.\<close>

lemma jito_outcome:
  assumes "tryCatch (jitoSubmitProtected jc e tx) (\<lambda>_. ret None) chain = (r, chain')"
  obtains sig new where "r = Inr sig" "chain' = chain @ new" "new = [] \<or> je_landed e \<and> new = [protectedTx jc (je_random e) tx]"
    "truthy sig \<longleftrightarrow> confirmedByJito e" "confirmedByJito e \<Longrightarrow> je_landed e \<Longrightarrow> new \<noteq> []"
proof (cases "je_sign e")
  case (Inl err)
  with assms have "r = Inr None" "chain' = chain"
    by (auto simp: jitoSubmitProtected_def tryCatch_def andThen_def lift_def ret_def)
  with that [of None "[]"] Inl show ?thesis by (auto simp: truthy_def confirmedByJito_def)
next
  case (Inr expectedSig)
  define new where "new = (if je_landed e then [protectedTx jc (je_random e) tx] else [])"
  define sig where "sig = (case je_send e of Inr (_, None) \<Rightarrow> pollBundle expectedSig (je_polls e) | _ \<Rightarrow> None)"
  have "r = Inr sig" "chain' = chain @ new"
    using assms Inr unfolding new_def sig_def
    by (auto simp: jitoSubmitProtected_def tryCatch_def andThen_def lift_def ret_def modify_def
        split: sum.splits prod.splits option.splits if_splits)
  moreover have "truthy sig \<longleftrightarrow> confirmedByJito e"
    using Inr unfolding sig_def
    by (auto simp: confirmedByJito_def truthy_def split: sum.splits prod.splits option.splits)
  ultimately show ?thesis using that [of sig new] by (auto simp: new_def)
qed

lemma submitProtected_Some:
  assumes "\<not> so_dryRun opts"
  shows "submitProtected (Some jc) e opts tx chain =
    (case tryCatch (jitoSubmitProtected jc (sb_jito e) tx) (\<lambda>_. ret None) chain of
       (Inl err, c) \<Rightarrow> (Inl err, c)
     | (Inr sig, c) \<Rightarrow> if truthy sig then (Inr (the sig), c) else submit e opts tx c)"
  using assms by (simp add: submitProtected_def andThen_def ret_def split: prod.splits sum.splits)

interpretation mev: landing "submitProtected jito" "carries jito" "\<lambda>opts. Suc (maxAttempts opts)"
  for jito :: "JitoClient option"
proof
  fix e :: SubmitEnv and opts :: SubmitOptions and tx :: "'a tx" and chain chain' :: "'a tx list" and r
  assume run: "submitProtected jito e opts tx chain = (r, chain')"
  show "\<exists>new. chain' = chain @ new \<and> (\<forall>t\<in>set new. carries jito opts tx t) \<and> length new \<le> Suc (maxAttempts opts)"
  proof (cases "jito = None \<or> so_dryRun opts")
    case True
    then show ?thesis
      using run rpc.only [of e opts tx chain r chain']
      by (auto simp: submitProtected_def carries_def ret_def split: option.splits intro: le_SucI)
  next
    case False
    then obtain jc where jc: "jito = Some jc" and live: "\<not> so_dryRun opts" by auto
    obtain r1 c1 where first: "tryCatch (jitoSubmitProtected jc (sb_jito e) tx) (\<lambda>_. ret None) chain = (r1, c1)"
      by (cases "tryCatch (jitoSubmitProtected jc (sb_jito e) tx) (\<lambda>_. ret None) chain")
    from jito_outcome [OF first] obtain sig new where j: "r1 = Inr sig" "c1 = chain @ new"
      "new = [] \<or> je_landed (sb_jito e) \<and> new = [protectedTx jc (je_random (sb_jito e)) tx]" by metis
    have new: "length new \<le> 1" "\<forall>t\<in>set new. carries jito opts tx t" using j(3) jc by (auto simp: carries_def)
    show ?thesis
    proof (cases "truthy sig")
      case True
      with run jc live first j new show ?thesis by (auto simp: submitProtected_Some)
    next
      case False
      with run jc live first j have "submit e opts tx (chain @ new) = (r, chain')"
        by (simp add: submitProtected_Some)
      from rpc.only [OF this] obtain more where "chain' = chain @ new @ more"
        "\<forall>t\<in>set more. t = budgetedTx opts tx" "length more \<le> maxAttempts opts" by auto
      with new show ?thesis by (intro exI [of _ "new @ more"]) (auto simp: carries_def)
    qed
  qed
next
  fix e :: SubmitEnv and opts :: SubmitOptions and tx :: "'a tx" and chain chain' :: "'a tx list" and g
  assume a: "truthful e" "\<not> so_dryRun opts" "submitProtected jito e opts tx chain = (Inr g, chain')"
  show "\<exists>t. chain' = chain @ [t]"
  proof (cases jito)
    case None
    with a show ?thesis using rpc.confirmed by (auto simp: submitProtected_def)
  next
    case (Some jc)
    show ?thesis
      using a Some rpc.confirmed [OF a(1,2)]
      by (auto simp: submitProtected_Some truthful_def split: prod.splits sum.splits if_splits elim!: jito_outcome)
  qed
next
  fix e :: SubmitEnv and opts :: SubmitOptions and tx :: "'a tx" and chain chain' :: "'a tx list" and err
  assume a: "truthful e" "submitProtected jito e opts tx chain = (Inl err, chain')"
  show "chain' = chain"
  proof (cases "jito = None \<or> so_dryRun opts")
    case True
    with a rpc.refused show ?thesis by (auto simp: submitProtected_def ret_def split: option.splits)
  next
    case False
    then show ?thesis
      using a rpc.refused [OF a(1)]
      by (auto simp: submitProtected_Some truthful_def split: prod.splits sum.splits if_splits elim!: jito_outcome)
  qed
qed (auto simp: submitProtected_def rpc.dry ret_def split: option.splits)

section \<open>Properties\<close>


definition jito_demo :: JitoEnv where
  "jito_demo = \<lparr>je_random = 0, je_sign = Inr ''j'', je_send = Inl ''offline'', je_polls = [], je_landed = False\<rparr>"

definition submit_demo :: SubmitEnv where
  "submit_demo = \<lparr>sb_attempt = (\<lambda>n. if n = 1 then \<lparr>at_result = Inr ''sig'', at_landed = True\<rparr>
     else \<lparr>at_result = Inl ''429'', at_landed = False\<rparr>), sb_jito = jito_demo, sb_string = id\<rparr>"

definition opts_demo :: SubmitOptions where
  "opts_demo = \<lparr>so_priorityFeeMicroLamports = None, so_maxRetries = None, so_dryRun = False\<rparr>"

definition client_demo :: JitoClient where
  "client_demo = \<lparr>jc_payer = ''payer'', jc_tipAccounts = DEFAULT_JITO_TIP_ACCOUNTS, jc_tipLamports = 10000\<rparr>"


text \<open>Whatever node and block engine report, a submission returns, lands nothing but the caller's transaction,
  and at most once per attempt: the number of retries, and one more where the block engine is tried first. This
  number can be reached: when every report is a time-out of a transaction that landed, a submission that throws
  has landed the transaction once per attempt.\<close>

theorem submit_bounded:
  "(\<exists>r new. submitProtected jito e opts tx chain = (r, chain @ new)
      \<and> (\<forall>t. t \<in> set new \<longrightarrow> carries jito opts tx t) \<and> length new \<le> Suc (maxAttempts opts))
   \<and> (\<not> so_dryRun opts \<longrightarrow> (\<exists>e err. submit e opts tx chain =
        (Inl err, chain @ replicate (maxAttempts opts) (budgetedTx opts tx))))"
proof -
  let ?lost = "\<lparr>sb_attempt = \<lambda>_. \<lparr>at_result = Inl ''timeout'', at_landed = True\<rparr>, sb_jito = jito_demo, sb_string = id\<rparr>"
  have lost: "\<exists>err. submitAttempts ?lost t n left lastErr chain = (Inl err, chain @ replicate left t)"
    for t n left lastErr and chain :: "'a tx list"
  proof (induction left arbitrary: lastErr chain)
    case (Suc left)
    from Suc [of "''timeout''" "chain @ [t]"] show ?case by (simp add: Let_def andThen_def modify_def)
  qed (simp add: throw_def)
  have "\<exists>e err. submit e opts tx chain = (Inl err, chain @ replicate (maxAttempts opts) (budgetedTx opts tx))"
    if "\<not> so_dryRun opts"
    using that lost [of "budgetedTx opts tx" "maxAttempts opts" "maxAttempts opts" "''undefined''" chain]
    by (auto simp: submit_def Let_def maxAttempts_def intro!: exI [of _ ?lost])
  moreover obtain r chain' where "submitProtected jito e opts tx chain = (r, chain')"
    by (cases "submitProtected jito e opts tx chain")
  ultimately show ?thesis using mev.only [of jito e opts tx chain r chain'] by auto
qed

theorem submit_bounded_witness:
  "\<exists>e err. submit e opts_demo [Ix (7::nat)] [] =
     (Inl err, replicate 3 (SetComputeUnitPrice 10000 # [Ix 7]))"
  using submit_bounded [of None submit_demo opts_demo "[Ix (7::nat)]" "[]"]
  by (simp add: opts_demo_def maxAttempts_def budgetedTx_def)

end
