(* ===== verification/Rebalancer.thy ===== *)
theory Rebalancer
  imports Strategy Tx_Submitter
begin

text \<open>
  \<open>src/src/rebalancer.ts\<close>: closing the position, swapping to equal halves and opening a new one. The venue
  client (\<open>src/src/venueClient.ts\<close>) is an interface: what its calls return is part of the environment
  \<open>RebEnv\<close>, with the transactions of a type \<open>'i\<close> of instructions. The state is the database and the log of what
  happened outside it: the transactions that landed, the messages sent to the operators and the position that was
  asked for. Every transaction goes through the submitter of \<open>Tx_Submitter\<close>. \<open>meanwhile1\<close> to \<open>meanwhile3\<close> are the
  writes of other tasks between two accesses to the database.
\<close>

record OpenPositionParams =
  op_lowerUsd :: rat
  op_upperUsd :: rat
  op_bertAmountRaw :: int
  op_solAmountLamports :: int
  op_solUsd :: rat

datatype Severity = INFO | WARN | CRITICAL

datatype Step = CloseStep | SwapStep | OpenStep | RollbackStep

datatype 'i effect = Landed Step "'i tx" | Notified Severity "frag list" | AskedOpen OpenPositionParams

record RebConfig =
  rc_maxDrawdownPct :: rat
  rc_maxRebalancesPerDay :: rat
  rc_rangeWidthPct :: rat
  rc_minSolFloorLamports :: int
  rc_maxPositionUsd :: rat
  rc_priorityFeeMicroLamports :: rat
  rc_dryRun :: bool
  rc_jito :: "JitoClient option"

record 'i RebEnv =
  re_now :: int
  re_simulateClose :: "string \<Rightarrow> rat \<Rightarrow> (rat \<times> int \<times> int) result"
  re_buildClose :: "string \<Rightarrow> ('i tx \<times> int \<times> int) result"
  re_balances1 :: "(int \<times> int) result"
  re_buildSwap :: "int \<Rightarrow> int \<Rightarrow> rat \<Rightarrow> 'i tx result"
  re_balances2 :: "(int \<times> int) result"
  re_balances3 :: "(int \<times> int) result"
  re_buildOpen :: "OpenPositionParams \<Rightarrow> ('i tx \<times> string) result"
  re_buildRollback :: "string \<Rightarrow> 'i tx result"
  re_close :: SubmitEnv
  re_swap :: SubmitEnv
  re_open :: SubmitEnv
  re_rollback :: SubmitEnv
  re_positionFault :: "js_error option"
  re_recordFault :: "js_error option"
  re_degradedFault :: "js_error option"
  re_meanwhile1 :: "db \<Rightarrow> db"
  re_meanwhile2 :: "db \<Rightarrow> db"
  re_meanwhile3 :: "db \<Rightarrow> db"
  re_string :: "js_error \<Rightarrow> string"

datatype RebalanceResult = OK "frag list" string | SKIPPED "frag list" | FAILED "frag list"

type_synonym ('i, 'a) rebm = "(db \<times> 'i effect list, 'a) exn"

definition notify :: "Severity \<Rightarrow> frag list \<Rightarrow> ('i, unit) rebm" where
  "notify sev msg = emit [Notified sev msg]"

text \<open>\<open>try { x = m } catch (e) { return h e }\<close>, followed by \<open>k x\<close>.\<close>

definition tryElse :: "('s, 'a) exn \<Rightarrow> (js_error \<Rightarrow> ('s, 'b) exn) \<Rightarrow> ('a \<Rightarrow> ('s, 'b) exn) \<Rightarrow> ('s, 'b) exn" where
  "tryElse m h k s = (case m s of (Inl err, s') \<Rightarrow> h err s' | (Inr x, s') \<Rightarrow> k x s')"

text \<open>A submission in the course of a rebalance: what lands goes to the log.\<close>

definition viaChain :: "Step \<Rightarrow> ('i, 'a) chainm \<Rightarrow> ('i, 'a) rebm" where
  "viaChain step m s = (case m [] of (r, new) \<Rightarrow> (r, (fst s, snd s @ map (Landed step) new)))"

definition faulty :: "js_error option \<Rightarrow> (db \<Rightarrow> db) \<Rightarrow> unit dbm" where
  "faulty fault f = (case fault of Some e \<Rightarrow> throw e | None \<Rightarrow> modify f)"

definition submitOpts :: "RebConfig \<Rightarrow> SubmitOptions" where
  "submitOpts cfg = \<lparr>so_priorityFeeMicroLamports = Some (rc_priorityFeeMicroLamports cfg), so_maxRetries = None,
     so_dryRun = rc_dryRun cfg\<rparr>"

definition rollbackOpts :: "RebConfig \<Rightarrow> SubmitOptions" where
  "rollbackOpts cfg = \<lparr>so_priorityFeeMicroLamports = Some (rc_priorityFeeMicroLamports cfg), so_maxRetries = None,
     so_dryRun = False\<rparr>"

definition degrade :: "'i RebEnv \<Rightarrow> string \<Rightarrow> ('i, unit) rebm" where
  "degrade e reason = onDb (faulty (re_degradedFault e) (setDegraded (re_now e) True reason))"

section \<open>The steps\<close>

text \<open>Step 1, the drawdown breaker: the result to return at once, if any.\<close>

definition effectiveValue :: "MidPrice \<Rightarrow> rat \<times> int \<times> int \<Rightarrow> rat" where
  "effectiveValue mid sim =
     (case sim of (effectivePriceUsd, bertOut, solOut) \<Rightarrow>
        nadd (nmul (ndiv (numOfBig bertOut) 1000000) effectivePriceUsd)
             (nmul (ndiv (numOfBig solOut) 1000000000) (mp_solUsd mid)))"

definition drawdownThreshold :: "RebConfig \<Rightarrow> rat" where
  "drawdownThreshold cfg = nsub 1 (ndiv (rc_maxDrawdownPct cfg) 100)"

definition drawdownTrips :: "RebConfig \<Rightarrow> MidPrice \<Rightarrow> rat \<Rightarrow> rat \<times> int \<times> int \<Rightarrow> bool" where
  "drawdownTrips cfg mid entryValueUsd sim \<longleftrightarrow>
     entryValueUsd > 0 \<and> ndiv (effectiveValue mid sim) entryValueUsd < drawdownThreshold cfg"

definition drawdownDetail :: "RebConfig \<Rightarrow> MidPrice \<Rightarrow> rat \<Rightarrow> rat \<times> int \<times> int \<Rightarrow> frag list" where
  "drawdownDetail cfg mid entry sim =
     [Lit ''drawdown breaker tripped: effective='', Fixed 2 (effectiveValue mid sim), Lit '' entry='', Fixed 2 entry,
      Lit '' ratio='', Fixed 1 (nmul (ndiv (effectiveValue mid sim) entry) 100), Lit ''% < '',
      Fixed 1 (nmul (drawdownThreshold cfg) 100), Lit ''%'']"

definition preflight :: "RebConfig \<Rightarrow> 'i RebEnv \<Rightarrow> MidPrice \<Rightarrow> PositionSnapshot option \<Rightarrow> ('i, RebalanceResult option) rebm" where
  "preflight cfg e mid position =
     (case position of
        None \<Rightarrow> ret None
      | Some pos \<Rightarrow>
          andThen (onDb (modify (re_meanwhile1 e))) (\<lambda>_.
            tryCatch
              (andThen (lift (re_simulateClose e (po_nftMint pos) (mp_solUsd mid))) (\<lambda>sim.
                 if drawdownTrips cfg mid (po_totalValueUsd pos) sim
                 then let detail = drawdownDetail cfg mid (po_totalValueUsd pos) sim
                      in andThen (degrade e ''drawdown breaker tripped'') (\<lambda>_.
                         andThen (notify CRITICAL (Lit ''DRAWDOWN BREAKER: '' # detail)) (\<lambda>_.
                         ret (Some (SKIPPED detail))))
                 else ret None))
              (\<lambda>err. let detail = [Lit (''simulateClose failed '' ), Cp 0x2014,
                                  Lit ('' refusing to rebalance without drawdown check: '' @ re_string e err)]
                     in andThen (notify CRITICAL (Lit ''DRAWDOWN CHECK FAILED: '' # detail)) (\<lambda>_.
                        ret (Some (SKIPPED detail))))))"

text \<open>Step 3, closing the current position: its signature, or the result to return.\<close>

definition closeStep :: "RebConfig \<Rightarrow> 'i RebEnv \<Rightarrow> PositionSnapshot option \<Rightarrow> ('i, RebalanceResult + string option) rebm" where
  "closeStep cfg e position =
     (case position of
        None \<Rightarrow> ret (Inr None)
      | Some pos \<Rightarrow>
          (case re_buildClose e (po_nftMint pos) of
             Inl err \<Rightarrow>
               let detail = [Lit (''buildClosePositionTx failed: '' @ re_string e err)]
               in andThen (notify CRITICAL (Lit ''Rebalance FAILED (close tx build): '' # detail)) (\<lambda>_. ret (Inl (FAILED detail)))
           | Inr (closeTx, expectedBertOut, expectedSolOut) \<Rightarrow>
               tryCatch
                 (andThen (viaChain CloseStep (submitProtected (rc_jito cfg) (re_close e) (submitOpts cfg) closeTx)) (\<lambda>sig.
                    ret (Inr (Some sig))))
                 (\<lambda>err. let detail = [Lit (''close submit failed: '' @ re_string e err)]
                        in andThen (notify CRITICAL (Lit ''Rebalance FAILED (close submit): '' # detail)) (\<lambda>_.
                           ret (Inl (FAILED detail))))))"

definition closedNotice :: "'i RebEnv \<Rightarrow> PositionSnapshot option \<Rightarrow> string option \<Rightarrow> ('i, unit) rebm" where
  "closedNotice e position closeSig =
     (case (position, closeSig) of
        (Some pos, Some sig) \<Rightarrow>
          (case re_buildClose e (po_nftMint pos) of
             Inr (_, expectedBertOut, expectedSolOut) \<Rightarrow>
               notify INFO [Lit ''Position closed '', Cp 0x2014, Lit ('' sig='' @ sig @ '' expectedBert='' @
                 bigToString expectedBertOut @ '' expectedSol='' @ bigToString expectedSolOut)]
           | Inl _ \<Rightarrow> ret ())
      | _ \<Rightarrow> ret ())"

text \<open>Step 5, the new range.\<close>

definition newRange :: "RebConfig \<Rightarrow> MidPrice \<Rightarrow> rat \<times> rat" where
  "newRange cfg mid =
     (let center = mp_bertUsd mid;
          halfWidth = ndiv (nmul center (ndiv (rc_rangeWidthPct cfg) 100)) 2
      in (nsub center halfWidth, nadd center halfWidth))"

text \<open>Steps 6 and 7. \<open>usable\<close> keeps the SOL floor back; \<open>inventory\<close> is the value of SOL and BERT.\<close>

definition usable :: "RebConfig \<Rightarrow> int \<Rightarrow> int" where
  "usable cfg sol = (if sol > rc_minSolFloorLamports cfg then sol - rc_minSolFloorLamports cfg else 0)"

definition solValue :: "MidPrice \<Rightarrow> int \<Rightarrow> rat" where
  "solValue mid sol = nmul (ndiv (numOfBig sol) 1000000000) (mp_solUsd mid)"

definition bertValue :: "MidPrice \<Rightarrow> int \<Rightarrow> rat" where
  "bertValue mid bert = nmul (ndiv (numOfBig bert) 1000000) (mp_bertUsd mid)"

definition swapStep :: "RebConfig \<Rightarrow> 'i RebEnv \<Rightarrow> int \<Rightarrow> int \<Rightarrow> ('i, unit) rebm" where
  "swapStep cfg e usableSol bert =
     tryCatch
       (andThen (lift (re_buildSwap e bert usableSol (1 / 2))) (\<lambda>swapTx.
          if swapTx = [] then ret ()
          else andThen (viaChain SwapStep (submitProtected (rc_jito cfg) (re_swap e) (submitOpts cfg) swapTx)) (\<lambda>_.
               if rc_dryRun cfg then ret () else andThen (lift (re_balances2 e)) (\<lambda>_. ret ()))))
       (\<lambda>_. ret ())"

text \<open>\<open>BigInt\<close> of a quotient by zero, which is not an integer, throws.\<close>

definition dryAmount :: "rat \<Rightarrow> rat \<Rightarrow> rat \<Rightarrow> int result" where
  "dryAmount usd price unit =
     (if price = 0 then Inl ''The number cannot be converted to a BigInt because it is not an integer''
      else Inr \<lfloor>nmul (ndiv usd price) unit\<rfloor>)"

text \<open>The final amounts: the whole inventory, scaled down to the largest allowed position.\<close>

definition finalAmounts :: "RebConfig \<Rightarrow> MidPrice \<Rightarrow> int \<times> int \<Rightarrow> int \<times> int" where
  "finalAmounts cfg mid bal =
     (let finalUsableSol = usable cfg (fst bal);
          finalTotalUsd = nadd (bertValue mid (snd bal)) (solValue mid finalUsableSol);
          capUsd = min finalTotalUsd (rc_maxPositionUsd cfg);
          scale = (if finalTotalUsd > 0 then ndiv capUsd finalTotalUsd else 0)
      in (\<lfloor>nmul (numOfBig (snd bal)) scale\<rfloor>, \<lfloor>nmul (numOfBig finalUsableSol) scale\<rfloor>))"

text \<open>The swap is skipped when the BERT share of the inventory is within one percent of a half; the literal
  \<open>0.01\<close> is the double nearest to it.\<close>

definition needsSwap :: "rat \<Rightarrow> rat \<Rightarrow> bool" where
  "needsSwap usableBertUsd totalUsableUsd \<longleftrightarrow>
     (let currentBertRatio = (if totalUsableUsd > 0 then ndiv usableBertUsd totalUsableUsd else 1 / 2)
      in \<bar>nsub currentBertRatio (1 / 2)\<bar> > fl (1 / 100))"

definition amountsStep :: "RebConfig \<Rightarrow> 'i RebEnv \<Rightarrow> MidPrice \<Rightarrow> rat \<Rightarrow> ('i, int \<times> int \<times> rat) rebm" where
  "amountsStep cfg e mid half =
     (if \<not> rc_dryRun cfg
      then andThen (lift (re_balances3 e)) (\<lambda>finalBal.
             ret (fst (finalAmounts cfg mid finalBal), snd (finalAmounts cfg mid finalBal), half))
      else andThen (lift (dryAmount half (mp_bertUsd mid) 1000000)) (\<lambda>bertAmountRaw.
           andThen (lift (dryAmount half (mp_solUsd mid) 1000000000)) (\<lambda>solAmountLamports.
             ret (bertAmountRaw, solAmountLamports, half))))"

text \<open>The amounts of BERT and SOL to deposit and half the target value.\<close>

definition inventoryStep :: "RebConfig \<Rightarrow> 'i RebEnv \<Rightarrow> MidPrice \<Rightarrow> ('i, int \<times> int \<times> rat) rebm" where
  "inventoryStep cfg e mid =
     andThen (lift (re_balances1 e)) (\<lambda>bal.
       let usableSol = usable cfg (fst bal);
           usableSolUsd = solValue mid usableSol;
           usableBertUsd = bertValue mid (snd bal);
           totalUsableUsd = nadd usableSolUsd usableBertUsd;
           targetTotalUsd = min totalUsableUsd (rc_maxPositionUsd cfg);
           half = ndiv targetTotalUsd 2
       in andThen (if needsSwap usableBertUsd totalUsableUsd then swapStep cfg e usableSol (snd bal) else ret ()) (\<lambda>_.
          amountsStep cfg e mid half))"

text \<open>Step 8: the signature and the mint of the new position.\<close>

definition openStep :: "RebConfig \<Rightarrow> 'i RebEnv \<Rightarrow> OpenPositionParams \<Rightarrow> ('i, string \<times> string) rebm" where
  "openStep cfg e params =
     andThen (emit [AskedOpen params]) (\<lambda>_.
     andThen (lift (re_buildOpen e params)) (\<lambda>(openTx, nftMint).
     andThen (viaChain OpenStep (submitProtected (rc_jito cfg) (re_open e) (submitOpts cfg) openTx)) (\<lambda>openSig.
     ret (openSig, nftMint))))"

text \<open>Step 9: the two writes, and the close of the new position when one of them fails.\<close>

definition persist :: "'i RebEnv \<Rightarrow> StoredPosition \<Rightarrow> RebalanceRecord \<Rightarrow> unit dbm" where
  "persist e pos r =
     andThen (faulty (re_positionFault e) (setCurrentPosition pos)) (\<lambda>_.
       faulty (re_recordFault e) (recordRebalance r))"

definition orphanText :: "string \<Rightarrow> frag list" where
  "orphanText nftMint = [Lit (''ORPHANED POSITION '' @ nftMint @
     '': state write failed AND rollback close failed. Manual recovery required via: node dist/cli/index.js close-orphan --nft '' @ nftMint)]"

definition rollback :: "RebConfig \<Rightarrow> 'i RebEnv \<Rightarrow> string \<Rightarrow> ('i, unit) rebm" where
  "rollback cfg e nftMint =
     tryCatch
       (andThen (lift (re_buildRollback e nftMint)) (\<lambda>tx.
        andThen (viaChain RollbackStep (submit (re_rollback e) (rollbackOpts cfg) tx)) (\<lambda>_. ret ())))
       (\<lambda>_. notify CRITICAL (orphanText nftMint))"

definition orElse :: "string option \<Rightarrow> string \<Rightarrow> string" where
  "orElse x d = (case x of Some s \<Rightarrow> s | None \<Rightarrow> d)"

definition summary :: "RebConfig \<Rightarrow> MidPrice \<Rightarrow> PositionSnapshot option \<Rightarrow> string \<Rightarrow> rat \<Rightarrow> frag list" where
  "summary cfg mid position newNftMint half =
     [Lit ''REBALANCE '', Lit (if rc_dryRun cfg then ''(DRY RUN) '' else ''''), Lit ''OK '', Cp 0x2014, Lit '' closed '',
      Lit (orElse (map_option po_nftMint position) ''none''), Lit '' opened '', Lit newNftMint, Lit '', range $'',
      Fixed 6 (fst (newRange cfg mid)), Lit ''-$'', Fixed 6 (snd (newRange cfg mid)), Lit '', value $'',
      Fixed 2 (nadd half half), Lit ''.'']"

definition storedPosition :: "RebConfig \<Rightarrow> 'i RebEnv \<Rightarrow> MidPrice \<Rightarrow> string \<Rightarrow> StoredPosition" where
  "storedPosition cfg e mid mint = \<lparr>sp_nftMint = mint, sp_lowerUsd = fst (newRange cfg mid),
     sp_upperUsd = snd (newRange cfg mid), sp_centerUsd = mp_bertUsd mid, sp_openedAt = re_now e\<rparr>"

definition rebalanceRecord :: "'i RebEnv \<Rightarrow> MidPrice \<Rightarrow> PositionSnapshot option \<Rightarrow> RebalanceRecord" where
  "rebalanceRecord e mid position = \<lparr>rr_ts = re_now e,
     rr_oldCenterUsd = (case position of Some p \<Rightarrow> rg_centerBertUsd (po_range p) | None \<Rightarrow> 0),
     rr_newCenterUsd = mp_bertUsd mid, rr_feesCollectedUsd = 0\<rparr>"

definition finishStep ::
    "RebConfig \<Rightarrow> 'i RebEnv \<Rightarrow> MidPrice \<Rightarrow> PositionSnapshot option \<Rightarrow> string option \<Rightarrow> string \<Rightarrow> string \<Rightarrow> rat \<Rightarrow> ('i, RebalanceResult) rebm" where
  "finishStep cfg e mid position closeSig openSig newNftMint half =
     andThen (onDb (modify (re_meanwhile3 e))) (\<lambda>_.
     tryElse (if rc_dryRun cfg then ret ()
              else onDb (persist e (storedPosition cfg e mid newNftMint) (rebalanceRecord e mid position)))
       (\<lambda>err. let detail = ''state persistence failed after open: '' @ re_string e err
              in andThen (rollback cfg e newNftMint) (\<lambda>_.
                 andThen (degrade e detail) (\<lambda>_.
                 andThen (notify CRITICAL [Lit (''Rebalance FAILED (state write): '' @ detail @ ''. Position rolled back.'')]) (\<lambda>_.
                 ret (FAILED [Lit detail])))))
       (\<lambda>_. andThen (notify INFO (summary cfg mid position newNftMint half)) (\<lambda>_.
            ret (OK [Lit (''closed='' @ orElse closeSig ''none'' @ '' opened='' @ openSig @ '' nft='' @ newNftMint)] newNftMint))))"

definition openParams :: "RebConfig \<Rightarrow> MidPrice \<Rightarrow> int \<Rightarrow> int \<Rightarrow> OpenPositionParams" where
  "openParams cfg mid bert sol = \<lparr>op_lowerUsd = fst (newRange cfg mid), op_upperUsd = snd (newRange cfg mid),
     op_bertAmountRaw = bert, op_solAmountLamports = sol, op_solUsd = mp_solUsd mid\<rparr>"

text \<open>From the balances on: the position is closed.\<close>

definition reopen :: "RebConfig \<Rightarrow> 'i RebEnv \<Rightarrow> MidPrice \<Rightarrow> PositionSnapshot option \<Rightarrow> string option \<Rightarrow> ('i, RebalanceResult) rebm" where
  "reopen cfg e mid position closeSig =
     tryElse (inventoryStep cfg e mid)
       (\<lambda>err. let detail = ''swap-to-ratio failed after close: '' @ re_string e err
              in andThen (onDb (modify (re_meanwhile2 e))) (\<lambda>_.
                 andThen (degrade e detail) (\<lambda>_.
                 andThen (notify CRITICAL [Lit ''Rebalance FAILED (swap-to-ratio) '', Cp 0x2014,
                    Lit ('' close sig='' @ orElse closeSig ''N/A'' @ '', swap error: '' @ re_string e err @ ''. Bot is DEGRADED.'')]) (\<lambda>_.
                 ret (FAILED [Lit detail])))))
       (\<lambda>(bertAmountRaw, solAmountLamports, half).
         tryElse (openStep cfg e (openParams cfg mid bertAmountRaw solAmountLamports))
           (\<lambda>err. let detail = ''close ok, open failed: '' @ re_string e err
                  in andThen (onDb (modify (re_meanwhile3 e))) (\<lambda>_.
                     andThen (degrade e detail) (\<lambda>_.
                     andThen (notify CRITICAL [Lit ''Rebalance PARTIALLY FAILED '', Cp 0x2014,
                        Lit ('' close sig='' @ orElse closeSig ''N/A'' @ '', open error: '' @ re_string e err @ ''. Bot is DEGRADED.'')]) (\<lambda>_.
                     ret (FAILED [Lit detail])))))
           (\<lambda>(openSig, newNftMint). finishStep cfg e mid position closeSig openSig newNftMint half))"

definition executeRebalance :: "RebConfig \<Rightarrow> 'i RebEnv \<Rightarrow> MidPrice \<Rightarrow> PositionSnapshot option \<Rightarrow> ('i, RebalanceResult) rebm" where
  "executeRebalance cfg e mid position =
     andThen (preflight cfg e mid position) (\<lambda>early.
       case early of
         Some result \<Rightarrow> ret result
       | None \<Rightarrow>
           andThen (onDb (gets (getRebalancesToday (re_now e)))) (\<lambda>today.
             if of_nat today \<ge> rc_maxRebalancesPerDay cfg then ret (SKIPPED [Lit ''daily cap reached''])
             else andThen (closeStep cfg e position) (\<lambda>closed.
               case closed of
                 Inl result \<Rightarrow> ret result
               | Inr closeSig \<Rightarrow>
                   andThen (closedNotice e position closeSig) (\<lambda>_. reopen cfg e mid position closeSig))))"

section \<open>What each step does\<close>

lemma tryElse_run [exn_simps]:
  "m s = (Inr x, s') \<Longrightarrow> tryElse m h k s = k x s'"
  "m s = (Inl err, s') \<Longrightarrow> tryElse m h k s = h err s'"
  by (simp_all add: tryElse_def)

lemma stays_tryElse:
  assumes "store_order R" "stays R m" "\<And>err. stays R (h err)" "\<And>x. stays R (k x)"
  shows "stays R (tryElse m h k)"
  unfolding stays_def
proof
  fix s
  obtain r s' where m: "m s = (r, s')" by (cases "m s")
  then have "R s s'" using staysD [OF assms(2), of s] by simp
  moreover have "R s' (snd (h err s'))" "R s' (snd (k x s'))" for err x
    by (rule staysD [OF assms(3)], rule staysD [OF assms(4)])
  ultimately show "R s (snd (tryElse m h k s))"
    using m store_order.trans [OF assms(1), of s s'] by (cases r) (simp_all add: exn_simps)
qed

definition landed :: "'i effect list \<Rightarrow> Step list" where
  "landed xs = List.map_filter (\<lambda>x. case x of Landed st _ \<Rightarrow> Some st | _ \<Rightarrow> None) xs"

definition asked :: "'i effect list \<Rightarrow> OpenPositionParams list" where
  "asked xs = List.map_filter (\<lambda>x. case x of AskedOpen p \<Rightarrow> Some p | _ \<Rightarrow> None) xs"

lemma effects_simps [simp]:
  "landed [] = []" "landed (Landed st tx # xs) = st # landed xs" "landed (Notified v m # xs) = landed xs"
  "landed (AskedOpen p # xs) = landed xs" "landed (xs @ ys) = landed xs @ landed ys"
  "asked [] = []" "asked (Landed st tx # xs) = asked xs" "asked (Notified v m # xs) = asked xs"
  "asked (AskedOpen p # xs) = p # asked xs" "asked (xs @ ys) = asked xs @ asked ys"
  by (simp_all add: landed_def asked_def List.map_filter_def)

lemma landed_steps [simp]: "landed (map (Landed st) txs) = replicate (length txs) st" "asked (map (Landed st) txs) = []"
  by (induction txs) simp_all

definition truthfulReb :: "'i RebEnv \<Rightarrow> bool" where
  "truthfulReb e \<longleftrightarrow> truthful (re_close e) \<and> truthful (re_swap e) \<and> truthful (re_open e) \<and> truthful (re_rollback e)"

lemma protected_run:
  assumes "truthful se" "viaChain st (submitProtected jito se (submitOpts cfg) tx) (d, es) = (r, s')"
  shows "\<exists>new. s' = (d, es @ new) \<and> asked new = []
       \<and> landed new = (case r of Inr _ \<Rightarrow> if rc_dryRun cfg then [] else [st] | Inl _ \<Rightarrow> [])"
proof -
  obtain chain where run: "submitProtected jito se (submitOpts cfg) tx [] = (r, chain)" "s' = (d, es @ map (Landed st) chain)"
    using assms(2) by (auto simp: viaChain_def split: prod.splits)
  show ?thesis
    by (rule mev.outcome [OF assms(1) run(1)]) (use run(2) in \<open>auto simp: submitOpts_def\<close>)
qed

lemma notify_run [exn_simps]: "notify v m (d, es) = (Inr (), (d, es @ [Notified v m]))"
  by (simp add: notify_def exn_simps)

lemma preflight_cases:
  assumes "preflight cfg e mid position (d, es) = (r, s')"
  obtains (pass) d1 where "r = Inr None" "s' = (d1, es)" "d1 = (if position = None then d else re_meanwhile1 e d)"
      "\<forall>pos. position = Some pos \<longrightarrow> (\<exists>sim. re_simulateClose e (po_nftMint pos) (mp_solUsd mid) = Inr sim
          \<and> \<not> drawdownTrips cfg mid (po_totalValueUsd pos) sim)"
  | (stop) pos detail notice d1 where "position = Some pos" "r = Inr (Some (SKIPPED detail))"
      "s' = (d1, es @ [Notified CRITICAL notice])"
      "d1 = re_meanwhile1 e d \<or> d1 = setDegraded (re_now e) True ''drawdown breaker tripped'' (re_meanwhile1 e d)"
      "\<And>sim. re_simulateClose e (po_nftMint pos) (mp_solUsd mid) = Inr sim \<Longrightarrow>
          drawdownTrips cfg mid (po_totalValueUsd pos) sim"
      "\<And>sim. re_simulateClose e (po_nftMint pos) (mp_solUsd mid) = Inr sim \<Longrightarrow> re_degradedFault e = None \<Longrightarrow>
          d1 = setDegraded (re_now e) True ''drawdown breaker tripped'' (re_meanwhile1 e d)"
proof (cases position)
  case None
  with assms pass show ?thesis by (simp add: preflight_def exn_simps)
next
  case (Some pos)
  show ?thesis
  proof (cases "re_simulateClose e (po_nftMint pos) (mp_solUsd mid)")
    case (Inl err)
    with assms Some show ?thesis
      by (auto simp: preflight_def exn_simps Let_def intro!: stop)
  next
    case (Inr sim)
    note runs = preflight_def degrade_def faulty_def exn_simps Let_def
    show ?thesis
    proof (cases "drawdownTrips cfg mid (po_totalValueUsd pos) sim")
      case False
      with assms Some Inr show ?thesis by (auto simp: runs intro!: pass)
    next
      case True
      show ?thesis
        using assms Some Inr True by (cases "re_degradedFault e") (auto simp: runs intro!: stop)
    qed
  qed
qed

lemma tryCatch_cases:
  assumes "tryCatch m h s = (r, s')"
  obtains (ok) x where "m s = (Inr x, s')" "r = Inr x" | (caught) err s1 where "m s = (Inl err, s1)" "h err s1 = (r, s')"
  using assms by (auto simp: tryCatch_def split: prod.splits sum.splits)

lemma andThen_cases:
  assumes "andThen m f s = (r, s')"
  obtains (ok) x s1 where "m s = (Inr x, s1)" "f x s1 = (r, s')" | (thrown) err where "m s = (Inl err, s')" "r = Inl err"
  using assms by (auto simp: andThen_def split: prod.splits sum.splits)

lemma closeStep_cases:
  assumes t: "truthfulReb e" and run: "closeStep cfg e position (d, es) = (r, s')"
  obtains (closed) sig new where "r = Inr (Inr sig)" "s' = (d, es @ new)" "asked new = []"
      "landed new = (if position = None \<or> rc_dryRun cfg then [] else [CloseStep])"
  | (stuck) detail new where "r = Inr (Inl (FAILED detail))" "s' = (d, es @ new)" "landed new = []" "asked new = []"
proof (cases position)
  case None
  with run show ?thesis by (intro closed [of None "[]"]) (auto simp: closeStep_def exn_simps)
next
  case (Some pos)
  show ?thesis
  proof (cases "re_buildClose e (po_nftMint pos)")
    case (Inl err)
    with run Some show ?thesis by (auto simp: closeStep_def exn_simps Let_def intro!: stuck)
  next
    case (Inr built)
    obtain closeTx bertOut solOut where b: "built = (closeTx, bertOut, solOut)" by (cases built) auto
    let ?via = "viaChain CloseStep (submitProtected (rc_jito cfg) (re_close e) (submitOpts cfg) closeTx)"
    obtain r1 s1 where via: "?via (d, es) = (r1, s1)" by (cases "?via (d, es)")
    have "truthful (re_close e)" using t by (simp add: truthfulReb_def)
    from protected_run [OF this via] obtain new where new: "s1 = (d, es @ new)" "asked new = []"
      "landed new = (case r1 of Inr _ \<Rightarrow> if rc_dryRun cfg then [] else [CloseStep] | Inl _ \<Rightarrow> [])"
      by blast
    show ?thesis
    proof (cases r1)
      case (Inl err)
      with run Some Inr b via new show ?thesis
        by (auto simp: closeStep_def exn_simps Let_def intro!: stuck)
    next
      case (Inr sig)
      with run Some \<open>re_buildClose e (po_nftMint pos) = Inr built\<close> b via new show ?thesis
        by (auto simp: closeStep_def exn_simps intro!: closed)
    qed
  qed
qed

lemma swapStep_run:
  assumes "truthfulReb e"
  obtains new where "swapStep cfg e usableSol bert (d, es) = (Inr (), (d, es @ new))" "asked new = []"
    "landed new = [] \<or> landed new = [SwapStep] \<and> \<not> rc_dryRun cfg"
proof (cases "re_buildSwap e bert usableSol (1 / 2)")
  case (Inl err)
  then show ?thesis by (intro that [of "[]"]) (auto simp: swapStep_def exn_simps)
next
  case (Inr tx)
  show ?thesis
  proof (cases "tx = []")
    case True
    with Inr show ?thesis by (intro that [of "[]"]) (auto simp: swapStep_def exn_simps)
  next
    case False
    let ?via = "viaChain SwapStep (submitProtected (rc_jito cfg) (re_swap e) (submitOpts cfg) tx)"
    obtain r1 s1 where via: "?via (d, es) = (r1, s1)" by (cases "?via (d, es)")
    have "truthful (re_swap e)" using assms by (simp add: truthfulReb_def)
    from protected_run [OF this via] obtain new where new: "s1 = (d, es @ new)" "asked new = []"
      "landed new = (case r1 of Inr _ \<Rightarrow> if rc_dryRun cfg then [] else [SwapStep] | Inl _ \<Rightarrow> [])"
      by blast
    show ?thesis
    proof (rule that [of new])
      show "swapStep cfg e usableSol bert (d, es) = (Inr (), (d, es @ new))"
        using Inr False via new
        by (cases r1; cases "re_balances2 e") (auto simp: swapStep_def exn_simps tryCatch_def andThen_def lift_def ret_def)
      show "asked new = []" by (rule new)
      show "landed new = [] \<or> landed new = [SwapStep] \<and> \<not> rc_dryRun cfg" using new by (cases r1) auto
    qed
  qed
qed

lemma inventoryStep_run:
  assumes "truthfulReb e" "inventoryStep cfg e mid (d, es) = (r, s')"
  obtains new where "s' = (d, es @ new)" "asked new = []"
    "landed new = [] \<or> landed new = [SwapStep] \<and> \<not> rc_dryRun cfg"
    "\<And>b s h. r = Inr (b, s, h) \<Longrightarrow> \<not> rc_dryRun cfg \<Longrightarrow> \<exists>bal. re_balances3 e = Inr bal \<and> (b, s) = finalAmounts cfg mid bal"
proof (cases "re_balances1 e")
  case (Inl err)
  with assms show ?thesis by (intro that [of "[]"]) (auto simp: inventoryStep_def exn_simps)
next
  case (Inr bal)
  then obtain m half where m: "inventoryStep cfg e mid (d, es) = andThen m (\<lambda>_. amountsStep cfg e mid half) (d, es)"
    "m = swapStep cfg e (usable cfg (fst bal)) (snd bal) \<or> m = ret ()"
    by (simp add: inventoryStep_def exn_simps Let_def)
  obtain new where new: "m (d, es) = (Inr (), (d, es @ new))" "asked new = []"
    "landed new = [] \<or> landed new = [SwapStep] \<and> \<not> rc_dryRun cfg"
    using m(2) swapStep_run [OF assms(1), of cfg "usable cfg (fst bal)" "snd bal" d es]
    by (metis ret_run append_Nil2 effects_simps(1,6))
  have fin: "amountsStep cfg e mid half (d, es @ new) = (r, s')"
    using assms(2) m(1) new(1) by (simp add: exn_simps)
  show ?thesis
    using fin new
    by (intro that [of new])
      (auto simp: amountsStep_def andThen_def lift_def ret_def split: if_splits sum.splits)
qed

lemma openStep_run:
  assumes "truthfulReb e" "openStep cfg e params (d, es) = (r, s')"
  obtains new where "s' = (d, es @ new)" "asked new = [params]"
    "landed new = (case r of Inr _ \<Rightarrow> if rc_dryRun cfg then [] else [OpenStep] | Inl _ \<Rightarrow> [])"
proof (cases "re_buildOpen e params")
  case (Inl err)
  with assms show ?thesis
    by (intro that [of "[AskedOpen params]"]) (auto simp: openStep_def exn_simps)
next
  case (Inr built)
  obtain tx mint where b: "built = (tx, mint)" by (cases built)
  let ?via = "viaChain OpenStep (submitProtected (rc_jito cfg) (re_open e) (submitOpts cfg) tx)"
  obtain r1 s1 where via: "?via (d, es @ [AskedOpen params]) = (r1, s1)"
    by (cases "?via (d, es @ [AskedOpen params])")
  have "truthful (re_open e)" using assms by (simp add: truthfulReb_def)
  from protected_run [OF this via] obtain new where new: "s1 = (d, (es @ [AskedOpen params]) @ new)" "asked new = []"
    "landed new = (case r1 of Inr _ \<Rightarrow> if rc_dryRun cfg then [] else [OpenStep] | Inl _ \<Rightarrow> [])" by blast
  show ?thesis
    using assms(2) Inr b via new
    by (intro that [of "AskedOpen params # new"]; cases r1) (auto simp: openStep_def exn_simps)
qed

text \<open>An operator is told of a position that is open on chain and not stored.\<close>

definition alarmed :: "'i effect list \<Rightarrow> bool" where
  "alarmed xs \<longleftrightarrow> (\<exists>mint. Notified CRITICAL (orphanText mint) \<in> set xs)"

lemma alarmed_append [simp]: "alarmed (xs @ ys) \<longleftrightarrow> alarmed xs \<or> alarmed ys" "alarmed [Notified CRITICAL (orphanText mint)]"
  by (auto simp: alarmed_def)

lemma rollback_run:
  assumes "truthfulReb e"
  obtains new where "rollback cfg e mint (d, es) = (Inr (), (d, es @ new))" "asked new = []"
    "landed new = [] \<and> alarmed new \<or> landed new = [RollbackStep]"
proof (cases "re_buildRollback e mint")
  case (Inl err)
  then show ?thesis by (auto simp: rollback_def exn_simps intro!: that)
next
  case (Inr tx)
  obtain r chain where run: "submit (re_rollback e) (rollbackOpts cfg) tx [] = (r, chain)"
    by (cases "submit (re_rollback e) (rollbackOpts cfg) tx []")
  then have via: "viaChain RollbackStep (submit (re_rollback e) (rollbackOpts cfg) tx) (d, es) =
      (r, (d, es @ map (Landed RollbackStep) chain))" by (simp add: viaChain_def)
  have "truthful (re_rollback e)" using assms by (simp add: truthfulReb_def)
  then show ?thesis
    by (rule rpc.outcome [OF _ run]) (use Inr via in \<open>auto simp: rollback_def exn_simps rollbackOpts_def intro!: that\<close>)
qed

section \<open>After the close\<close>

text \<open>The database after a successful rebalance.\<close>

definition recordedDb :: "RebConfig \<Rightarrow> 'i RebEnv \<Rightarrow> MidPrice \<Rightarrow> PositionSnapshot option \<Rightarrow> string \<Rightarrow> db \<Rightarrow> db" where
  "recordedDb cfg e mid position mint d =
     (if rc_dryRun cfg then d
      else recordRebalance (rebalanceRecord e mid position) (setCurrentPosition (storedPosition cfg e mid mint) d))"

text \<open>A failure: the bot is degraded, and nothing was added to the rebalance log.\<close>

definition failedDb :: "db \<Rightarrow> db \<Rightarrow> bool" where
  "failedDb d d' \<longleftrightarrow> isDegraded d' \<and> rebalance_log d' = rebalance_log d"

lemma degrade_run:
  "degrade e reason (d, es) = (case re_degradedFault e of Some err \<Rightarrow> (Inl err, (d, es))
     | None \<Rightarrow> (Inr (), (setDegraded (re_now e) True reason d, es)))"
  by (auto simp: degrade_def faulty_def exn_simps split: option.splits)

lemma failedDb_degrade: "rebalance_log d1 = rebalance_log d \<Longrightarrow> failedDb d (setDegraded t True reason d1)"
  by (simp add: failedDb_def isDegraded_setDegraded) (simp add: setDegraded_def)

lemma persist_cases:
  assumes "persist e pos rec d = (r, d')"
  obtains (ok) "r = Inr ()" "d' = recordRebalance rec (setCurrentPosition pos d)"
  | (failed) err where "r = Inl err" "rebalance_log d' = rebalance_log d"
  using assms
  by (cases "re_positionFault e"; cases "re_recordFault e")
    (auto simp: persist_def faulty_def exn_simps setCurrentPosition_def)

definition leavesLog :: "'i RebEnv \<Rightarrow> bool" where
  "leavesLog e \<longleftrightarrow> (\<forall>d. rebalance_log (re_meanwhile1 e d) = rebalance_log d
     \<and> rebalance_log (re_meanwhile2 e d) = rebalance_log d \<and> rebalance_log (re_meanwhile3 e d) = rebalance_log d)"

lemma finishStep_cases:
  assumes t: "truthfulReb e" and l: "leavesLog e" and f: "re_degradedFault e = None"
    and run: "finishStep cfg e mid position closeSig openSig mint half (d, es) = (r, s')"
  obtains (ok) detail new where "r = Inr (OK detail mint)"
      "s' = (recordedDb cfg e mid position mint (re_meanwhile3 e d), es @ new)" "asked new = []" "landed new = []"
  | (failed) detail d' new where "r = Inr (FAILED detail)" "s' = (d', es @ new)" "failedDb d d'"
      "\<not> rc_dryRun cfg" "landed new = [] \<and> alarmed new \<or> landed new = [RollbackStep]" "asked new = []"
proof (cases "rc_dryRun cfg")
  case True
  with run show ?thesis by (auto simp: finishStep_def exn_simps recordedDb_def intro!: ok)
next
  case False
  let ?m = "persist e (storedPosition cfg e mid mint) (rebalanceRecord e mid position)"
  obtain r1 d1 where p: "?m (re_meanwhile3 e d) = (r1, d1)" by (cases "?m (re_meanwhile3 e d)")
  then show ?thesis
  proof (cases rule: persist_cases)
    case ok
    with False run p show ?thesis by (auto simp: finishStep_def exn_simps recordedDb_def intro!: that(1))
  next
    case (failed err)
    obtain new where "rollback cfg e mint (d1, es) = (Inr (), (d1, es @ new))" "asked new = []"
      "landed new = [] \<and> alarmed new \<or> landed new = [RollbackStep]" using rollback_run [OF t, of cfg mint d1 es] by metis
    moreover have "rebalance_log d1 = rebalance_log d" using failed l by (simp add: leavesLog_def)
    ultimately show ?thesis
      using False run p failed
      by (auto simp: finishStep_def exn_simps Let_def degrade_run f failedDb_degrade intro!: that(2))
  qed
qed

text \<open>A position that was opened was closed again, or the operator was told of it.\<close>

definition retracted :: "'i effect list \<Rightarrow> bool" where
  "retracted xs \<longleftrightarrow> (OpenStep \<in> set (landed xs) \<longrightarrow> RollbackStep \<in> set (landed xs) \<or> alarmed xs)"

lemma reopen_cases:
  assumes t: "truthfulReb e" and l: "leavesLog e" and f: "re_degradedFault e = None"
    and run: "reopen cfg e mid position closeSig (d, es) = (r, s')"
  obtains (ok) detail mint new bert sol where "r = Inr (OK detail mint)"
      "s' = (recordedDb cfg e mid position mint (re_meanwhile3 e d), es @ new)"
      "asked new = [openParams cfg mid bert sol]"
      "\<not> rc_dryRun cfg \<Longrightarrow> \<exists>bal. re_balances3 e = Inr bal \<and> (bert, sol) = finalAmounts cfg mid bal"
      "landed new = (if rc_dryRun cfg then [] else [OpenStep]) \<or> \<not> rc_dryRun cfg \<and> landed new = [SwapStep, OpenStep]"
  | (failed) detail d' new where "r = Inr (FAILED detail)" "s' = (d', es @ new)" "failedDb d d'"
      "subseq (landed new) [SwapStep, OpenStep, RollbackStep]" "retracted new"
      "\<forall>p\<in>set (asked new). \<exists>bert sol. p = openParams cfg mid bert sol \<and>
         (\<not> rc_dryRun cfg \<longrightarrow> (\<exists>bal. re_balances3 e = Inr bal \<and> (bert, sol) = finalAmounts cfg mid bal))"
proof -
  obtain r1 s1 where inv: "inventoryStep cfg e mid (d, es) = (r1, s1)" by (cases "inventoryStep cfg e mid (d, es)")
  from inventoryStep_run [OF t inv] obtain new1 where n1: "s1 = (d, es @ new1)" "asked new1 = []"
    "landed new1 = [] \<or> landed new1 = [SwapStep] \<and> \<not> rc_dryRun cfg"
    "\<And>b s h. r1 = Inr (b, s, h) \<Longrightarrow> \<not> rc_dryRun cfg \<Longrightarrow> \<exists>bal. re_balances3 e = Inr bal \<and> (b, s) = finalAmounts cfg mid bal"
    by metis
  show ?thesis
  proof (cases r1)
    case (Inl err)
    with run inv n1(1,2,3) show ?thesis
      using l by (auto simp: reopen_def Let_def exn_simps degrade_run f leavesLog_def failedDb_degrade retracted_def intro!: failed)
  next
    case (Inr amounts)
    obtain bert sol half where a: "amounts = (bert, sol, half)" by (cases amounts) auto
    let ?p = "openParams cfg mid bert sol"
    obtain r2 s2 where op: "openStep cfg e ?p (d, es @ new1) = (r2, s2)" by (cases "openStep cfg e ?p (d, es @ new1)")
    from openStep_run [OF t op] obtain new2 where n2: "s2 = (d, (es @ new1) @ new2)" "asked new2 = [?p]"
      "landed new2 = (case r2 of Inr _ \<Rightarrow> if rc_dryRun cfg then [] else [OpenStep] | Inl _ \<Rightarrow> [])" by metis
    note fin = n1(4) [of bert sol half]
    show ?thesis
    proof (cases r2)
      case (Inl err)
      with run inv n1(1,2,3) n2 Inr a op fin show ?thesis
        using l
        by (auto simp: reopen_def Let_def exn_simps degrade_run f leavesLog_def failedDb_degrade openParams_def retracted_def intro!: failed)
    next
      case (Inr opened)
      obtain openSig mint where o2: "opened = (openSig, mint)" by (cases opened)
      have fin_run: "finishStep cfg e mid position closeSig openSig mint half (d, es @ new1 @ new2) = (r, s')"
        using run inv n1(1) n2(1) \<open>r1 = Inr amounts\<close> a op Inr o2 by (simp add: reopen_def exn_simps)
      show ?thesis
      proof (cases rule: finishStep_cases [OF t l f fin_run])
        case (1 detail new)
        with n1(2,3) n2(2,3) Inr fin \<open>r1 = Inr amounts\<close> a show ?thesis
          by (intro ok [of detail mint "new1 @ new2 @ new" bert sol]) auto
      next
        case (2 detail d' new)
        with n1(2,3) n2(2,3) Inr fin \<open>r1 = Inr amounts\<close> a show ?thesis
          by (intro failed [of detail d' "new1 @ new2 @ new"]) (auto simp: retracted_def)
      qed
    qed
  qed
qed

section \<open>The whole rebalance\<close>

text \<open>The two gates: the simulated close shows no excessive loss, and the daily cap is not reached.\<close>

definition gate :: "RebConfig \<Rightarrow> 'i RebEnv \<Rightarrow> MidPrice \<Rightarrow> PositionSnapshot option \<Rightarrow> db \<Rightarrow> bool" where
  "gate cfg e mid position d \<longleftrightarrow>
     (\<forall>pos. position = Some pos \<longrightarrow> (\<exists>sim. re_simulateClose e (po_nftMint pos) (mp_solUsd mid) = Inr sim
        \<and> \<not> drawdownTrips cfg mid (po_totalValueUsd pos) sim))
     \<and> of_nat (getRebalancesToday (re_now e) (if position = None then d else re_meanwhile1 e d)) < rc_maxRebalancesPerDay cfg"

lemma executeRebalance_gate:
  assumes "gate cfg e mid position d" "d1 = (if position = None then d else re_meanwhile1 e d)"
  shows "executeRebalance cfg e mid position (d, es) =
    andThen (closeStep cfg e position) (\<lambda>closed. case closed of Inl result \<Rightarrow> ret result
       | Inr closeSig \<Rightarrow> andThen (closedNotice e position closeSig) (\<lambda>_. reopen cfg e mid position closeSig)) (d1, es)"
proof -
  obtain r s where p: "preflight cfg e mid position (d, es) = (r, s)" by (cases "preflight cfg e mid position (d, es)")
  then show ?thesis
    by (cases rule: preflight_cases) (use assms p in \<open>auto simp: gate_def executeRebalance_def exn_simps not_le\<close>)
qed

lemma closedNotice_run:
  "\<exists>new. closedNotice e position closeSig (d, es) = (Inr (), (d, es @ new)) \<and> landed new = [] \<and> asked new = []"
  by (auto simp: closedNotice_def exn_simps split: option.splits sum.splits)

text \<open>The amounts that were asked for come from the balances read last.\<close>

definition fromBalances :: "RebConfig \<Rightarrow> 'i RebEnv \<Rightarrow> MidPrice \<Rightarrow> OpenPositionParams \<Rightarrow> bool" where
  "fromBalances cfg e mid p \<longleftrightarrow> (\<exists>bert sol. p = openParams cfg mid bert sol \<and>
     (\<not> rc_dryRun cfg \<longrightarrow> (\<exists>bal. re_balances3 e = Inr bal \<and> (bert, sol) = finalAmounts cfg mid bal)))"

definition succeeded :: "RebConfig \<Rightarrow> 'i RebEnv \<Rightarrow> MidPrice \<Rightarrow> PositionSnapshot option \<Rightarrow> db \<Rightarrow> string \<Rightarrow> db \<Rightarrow> Step list \<Rightarrow> bool" where
  "succeeded cfg e mid position d mint d' steps \<longleftrightarrow>
     (if rc_dryRun cfg then steps = [] \<and> rebalance_log d' = rebalance_log d
      else getCurrentPosition d' = Some (storedPosition cfg e mid mint)
         \<and> rebalance_log d' = rebalance_log d @ [rebalanceRecord e mid position]
         \<and> steps \<in> {(if position = None then [] else [CloseStep]) @ sw @ [OpenStep] | sw. sw = [] \<or> sw = [SwapStep]})"

definition rebalanced :: "RebConfig \<Rightarrow> 'i RebEnv \<Rightarrow> MidPrice \<Rightarrow> PositionSnapshot option \<Rightarrow> db \<Rightarrow> RebalanceResult result \<Rightarrow> db \<Rightarrow> 'i effect list \<Rightarrow> bool" where
  "rebalanced cfg e mid position d r d' new \<longleftrightarrow>
     (case r of
        Inr (OK detail mint) \<Rightarrow> gate cfg e mid position d \<and> succeeded cfg e mid position d mint d' (landed new)
      | Inr (FAILED detail) \<Rightarrow> gate cfg e mid position d \<and> rebalance_log d' = rebalance_log d
          \<and> subseq (landed new) [CloseStep, SwapStep, OpenStep, RollbackStep]
          \<and> (isDegraded d' \<or> landed new = []) \<and> retracted new
      | Inr (SKIPPED detail) \<Rightarrow> \<not> gate cfg e mid position d \<and> rebalance_log d' = rebalance_log d
          \<and> landed new = [] \<and> asked new = []
      | Inl err \<Rightarrow> False)
     \<and> (\<forall>p\<in>set (asked new). fromBalances cfg e mid p)"

lemma skipped_run:
  assumes "\<not> gate cfg e mid position d" "executeRebalance cfg e mid position (d, es) = (r, s')"
  obtains detail d' new where "r = Inr (SKIPPED detail)" "s' = (d', es @ new)" "landed new = []" "asked new = []"
    "d' \<in> {d, re_meanwhile1 e d, setDegraded (re_now e) True ''drawdown breaker tripped'' (re_meanwhile1 e d)}"
    "\<And>pos sim. position = Some pos \<Longrightarrow> re_simulateClose e (po_nftMint pos) (mp_solUsd mid) = Inr sim \<Longrightarrow>
       drawdownTrips cfg mid (po_totalValueUsd pos) sim \<Longrightarrow> re_degradedFault e = None \<Longrightarrow> isDegraded d'"
proof -
  obtain r1 s1 where p: "preflight cfg e mid position (d, es) = (r1, s1)" by (cases "preflight cfg e mid position (d, es)")
  then show ?thesis
  proof (cases rule: preflight_cases)
    case (pass d1)
    with assms p show ?thesis
      by (intro that [of "[Lit ''daily cap reached'']" d1 "[]"])
        (auto simp: executeRebalance_def exn_simps gate_def not_less split: if_splits)
  next
    case (stop pos detail notice d1)
    with assms p show ?thesis
      by (intro that [of detail d1 "[Notified CRITICAL notice]"])
        (auto simp: executeRebalance_def exn_simps isDegraded_setDegraded)
  qed
qed

lemma rebalanced_run:
  assumes t: "truthfulReb e" and l: "leavesLog e" and f: "re_degradedFault e = None"
    and run: "executeRebalance cfg e mid position (d, es) = (r, s')"
  obtains d' new where "s' = (d', es @ new)" "rebalanced cfg e mid position d r d' new"
proof (cases "gate cfg e mid position d")
  case False
  from skipped_run [OF this run] obtain detail d' new where s: "r = Inr (SKIPPED detail)" "s' = (d', es @ new)"
    "landed new = []" "asked new = []"
    "d' \<in> {d, re_meanwhile1 e d, setDegraded (re_now e) True ''drawdown breaker tripped'' (re_meanwhile1 e d)}" by metis
  moreover have "rebalance_log d' = rebalance_log d" using s(5) l by (auto simp: leavesLog_def setDegraded_def)
  ultimately show ?thesis using False by (intro that [of d' new]) (auto simp: rebalanced_def)
next
  case True
  define d1 where "d1 = (if position = None then d else re_meanwhile1 e d)"
  have l1: "rebalance_log d1 = rebalance_log d" using l by (simp add: d1_def leavesLog_def)
  note exec = run [unfolded executeRebalance_gate [OF True d1_def]]
  obtain rc sc where c: "closeStep cfg e position (d1, es) = (rc, sc)" by (cases "closeStep cfg e position (d1, es)")
  from t c show ?thesis
  proof (cases rule: closeStep_cases)
    case (stuck detail new)
    with exec c True l1 show ?thesis
      by (intro that [of d1 new]) (auto simp: exn_simps rebalanced_def retracted_def)
  next
    case (closed sig new1)
    obtain new2 where n2: "closedNotice e position sig (d1, es @ new1) = (Inr (), (d1, (es @ new1) @ new2))"
      "landed new2 = []" "asked new2 = []" using closedNotice_run by metis
    have run3: "reopen cfg e mid position sig (d1, es @ new1 @ new2) = (r, s')"
      using exec c closed n2 by (simp add: exn_simps)
    show ?thesis
    proof (cases rule: reopen_cases [OF t l f run3])
      case (1 detail mint new bert sol)
      let ?d' = "recordedDb cfg e mid position mint (re_meanwhile3 e d1)"
      have "succeeded cfg e mid position d mint ?d' (landed (new1 @ new2 @ new))"
        using 1 closed n2 l l1
        by (auto simp: succeeded_def recordedDb_def leavesLog_def recordRebalance_def setCurrentPosition_def getCurrentPosition_def)
      then show ?thesis
        using 1 closed n2 True
        by (intro that [of ?d' "new1 @ new2 @ new"]) (auto simp: rebalanced_def fromBalances_def)
    next
      case (2 detail d' new)
      have "subseq (landed (new1 @ new2 @ new)) [CloseStep, SwapStep, OpenStep, RollbackStep]"
        using 2 closed n2 by (auto intro: subseq_order.trans)
      moreover have "retracted (new1 @ new2 @ new)" using 2(5) closed n2 by (auto simp: retracted_def)
      ultimately show ?thesis
        using 2 closed n2 True l1
        by (intro that [of d' "new1 @ new2 @ new"]) (auto simp: rebalanced_def fromBalances_def failedDb_def)
    qed
  qed
qed

end
