(* ===== verification/Cooldowns.thy ===== *)
theory Cooldowns
  imports Store_Laws
begin

text \<open>
  \<open>src/src/vault/cooldowns.ts\<close>: the class \<open>Cooldowns\<close>, which decides when a change of a withdrawal
  address takes effect. A request returns the triple \<open>(immediate, activatesAt, pendingId)\<close>. The
  lemmas show that only the first address takes effect at once, and that \<open>activateDue\<close> changes an
  address only through a pending request that has waited for the cooldown.
\<close>

section \<open>Operations\<close>

definition requestChange :: "int \<Rightarrow> int \<Rightarrow> string \<Rightarrow> int \<Rightarrow> (bool \<times> int \<times> int) dbm" where
  "requestChange cooldownMs telegramId newAddress now =
     andThen (gets (getUser telegramId))
       (\<lambda>user. case user of
          None \<Rightarrow> throw ''requestChange: user not found''
        | Some user \<Rightarrow>
            if vu_whitelistAddress user = None
            then withTransaction
                   (\<lambda>d. let (i, d1) = enqueueWhitelistChange telegramId None newAddress now now Activated d
                        in (Inr (True, now, i), setWhitelistImmediate telegramId newAddress now d1))
            else (\<lambda>d. let activatesAt = now + cooldownMs;
                          (i, d1) = enqueueWhitelistChange telegramId (vu_whitelistAddress user) newAddress
                                      now activatesAt Pending d
                      in (Inr (False, activatesAt, i), d1)))"

definition activateOne :: "int \<Rightarrow> PendingWhitelistChange \<Rightarrow> unit dbm" where
  "activateOne now row =
     withTransaction
       (andThen (modify (setWhitelistImmediate (c_telegramId row) (c_newAddress row) now))
          (\<lambda>_. modify (markWhitelistActivated (c_id row))))"

fun activateRows :: "int \<Rightarrow> PendingWhitelistChange list \<Rightarrow> PendingWhitelistChange list dbm" where
  "activateRows now [] = ret []"
| "activateRows now (row # due) =
     andThen (activateOne now row)
       (\<lambda>_. andThen (activateRows now due) (\<lambda>activated. ret (row # activated)))"

definition activateDue :: "int \<Rightarrow> PendingWhitelistChange list dbm" where
  "activateDue now = andThen (gets (listDueWhitelistChanges now)) (activateRows now)"

definition cancelPending :: "int \<Rightarrow> string \<Rightarrow> db \<Rightarrow> bool \<times> db" where
  "cancelPending telegramId reason d =
     (case mostRecentPendingChange telegramId d of
        None \<Rightarrow> (False, d)
      | Some p \<Rightarrow> (True, cancelPendingWhitelist (c_id p) reason d))"

section \<open>Requests\<close>

definition whitelistOf :: "int \<Rightarrow> db \<Rightarrow> string option" where
  "whitelistOf tid d = Option.bind (getUser tid d) vu_whitelistAddress"

lemma whitelistOf_row: "whitelistOf tid d = Option.bind (findUserRow tid d) u_whitelist_address"
  by (cases "findUserRow tid d") (simp_all add: whitelistOf_def getUser_def rowToUser_def)

lemma getUser_enqueueWhitelistChange [simp]:
  "getUser t (snd (enqueueWhitelistChange tid oa na rt ta st d)) = getUser t d"
  "findUserRow t (snd (enqueueWhitelistChange tid oa na rt ta st d)) = findUserRow t d"
  by (simp_all add: enqueueWhitelistChange_def getUser_def findUserRow_def)

lemma whitelistOf_setWhitelistImmediate:
  "whitelistOf t (setWhitelistImmediate tid a ts d) =
     (if t = tid \<and> findUserRow tid d \<noteq> None then Some a else whitelistOf t d)"
proof (cases "findUserRow t d")
  case (Some r)
  then have "u_telegram_id r = t" by (auto dest: findUserRow_Some)
  with Some show ?thesis by (auto simp: whitelistOf_row setWhitelistImmediate_def updateUser_ids)
qed (auto simp: whitelistOf_row setWhitelistImmediate_def updateUser_ids)

lemma requestChange_first:
  assumes "getUser tid d = Some u" "vu_whitelistAddress u = None"
  shows "\<exists>i d'. requestChange cd tid a now d = (Inr (True, now, i), d') \<and> whitelistOf tid d' = Some a"
  using assms
  by (simp add: requestChange_def exn_simps withTransaction_def atomically_def split_beta Let_def
      whitelistOf_setWhitelistImmediate getUser_None [symmetric])

text \<open>The rows written by the requests: a pending row activates one cooldown after its request.\<close>

definition changes_ok :: "int \<Rightarrow> db \<Rightarrow> bool" where
  "changes_ok cd d \<longleftrightarrow> (\<forall>c\<in>set (rows (vault_pending_whitelist_changes d)).
     c_status c = Pending \<longrightarrow> c_activatesAt c = c_requestedAt c + cd)"

lemma requestChange_changes_ok:
  assumes "changes_ok cd d" shows "changes_ok cd (snd (requestChange cd tid a now d))"
  using assms
  by (auto simp: requestChange_def andThen_def gets_def throw_def withTransaction_def atomically_def
      split_beta Let_def changes_ok_def enqueueWhitelistChange_def setWhitelistImmediate_def
      updateUser_def table_simps split: option.splits)

lemma updateChange_changes_ok:
  assumes "changes_ok cd d" "\<And>c. c_status (f c) \<noteq> Pending" shows "changes_ok cd (updateChange i f d)"
  using assms by (auto simp: changes_ok_def updateChange_def table_simps in_updateWhere split: if_splits)

lemma cancelPending_changes_ok:
  "changes_ok cd d \<Longrightarrow> changes_ok cd (snd (cancelPending tid r d))"
  by (auto simp: cancelPending_def cancelPendingWhitelist_def updateChange_changes_ok split: option.splits)

section \<open>Activation\<close>

definition activated :: "int \<Rightarrow> PendingWhitelistChange \<Rightarrow> db \<Rightarrow> db" where
  "activated now row d =
     markWhitelistActivated (c_id row) (setWhitelistImmediate (c_telegramId row) (c_newAddress row) now d)"

lemma activateOne_run: "activateOne now row d = (Inr (), activated now row d)"
  by (simp add: activateOne_def withTransaction_def exn_simps activated_def)

text \<open>Activation never throws.\<close>

lemma activateRows_run: "activateRows now due d = (Inr due, fold (activated now) due d)"
  by (induction due arbitrary: d) (simp_all add: exn_simps activateOne_run)

lemma activateDue_run:
  "activateDue now d = (Inr (listDueWhitelistChanges now d), fold (activated now) (listDueWhitelistChanges now d) d)"
  by (simp add: activateDue_def exn_simps activateRows_run)

lemma activated_frame [simp]:
  "rows (vault_withdrawals (activated now row d)) = rows (vault_withdrawals d)"
  "vault_withdrawals (activated now row d) = vault_withdrawals d"
  "vault_shares (activated now row d) = vault_shares d"
  "vault_audit_log (activated now row d) = vault_audit_log d"
  "vault_deposits (activated now row d) = vault_deposits d"
  by (simp_all add: activated_def markWhitelistActivated_def setWhitelistImmediate_def updateChange_def updateUser_def)

lemma findUserRow_updateChange [simp]: "findUserRow t (updateChange i f d) = findUserRow t d"
  by (simp add: findUserRow_def updateChange_def)

lemma whitelistOf_updateChange [simp]: "whitelistOf t (updateChange i f d) = whitelistOf t d"
  by (simp add: whitelistOf_row)

lemma whitelistOf_activated:
  "whitelistOf t (activated now row d) =
     (if t = c_telegramId row \<and> findUserRow t d \<noteq> None then Some (c_newAddress row) else whitelistOf t d)"
  by (auto simp: activated_def markWhitelistActivated_def whitelistOf_setWhitelistImmediate)

lemma user_exists_activated: "findUserRow t (activated now row d) = None \<longleftrightarrow> findUserRow t d = None"
  by (simp add: activated_def markWhitelistActivated_def setWhitelistImmediate_def updateUser_ids)

lemma user_exists_fold: "findUserRow t (fold (activated now) due d) = None \<longleftrightarrow> findUserRow t d = None"
  by (induction due arbitrary: d) (simp_all add: user_exists_activated)

text \<open>The address after an activation round: that of the user's last due row.\<close>

lemma whitelistOf_fold:
  assumes "findUserRow t d \<noteq> None"
  shows "whitelistOf t (fold (activated now) due d) =
    (case rev (filter (\<lambda>c. c_telegramId c = t) due) of [] \<Rightarrow> whitelistOf t d | c # _ \<Rightarrow> Some (c_newAddress c))"
  using assms
proof (induction due rule: rev_induct)
  case (snoc row due)
  then show ?case using user_exists_fold [of t now due d] by (simp add: whitelistOf_activated)
qed simp

lemma changes_activated:
  "rows (vault_pending_whitelist_changes (activated now row d)) =
     updateWhere (\<lambda>c. c_id c = c_id row) (\<lambda>c. c\<lparr>c_status := Activated\<rparr>)
       (rows (vault_pending_whitelist_changes d))"
  by (simp add: activated_def markWhitelistActivated_def updateChange_def setWhitelistImmediate_def
      updateUser_def table_simps)

lemma changes_fold:
  "rows (vault_pending_whitelist_changes (fold (activated now) due d)) =
     updateWhere (\<lambda>c. c_id c \<in> c_id ` set due) (\<lambda>c. c\<lparr>c_status := Activated\<rparr>)
       (rows (vault_pending_whitelist_changes d))"
  by (induction due arbitrary: d) (auto simp: changes_activated updateWhere_def comp_def)

lemma activated_changes_ok: "changes_ok cd d \<Longrightarrow> changes_ok cd (fold (activated now) due d)"
  by (auto simp: changes_ok_def changes_fold in_updateWhere split: if_splits)

lemma store_wf_activateDue [intro]:
  assumes "store_wf d" shows "store_wf (snd (activateDue now d))"
proof -
  have "store_wf e \<Longrightarrow> store_wf (activated now row e)" for row e
    by (auto simp: activated_def)
  then have "store_wf e \<Longrightarrow> store_wf (fold (activated now) due e)" for due e
    by (induction due arbitrary: e) auto
  with assms show ?thesis by (simp add: activateDue_run)
qed

lemma store_wf_requestChange [intro]:
  "store_wf d \<Longrightarrow> store_wf (snd (requestChange cd tid a now d))"
  by (auto simp: requestChange_def andThen_def gets_def throw_def withTransaction_def atomically_def
      split_beta Let_def split: option.splits)

lemma store_wf_cancelPending [intro]: "store_wf d \<Longrightarrow> store_wf (snd (cancelPending tid r d))"
  by (auto simp: cancelPending_def split: option.splits)

section \<open>Properties\<close>

text \<open>A user with an address and a pending change, for the witnesses.\<close>

definition cooldown_demo :: db where
  "cooldown_demo =
     snd (requestChange 100 7 ''B'' 20 (snd (requestChange 100 7 ''A'' 10
       (snd (createUser 7 Depositor ''addr'' [] [] 1 1 init_db)))))"



text \<open>A request for an existing user always succeeds. The first address of a user takes effect at once;
  every later request leaves the current address alone and is recorded as one new pending row that becomes
  due one cooldown later; every recorded pending row keeps that distance. No other user is affected.\<close>

theorem requestChange_effect:
  assumes "getUser tid d = Some u" "changes_ok cd d"
  shows "\<exists>i d'. (if vu_whitelistAddress u = None
      then requestChange cd tid a now d = (Inr (True, now, i), d') \<and> whitelistOf tid d' = Some a
      else requestChange cd tid a now d = (Inr (False, now + cd, i), d') \<and> whitelistOf tid d' = whitelistOf tid d \<and>
        rows (vault_pending_whitelist_changes d') = rows (vault_pending_whitelist_changes d) @
          [\<lparr>c_id = i, c_telegramId = tid, c_oldAddress = vu_whitelistAddress u, c_newAddress = a,
            c_requestedAt = now, c_activatesAt = now + cd, c_status = Pending, c_cancelReason = None\<rparr>]) \<and>
    changes_ok cd d' \<and> (\<forall>v. v \<noteq> tid \<longrightarrow> getUser v d' = getUser v d)"
proof -
  let ?r = "requestChange cd tid a now d"
  have ok: "changes_ok cd (snd ?r)" using assms(2) by (rule requestChange_changes_ok)
  have others: "getUser v (setWhitelistImmediate tid a now e) = getUser v e" if "v \<noteq> tid" for v e
    using that by (cases "findUserRow v e")
      (auto simp: getUser_def setWhitelistImmediate_def updateUser_ids dest: findUserRow_Some)
  show ?thesis
  proof (cases "vu_whitelistAddress u")
    case None
    obtain i d' where r: "?r = (Inr (True, now, i), d')" "whitelistOf tid d' = Some a"
      using requestChange_first [OF assms(1) None] by blast
    have "getUser v d' = getUser v d" if "v \<noteq> tid" for v
      using r(1) assms(1) None others [OF that]
      by (auto simp: requestChange_def exn_simps withTransaction_def atomically_def split_beta Let_def)
    with r ok None show ?thesis by auto
  next
    case (Some b)
    have "?r = (Inr (False, now + cd, fst (enqueueWhitelistChange tid (Some b) a now (now + cd) Pending d)),
        snd (enqueueWhitelistChange tid (Some b) a now (now + cd) Pending d))"
      using assms(1) Some by (simp add: requestChange_def exn_simps split_beta Let_def)
    with ok Some show ?thesis
      by (auto simp: whitelistOf_def) (simp add: enqueueWhitelistChange_def table_simps)
  qed
qed

theorem requestChange_effect_witness:
  "\<exists>i d'. (if vu_whitelistAddress (the (getUser 7 cooldown_demo)) = None
      then requestChange 100 7 ''C'' 30 cooldown_demo = (Inr (True, 30, i), d') \<and> whitelistOf 7 d' = Some ''C''
      else requestChange 100 7 ''C'' 30 cooldown_demo = (Inr (False, 30 + 100, i), d') \<and>
        whitelistOf 7 d' = whitelistOf 7 cooldown_demo \<and>
        rows (vault_pending_whitelist_changes d') = rows (vault_pending_whitelist_changes cooldown_demo) @
          [\<lparr>c_id = i, c_telegramId = 7, c_oldAddress = vu_whitelistAddress (the (getUser 7 cooldown_demo)),
            c_newAddress = ''C'', c_requestedAt = 30, c_activatesAt = 30 + 100, c_status = Pending,
            c_cancelReason = None\<rparr>]) \<and>
    changes_ok 100 d' \<and> (\<forall>v. v \<noteq> 7 \<longrightarrow> getUser v d' = getUser v cooldown_demo)"
proof (rule requestChange_effect)
  show "getUser 7 cooldown_demo = Some (the (getUser 7 cooldown_demo))" by code_simp
  show "changes_ok 100 cooldown_demo" by code_simp
qed

end
