(* ===== verification/Evolution.thy ===== *)
theory Evolution
  imports Cooldowns Credit
begin

text \<open>
  What any task may do to the vault tables while another one waits for a reply: \<open>evolves\<close> is the
  relation between the database before and after. It keeps the invariant, loses no user and no
  deposit, keeps the share balances equal to the replay of the audit log (\<open>ledger_ok\<close>), and treats
  every withdrawal row that is not failed as read-only; only the executor moves such rows. The
  lemmas show it for the operations and for the deposit pipeline.
\<close>

section \<open>The audit log as a ledger\<close>

definition numField :: "string \<Rightarrow> json \<Rightarrow> rat option" where
  "numField k j = (case jget k j of Some (JNum x) \<Rightarrow> Some x | _ \<Rightarrow> None)"

text \<open>The posting that an audit row stands for.\<close>

definition auditDelta :: "audit_row \<Rightarrow> (int \<times> rat) option" where
  "auditDelta r =
     (case a_telegram_id r of
        None \<Rightarrow> None
      | Some t \<Rightarrow>
          if a_event r = ''deposit_credited'' then map_option (Pair t) (numField ''sharesMinted'' (a_details r))
          else if a_event r = ''withdrawal_completed''
          then map_option (\<lambda>x. (t, - x)) (numField ''sharesBurned'' (a_details r))
          else if a_event r = ''bootstrap'' then map_option (Pair t) (numField ''initialNavUsd'' (a_details r))
          else None)"

definition postings :: "db \<Rightarrow> (int \<times> rat) list" where
  "postings d = List.map_filter auditDelta (rows (vault_audit_log d))"

definition replayedShares :: "int \<Rightarrow> db \<Rightarrow> rat" where
  "replayedShares u d = foldl nadd 0 (map snd (filter (\<lambda>p. fst p = u) (postings d)))"

definition ledger_ok :: "db \<Rightarrow> bool" where
  "ledger_ok d \<longleftrightarrow> (\<forall>u. getShares u d = replayedShares u d)"

definition postingEvents :: "string list" where
  "postingEvents = [''deposit_credited'', ''withdrawal_completed'', ''bootstrap'']"

lemma map_filter_append: "List.map_filter f (xs @ ys) = List.map_filter f xs @ List.map_filter f ys"
  by (simp add: List.map_filter_def)

lemma postings_writeAudit:
  "postings (writeAudit ts tid ev det d) = postings d @
     (case auditDelta \<lparr>a_id = 0, a_ts = ts, a_telegram_id = tid, a_event = ev, a_details = det\<rparr> of
        None \<Rightarrow> [] | Some p \<Rightarrow> [p])"
proof -
  let ?r = "\<lambda>i. \<lparr>a_id = i, a_ts = ts, a_telegram_id = tid, a_event = ev, a_details = det\<rparr>"
  have "auditDelta (?r (lastId (vault_audit_log d) + 1)) = auditDelta (?r 0)" by (cases tid) (simp_all add: auditDelta_def)
  moreover have "List.map_filter auditDelta [r] = (case auditDelta r of None \<Rightarrow> [] | Some p \<Rightarrow> [p])" for r
    by (simp add: List.map_filter_def split: option.splits)
  ultimately show ?thesis
    by (simp add: postings_def writeAudit_def table_simps map_filter_append)
qed

lemma postings_other_event:
  "ev \<notin> set postingEvents \<Longrightarrow> postings (writeAudit ts tid ev det d) = postings d"
  by (simp add: postings_writeAudit auditDelta_def postingEvents_def split: option.splits)

lemma getShares_writeAudit [simp]: "getShares u (writeAudit ts tid ev det d) = getShares u d"
  by (simp add: getShares_def findShares_def writeAudit_def)

lemma replayed_posting:
  "postings d' = postings d @ [(t, x)] \<Longrightarrow>
     replayedShares u d' = (if u = t then nadd (replayedShares u d) x else replayedShares u d)"
  by (simp add: replayedShares_def)

lemma ledger_ok_cong:
  "vault_shares d' = vault_shares d \<Longrightarrow> postings d' = postings d \<Longrightarrow> ledger_ok d' = ledger_ok d"
  by (simp add: ledger_ok_def replayedShares_def getShares_def findShares_def)

section \<open>Evolution\<close>

definition requeuedRow :: "VaultWithdrawal \<Rightarrow> VaultWithdrawal" where
  "requeuedRow w = w\<lparr>w_status := Queued, w_failureReason := None, w_processedAt := None\<rparr>"

definition row_evolves :: "VaultWithdrawal option \<Rightarrow> VaultWithdrawal option \<Rightarrow> bool" where
  "row_evolves r r' =
     (case r of
        None \<Rightarrow> (case r' of None \<Rightarrow> True | Some w' \<Rightarrow> w_status w' = Queued \<and> w_txSig w' = None)
      | Some w \<Rightarrow> r' = Some w \<or> w_status w = Failed \<and> r' = Some (requeuedRow w))"

definition evolves :: "db \<Rightarrow> db \<Rightarrow> bool" where
  "evolves d d' \<longleftrightarrow> (store_wf d \<longrightarrow>
     store_wf d' \<and> (\<forall>i. row_evolves (getWithdrawalById i d) (getWithdrawalById i d')) \<and>
     (\<forall>t. findUserRow t d \<noteq> None \<longrightarrow> findUserRow t d' \<noteq> None) \<and>
     (\<forall>s. hasDeposit s d \<longrightarrow> hasDeposit s d') \<and> (ledger_ok d \<longrightarrow> ledger_ok d'))"

lemma row_evolves_refl [simp]: "row_evolves r r"
  by (auto simp: row_evolves_def split: option.splits)

lemma row_evolves_trans: "row_evolves r s \<Longrightarrow> row_evolves s t \<Longrightarrow> row_evolves r t"
  by (cases r; cases s; cases t) (auto simp: row_evolves_def requeuedRow_def)

interpretation ev: store_order evolves
proof
  show "evolves s s" for s by (auto simp: evolves_def)
  show "evolves s u" if "evolves s t" "evolves t u" for s t u
    using that unfolding evolves_def by (meson row_evolves_trans)
qed

lemma evolves_trans [trans]: "evolves s t \<Longrightarrow> evolves t u \<Longrightarrow> evolves s u"
  by (rule ev.trans)

lemma evolves_frame:
  assumes "store_wf d \<Longrightarrow> store_wf d'" "vault_withdrawals d' = vault_withdrawals d"
    "vault_shares d' = vault_shares d" "vault_deposits d' = vault_deposits d" "postings d' = postings d"
    "\<And>t. findUserRow t d \<noteq> None \<Longrightarrow> findUserRow t d' \<noteq> None"
  shows "evolves d d'"
  using assms ledger_ok_cong [of d' d] by (auto simp: evolves_def getWithdrawalById_def hasDeposit_def)

lemma evolves_writeAudit [intro]:
  "ev \<notin> set postingEvents \<Longrightarrow> evolves d (writeAudit ts tid ev det d)"
  by (rule evolves_frame)
    (auto simp: postings_other_event, auto simp: writeAudit_def findUserRow_def)

lemma postings_cong: "vault_audit_log d' = vault_audit_log d \<Longrightarrow> postings d' = postings d"
  by (simp add: postings_def)

lemma evolves_aux [intro]:
  "evolves d (setCurrentPosition p d)" "evolves d (clearCurrentPosition d)" "evolves d (recordRebalance r d)"
  "evolves d (setFlag now k v rs d)" "evolves d (setDegraded now b rs2 d)"
  "evolves d (recordOperatorAction a d)" "evolves d (insertNavSnapshot row d)"
  by (rule evolves_frame; simp add: aux_defs findUserRow_def postings_def store_wf_def)+

lemma evolves_updateUser:
  assumes "\<And>r. u_telegram_id (f r) = u_telegram_id r" "\<And>r. u_deposit_address (f r) = u_deposit_address r"
  shows "evolves d (updateUser tid f d)"
  by (rule evolves_frame)
    (auto simp: store_wf_updateUser assms updateUser_ids, auto simp: updateUser_def postings_def)

lemma evolves_user_updates [intro]:
  "evolves d (setTotp tid e iv t d)" "evolves d (setTotpLastCounter tid c d)"
  "evolves d (setWhitelistImmediate tid a t d)" "evolves d (snd (clearUserTotp tid d))"
  by (auto simp: user_update_defs clearUserTotp_def Let_def intro!: evolves_updateUser)

lemma evolves_createUser [intro]: "evolves d (snd (createUser tid r a e iv t c d))"
  by (rule evolves_frame)
    (auto simp: store_wf_createUser, auto simp: createUser_def findUserRow_def postings_def find_append split: option.splits)

lemma evolves_changes [intro]:
  "evolves d (snd (enqueueWhitelistChange tid oa na rt ta st d))"
  "evolves d (markWhitelistActivated i d)" "evolves d (cancelPendingWhitelist i r d)"
  by (rule evolves_frame;
      simp add: enqueueWhitelistChange_def markWhitelistActivated_def cancelPendingWhitelist_def
        updateChange_def findUserRow_def postings_def store_wf_def wfTable_insertRow wfTable_updateRows)+

lemma evolves_enqueueWithdrawal [intro]:
  assumes "is_double sb" "findUserRow tid d \<noteq> None"
  shows "evolves d (snd (enqueueWithdrawal tid dst sb fs q d))"
proof -
  let ?d = "snd (enqueueWithdrawal tid dst sb fs q d)"
  have "row_evolves (getWithdrawalById i d) (getWithdrawalById i ?d)" if wf: "store_wf d" for i
  proof -
    have "getWithdrawalById (fst (enqueueWithdrawal tid dst sb fs q d)) d = None"
      using store_wfD(3) [OF wf] by (auto simp: wfTable_def find_None_iff_ball getWithdrawalById_def enqueueWithdrawal_def)
    then show ?thesis by (auto simp: getWithdrawalById_enqueue [OF wf] row_evolves_def split: option.splits)
  qed
  moreover have "ledger_ok ?d = ledger_ok d" by (rule ledger_ok_cong) (simp_all add: postings_def)
  ultimately show ?thesis
    using assms by (auto simp: evolves_def hasDeposit_def findUserRow_def)
qed

lemma evolves_requeue [intro]: "evolves d (snd (requeueFailedWithdrawal i d))"
proof (cases rule: requeue_cases [of i d])
  case (requeued w)
  let ?d = "snd (requeueFailedWithdrawal i d)"
  have "row_evolves (getWithdrawalById j d) (getWithdrawalById j ?d)" for j
  proof (cases "j = i")
    case True
    with requeued show ?thesis by (simp add: getWithdrawalById_update row_evolves_def requeuedRow_def
          getWithdrawalById_Some)
  next
    case False
    then have "getWithdrawalById j ?d = getWithdrawalById j d"
      using requeued by (cases "getWithdrawalById j d")
        (auto simp: getWithdrawalById_update dest: getWithdrawalById_Some)
    then show ?thesis by simp
  qed
  moreover have "ledger_ok ?d = ledger_ok d"
    using requeued by (intro ledger_ok_cong) (simp_all add: postings_def)
  moreover have "store_wf d \<Longrightarrow> store_wf ?d" by (rule store_wf_requeue)
  ultimately show ?thesis using requeued by (auto simp: evolves_def hasDeposit_def findUserRow_def)
qed (simp add: ev.refl)

section \<open>Evolution of the operations of the components\<close>

lemma evolves_credit [intro]: "evolves d (snd (credit q p d))"
proof (cases "store_wf d")
  case True
  then show ?thesis
  proof (cases rule: credit_cases [where sqlSum = q and p = p])
    case (credited usd)
    let ?d = "snd (credit q p d)" and ?c = "snd (creditDeposit (depositRow p (mintedShares p)) d)"
    have dep: "\<not> hasDeposit (d_inboundTxSig (depositRow p (mintedShares p))) d"
      "findUserRow (d_telegramId (depositRow p (mintedShares p))) d \<noteq> None"
      "is_double (d_sharesMinted (depositRow p (mintedShares p)))"
      using credited mintedShares_double by simp_all
    note eff = creditDeposit_effect [OF dep]
    have s: "getShares v ?d = getShares v ?c" "hasDeposit g ?d = hasDeposit g ?c" for v g
      using credited by (simp_all add: getShares_def findShares_def hasDeposit_def)
    have "postings (creditSnapshot q p ?c) = postings d" using eff(4) by (intro postings_cong) simp
    then have p: "postings ?d = postings d @ [(cp_telegramId p, mintedShares p)]"
      using credited by (simp add: creditAudit_def postings_writeAudit auditDelta_def numField_def)
    have "getShares v ?d = (if v = cp_telegramId p then nadd (getShares v d) (mintedShares p) else getShares v d)" for v
      unfolding s using eff(1) [of v] by simp
    then have "ledger_ok d \<longrightarrow> ledger_ok ?d"
      by (simp add: ledger_ok_def replayed_posting [OF p])
    moreover have "vault_withdrawals ?d = vault_withdrawals d" "vault_users ?d = vault_users d"
      using credited eff(3,5) by simp_all
    moreover have "store_wf ?d" using True by (rule store_wf_credit)
    ultimately show ?thesis using s eff(2)
      by (simp add: evolves_def getWithdrawalById_def findUserRow_def)
  qed (simp add: ev.refl)
qed (simp add: evolves_def)

lemma evolves_requestChange [intro]: "evolves d (snd (requestChange cd tid a now d))"
  by (cases "getUser tid d")
    (auto simp: requestChange_def exn_simps withTransaction_def atomically_def split_beta Let_def
      intro: ev.refl evolves_trans [OF evolves_changes(1) evolves_user_updates(3)])

lemma evolves_cancelPending [intro]: "evolves d (snd (cancelPending tid r d))"
  by (auto simp: cancelPending_def ev.refl split: option.splits)

lemma evolves_activateDue [intro]: "evolves d (snd (activateDue now d))"
proof -
  have "evolves e (fold (activated now) due e)" for due e
  proof (induction due arbitrary: e)
    case (Cons c due)
    have "evolves e (activated now c e)"
      unfolding activated_def by (rule evolves_trans [OF evolves_user_updates(3) evolves_changes(2)])
    also have "evolves \<dots> (fold (activated now) due (activated now c e))" by (rule Cons.IH)
    finally show ?case by simp
  qed (simp add: ev.refl)
  then show ?thesis by (simp add: activateDue_run)
qed

section \<open>Evolution of the deposit pipeline\<close>

text \<open>The same on the database and a log that only grows.\<close>

definition evolvesLog :: "db \<times> 'e list \<Rightarrow> db \<times> 'e list \<Rightarrow> bool" where
  "evolvesLog s s' \<longleftrightarrow> evolves (fst s) (fst s') \<and> (\<exists>es. snd s' = snd s @ es)"

interpretation evl: store_order evolvesLog
proof
  show "evolvesLog s s" for s :: "db \<times> 'e list" by (simp add: evolvesLog_def ev.refl)
  show "evolvesLog s u" if "evolvesLog s t" "evolvesLog t u" for s t u :: "db \<times> 'e list"
    using that ev.trans by (fastforce simp: evolvesLog_def)
qed

lemma stays_onDb [intro]: "stays evolves m \<Longrightarrow> stays evolvesLog (onDb m)"
  by (simp add: stays_def evolvesLog_def onDb_def split_beta)

lemma stays_emit [intro]: "stays evolvesLog (emit es)"
  by (simp add: stays_def evolvesLog_def emit_def ev.refl)

lemmas stays_rules = ev.stays_pure ev.stays_andThen ev.stays_tryCatch ev.stays_atomically
  evl.stays_pure evl.stays_andThen evl.stays_tryCatch stays_onDb stays_emit

lemma stays_read [intro]: "stays evolves (\<lambda>d. (f d, d))"
  by (simp add: stays_def ev.refl)

definition calm :: "PipelineEnv \<Rightarrow> bool" where
  "calm e \<longleftrightarrow> (\<forall>d. evolves d (pe_meanwhile1 e d) \<and> evolves d (pe_meanwhile2 e d) \<and> evolves d (pe_meanwhile3 e d))"

lemma evolves_pipeline_audits [intro]:
  "evolves d (recordSweepFailure e tid ev r d)" "evolves d (sweptAudit e tid ev g d)"
  "evolves d (detectedAudit e tid ev d)"
  by (auto simp: recordSweepFailure_def sweptAudit_def detectedAudit_def postingEvents_def)

lemma stays_credit [intro]: "stays evolves (credit q p)"
  by (auto simp: stays_def)

lemma stays_creditSwept: "calm e \<Longrightarrow> stays evolves (creditSwept c e tid ev g)"
  unfolding creditSwept_def creditOrRecord_def calm_def
  by (auto split: option.splits intro!: stays_rules stays_read ev.stays_modify)

lemma stays_onInflow: "calm e \<Longrightarrow> stays evolvesLog (onInflow c e ev)"
  unfolding onInflow_def sweepInflow_def
  by (auto simp: calm_def postingEvents_def split: option.splits sum.splits
      intro!: stays_rules ev.stays_modify stays_creditSwept [unfolded calm_def] evolves_pipeline_audits
        evolves_writeAudit)

lemma stays_pollSignatures:
  assumes "\<And>ev. stays evolvesLog (inflow ev)" "\<And>g d. evolves d (we_meanwhile e g d)"
  shows "stays evolvesLog (pollSignatures mint e inflow addr ss)"
proof (induction ss)
  case (Cons s ss)
  then show ?case using assms
    by (auto simp: Let_def split: option.splits intro!: stays_rules ev.stays_modify)
qed (simp add: evl.stays_pure)

lemma stays_pollAddress:
  assumes "\<And>ev. stays evolvesLog (inflow ev)" "\<And>g d. evolves d (we_meanwhile e g d)"
  shows "stays evolvesLog (pollAddress mint e inflow addr)"
  unfolding pollAddress_def by (intro evl.stays_andThen evl.stays_pure stays_pollSignatures assms)

end
