(* ===== verification/Enrollment.thy ===== *)
theory Enrollment
  imports Evolution
begin

text \<open>
  \<open>encryption.ts\<close>, \<open>totp.ts\<close> and \<open>enrollment.ts\<close> under \<open>src/src/vault/\<close>. The cipher of the runtime, the
  OTP library and the key generator are parameters: \<open>cipher\<close> is AES-256-GCM with the tag apart,
  \<open>validate\<close> is \<open>TOTP.validate\<close> with the window of the source and yields the offset of the matching
  time step. Text and bytes are converted code by code, since the secrets are ASCII.
\<close>

section \<open>encryption.ts\<close>

definition IV_BYTES :: nat where
  "IV_BYTES = 12"

definition TAG_BYTES :: nat where
  "TAG_BYTES = 16"

record cipher =
  ci_seal :: "bytes \<Rightarrow> bytes \<Rightarrow> bytes \<Rightarrow> bytes \<times> bytes"
  ci_open :: "bytes \<Rightarrow> bytes \<Rightarrow> bytes \<Rightarrow> bytes \<Rightarrow> bytes result"

text \<open>The pair is \<open>(ciphertext, iv)\<close>; \<open>iv\<close> is the fresh \<open>randomBytes(IV_BYTES)\<close>.\<close>

definition encrypt :: "cipher \<Rightarrow> bytes \<Rightarrow> bytes \<Rightarrow> bytes \<Rightarrow> (bytes \<times> bytes) result" where
  "encrypt c iv plaintext key =
     (if length key \<noteq> 32 then Inl ''encrypt: key must be 32 bytes''
      else let (enc, tag) = ci_seal c key iv plaintext in Inr (enc @ tag, iv))"

definition decrypt :: "cipher \<Rightarrow> bytes \<Rightarrow> bytes \<Rightarrow> bytes \<Rightarrow> bytes result" where
  "decrypt c ciphertext iv key =
     (if length key \<noteq> 32 then Inl ''decrypt: key must be 32 bytes''
      else if length iv \<noteq> IV_BYTES then Inl ''decrypt: iv must be 12 bytes''
      else if length ciphertext < TAG_BYTES then Inl ''decrypt: ciphertext too short''
      else
        let enc = take (length ciphertext - TAG_BYTES) ciphertext;
            tag = drop (length ciphertext - TAG_BYTES) ciphertext
        in ci_open c key iv enc tag)"

text \<open>The environment variable and its base64 decoding.\<close>

definition loadMasterKey :: "string option \<Rightarrow> (string \<Rightarrow> bytes) \<Rightarrow> bytes result" where
  "loadMasterKey b64 decode =
     (if \<not> truthy b64 then Inl ''VAULT_MASTER_KEY env var not set''
      else let key = decode (the b64)
           in if length key \<noteq> 32
              then Inl (''VAULT_MASTER_KEY must be 32 bytes (got '' @ bigToString (int (length key)) @ '')'')
              else Inr key)"

section \<open>totp.ts\<close>

definition STEP_SEC :: int where
  "STEP_SEC = 30"

definition currentCounter :: "int \<Rightarrow> int" where
  "currentCounter nowMs = \<lfloor>ndiv (ndiv (of_int nowMs) 1000) (of_int STEP_SEC)\<rfloor>"

datatype VerifyReason = Bad_format | Invalid | Replay

record VerifyResult =
  vr_ok :: bool
  vr_counter :: int
  vr_reason :: "VerifyReason option"

text \<open>\<open>te_validate secret code\<close> is the library's answer at the time of the call, \<open>te_counterMs\<close> the clock
  when \<open>currentCounter\<close> reads it right after.\<close>

record TotpEnv =
  te_validate :: "string \<Rightarrow> string \<Rightarrow> int option"
  te_counterMs :: int

definition verifyCode :: "TotpEnv \<Rightarrow> string \<Rightarrow> string \<Rightarrow> int option \<Rightarrow> VerifyResult" where
  "verifyCode e secret code lastUsedCounter =
     (if \<not> isSixDigits code then \<lparr>vr_ok = False, vr_counter = -1, vr_reason = Some Bad_format\<rparr>
      else case te_validate e secret code of
        None \<Rightarrow> \<lparr>vr_ok = False, vr_counter = -1, vr_reason = Some Invalid\<rparr>
      | Some delta \<Rightarrow>
          let matchedCounter = currentCounter (te_counterMs e) + delta
          in if (case lastUsedCounter of None \<Rightarrow> False | Some l \<Rightarrow> matchedCounter \<le> l)
             then \<lparr>vr_ok = False, vr_counter = matchedCounter, vr_reason = Some Replay\<rparr>
             else \<lparr>vr_ok = True, vr_counter = matchedCounter, vr_reason = None\<rparr>)"

section \<open>enrollment.ts\<close>

definition utf8 :: "string \<Rightarrow> bytes" where
  "utf8 s = map of_char s"

definition fromUtf8 :: "bytes \<Rightarrow> string" where
  "fromUtf8 bs = map char_of bs"

text \<open>What one enrollment call draws from the runtime: the new key pair (address and secret), the new
  secret, the fresh IV, the outcome of \<open>ensureAta\<close>, the cipher and the OTP library.\<close>

record EnrollEnv =
  en_cipher :: cipher
  en_masterKey :: bytes
  en_keypair :: "string \<times> bytes"
  en_iv :: bytes
  en_iv2 :: bytes
  en_secret :: string
  en_ensureAta :: "string \<Rightarrow> unit result"
  en_totp :: TotpEnv

definition accept :: "EnrollEnv \<Rightarrow> int \<Rightarrow> int \<Rightarrow> unit dbm" where
  "accept e telegramId now =
     andThen (gets (getUser telegramId)) (\<lambda>user.
       if user \<noteq> None then ret ()
       else
         andThen (lift (encrypt (en_cipher e) (en_iv e) (snd (en_keypair e)) (en_masterKey e))) (\<lambda>enc.
         andThen (createUser telegramId Depositor (fst (en_keypair e)) (fst enc) (snd enc) now now) (\<lambda>_.
         lift (en_ensureAta e (fst (en_keypair e))))))"

text \<open>Returns the secret; the otpauth URI the source returns beside it is not used by its callers.\<close>

definition beginTotpEnrollment :: "EnrollEnv \<Rightarrow> int \<Rightarrow> string dbm" where
  "beginTotpEnrollment e telegramId =
     andThen (gets (getUser telegramId)) (\<lambda>user.
       if user = None then throw ''Enrollment.beginTotpEnrollment: no such user''
       else
         andThen (lift (encrypt (en_cipher e) (en_iv2 e) (utf8 (en_secret e)) (en_masterKey e))) (\<lambda>enc.
         andThen (modify (setTotp telegramId (fst enc) (snd enc) 0)) (\<lambda>_. ret (en_secret e))))"

definition confirmTotp :: "EnrollEnv \<Rightarrow> int \<Rightarrow> string \<Rightarrow> int \<Rightarrow> bool dbm" where
  "confirmTotp e telegramId code now =
     andThen (gets (getUserSecrets telegramId)) (\<lambda>secrets.
       case secrets of
         None \<Rightarrow> ret False
       | Some s \<Rightarrow>
         (case (us_totpSecretEnc s, us_totpSecretIv s) of
            (Some enc, Some iv) \<Rightarrow>
              andThen (lift (decrypt (en_cipher e) enc iv (en_masterKey e))) (\<lambda>secret.
                let r = verifyCode (en_totp e) (fromUtf8 secret) code None
                in if \<not> vr_ok r then ret False
                   else
                     andThen (modify (setTotp telegramId enc iv now)) (\<lambda>_.
                     andThen (modify (setTotpLastCounter telegramId (vr_counter r))) (\<lambda>_. ret True)))
          | _ \<Rightarrow> ret False))"

section \<open>Facts\<close>

lemma verifyCode_ok:
  "vr_ok (verifyCode e secret code lastc) \<longleftrightarrow> isSixDigits code \<and>
     (\<exists>\<delta>. te_validate e secret code = Some \<delta> \<and> vr_counter (verifyCode e secret code lastc) = currentCounter (te_counterMs e) + \<delta> \<and>
        (\<forall>l. lastc = Some l \<longrightarrow> l < currentCounter (te_counterMs e) + \<delta>))"
  by (auto simp: verifyCode_def Let_def split: option.splits)

lemma stays_accept [intro]: "stays evolves (accept e tid now)"
  unfolding accept_def
  by (auto intro!: stays_rules evolves_createUser simp: stays_def [of evolves "createUser a b c d f g h" for a b c d f g h])

lemma stays_beginTotpEnrollment [intro]: "stays evolves (beginTotpEnrollment e tid)"
  unfolding beginTotpEnrollment_def by (auto intro!: stays_rules ev.stays_modify evolves_user_updates)

lemma stays_confirmTotp [intro]: "stays evolves (confirmTotp e tid code now)"
  unfolding confirmTotp_def by (auto intro!: stays_rules ev.stays_modify evolves_user_updates split: option.splits simp: Let_def)

section \<open>Properties\<close>

text \<open>What was encrypted decrypts to itself under the same 32-byte key, given what the runtime documents of
  AES-256-GCM: opening what was sealed with the same key and IV returns the plaintext, and the tag
  has 16 bytes.\<close>

theorem encrypt_decrypt:
  assumes "\<And>key iv p. ci_open c key iv (fst (ci_seal c key iv p)) (snd (ci_seal c key iv p)) = Inr p"
    "\<And>key iv p. length (snd (ci_seal c key iv p)) = TAG_BYTES" "length key = 32" "length iv = IV_BYTES"
  shows "\<exists>ct. encrypt c iv plaintext key = Inr (ct, iv) \<and> decrypt c ct iv key = Inr plaintext"
proof -
  obtain enc tag where s: "ci_seal c key iv plaintext = (enc, tag)" by fastforce
  then have "length tag = TAG_BYTES" "ci_open c key iv enc tag = Inr plaintext"
    using assms(2) [of key iv plaintext] assms(1) [of key iv plaintext] by simp_all
  then show ?thesis using s assms(3,4) by (simp add: encrypt_def decrypt_def Let_def)
qed

text \<open>A cipher with the two laws (every byte is kept and the tag is a constant).\<close>

definition null_cipher :: cipher where
  "null_cipher = \<lparr>ci_seal = (\<lambda>_ _ p. (p, replicate 16 0)), ci_open = (\<lambda>_ _ enc _. Inr enc)\<rparr>"

theorem encrypt_decrypt_witness:
  "\<exists>ct. encrypt null_cipher (replicate 12 1) [1, 2, 3] (replicate 32 7) = Inr (ct, replicate 12 1) \<and>
     decrypt null_cipher ct (replicate 12 1) (replicate 32 7) = Inr [1, 2, 3]"
  by (rule encrypt_decrypt) (simp_all add: null_cipher_def TAG_BYTES_def IV_BYTES_def)

end
