(* ===== verification/Rate_Limiter.thy ===== *)
theory Rate_Limiter
  imports Prelude Js_Number
begin

text \<open>
  \<open>src/src/vault/rateLimiter.ts\<close>: the class \<open>TotpRateLimiter\<close>. Its two \<open>Map\<close>s are partial functions
  and its constructor parameters a record. The lemmas show when a user is locked out, and bound the
  number of guesses that are checked in any interval that is no longer than the window and the
  lockout.
\<close>

record limiter_cfg =
  windowMs :: int
  threshold :: nat
  lockoutMs :: int

record limiter =
  failures :: "int \<rightharpoonup> int list"
  lockedUntil :: "int \<rightharpoonup> int"

definition defaultLimiter :: limiter_cfg where
  "defaultLimiter = \<lparr>windowMs = 15 * 60000, threshold = 5, lockoutMs = 15 * 60000\<rparr>"

definition newLimiter :: limiter where
  "newLimiter = \<lparr>failures = Map.empty, lockedUntil = Map.empty\<rparr>"

definition isLockedOut :: "int \<Rightarrow> int \<Rightarrow> limiter \<Rightarrow> int option \<times> limiter" where
  "isLockedOut userId now l =
     (case lockedUntil l userId of
        None \<Rightarrow> (None, l)
      | Some until \<Rightarrow>
          if until > now then (Some until, l)
          else (None, l\<lparr>lockedUntil := (lockedUntil l)(userId := None)\<rparr>))"

definition recordFailure :: "limiter_cfg \<Rightarrow> int \<Rightarrow> int \<Rightarrow> limiter \<Rightarrow> int option \<times> limiter" where
  "recordFailure c userId now l =
     (let prior = (case failures l userId of None \<Rightarrow> [] | Some ts \<Rightarrow> ts);
          recent = filter (\<lambda>t. now - t \<le> windowMs c) prior @ [now]
      in if length recent \<ge> threshold c
         then let until = now + lockoutMs c
              in (Some until, l\<lparr>lockedUntil := (lockedUntil l)(userId \<mapsto> until),
                                failures := (failures l)(userId := None)\<rparr>)
         else (None, l\<lparr>failures := (failures l)(userId \<mapsto> recent)\<rparr>))"

definition recordSuccess :: "int \<Rightarrow> limiter \<Rightarrow> limiter" where
  "recordSuccess userId l =
     l\<lparr>failures := (failures l)(userId := None), lockedUntil := (lockedUntil l)(userId := None)\<rparr>"

definition formatLockoutRemaining :: "int \<Rightarrow> string" where
  "formatLockoutRemaining ms =
     (let totalSec = max 1 \<lceil>ndiv (of_int ms) 1000\<rceil>;
          m = \<lfloor>ndiv (of_int totalSec) 60\<rfloor>;
          s = totalSec mod 60
      in bigToString m @ ''m '' @ bigToString s @ ''s'')"

section \<open>Guessing\<close>

text \<open>A user who tries wrong codes at the given times, with the guard its callers put before every
  verification: the times of the attempts that are checked.\<close>

fun guesses :: "limiter_cfg \<Rightarrow> int \<Rightarrow> int list \<Rightarrow> limiter \<Rightarrow> int list" where
  "guesses c u [] l = []"
| "guesses c u (t # ts) l =
     (case isLockedOut u t l of
        (Some _, l') \<Rightarrow> guesses c u ts l'
      | (None, l') \<Rightarrow> t # guesses c u ts (snd (recordFailure c u t l')))"

definition recentFailures :: "int \<Rightarrow> limiter \<Rightarrow> int list" where
  "recentFailures u l = (case failures l u of None \<Rightarrow> [] | Some ts \<Rightarrow> ts)"

text \<open>How many more guesses of the interval that starts at \<open>a\<close> and ends before \<open>e\<close> can be checked.\<close>

definition budget :: "limiter_cfg \<Rightarrow> int \<Rightarrow> int \<Rightarrow> int \<Rightarrow> limiter \<Rightarrow> nat" where
  "budget c u a e l =
     (if \<exists>x. lockedUntil l u = Some x \<and> e \<le> x then 0
      else threshold c - length (filter (\<lambda>t. a \<le> t) (recentFailures u l)))"

lemma isLockedOut_cases:
  obtains (locked) x where "lockedUntil l u = Some x" "now < x" "isLockedOut u now l = (Some x, l)"
  | (free) l' where "isLockedOut u now l = (None, l')" "failures l' = failures l" "lockedUntil l' u = None"
      "\<And>x. lockedUntil l u = Some x \<Longrightarrow> x \<le> now"
  by (cases "lockedUntil l u"; cases "now < the (lockedUntil l u)") (auto simp: isLockedOut_def)

lemma recordFailure_cases:
  obtains (tripped) "recordFailure c u now l = (Some (now + lockoutMs c),
      l\<lparr>lockedUntil := (lockedUntil l)(u \<mapsto> now + lockoutMs c), failures := (failures l)(u := None)\<rparr>)"
      "threshold c \<le> length (filter (\<lambda>t. now - t \<le> windowMs c) (recentFailures u l)) + 1"
  | (counted) "recordFailure c u now l = (None, l\<lparr>failures := (failures l)
      (u \<mapsto> filter (\<lambda>t. now - t \<le> windowMs c) (recentFailures u l) @ [now])\<rparr>)"
      "length (filter (\<lambda>t. now - t \<le> windowMs c) (recentFailures u l)) + 1 < threshold c"
  by (cases "threshold c \<le> length (filter (\<lambda>t. now - t \<le> windowMs c) (recentFailures u l)) + 1")
    (auto simp: recordFailure_def recentFailures_def Let_def not_le)

lemma guesses_subset: "set (guesses c u ts l) \<subseteq> set ts"
  by (induction ts arbitrary: l) (auto split: prod.splits option.splits)

lemma guesses_in_order:
  assumes "\<forall>t\<in>set ts. e \<le> t"
  shows "filter (\<lambda>t. a \<le> t \<and> t < e) (guesses c u ts l) = []"
proof -
  have "\<forall>t\<in>set (guesses c u ts l). e \<le> t" using guesses_subset [of c u ts l] assms by auto
  then show ?thesis by (auto simp: filter_empty_conv)
qed

lemma filter_window:
  fixes a t w :: int
  assumes "t - a \<le> w"
  shows "filter (\<lambda>x. a \<le> x) (filter (\<lambda>x. t - x \<le> w) xs) = filter (\<lambda>x. a \<le> x) xs"
  using assms by (auto intro!: filter_cong)

text \<open>One checked guess inside the interval uses up one unit of the budget.\<close>

lemma budget_guess:
  assumes "a \<le> t" "t < e" "e - a \<le> windowMs c" "e - a \<le> lockoutMs c"
    and free: "lockedUntil l u = None" and few: "length (recentFailures u l) < threshold c"
  shows "budget c u a e (snd (recordFailure c u t l)) < budget c u a e l"
    and "length (recentFailures u (snd (recordFailure c u t l))) < threshold c"
proof -
  have b: "budget c u a e l = threshold c - length (filter (\<lambda>x. a \<le> x) (recentFailures u l))"
    using free by (simp add: budget_def)
  have lt: "length (filter (\<lambda>x. a \<le> x) (recentFailures u l)) < threshold c"
    using few by (meson length_filter_le le_less_trans)
  have w: "filter (\<lambda>x. a \<le> x) (filter (\<lambda>x. t - x \<le> windowMs c) xs) = filter (\<lambda>x. a \<le> x) xs" for xs
    using assms by (intro filter_window) auto
  show "budget c u a e (snd (recordFailure c u t l)) < budget c u a e l"
    by (cases rule: recordFailure_cases [of c u t l])
      (use assms b lt w in \<open>auto simp: budget_def recentFailures_def\<close>)
  show "length (recentFailures u (snd (recordFailure c u t l))) < threshold c"
    by (cases rule: recordFailure_cases [of c u t l]) (use few in \<open>auto simp: recentFailures_def\<close>)
qed

lemma recentFailures_record:
  "set (recentFailures u (snd (recordFailure c u t l))) \<subseteq> insert t (set (recentFailures u l))"
  by (cases rule: recordFailure_cases [of c u t l]) (auto simp: recentFailures_def)

lemma recentFailures_few:
  "length (recentFailures u l) < threshold c \<Longrightarrow>
     length (recentFailures u (snd (recordFailure c u t l))) < threshold c"
  by (cases rule: recordFailure_cases [of c u t l]) (auto simp: recentFailures_def)

lemma budget_le: "budget c u a e l \<le> threshold c"
  by (simp add: budget_def)

lemma guesses_budget:
  assumes "e - a \<le> windowMs c" "e - a \<le> lockoutMs c" "sorted ts"
    "\<forall>x\<in>set (recentFailures u l). \<forall>t\<in>set ts. x \<le> t" "length (recentFailures u l) < threshold c"
  shows "length (filter (\<lambda>t. a \<le> t \<and> t < e) (guesses c u ts l)) \<le> budget c u a e l"
  using assms(3-5)
proof (induction ts arbitrary: l)
  case (Cons t ts)
  show ?case
  proof (cases rule: isLockedOut_cases [of l u t])
    case (locked x)
    then show ?thesis using Cons by simp
  next
    case (free l')
    let ?l = "snd (recordFailure c u t l')"
    have r: "recentFailures u l' = recentFailures u l" using free by (simp add: recentFailures_def)
    have g: "guesses c u (t # ts) l = t # guesses c u ts ?l" using free by simp
    have few: "length (recentFailures u ?l) < threshold c"
      using Cons.prems r by (intro recentFailures_few) simp
    have "\<forall>x\<in>set (recentFailures u ?l). \<forall>t\<in>set ts. x \<le> t"
      using recentFailures_record [of u c t l'] Cons.prems r by auto
    with few have IH: "length (filter (\<lambda>t. a \<le> t \<and> t < e) (guesses c u ts ?l)) \<le> budget c u a e ?l"
      using Cons by simp
    have b: "budget c u a e l' = budget c u a e l" if "t < e"
      using free that by (fastforce simp: budget_def recentFailures_def)
    consider "t < a" | "a \<le> t" "t < e" | "e \<le> t" by linarith
    then show ?thesis
    proof cases
      case 1
      have "filter (\<lambda>x. a \<le> x) (recentFailures u l) = []"
        using 1 Cons.prems by (auto simp: filter_empty_conv)
      moreover have "\<not> (\<exists>x. lockedUntil l u = Some x \<and> e \<le> x) \<or> e < a \<or> e \<le> t" using free(4) 1 by force
      ultimately have "budget c u a e l = threshold c \<or> e < a \<or> e \<le> t" by (auto simp: budget_def)
      then show ?thesis
        using 1 g IH budget_le [of c u a e ?l] guesses_in_order [of ts e a c u ?l] Cons.prems
        by (auto simp: filter_empty_conv intro: order_trans)
    next
      case 2
      then show ?thesis
        using g IH b budget_guess(1) [of a t e c l' u] assms Cons.prems free r by simp
    next
      case 3
      then show ?thesis using guesses_in_order [of "t # ts" e a c u l] Cons.prems by force
    qed
  qed
qed simp



text \<open>A lockout is in force exactly from the failure that reaches the threshold until it expires,
  it concerns only the user who failed, and a successful verification ends it at once.\<close>

theorem lockout_effect:
  "fst (isLockedOut v now' (snd (recordFailure c u now l))) =
      (if v = u \<and> threshold c \<le> length (filter (\<lambda>t. now - t \<le> windowMs c) (recentFailures u l)) + 1
       then (if now' < now + lockoutMs c then Some (now + lockoutMs c) else None)
       else fst (isLockedOut v now' l)) \<and>
   fst (isLockedOut v now' (recordSuccess u l)) = (if v = u then None else fst (isLockedOut v now' l)) \<and>
   recentFailures v (recordSuccess u l) = (if v = u then [] else recentFailures v l)"
proof (intro conjI)
  show "fst (isLockedOut v now' (snd (recordFailure c u now l))) =
      (if v = u \<and> threshold c \<le> length (filter (\<lambda>t. now - t \<le> windowMs c) (recentFailures u l)) + 1
       then (if now' < now + lockoutMs c then Some (now + lockoutMs c) else None)
       else fst (isLockedOut v now' l))"
    by (cases rule: recordFailure_cases [of c u now l])
      (auto simp: isLockedOut_def split: option.splits)
qed (auto simp: isLockedOut_def recordSuccess_def recentFailures_def split: option.splits)

end
