(* ===== verification/Ui_Keyboards.thy ===== *)
theory Ui_Keyboards
  imports Prelude
begin

text \<open>
  \<open>src/src/vault/uiKeyboards.ts\<close>: the inline keyboards. A label is the list of its code points, because
  it contains emoji; the callback data is ASCII. \<open>Ui_Router\<close> shows that the router knows every button.
\<close>

record InlineKeyboardButton =
  kb_text :: "nat list"
  kb_callback_data :: string

type_synonym InlineKeyboardMarkup = "InlineKeyboardButton list list"

definition ascii :: "string \<Rightarrow> nat list" where
  "ascii s = map of_char s"

definition button :: "nat list \<Rightarrow> string \<Rightarrow> InlineKeyboardButton" where
  "button text callback = \<lparr>kb_text = text, kb_callback_data = callback\<rparr>"

definition TARGET :: nat where
  "TARGET = 32"

definition NBSP :: nat where
  "NBSP = 0xA0"

text \<open>\<open>[...s]\<close> iterates over the code points; one outside the basic plane counts twice.\<close>

definition visual :: "nat list \<Rightarrow> nat" where
  "visual s = foldl (\<lambda>n ch. n + (if ch > 0xFFFF then 2 else 1)) 0 s"

definition pad :: "nat list \<Rightarrow> nat list" where
  "pad s = (let n = TARGET - visual s; left = n div 2; right = n - left
            in replicate left NBSP @ s @ replicate right NBSP)"

definition welcomeKeyboard :: InlineKeyboardMarkup where
  "welcomeKeyboard =
     [[button ([0x1F195] @ ascii '' Create account'') ''nav:create_account'',
       button ([0x1F4C8] @ ascii '' Stats'') ''act:stats'']]"

definition mainMenuKeyboard :: InlineKeyboardMarkup where
  "mainMenuKeyboard =
     [[button (pad ([0x1F4B0] @ ascii '' Deposit'')) ''act:deposit'',
       button (pad ([0x1F4CA] @ ascii '' Balance'')) ''act:balance''],
      [button (pad ([0x1F4B8] @ ascii '' Withdraw'')) ''act:withdraw'',
       button (pad ([0x1F3AF] @ ascii '' Whitelist'')) ''wl:set''],
      [button (pad ([0x2699, 0xFE0F] @ ascii '' Settings'')) ''nav:settings'',
       button (pad ([0x1F4C8] @ ascii '' Stats'')) ''act:stats'']]"

definition cancelKeyboard :: InlineKeyboardMarkup where
  "cancelKeyboard = [[button ([0x274C] @ ascii '' Cancel'') ''cancel'']]"

definition disclaimerKeyboard :: InlineKeyboardMarkup where
  "disclaimerKeyboard =
     [[button ([0x2705] @ ascii '' I accept'') ''enr:accept'',
       button ([0x274C] @ ascii '' Decline'') ''enr:decline'']]"

definition settingsKeyboard :: InlineKeyboardMarkup where
  "settingsKeyboard =
     [[button ([0x1F3AF] @ ascii '' Set withdrawal address'') ''wl:set''],
      [button ([0x1F6AB] @ ascii '' Cancel pending whitelist'') ''wl:cancel''],
      [button ([0x1F3E0] @ ascii '' Menu'') ''nav:home'']]"

definition withdrawAmountKeyboard :: InlineKeyboardMarkup where
  "withdrawAmountKeyboard =
     [[button (ascii ''25%'') ''wd:p25'', button (ascii ''50%'') ''wd:p50''],
      [button (ascii ''75%'') ''wd:p75'', button (ascii ''100%'') ''wd:p100''],
      [button ([0x1F4B2] @ ascii '' Custom USD'') ''wd:custom''],
      [button ([0x274C] @ ascii '' Cancel'') ''cancel'']]"

definition postDepositKeyboard :: InlineKeyboardMarkup where
  "postDepositKeyboard =
     [[button ([0x1F4CA] @ ascii '' Balance'') ''act:balance'',
       button ([0x1F3E0] @ ascii '' Menu'') ''nav:home'']]"

definition postBalanceKeyboard :: InlineKeyboardMarkup where
  "postBalanceKeyboard =
     [[button ([0x1F4B8] @ ascii '' Withdraw'') ''act:withdraw'',
       button ([0x1F4B0] @ ascii '' Deposit more'') ''act:deposit'',
       button ([0x1F3E0] @ ascii '' Menu'') ''nav:home'']]"

definition postActionKeyboard :: InlineKeyboardMarkup where
  "postActionKeyboard = [[button ([0x1F3E0] @ ascii '' Menu'') ''nav:home'']]"

definition errorKeyboard :: "string option \<Rightarrow> InlineKeyboardMarkup" where
  "errorKeyboard retryCallback =
     [(if truthy retryCallback then [button ([0x1F519] @ ascii '' Try again'') (the retryCallback)] else []) @
      [button ([0x1F3E0] @ ascii '' Menu'') ''nav:home'']]"

lemma visual_sum: "visual s = sum_list (map (\<lambda>ch. if ch > 0xFFFF then 2 else 1) s)"
proof -
  have "foldl (\<lambda>n ch. n + f ch) k s = k + sum_list (map f s)" for k and f :: "nat \<Rightarrow> nat"
    by (induction s arbitrary: k) simp_all
  from this [of "\<lambda>ch. if ch > 0xFFFF then 2 else 1" 0] show ?thesis by (simp add: visual_def)
qed

lemma visual_append: "visual (xs @ ys) = visual xs + visual ys"
  by (simp add: visual_sum)

lemma visual_NBSP: "visual (replicate n NBSP) = n"
  by (simp add: visual_sum NBSP_def sum_list_replicate)

text \<open>A padded label is exactly \<open>TARGET\<close> cells wide unless the text alone is wider, the text sits in it
  unchanged with nothing but non-breaking spaces around it, and the two margins differ by at most one.\<close>

theorem pad_centered:
  "visual (pad s) = max TARGET (visual s) \<and>
   (\<exists>l r. pad s = replicate l NBSP @ s @ replicate r NBSP \<and> (r = l \<or> r = l + 1))"
proof -
  let ?n = "TARGET - visual s"
  have p: "pad s = replicate (?n div 2) NBSP @ s @ replicate (?n - ?n div 2) NBSP" by (simp add: pad_def Let_def)
  then have "visual (pad s) = max TARGET (visual s)" by (simp add: visual_append visual_NBSP)
  moreover have "m - m div 2 = m div 2 \<or> m - m div 2 = m div 2 + 1" for m :: nat by presburger
  ultimately show ?thesis using p by blast
qed

end
