(* ===== verification/Commands.thy ===== *)
theory Commands
  imports Enrollment Rate_Limiter Ui_Keyboards
begin

text \<open>
  \<open>src/src/vault/commands.ts\<close>: the class \<open>CommandHandlers\<close>, one definition per method. \<open>Session\<close> holds its
  private fields, the database, and what the outside sees: the replies sent so far. The clock is
  read through \<open>nowMs\<close>, and the n-th reading and the n-th answer of \<open>getNav\<close> are functions of the
  environment, so that two readings in one handler may differ. While \<open>getNav\<close> is awaited, other tasks
  may change the database (\<open>ce_meanwhile\<close>).
\<close>

section \<open>Environment and state\<close>

record extras =
  ex_photoBase64 :: "string option"
  ex_keyboard :: "InlineKeyboardMarkup option"
  ex_markdown :: bool
  ex_selfDestructMs :: "int option"

record Reply =
  rp_chatId :: int
  rp_text :: "frag list"
  rp_extras :: extras

record CommandsConfig =
  cc_withdrawalFeeBps :: rat
  cc_minWithdrawalUsd :: rat
  cc_maxDailyWithdrawalsPerUser :: nat
  cc_maxDailyWithdrawalUsdPerUser :: rat
  cc_maxPendingWithdrawals :: nat
  cc_uiButtons :: bool

text \<open>\<open>CommandsDeps\<close>: \<open>ce_publicKey\<close> tells whether \<open>new PublicKey(addr)\<close> accepts the text, \<open>ce_qr\<close> is
  \<open>QRCode.toDataURL\<close>, and the delivery of a reply may throw.\<close>

record CmdEnv =
  ce_config :: CommandsConfig
  ce_limiter :: limiter_cfg
  ce_enroll :: EnrollEnv
  ce_masterKey :: bytes
  ce_cooldownMs :: int
  ce_sqlSum :: "rat list \<Rightarrow> rat"
  ce_publicKey :: "string \<Rightarrow> bool"
  ce_qr :: "string \<Rightarrow> string result"
  ce_nav :: "nat \<Rightarrow> (rat \<times> rat) option result"
  ce_meanwhile :: "nat \<Rightarrow> db \<Rightarrow> db"
  ce_clock :: "nat \<Rightarrow> int"
  ce_deliver :: "Reply \<Rightarrow> unit result"

datatype PendingAction =
    PDisclaimer
  | PTotp_setup_confirm
  | PDeposit_reveal
  | PBalance_reveal
  | PWithdraw_amount_entry
  | PWithdraw rat
  | PSetwhitelist_address_entry
  | PSetwhitelist_first string
  | PSetwhitelist_change string
  | PCancelwhitelist

record Session =
  ch_db :: db
  ch_pending :: "int \<rightharpoonup> PendingAction"
  ch_totpSetupFailures :: "int \<rightharpoonup> nat"
  ch_unlockedUntil :: "int \<rightharpoonup> int"
  ch_limiter :: limiter
  ch_clockReads :: nat
  ch_navCalls :: nat
  ch_replies :: "Reply list"

type_synonym 'a cmd = "(Session, 'a) exn"

definition TOTP_SETUP_MAX_FAILURES :: nat where
  "TOTP_SETUP_MAX_FAILURES = 5"

definition TOTP_UNLOCK_MS :: int where
  "TOTP_UNLOCK_MS = 5 * 60 * 1000"

section \<open>Effects\<close>

definition onStore :: "'a dbm \<Rightarrow> 'a cmd" where
  "onStore m s = (case m (ch_db s) of (r, d) \<Rightarrow> (r, s\<lparr>ch_db := d\<rparr>))"

definition onLimiter :: "(limiter \<Rightarrow> 'a \<times> limiter) \<Rightarrow> 'a cmd" where
  "onLimiter f s = (case f (ch_limiter s) of (x, l) \<Rightarrow> (Inr x, s\<lparr>ch_limiter := l\<rparr>))"

definition nowMs :: "CmdEnv \<Rightarrow> int cmd" where
  "nowMs e s = (Inr (ce_clock e (ch_clockReads s)), s\<lparr>ch_clockReads := Suc (ch_clockReads s)\<rparr>)"

definition noExtras :: extras where
  "noExtras = \<lparr>ex_photoBase64 = None, ex_keyboard = None, ex_markdown = False, ex_selfDestructMs = None\<rparr>"

definition reply :: "CmdEnv \<Rightarrow> int \<Rightarrow> frag list \<Rightarrow> extras \<Rightarrow> unit cmd" where
  "reply e chatId text x s =
     (let r = \<lparr>rp_chatId = chatId, rp_text = text, rp_extras = x\<rparr>
      in (ce_deliver e r, s\<lparr>ch_replies := ch_replies s @ [r]\<rparr>))"

text \<open>The total value and the total number of shares, or null.\<close>

definition getNav :: "CmdEnv \<Rightarrow> (rat \<times> rat) option cmd" where
  "getNav e s =
     (let n = ch_navCalls s
      in (ce_nav e n, s\<lparr>ch_navCalls := Suc n, ch_db := ce_meanwhile e n (ch_db s)\<rparr>))"

definition auditWrite :: "int \<Rightarrow> int \<Rightarrow> string \<Rightarrow> (string \<times> json) list \<Rightarrow> unit cmd" where
  "auditWrite ts telegramId event details =
     onStore (modify (writeAudit ts (Some telegramId) event (JObj details)))"

definition setPending :: "int \<Rightarrow> PendingAction \<Rightarrow> unit cmd" where
  "setPending userId action = modify (\<lambda>s. s\<lparr>ch_pending := (ch_pending s)(userId \<mapsto> action)\<rparr>)"

definition clearPending :: "int \<Rightarrow> unit cmd" where
  "clearPending userId = modify (\<lambda>s. s\<lparr>ch_pending := (ch_pending s)(userId := None)\<rparr>)"

definition clearSetupFailures :: "int \<Rightarrow> unit cmd" where
  "clearSetupFailures userId =
     modify (\<lambda>s. s\<lparr>ch_totpSetupFailures := (ch_totpSetupFailures s)(userId := None)\<rparr>)"

definition isUnlocked :: "CmdEnv \<Rightarrow> int \<Rightarrow> bool cmd" where
  "isUnlocked e userId =
     andThen (gets ch_unlockedUntil) (\<lambda>unlockedUntil.
       case unlockedUntil userId of
         None \<Rightarrow> ret False
       | Some until \<Rightarrow> andThen (nowMs e) (\<lambda>now. ret (until > now)))"

definition setUnlocked :: "CmdEnv \<Rightarrow> int \<Rightarrow> unit cmd" where
  "setUnlocked e userId =
     andThen (nowMs e) (\<lambda>now.
     modify (\<lambda>s. s\<lparr>ch_unlockedUntil := (ch_unlockedUntil s)(userId \<mapsto> now + TOTP_UNLOCK_MS)\<rparr>))"

definition clearUnlock :: "int \<Rightarrow> unit cmd" where
  "clearUnlock userId = modify (\<lambda>s. s\<lparr>ch_unlockedUntil := (ch_unlockedUntil s)(userId := None)\<rparr>)"

definition kb :: "CmdEnv \<Rightarrow> InlineKeyboardMarkup \<Rightarrow> extras" where
  "kb e keyboard =
     noExtras\<lparr>ex_keyboard := (if cc_uiButtons (ce_config e) then Some keyboard else None)\<rparr>"

text \<open>A reply without markup, of literal text, and with a keyboard.\<close>

definition say :: "CmdEnv \<Rightarrow> int \<Rightarrow> frag list \<Rightarrow> InlineKeyboardMarkup \<Rightarrow> unit cmd" where
  "say e chatId text keyboard = reply e chatId text (kb e keyboard)"

section \<open>The second factor\<close>

definition lockedText :: "int \<Rightarrow> frag list" where
  "lockedText ms = [Lit ''Too many failed attempts. Locked for '', Lit (formatLockoutRemaining ms), Lit ''.'']"

definition rejectIfLocked :: "CmdEnv \<Rightarrow> int \<Rightarrow> int \<Rightarrow> bool cmd" where
  "rejectIfLocked e chatId userId =
     andThen (nowMs e) (\<lambda>now.
     andThen (onLimiter (isLockedOut userId now)) (\<lambda>until.
       case until of
         None \<Rightarrow> ret False
       | Some t \<Rightarrow> andThen (reply e chatId (lockedText (t - now)) noExtras) (\<lambda>_. ret True)))"

definition verifyTotp :: "CmdEnv \<Rightarrow> int \<Rightarrow> string \<Rightarrow> bool cmd" where
  "verifyTotp e userId code =
     onStore
       (andThen (gets (getUser userId)) (\<lambda>user.
          case user of
            None \<Rightarrow> ret False
          | Some u \<Rightarrow>
              if vu_totpEnrolledAt u = None then ret False
              else
                andThen (gets (getUserSecrets userId)) (\<lambda>secrets.
                  case Option.bind secrets (\<lambda>s. Option.bind (us_totpSecretEnc s)
                         (\<lambda>enc. map_option (Pair enc) (us_totpSecretIv s))) of
                    None \<Rightarrow> ret False
                  | Some (enc, iv) \<Rightarrow>
                      andThen (lift (decrypt (en_cipher (ce_enroll e)) enc iv (ce_masterKey e))) (\<lambda>secret.
                        let r = verifyCode (en_totp (ce_enroll e)) (fromUtf8 secret) code (vu_totpLastUsedCounter u)
                        in if \<not> vr_ok r then ret False
                           else andThen (modify (setTotpLastCounter userId (vr_counter r))) (\<lambda>_. ret True)))))"

datatype Gate = Verified | LockedUntil int | Rejected

definition verifyTotpGated :: "CmdEnv \<Rightarrow> int \<Rightarrow> string \<Rightarrow> string \<Rightarrow> Gate cmd" where
  "verifyTotpGated e userId code op =
     andThen (nowMs e) (\<lambda>now.
     andThen (onLimiter (isLockedOut userId now)) (\<lambda>lockedUntil.
       case lockedUntil of
         Some until \<Rightarrow> ret (LockedUntil until)
       | None \<Rightarrow>
           andThen (verifyTotp e userId code) (\<lambda>ok.
             if ok then
               andThen (onLimiter (\<lambda>l. ((), recordSuccess userId l))) (\<lambda>_.
               andThen (setUnlocked e userId) (\<lambda>_. ret Verified))
             else
               andThen (onLimiter (recordFailure (ce_limiter e) userId now)) (\<lambda>r.
               andThen (auditWrite now userId ''totp_verify_failed'' [(''op'', JStr op)]) (\<lambda>_.
                 case r of
                   Some until \<Rightarrow>
                     andThen (auditWrite now userId ''totp_rate_limited'' [(''until'', JInt until)])
                       (\<lambda>_. ret (LockedUntil until))
                 | None \<Rightarrow> ret Rejected)))))"

text \<open>The block that every \<open>respond...\<close> method repeats: remove the pending action, verify the code, and
  either reply why not or go on.\<close>

definition gated ::
    "CmdEnv \<Rightarrow> int \<Rightarrow> int \<Rightarrow> string \<Rightarrow> string \<Rightarrow> string \<Rightarrow> string \<Rightarrow> unit cmd \<Rightarrow> unit cmd" where
  "gated e chatId userId text op retry invalid body =
     andThen (clearPending userId) (\<lambda>_.
     andThen (verifyTotpGated e userId (trim text) op) (\<lambda>v.
       case v of
         LockedUntil until \<Rightarrow>
           andThen (nowMs e) (\<lambda>now.
             say e chatId (lockedText (until - now)) (errorKeyboard (Some retry)))
       | Rejected \<Rightarrow> say e chatId [Lit invalid] (errorKeyboard (Some retry))
       | Verified \<Rightarrow> body))"

text \<open>The test that starts every privileged command.\<close>

definition enrolled :: "VaultUser option \<Rightarrow> bool" where
  "enrolled user \<longleftrightarrow> (case user of None \<Rightarrow> False | Some u \<Rightarrow> vu_totpEnrolledAt u \<noteq> None)"

definition whenEnrolled :: "CmdEnv \<Rightarrow> int \<Rightarrow> int \<Rightarrow> (VaultUser \<Rightarrow> unit cmd) \<Rightarrow> unit cmd" where
  "whenEnrolled e chatId userId body =
     andThen (onStore (gets (getUser userId))) (\<lambda>user.
       if \<not> enrolled user then say e chatId [Lit ''Please enroll first via /account.''] postActionKeyboard
       else body (the user))"

definition unlessLocked :: "CmdEnv \<Rightarrow> int \<Rightarrow> int \<Rightarrow> unit cmd \<Rightarrow> unit cmd" where
  "unlessLocked e chatId userId body =
     andThen (rejectIfLocked e chatId userId) (\<lambda>locked. if locked then ret () else body)"

definition ifUnlocked :: "CmdEnv \<Rightarrow> int \<Rightarrow> unit cmd \<Rightarrow> unit cmd \<Rightarrow> unit cmd" where
  "ifUnlocked e userId yes no = andThen (isUnlocked e userId) (\<lambda>b. if b then yes else no)"

section \<open>Enrollment\<close>

definition DISCLAIMER_TEXT :: "frag list" where
  "DISCLAIMER_TEXT =
     [Cp 0x26A0, Cp 0xFE0F, Lit ''  BERT Vault '', Cp 0x2014, Lit '' Terms'', Cp 10, Cp 10,
      Lit ''This is a CUSTODIAL service.'', Cp 10, Cp 10,
      Cp 0x2022, Lit '' Operator (Dr. Inker Labs) holds all private keys, including your deposit address'', Cp 0x27, Lit ''s.'', Cp 10,
      Cp 0x2022, Lit '' Funds are pooled with other depositors and used by a market-making strategy on the Meteora BERT/SOL DLMM pool.'', Cp 10,
      Cp 0x2022, Lit '' The strategy can lose money. Impermanent loss, rebalance friction, and slippage all apply. Past performance is not a guarantee of future returns.'', Cp 10,
      Cp 0x2022, Lit '' No FDIC insurance. No guarantees of redemption. Withdrawals are self-service via Telegram to a single whitelisted address.'', Cp 10,
      Cp 0x2022, Lit '' 2FA (TOTP) is required on every sensitive action (deposit-address reveal, balance view, withdrawal, whitelist change).'', Cp 10,
      Cp 0x2022, Lit '' Changing the withdrawal whitelist takes effect after a 24-hour cooldown (except on first setup).'', Cp 10,
      Cp 0x2022, Lit '' Withdrawals pay a 0.30% fee into the pool (not to the operator).'', Cp 10, Cp 10,
      Lit ''By continuing you accept these terms and the associated risk.'', Cp 10,
      Lit ''Reply  /accept  to continue, or  /decline  to abort.'']"

definition readyText :: "frag list" where
  "readyText = replicate 28 (Cp 0xA0) @
     [Cp 0x2705, Lit '' Account ready'', Cp 10, Cp 10, Lit ''Tap any action below.'']"

definition otpauthUri :: "int \<Rightarrow> string \<Rightarrow> string" where
  "otpauthUri userId secretBase32 =
     ''otpauth://totp/BertMMVault:'' @ bigToString userId @ ''?secret='' @ secretBase32 @ ''&issuer=BertMMVault''"

definition stripDataUrl :: "string \<Rightarrow> string" where
  "stripDataUrl s = (let p = ''data:image/png;base64,'' in if take (length p) s = p then drop (length p) s else s)"

definition handleAccount :: "CmdEnv \<Rightarrow> int \<Rightarrow> int \<Rightarrow> unit cmd" where
  "handleAccount e chatId userId =
     andThen (onStore (gets (getUser userId))) (\<lambda>existing.
       case existing of
         None \<Rightarrow> andThen (setPending userId PDisclaimer) (\<lambda>_. say e chatId DISCLAIMER_TEXT disclaimerKeyboard)
       | Some u \<Rightarrow>
           if vu_totpEnrolledAt u = None then
             andThen (onStore (beginTotpEnrollment (ce_enroll e) userId)) (\<lambda>secretBase32.
             andThen (setPending userId PTotp_setup_confirm) (\<lambda>_.
             andThen (lift (ce_qr e (otpauthUri userId secretBase32))) (\<lambda>dataUrl.
               reply e chatId
                 [Cp 0x1F510, Lit '' Scan this QR in Google Auth or Authy.'', Cp 10, Cp 10,
                  Lit ''Or enter the secret manually (tap to copy):'', Cp 10, Cp 0x60, Lit secretBase32, Cp 0x60,
                  Cp 10, Cp 10, Lit ''Reply with the 6-digit code.'', Cp 10, Cp 10, Cp 0x23F3,
                  Lit '' This message self-destructs in 5 minutes for security '', Cp 0x2014,
                  Lit '' scan or copy the secret now.'']
                 ((kb e cancelKeyboard)\<lparr>ex_photoBase64 := Some (stripDataUrl dataUrl), ex_markdown := True,
                    ex_selfDestructMs := Some (5 * 60 * 1000)\<rparr>))))
           else say e chatId readyText mainMenuKeyboard)"

definition handleAccept :: "CmdEnv \<Rightarrow> int \<Rightarrow> int \<Rightarrow> unit cmd" where
  "handleAccept e chatId userId =
     andThen (gets ch_pending) (\<lambda>pending.
       if pending userId \<noteq> Some PDisclaimer
       then reply e chatId [Lit ''No pending action. Use /account to start.''] noExtras
       else
         andThen (clearPending userId) (\<lambda>_.
         andThen (nowMs e) (\<lambda>now.
         andThen (onStore (accept (ce_enroll e) userId now)) (\<lambda>_.
         andThen (auditWrite now userId ''disclaimer_accepted'' []) (\<lambda>_.
         andThen (onStore (beginTotpEnrollment (ce_enroll e) userId)) (\<lambda>secretBase32.
         andThen (setPending userId PTotp_setup_confirm) (\<lambda>_.
         andThen (clearSetupFailures userId) (\<lambda>_.
         andThen (lift (ce_qr e (otpauthUri userId secretBase32))) (\<lambda>dataUrl.
           reply e chatId
             [Cp 0x1F510, Lit '' Scan this QR in Google Auth or Authy.'', Cp 10,
              Lit ''Or enter secret manually: '', Lit secretBase32, Cp 10, Cp 10,
              Lit ''Reply with the 6-digit code.'']
             ((kb e cancelKeyboard)\<lparr>ex_photoBase64 := Some (stripDataUrl dataUrl)\<rparr>))))))))))"

definition handleDecline :: "CmdEnv \<Rightarrow> int \<Rightarrow> int \<Rightarrow> unit cmd" where
  "handleDecline e chatId userId =
     andThen (clearPending userId) (\<lambda>_.
     andThen (clearSetupFailures userId) (\<lambda>_.
     reply e chatId [Lit ''Cancelled. Use /account any time to reconsider.''] noExtras))"

definition respondTotpSetupConfirm :: "CmdEnv \<Rightarrow> int \<Rightarrow> int \<Rightarrow> string \<Rightarrow> unit cmd" where
  "respondTotpSetupConfirm e chatId userId text =
     andThen (nowMs e) (\<lambda>now.
     andThen (onStore (confirmTotp (ce_enroll e) userId (trim text) now)) (\<lambda>ok.
       if ok then
         andThen (clearPending userId) (\<lambda>_.
         andThen (clearSetupFailures userId) (\<lambda>_.
         andThen (onLimiter (\<lambda>l. ((), recordSuccess userId l))) (\<lambda>_.
         andThen (auditWrite now userId ''totp_enrolled'' []) (\<lambda>_.
         say e chatId readyText mainMenuKeyboard))))
       else
         andThen (gets ch_totpSetupFailures) (\<lambda>totpSetupFailures.
         let failures = (case totpSetupFailures userId of None \<Rightarrow> 0 | Some n \<Rightarrow> n) + 1 in
         andThen (auditWrite now userId ''totp_verify_failed''
             [(''op'', JStr ''totp_setup_confirm''), (''failures'', JInt (int failures))]) (\<lambda>_.
         andThen (onLimiter (recordFailure (ce_limiter e) userId now)) (\<lambda>r.
           case r of
             Some until \<Rightarrow>
               andThen (clearPending userId) (\<lambda>_.
               andThen (clearSetupFailures userId) (\<lambda>_.
               andThen (auditWrite now userId ''totp_rate_limited'' [(''until'', JInt until)]) (\<lambda>_.
               say e chatId (lockedText (until - now)) (errorKeyboard (Some ''nav:create_account'')))))
           | None \<Rightarrow>
               if failures \<ge> TOTP_SETUP_MAX_FAILURES then
                 andThen (clearPending userId) (\<lambda>_.
                 andThen (clearSetupFailures userId) (\<lambda>_.
                 say e chatId [Lit ''Too many invalid codes. Start over via /account.'']
                   (errorKeyboard (Some ''nav:create_account''))))
               else
                 andThen (modify (\<lambda>s. s\<lparr>ch_totpSetupFailures := (ch_totpSetupFailures s)(userId \<mapsto> failures)\<rparr>)) (\<lambda>_.
                 say e chatId [Lit ''Invalid code. Try again.''] cancelKeyboard))))))"

section \<open>Deposit address\<close>

definition doDepositReveal :: "CmdEnv \<Rightarrow> int \<Rightarrow> int \<Rightarrow> unit cmd" where
  "doDepositReveal e userId chatId =
     andThen (onStore (gets (getUser userId))) (\<lambda>user.
     andThen (nowMs e) (\<lambda>now.
     andThen (auditWrite now userId ''deposit_reveal'' []) (\<lambda>_.
       case user of
         None \<Rightarrow> throw ''Cannot read properties of undefined''
       | Some u \<Rightarrow>
           reply e chatId
             [Lit ''Your deposit address (SOL + BERT) '', Cp 0x2014, Lit '' tap to copy:'', Cp 10,
              Cp 0x60, Lit (vu_depositAddress u), Cp 0x60, Cp 10, Cp 10,
              Lit ''Send SOL and/or BERT to this address. Funds will be swept + credited after the next tick.'']
             ((kb e postDepositKeyboard)\<lparr>ex_markdown := True\<rparr>))))"

definition handleDeposit :: "CmdEnv \<Rightarrow> int \<Rightarrow> int \<Rightarrow> unit cmd" where
  "handleDeposit e chatId userId =
     whenEnrolled e chatId userId (\<lambda>_.
     unlessLocked e chatId userId
       (ifUnlocked e userId (doDepositReveal e userId chatId)
          (andThen (setPending userId PDeposit_reveal) (\<lambda>_.
           say e chatId [Lit ''Reply with your current 6-digit 2FA code to reveal your deposit address.''] cancelKeyboard))))"

definition respondDepositReveal :: "CmdEnv \<Rightarrow> int \<Rightarrow> int \<Rightarrow> string \<Rightarrow> unit cmd" where
  "respondDepositReveal e chatId userId text =
     gated e chatId userId text ''deposit_reveal'' ''act:deposit'' ''2FA code invalid. Try /deposit again.''
       (doDepositReveal e userId chatId)"

section \<open>Balance, statistics, menu\<close>

definition navUnavailable :: "frag list" where
  "navUnavailable = [Lit ''NAV unavailable '', Cp 0x2014, Lit '' try again shortly.'']"

definition doBalanceReveal :: "CmdEnv \<Rightarrow> int \<Rightarrow> int \<Rightarrow> unit cmd" where
  "doBalanceReveal e userId chatId =
     andThen (onStore (gets (getShares userId))) (\<lambda>shares.
     andThen (getNav e) (\<lambda>nav.
       case nav of
         None \<Rightarrow> say e chatId navUnavailable (errorKeyboard (Some ''act:balance''))
       | Some (navUsd, navShares) \<Rightarrow>
           let navPerShare = computeNavPerShare navUsd navShares;
               usd = usdForShares shares navPerShare in
           andThen (nowMs e) (\<lambda>now.
           andThen (auditWrite now userId ''balance_reveal''
               [(''shares'', JNum shares), (''navPerShare'', JNum navPerShare), (''usd'', JNum usd)]) (\<lambda>_.
           say e chatId
             [Fixed 2 shares, Lit '' shares '', Cp 0x2014, Lit '' approx $'', Fixed 2 usd, Cp 10,
              Lit ''(NAV/share: $'', Fixed 6 navPerShare, Lit '')''] postBalanceKeyboard))))"

definition handleBalance :: "CmdEnv \<Rightarrow> int \<Rightarrow> int \<Rightarrow> unit cmd" where
  "handleBalance e chatId userId =
     whenEnrolled e chatId userId (\<lambda>_.
     unlessLocked e chatId userId
       (ifUnlocked e userId (doBalanceReveal e userId chatId)
          (andThen (setPending userId PBalance_reveal) (\<lambda>_.
           say e chatId [Lit ''Reply with your current 6-digit 2FA code to view your balance.''] cancelKeyboard))))"

definition respondBalanceReveal :: "CmdEnv \<Rightarrow> int \<Rightarrow> int \<Rightarrow> string \<Rightarrow> unit cmd" where
  "respondBalanceReveal e chatId userId text =
     gated e chatId userId text ''balance_reveal'' ''act:balance'' ''2FA code invalid. Try /balance again.''
       (doBalanceReveal e userId chatId)"

definition handleStats :: "CmdEnv \<Rightarrow> int \<Rightarrow> int option \<Rightarrow> unit cmd" where
  "handleStats e chatId userId =
     andThen (getNav e) (\<lambda>nav.
       case nav of
         None \<Rightarrow> reply e chatId
             [Lit ''BERT Vault stats unavailable '', Cp 0x2014, Lit '' try again shortly.''] noExtras
       | Some (navUsd, navShares) \<Rightarrow>
           let navPerShare = computeNavPerShare navUsd navShares in
           andThen (nowMs e) (\<lambda>now.
           andThen (onStore (gets (navSnapshotAtOrBefore (now - 24 * 3600 * 1000)))) (\<lambda>prior.
           let deltaLine =
                 (case prior of
                    Some p \<Rightarrow>
                      if n_navPerShare p > 0
                      then let pct = nmul (ndiv (nsub navPerShare (n_navPerShare p)) (n_navPerShare p)) 100
                           in [Lit ''24h: '', Lit (if pct \<ge> 0 then ''+'' else []), Fixed 2 pct, Lit ''%'']
                      else [Lit ''24h: '', Cp 0x2014]
                  | None \<Rightarrow> [Lit ''24h: '', Cp 0x2014]) in
           andThen (onStore (gets (\<lambda>d. case userId of None \<Rightarrow> False | Some u \<Rightarrow> enrolled (getUser u d)))) (\<lambda>isEnrolled.
           reply e chatId
             ([Lit ''BERT Vault stats'', Cp 10, Lit ''TVL: $'', Locale navUsd, Cp 10,
               Lit ''NAV/share: $'', Fixed 2 navPerShare, Cp 10] @ deltaLine)
             (if isEnrolled then kb e postActionKeyboard else noExtras)))))"

definition handleMenu :: "CmdEnv \<Rightarrow> int \<Rightarrow> int \<Rightarrow> unit cmd" where
  "handleMenu e chatId userId =
     andThen (onStore (gets (getUser userId))) (\<lambda>user.
       if \<not> enrolled user
       then say e chatId
         [Cp 0x1F44B, Lit '' Welcome to BertMM Vault. You need to create an account first.''] welcomeKeyboard
       else say e chatId
         (replicate 28 (Cp 0xA0) @
            [Cp 0x1F3E6, Lit '' BertMM Vault'', Cp 10, Cp 10, Lit ''Tap any action below.''])
         mainMenuKeyboard)"

section \<open>Withdrawals\<close>

text \<open>The amount that the first argument of \<open>/withdraw\<close> stands for, or the text of the refusal.\<close>

definition withdrawAmount :: "string \<Rightarrow> rat \<Rightarrow> frag list + rat" where
  "withdrawAmount raw userUsd =
     (if endsWith raw ''%'' then
        (case stringToNumber (butlast raw) of
           Some pct \<Rightarrow>
             if pct \<le> 0 \<or> pct > 100 then Inl [Lit ''Invalid percentage. Use e.g. /withdraw 50%'']
             else Inr (ndiv (nmul userUsd pct) 100)
         | None \<Rightarrow> Inl [Lit ''Invalid percentage. Use e.g. /withdraw 50%''])
      else
        (case stringToNumber raw of
           Some n \<Rightarrow>
             if n \<le> 0 then Inl [Lit ''Invalid amount. Use e.g. /withdraw 100 or /withdraw 50%''] else Inr n
         | None \<Rightarrow> Inl [Lit ''Invalid amount. Use e.g. /withdraw 100 or /withdraw 50%'']))"

definition balanceTolerance :: rat where
  "balanceTolerance = fl (1 / 10 ^ 6)"

definition belowMinimum :: "CmdEnv \<Rightarrow> frag list" where
  "belowMinimum e = [Lit ''Amount below minimum ($'', Fixed 2 (cc_minWithdrawalUsd (ce_config e)), Lit '').'']"

definition aboveBalance :: "rat \<Rightarrow> frag list" where
  "aboveBalance userUsd = [Lit ''Amount exceeds your balance ($'', Fixed 2 userUsd, Lit '').'']"

text \<open>The checks of \<open>/withdraw\<close> in their order: \<open>None\<close> when all pass, else the refusal.\<close>

definition withdrawChecks ::
    "CmdEnv \<Rightarrow> int \<Rightarrow> rat \<Rightarrow> rat \<Rightarrow> (frag list \<times> InlineKeyboardMarkup) option cmd" where
  "withdrawChecks e userId userUsd amountUsd =
     (let c = ce_config e; retry = errorKeyboard (Some ''act:withdraw'') in
      if amountUsd < cc_minWithdrawalUsd c then ret (Some (belowMinimum e, retry))
      else if amountUsd > nadd userUsd balanceTolerance then ret (Some (aboveBalance userUsd, retry))
      else
        andThen (nowMs e) (\<lambda>now.
        andThen (onStore (gets (countUserWithdrawalsLast24h userId now))) (\<lambda>countToday.
        if countToday \<ge> cc_maxDailyWithdrawalsPerUser c
        then ret (Some ([Lit ''Daily withdrawal limit reached ('', Num (of_nat (cc_maxDailyWithdrawalsPerUser c)),
                         Lit ''/day). Try again tomorrow.''], postActionKeyboard))
        else
          andThen (nowMs e) (\<lambda>now2.
          andThen (onStore (gets (sumUserWithdrawalUsdLast24h (ce_sqlSum e) userId now2))) (\<lambda>usdToday.
          if nadd usdToday amountUsd > cc_maxDailyWithdrawalUsdPerUser c
          then ret (Some ([Lit ''Daily USD cap would be exceeded (cap $'',
                           Fixed 0 (cc_maxDailyWithdrawalUsdPerUser c), Lit '', used $'', Fixed 2 usdToday,
                           Lit '').''], postActionKeyboard))
          else
            andThen (onStore (gets countPendingWithdrawals)) (\<lambda>queueDepth.
            if queueDepth \<ge> cc_maxPendingWithdrawals c
            then ret (Some ([Lit ''Withdrawal queue is full right now. Try again in a few minutes.''], retry))
            else ret None))))))"

definition queueWithdrawal :: "CmdEnv \<Rightarrow> int \<Rightarrow> int \<Rightarrow> rat \<Rightarrow> string \<Rightarrow> rat \<Rightarrow> unit cmd" where
  "queueWithdrawal e userId chatId amountUsd destination navPerShare =
     (let sharesBurned = ndiv amountUsd navPerShare;
          feeShares = fst (splitFee sharesBurned (cc_withdrawalFeeBps (ce_config e))) in
      andThen (nowMs e) (\<lambda>queuedAt.
      andThen (onStore (\<lambda>d. case enqueueWithdrawal userId destination sharesBurned feeShares queuedAt d of
                             (i, d') \<Rightarrow> (Inr i, d'))) (\<lambda>i.
      andThen (nowMs e) (\<lambda>ts.
      andThen (auditWrite ts userId ''withdrawal_queued''
          [(''id'', JInt i), (''amountUsd'', JNum amountUsd), (''sharesBurned'', JNum sharesBurned),
           (''feeShares'', JNum feeShares), (''destination'', JStr destination)]) (\<lambda>_.
      reply e chatId
        [Lit ''Queued as #'', Cp 0x60, Lit (bigToString i), Cp 0x60, Lit ''! Your withdrawal of $'',
         Fixed 2 amountUsd, Lit '' will be processed on the next tick. '',
         Lit ''If it fails and you need it retried, reference ID #'', Cp 0x60, Lit (bigToString i),
         Cp 0x60, Lit ''.'']
        ((kb e postActionKeyboard)\<lparr>ex_markdown := True\<rparr>))))))"

definition doWithdraw :: "CmdEnv \<Rightarrow> int \<Rightarrow> int \<Rightarrow> rat \<Rightarrow> unit cmd" where
  "doWithdraw e userId chatId amountUsd =
     (let retry = errorKeyboard (Some ''act:withdraw'') in
      andThen (onStore (gets (getUser userId))) (\<lambda>user.
      case user of
        None \<Rightarrow> throw ''Cannot read properties of undefined''
      | Some u \<Rightarrow>
          if \<not> truthy (vu_whitelistAddress u) then say e chatId [Lit ''No whitelist address set.''] retry
          else
            andThen (getNav e) (\<lambda>nav.
            case nav of
              None \<Rightarrow> say e chatId navUnavailable retry
            | Some (navUsd, navShares) \<Rightarrow>
                let navPerShare = computeNavPerShare navUsd navShares in
                if navPerShare \<le> 0 then say e chatId navUnavailable retry
                else queueWithdrawal e userId chatId amountUsd (the (vu_whitelistAddress u)) navPerShare)))"

definition handleWithdraw :: "CmdEnv \<Rightarrow> int \<Rightarrow> int \<Rightarrow> string \<Rightarrow> unit cmd" where
  "handleWithdraw e chatId userId text =
     (let retry = errorKeyboard (Some ''act:withdraw'') in
      whenEnrolled e chatId userId (\<lambda>user.
      if \<not> truthy (vu_whitelistAddress user)
      then say e chatId [Lit ''Set a withdrawal destination first via /setwhitelist.'']
             (errorKeyboard (Some ''nav:settings''))
      else
        unlessLocked e chatId userId
          (case wordAt1 text of
             None \<Rightarrow>
               andThen (setPending userId PWithdraw_amount_entry) (\<lambda>_.
               say e chatId [Lit ''How much to withdraw?''] withdrawAmountKeyboard)
           | Some raw \<Rightarrow>
               andThen (getNav e) (\<lambda>nav.
               case nav of
                 None \<Rightarrow> say e chatId navUnavailable retry
               | Some (navUsd, navShares) \<Rightarrow>
                   let navPerShare = computeNavPerShare navUsd navShares in
                   andThen (onStore (gets (getShares userId))) (\<lambda>shares.
                   let userUsd = usdForShares shares navPerShare in
                   case withdrawAmount raw userUsd of
                     Inl refusal \<Rightarrow> say e chatId refusal retry
                   | Inr amountUsd \<Rightarrow>
                       andThen (withdrawChecks e userId userUsd amountUsd) (\<lambda>refused.
                       case refused of
                         Some (refusal, keyboard) \<Rightarrow> say e chatId refusal keyboard
                       | None \<Rightarrow>
                           ifUnlocked e userId (doWithdraw e userId chatId amountUsd)
                             (andThen (setPending userId (PWithdraw amountUsd)) (\<lambda>_.
                              say e chatId
                                [Lit ''Reply with your 2FA code to queue a $'', Fixed 2 amountUsd,
                                 Lit '' withdrawal to '', Lit (the (vu_whitelistAddress user)), Lit ''.'']
                                cancelKeyboard))))))))"

definition respondWithdrawAmountEntry :: "CmdEnv \<Rightarrow> int \<Rightarrow> int \<Rightarrow> string \<Rightarrow> unit cmd" where
  "respondWithdrawAmountEntry e chatId userId text =
     (let retry = errorKeyboard (Some ''act:withdraw'') in
      andThen (clearPending userId) (\<lambda>_.
      case stringToNumber (trim text) of
        None \<Rightarrow> say e chatId [Lit ''Invalid amount. Start again via /withdraw.''] retry
      | Some n \<Rightarrow>
          if n \<le> 0 then say e chatId [Lit ''Invalid amount. Start again via /withdraw.''] retry
          else
            andThen (onStore (gets (getUser userId))) (\<lambda>user.
            let whitelist = Option.bind user vu_whitelistAddress in
            if \<not> truthy whitelist
            then say e chatId [Lit ''Set a withdrawal destination first via /setwhitelist.'']
                   (errorKeyboard (Some ''nav:settings''))
            else
              andThen (getNav e) (\<lambda>nav.
              case nav of
                None \<Rightarrow> say e chatId navUnavailable retry
              | Some (navUsd, navShares) \<Rightarrow>
                  let navPerShare = computeNavPerShare navUsd navShares in
                  andThen (onStore (gets (getShares userId))) (\<lambda>shares.
                  let userUsd = usdForShares shares navPerShare in
                  if n < cc_minWithdrawalUsd (ce_config e) then say e chatId (belowMinimum e) retry
                  else if n > nadd userUsd balanceTolerance then say e chatId (aboveBalance userUsd) retry
                  else
                    ifUnlocked e userId (doWithdraw e userId chatId n)
                      (andThen (setPending userId (PWithdraw n)) (\<lambda>_.
                       say e chatId
                         [Lit ''Withdraw $'', Fixed 2 n, Lit '' to '', Lit (take 6 (the whitelist)), Cp 0x2026,
                          Lit (drop (length (the whitelist) - 4) (the whitelist)), Lit ''?'', Cp 10,
                          Lit ''Reply with your 6-digit code to confirm.'']
                         cancelKeyboard)))))))"

definition respondWithdraw :: "CmdEnv \<Rightarrow> int \<Rightarrow> int \<Rightarrow> string \<Rightarrow> rat \<Rightarrow> unit cmd" where
  "respondWithdraw e chatId userId text amountUsd =
     gated e chatId userId text ''withdraw'' ''act:withdraw'' ''2FA code invalid. Try /withdraw again.''
       (doWithdraw e userId chatId amountUsd)"

section \<open>Withdrawal address\<close>

definition invalidAddress :: "frag list" where
  "invalidAddress = [Lit ''That does not look like a valid Solana address.'']"

definition doSetWhitelist :: "CmdEnv \<Rightarrow> int \<Rightarrow> int \<Rightarrow> string \<Rightarrow> unit cmd" where
  "doSetWhitelist e userId chatId address =
     andThen (nowMs e) (\<lambda>now.
     andThen (onStore (requestChange (ce_cooldownMs e) userId address now)) (\<lambda>(immediate, activatesAt, _).
     andThen (nowMs e) (\<lambda>ts.
     andThen (auditWrite ts userId ''whitelist_set''
         [(''address'', JStr address), (''immediate'', JBool immediate), (''activatesAt'', JInt activatesAt)]) (\<lambda>_.
       if immediate
       then say e chatId [Lit ''Whitelist set to '', Lit address, Lit '' (effective immediately).''] postActionKeyboard
       else say e chatId
         [Lit ''Whitelist change queued. Activates at '', Iso activatesAt,
          Lit ''. Use /cancelwhitelist to abort before then.''] postActionKeyboard))))"

definition handleSetWhitelist :: "CmdEnv \<Rightarrow> int \<Rightarrow> int \<Rightarrow> string \<Rightarrow> unit cmd" where
  "handleSetWhitelist e chatId userId text =
     whenEnrolled e chatId userId (\<lambda>user.
     case wordAt1 text of
       None \<Rightarrow> say e chatId [Lit ''Usage: /setwhitelist <solana-address>''] cancelKeyboard
     | Some addr \<Rightarrow>
         if \<not> ce_publicKey e addr then say e chatId invalidAddress (errorKeyboard (Some ''wl:set''))
         else
           unlessLocked e chatId userId
             (ifUnlocked e userId (doSetWhitelist e userId chatId addr)
                (if vu_whitelistAddress user = None then
                   andThen (setPending userId (PSetwhitelist_first addr)) (\<lambda>_.
                   say e chatId
                     [Lit ''First whitelist setup. Reply with your 2FA code to set '', Lit addr, Lit '' immediately.'']
                     cancelKeyboard)
                 else
                   andThen (setPending userId (PSetwhitelist_change addr)) (\<lambda>_.
                   say e chatId
                     [Lit ''Whitelist change requested: '', Lit addr, Lit ''.'', Cp 10,
                      Lit ''Reply with your 2FA code to enqueue. Changes activate after a 24-hour cooldown; '',
                      Lit ''use /cancelwhitelist before it activates to abort.'']
                     cancelKeyboard))))"

definition respondSetWhitelistAddressEntry :: "CmdEnv \<Rightarrow> int \<Rightarrow> int \<Rightarrow> string \<Rightarrow> unit cmd" where
  "respondSetWhitelistAddressEntry e chatId userId text =
     andThen (clearPending userId) (\<lambda>_.
     let addr = trim text in
     if \<not> ce_publicKey e addr then say e chatId invalidAddress (errorKeyboard (Some ''wl:set''))
     else handleSetWhitelist e chatId userId (''/setwhitelist '' @ addr))"

definition respondSetWhitelist :: "CmdEnv \<Rightarrow> int \<Rightarrow> int \<Rightarrow> string \<Rightarrow> string \<Rightarrow> string \<Rightarrow> unit cmd" where
  "respondSetWhitelist e chatId userId text kind address =
     gated e chatId userId text kind ''wl:set'' ''2FA code invalid. Try /setwhitelist again.''
       (doSetWhitelist e userId chatId address)"

definition doCancelWhitelist :: "CmdEnv \<Rightarrow> int \<Rightarrow> int \<Rightarrow> unit cmd" where
  "doCancelWhitelist e userId chatId =
     andThen (nowMs e) (\<lambda>_.
     andThen (onStore (\<lambda>d. case cancelPending userId ''user'' d of (ok, d') \<Rightarrow> (Inr ok, d'))) (\<lambda>ok.
     andThen (nowMs e) (\<lambda>ts.
     andThen (auditWrite ts userId ''whitelist_cancel'' [(''cancelled'', JBool ok)]) (\<lambda>_.
     say e chatId
       (if ok then [Lit ''Pending whitelist change cancelled.'']
        else [Lit ''Nothing to cancel '', Cp 0x2014, Lit '' no pending whitelist change.''])
       postActionKeyboard))))"

definition handleCancelWhitelist :: "CmdEnv \<Rightarrow> int \<Rightarrow> int \<Rightarrow> unit cmd" where
  "handleCancelWhitelist e chatId userId =
     whenEnrolled e chatId userId (\<lambda>_.
     unlessLocked e chatId userId
       (ifUnlocked e userId (doCancelWhitelist e userId chatId)
          (andThen (setPending userId PCancelwhitelist) (\<lambda>_.
           say e chatId [Lit ''Reply with your 2FA code to cancel the pending whitelist change.''] cancelKeyboard))))"

definition respondCancelWhitelist :: "CmdEnv \<Rightarrow> int \<Rightarrow> int \<Rightarrow> string \<Rightarrow> unit cmd" where
  "respondCancelWhitelist e chatId userId text =
     gated e chatId userId text ''cancelwhitelist'' ''wl:cancel'' ''2FA code invalid. Try /cancelwhitelist again.''
       (doCancelWhitelist e userId chatId)"

section \<open>Plain messages\<close>

definition dispatchPending :: "CmdEnv \<Rightarrow> int \<Rightarrow> int \<Rightarrow> string \<Rightarrow> PendingAction \<Rightarrow> unit cmd" where
  "dispatchPending e chatId userId text pending =
     (case pending of
        PDeposit_reveal \<Rightarrow> respondDepositReveal e chatId userId text
      | PBalance_reveal \<Rightarrow> respondBalanceReveal e chatId userId text
      | PSetwhitelist_first address \<Rightarrow> respondSetWhitelist e chatId userId text ''setwhitelist_first'' address
      | PSetwhitelist_change address \<Rightarrow> respondSetWhitelist e chatId userId text ''setwhitelist_change'' address
      | PCancelwhitelist \<Rightarrow> respondCancelWhitelist e chatId userId text
      | PWithdraw_amount_entry \<Rightarrow> respondWithdrawAmountEntry e chatId userId text
      | PWithdraw amountUsd \<Rightarrow> respondWithdraw e chatId userId text amountUsd
      | PSetwhitelist_address_entry \<Rightarrow> respondSetWhitelistAddressEntry e chatId userId text
      | PTotp_setup_confirm \<Rightarrow> respondTotpSetupConfirm e chatId userId text
      | PDisclaimer \<Rightarrow> ret ())"

definition handleMessage :: "CmdEnv \<Rightarrow> int \<Rightarrow> int \<Rightarrow> string \<Rightarrow> unit cmd" where
  "handleMessage e chatId userId text =
     andThen (gets ch_pending) (\<lambda>pendings.
       case pendings userId of
         None \<Rightarrow> ret ()
       | Some pending \<Rightarrow>
           if pending \<noteq> PDisclaimer
           then unlessLocked e chatId userId (dispatchPending e chatId userId text pending)
           else dispatchPending e chatId userId text pending)"

end
