(* ===== verification/Command_Laws.thy ===== *)
theory Command_Laws
  imports Commands
begin

text \<open>
  What a request of a Telegram user may do to a session. A property of the state before and after is a
  relation; the locales collect what it must allow of the primitive effects, and derive it for
  the handlers: \<open>session_law\<close> for the effects that every handler uses, \<open>command_law\<close> for the commands
  behind the second factor, \<open>enroll_law\<close> for enrollment. \<open>Command_Safety\<close> interprets them.
\<close>

section \<open>Interfaces\<close>

definition plainExtras :: "CmdEnv \<Rightarrow> extras \<Rightarrow> bool" where
  "plainExtras e x \<longleftrightarrow> ex_keyboard x = None \<or> cc_uiButtons (ce_config e)"

lemma plainExtras_kb [simp]:
  "plainExtras e (kb e k)" "plainExtras e noExtras" "plainExtras e ((kb e k)\<lparr>ex_markdown := b\<rparr>)"
  "plainExtras e ((kb e k)\<lparr>ex_photoBase64 := p\<rparr>)"
  "plainExtras e ((kb e k)\<lparr>ex_photoBase64 := p, ex_markdown := b, ex_selfDestructMs := t\<rparr>)"
  by (simp_all add: plainExtras_def kb_def noExtras_def)

locale session_law = store_order R for R :: "Session \<Rightarrow> Session \<Rightarrow> bool" +
  fixes e :: CmdEnv and u :: int
  assumes clock: "R s (s\<lparr>ch_clockReads := Suc (ch_clockReads s)\<rparr>)"
    and outbox: "plainExtras e (rp_extras r) \<Longrightarrow> R s (s\<lparr>ch_replies := ch_replies s @ [r]\<rparr>)"
    and pending: "R s (s\<lparr>ch_pending := (ch_pending s)(u := p)\<rparr>)"
    and attempts: "R s (s\<lparr>ch_totpSetupFailures := (ch_totpSetupFailures s)(u := f)\<rparr>)"
    and limits: "(\<And>v. v \<noteq> u \<Longrightarrow> lockedUntil l v = lockedUntil (ch_limiter s) v \<and>
        failures l v = failures (ch_limiter s) v) \<Longrightarrow> R s (s\<lparr>ch_limiter := l\<rparr>)"
    and audit: "ev \<notin> set postingEvents \<Longrightarrow> R s (s\<lparr>ch_db := writeAudit ts (Some u) ev det (ch_db s)\<rparr>)"
    and nav: "R s (s\<lparr>ch_navCalls := Suc (ch_navCalls s), ch_db := ce_meanwhile e (ch_navCalls s) (ch_db s)\<rparr>)"
begin

lemma stays_nowMs: "stays R (nowMs e)"
  by (simp add: stays_def nowMs_def clock)

lemma stays_reply: "plainExtras e x \<Longrightarrow> stays R (reply e c t x)"
  by (simp add: stays_def reply_def Let_def outbox)

lemma stays_say: "stays R (say e c t k)"
  unfolding say_def by (intro stays_reply) simp

lemma stays_pending: "stays R (setPending u a)" "stays R (clearPending u)"
  by (simp_all add: stays_def setPending_def clearPending_def modify_def pending)

lemma stays_setup:
  "stays R (clearSetupFailures u)"
  "stays R (modify (\<lambda>s. s\<lparr>ch_totpSetupFailures := (ch_totpSetupFailures s)(u \<mapsto> n)\<rparr>))"
  by (simp_all add: stays_def clearSetupFailures_def modify_def attempts)

lemma stays_limiter:
  "stays R (onLimiter (isLockedOut u now))" "stays R (onLimiter (recordFailure c u now))"
  "stays R (onLimiter (\<lambda>l. ((), recordSuccess u l)))"
  by (auto simp: stays_def onLimiter_def isLockedOut_def recordFailure_def recordSuccess_def Let_def
      refl intro!: limits split: option.splits prod.splits)

lemma stays_audit: "ev \<notin> set postingEvents \<Longrightarrow> stays R (auditWrite ts u ev det)"
  by (simp add: stays_def auditWrite_def onStore_def modify_def audit)

lemma stays_look: "stays R (onStore (gets f))"
  by (simp add: stays_def onStore_def gets_def refl)

lemma stays_getNav: "stays R (getNav e)"
  by (simp add: stays_def getNav_def Let_def nav)

lemmas law_rules = stays_pure stays_andThen stays_nowMs stays_reply stays_say stays_pending
  stays_setup stays_limiter stays_audit stays_look stays_getNav

lemma stays_isUnlocked: "stays R (isUnlocked e v)"
  unfolding isUnlocked_def by (auto intro!: law_rules split: option.splits)

lemma stays_rejectIfLocked: "stays R (rejectIfLocked e c u)"
  unfolding rejectIfLocked_def by (auto intro!: law_rules split: option.splits)

lemma stays_unlessLocked: "stays R m \<Longrightarrow> stays R (unlessLocked e c u m)"
  unfolding unlessLocked_def by (auto intro!: law_rules stays_rejectIfLocked)

lemma stays_whenEnrolled: "(\<And>x. stays R (m x)) \<Longrightarrow> stays R (whenEnrolled e c u m)"
  unfolding whenEnrolled_def by (auto intro!: law_rules)

lemma stays_withdrawChecks: "stays R (withdrawChecks e u x a)"
  unfolding withdrawChecks_def Let_def by (auto intro!: law_rules)

lemma stays_doDepositReveal: "stays R (doDepositReveal e u c)"
  unfolding doDepositReveal_def by (auto intro!: law_rules split: option.splits simp: postingEvents_def)

lemma stays_doBalanceReveal: "stays R (doBalanceReveal e u c)"
  unfolding doBalanceReveal_def Let_def
  by (auto intro!: law_rules split: option.splits simp: postingEvents_def)

lemma stays_handleStats: "stays R (handleStats e c v)"
  unfolding handleStats_def Let_def by (auto intro!: law_rules split: option.splits)

lemma stays_handleMenu: "stays R (handleMenu e c u)"
  unfolding handleMenu_def by (auto intro!: law_rules)

lemma stays_handleDecline: "stays R (handleDecline e c u)"
  unfolding handleDecline_def by (auto intro!: law_rules)

end

text \<open>\<open>priv m\<close>: the relation allows \<open>m\<close> after a verification, or while the session is unlocked.\<close>

locale command_law = session_law R e u for R e u +
  fixes code :: string and priv :: "unit cmd \<Rightarrow> bool"
  assumes gate: "priv m \<Longrightarrow> trim text = code \<Longrightarrow> stays R (gated e c u text op retry invalid m)"
    and unlocked: "priv m \<Longrightarrow> stays R m' \<Longrightarrow> stays R (ifUnlocked e u m m')"
    and reveals: "priv (doDepositReveal e u c)" "priv (doBalanceReveal e u c)"
    and withdraw: "priv (doWithdraw e u c amount)"
    and whitelist: "priv (doSetWhitelist e u c addr)" "priv (doCancelWhitelist e u c)"
begin

lemmas command_rules = law_rules stays_unlessLocked stays_whenEnrolled stays_withdrawChecks
  unlocked reveals withdraw whitelist

lemma stays_reveals: "stays R (handleDeposit e c u)" "stays R (handleBalance e c u)"
  unfolding handleDeposit_def handleBalance_def by (intro command_rules)+

lemma stays_handleWithdraw: "stays R (handleWithdraw e c u text)"
  unfolding handleWithdraw_def Let_def
  by (auto intro!: command_rules split: option.splits sum.splits)

lemma stays_respondWithdrawAmountEntry: "stays R (respondWithdrawAmountEntry e c u text)"
  unfolding respondWithdrawAmountEntry_def Let_def
  by (auto intro!: command_rules split: option.splits)

lemma stays_handleSetWhitelist: "stays R (handleSetWhitelist e c u text)"
  unfolding handleSetWhitelist_def by (auto intro!: command_rules split: option.splits)

lemma stays_respondSetWhitelistAddressEntry: "stays R (respondSetWhitelistAddressEntry e c u text)"
  unfolding respondSetWhitelistAddressEntry_def Let_def
  by (auto intro!: command_rules stays_handleSetWhitelist)

lemma stays_handleCancelWhitelist: "stays R (handleCancelWhitelist e c u)"
  unfolding handleCancelWhitelist_def by (intro command_rules)

lemma stays_responds:
  assumes "trim text = code"
  shows "stays R (respondDepositReveal e c u text)" "stays R (respondBalanceReveal e c u text)"
    "stays R (respondWithdraw e c u text a)" "stays R (respondSetWhitelist e c u text k addr)"
    "stays R (respondCancelWhitelist e c u text)"
  unfolding respondDepositReveal_def respondBalanceReveal_def respondWithdraw_def respondSetWhitelist_def
    respondCancelWhitelist_def
  by (intro gate reveals withdraw whitelist assms)+

lemma stays_dispatchPending:
  assumes "trim text = code" "p \<noteq> PTotp_setup_confirm"
  shows "stays R (dispatchPending e c u text p)"
  using assms
  by (auto simp: dispatchPending_def stays_pure split: PendingAction.splits
      intro!: stays_responds stays_respondWithdrawAmountEntry stays_respondSetWhitelistAddressEntry)

end

locale enroll_law = session_law R e u for R e u +
  assumes accepts: "stays R (onStore (accept (ce_enroll e) u now))"
    and begins: "stays R (onStore (beginTotpEnrollment (ce_enroll e) u))"
    and confirms: "stays R (onStore (confirmTotp (ce_enroll e) u code now))"
begin

lemma stays_handleAccount: "stays R (handleAccount e c u)"
  unfolding handleAccount_def by (auto intro!: law_rules begins split: option.splits)

lemma stays_handleAccept: "stays R (handleAccept e c u)"
  unfolding handleAccept_def
  by (auto intro!: law_rules begins accepts simp: postingEvents_def)

lemma stays_respondTotpSetupConfirm: "stays R (respondTotpSetupConfirm e c u text)"
  unfolding respondTotpSetupConfirm_def Let_def
  by (auto intro!: law_rules confirms simp: postingEvents_def split: option.splits)

end

end
