(* ===== verification/Operator_Commands.thy ===== *)
theory Operator_Commands
  imports Command_Laws
begin

text \<open>
  \<open>src/src/vault/operatorCommands.ts\<close> and \<open>src/src/vault/flags.ts\<close>: the class \<open>OperatorCommandHandlers\<close>. It
  runs on the same session as \<open>CommandHandlers\<close>, because both share the database, the clock and
  the reply function. \<open>OpEnv\<close> holds the optional dependencies and the clock of \<open>setFlag\<close>. The properties are
  what \<open>/forceprocess\<close> may requeue and that \<open>/recreditdeposit\<close> finds what the deposit pipeline logged.
\<close>

section \<open>flags.ts\<close>

definition VAULT_PAUSED_FLAG :: string where
  "VAULT_PAUSED_FLAG = ''vault_paused''"

definition isVaultPaused :: "(string \<Rightarrow> string option) \<Rightarrow> bool" where
  "isVaultPaused flag \<longleftrightarrow> (case flag VAULT_PAUSED_FLAG of None \<Rightarrow> [] | Some v \<Rightarrow> v) = ''1''"

section \<open>operatorCommands.ts\<close>

record OpEnv =
  oe_cmd :: CmdEnv
  oe_flagNow :: int
  oe_creditWired :: bool
  oe_mid :: "(rat \<times> rat) option result"
  oe_meanwhile :: "db \<Rightarrow> db"

definition tell :: "OpEnv \<Rightarrow> int \<Rightarrow> frag list \<Rightarrow> unit cmd" where
  "tell e chatId text = reply (oe_cmd e) chatId text noExtras"

definition handlePause :: "OpEnv \<Rightarrow> int \<Rightarrow> int \<Rightarrow> unit cmd" where
  "handlePause e chatId userId =
     andThen (onStore (modify (setFlag (oe_flagNow e) VAULT_PAUSED_FLAG ''1'' (Some ''operator /pausevault'')))) (\<lambda>_.
     andThen (nowMs (oe_cmd e)) (\<lambda>now.
     andThen (auditWrite now userId ''vault_paused'' []) (\<lambda>_.
     tell e chatId [Lit ''Vault paused. Withdrawals will not drain until /resumevault.''])))"

definition handleResume :: "OpEnv \<Rightarrow> int \<Rightarrow> int \<Rightarrow> unit cmd" where
  "handleResume e chatId userId =
     andThen (onStore (modify (setFlag (oe_flagNow e) VAULT_PAUSED_FLAG [] (Some ''operator /resumevault'')))) (\<lambda>_.
     andThen (nowMs (oe_cmd e)) (\<lambda>now.
     andThen (auditWrite now userId ''vault_resumed'' []) (\<lambda>_.
     tell e chatId [Lit ''Vault resumed. Withdrawals will drain on next tick.''])))"

definition auditLine :: "audit_row \<Rightarrow> frag list" where
  "auditLine r = [Lit ''  '', Iso (a_ts r), Lit ''  '', Lit (a_event r), Lit ''  (user ''] @
     (case a_telegram_id r of None \<Rightarrow> [Cp 0x2014] | Some t \<Rightarrow> [Lit (bigToString t)]) @ [Lit '')'']"

definition joinLines :: "frag list list \<Rightarrow> frag list" where
  "joinLines ls = (case ls of [] \<Rightarrow> [] | l # ls' \<Rightarrow> l @ concat (map (\<lambda>x. Cp 10 # x) ls'))"

definition statusText :: "(rat list \<Rightarrow> rat) \<Rightarrow> db \<Rightarrow> frag list" where
  "statusText sqlSum d =
     (let snap = latestNavSnapshot d;
          paused = isVaultPaused (\<lambda>k. getFlag k d);
          recent = listRecentAuditEvents 5 d
      in joinLines
        [[Lit ''Vault status''],
         [Lit ''  paused: '', Lit (if paused then ''YES'' else ''no'')],
         Lit ''  TVL: '' # (case snap of Some n \<Rightarrow> [Lit ''$'', Locale (n_totalValueUsd n)] | None \<Rightarrow> [Lit ''(no NAV snapshot yet)'']),
         [Lit ''  total shares: '', Num (totalShares sqlSum d)],
         [Lit ''  queued withdrawals: '', Num (of_nat (countPendingWithdrawals d))],
         [Lit ''  pending whitelist changes: '', Num (of_nat (countPendingWhitelistChanges d))],
         Lit ''  NAV/share: '' # (case snap of Some n \<Rightarrow> [Lit ''$'', Fixed 6 (n_navPerShare n)] | None \<Rightarrow> [Cp 0x2014]),
         Lit ''  last NAV snapshot: '' # (case snap of Some n \<Rightarrow> [Iso (n_ts n)] | None \<Rightarrow> [Cp 0x2014]),
         [Lit ''Last 5 audit events:''],
         (if recent \<noteq> [] then joinLines (map auditLine recent) else [Lit ''  (no audit events yet)''])])"

definition handleStatus :: "OpEnv \<Rightarrow> int \<Rightarrow> unit cmd" where
  "handleStatus e chatId =
     andThen (onStore (gets (statusText (ce_sqlSum (oe_cmd e))))) (\<lambda>text. tell e chatId text)"

definition isInteger :: "rat \<Rightarrow> bool" where
  "isInteger x \<longleftrightarrow> of_int \<lfloor>x\<rfloor> = x"

definition handleForceProcess :: "OpEnv \<Rightarrow> int \<Rightarrow> int \<Rightarrow> string \<Rightarrow> unit cmd" where
  "handleForceProcess e chatId userId text =
     (case wordAt1 text of
        None \<Rightarrow> tell e chatId [Lit ''Usage: /forceprocess <withdrawal-id>'']
      | Some raw \<Rightarrow>
          (case stringToNumber raw of
             Some x \<Rightarrow>
               if \<not> isInteger x \<or> x \<le> 0
               then tell e chatId [Lit ''Invalid id '', Cp 0x27, Lit raw, Cp 0x27, Lit ''. Usage: /forceprocess <withdrawal-id>'']
               else let i = \<lfloor>x\<rfloor> in
                 andThen (onStore (gets (getWithdrawalById i))) (\<lambda>row.
                 case row of
                   None \<Rightarrow> tell e chatId [Lit ''Withdrawal #'', Lit (bigToString i), Lit '' not found.'']
                 | Some w \<Rightarrow>
                     if truthy (w_txSig w)
                     then tell e chatId
                       [Lit ''Withdrawal #'', Lit (bigToString i), Lit '' has an on-chain tx_sig ('', Lit (the (w_txSig w)),
                        Lit ''). Do NOT requeue. '', Lit ''Reconcile manually via /reconcilewithdrawal '', Lit (bigToString i), Lit ''.'']
                     else if w_status w \<noteq> Failed
                     then tell e chatId
                       [Lit ''Withdrawal #'', Lit (bigToString i), Lit '' is in status '', Cp 0x27, Lit (showStatus (w_status w)),
                        Cp 0x27, Lit '', not '', Cp 0x27, Lit ''failed'', Cp 0x27, Lit ''. Only failed withdrawals can be requeued.'']
                     else
                       andThen (onStore (requeueFailedWithdrawal i)) (\<lambda>_.
                       andThen (nowMs (oe_cmd e)) (\<lambda>now.
                       andThen (auditWrite now userId ''withdrawal_requeued''
                           [(''id'', JInt i), (''previousReason'', case w_failureReason w of None \<Rightarrow> JNull | Some r \<Rightarrow> JStr r)]) (\<lambda>_.
                       tell e chatId [Lit ''Withdrawal #'', Lit (bigToString i),
                         Lit '' reset to queued; will be retried on next drain.'']))))
           | None \<Rightarrow> tell e chatId [Lit ''Invalid id '', Cp 0x27, Lit raw, Cp 0x27, Lit ''. Usage: /forceprocess <withdrawal-id>'']))"

text \<open>The search for the two audit rows of a deposit, newest first: the details of the detection and of
  the sweep, and the user.\<close>

fun scanAudit ::
    "string \<Rightarrow> audit_row list \<Rightarrow> json option \<Rightarrow> json option \<Rightarrow> int option \<Rightarrow> json option \<times> json option \<times> int option" where
  "scanAudit sig [] detected swept tid = (detected, swept, tid)"
| "scanAudit sig (r # rs) detected swept tid =
     (if a_event r \<noteq> ''deposit_detected'' \<and> a_event r \<noteq> ''deposit_swept'' then scanAudit sig rs detected swept tid
      else if jget ''inboundTxSig'' (a_details r) \<noteq> Some (JStr sig) then scanAudit sig rs detected swept tid
      else
        let (detected1, tid1) =
              (if a_event r = ''deposit_detected'' \<and> detected = None then (Some (a_details r), a_telegram_id r)
               else (detected, tid));
            (swept2, tid2) =
              (if a_event r = ''deposit_swept'' \<and> swept = None
               then (Some (a_details r), if tid1 = None then a_telegram_id r else tid1)
               else (swept, tid1))
        in if detected1 \<noteq> None \<and> swept2 \<noteq> None then (detected1, swept2, tid2)
           else scanAudit sig rs detected1 swept2 tid2)"

text \<open>\<open>BigInt(String(v))\<close>: a number prints as a plain integer only below \<open>10^21\<close>.\<close>

fun jsonToBig :: "json \<Rightarrow> int option" where
  "jsonToBig (JStr s) = stringToBig s"
| "jsonToBig (JInt n) = (if \<bar>n\<bar> < 10 ^ 21 then Some n else None)"
| "jsonToBig (JNum x) = (if x = of_int \<lfloor>x\<rfloor> \<and> \<bar>x\<bar> < 10 ^ 21 then Some \<lfloor>x\<rfloor> else None)"
| "jsonToBig _ = None"

fun pickBigint :: "json option list \<Rightarrow> int option" where
  "pickBigint [] = None"
| "pickBigint (v # vs) = (case Option.bind v jsonToBig of Some n \<Rightarrow> Some n | None \<Rightarrow> pickBigint vs)"

definition jsonTimestamp :: "json option \<Rightarrow> int option" where
  "jsonTimestamp v = (case v of Some (JInt n) \<Rightarrow> Some n | Some (JNum x) \<Rightarrow> Some \<lfloor>x\<rfloor> | _ \<Rightarrow> None)"

text \<open>The user, the sweep signature, the two amounts and the confirmation time of a logged deposit, or the
  text of the refusal.\<close>

definition recreditLookup :: "string \<Rightarrow> audit_row list \<Rightarrow> frag list + (int \<times> string \<times> int \<times> int \<times> int option)" where
  "recreditLookup sig recent =
     (case scanAudit sig recent None None None of
        (None, _, _) \<Rightarrow> Inl [Lit ''No deposit_detected audit for '', Lit sig, Lit ''.'']
      | (Some detected, None, _) \<Rightarrow>
          Inl [Lit ''Found deposit_detected but no deposit_swept for '', Lit sig, Lit '' '', Cp 0x2014,
               Lit '' sweep may not have landed. Investigate the deposit address balance before recrediting.'']
      | (Some detected, Some swept, None) \<Rightarrow> Inl [Lit ''Could not infer telegramId from audit rows.'']
      | (Some detected, Some swept, Some tid) \<Rightarrow>
          (case jget ''sweepTxSig'' swept of
             Some (JStr (c # cs)) \<Rightarrow>
               (case (pickBigint [jget ''solLamports'' detected, jget ''solLamports'' swept],
                      pickBigint [jget ''bertRaw'' detected, jget ''bertRaw'' swept]) of
                  (Some solLamports, Some bertRaw) \<Rightarrow>
                    Inr (tid, c # cs, solLamports, bertRaw, jsonTimestamp (jget ''confirmedAt'' swept))
                | _ \<Rightarrow> Inl [Lit ''Could not parse amounts from audit rows.''])
           | _ \<Rightarrow> Inl [Lit ''deposit_swept audit row has no sweepTxSig.'']))"

definition lowerAscii :: "string \<Rightarrow> string" where
  "lowerAscii s = map toLowerChar s"

fun containsSub :: "string \<Rightarrow> string \<Rightarrow> bool" where
  "containsSub sub [] = (sub = [])"
| "containsSub sub (c # cs) = (take (length sub) (c # cs) = sub \<or> containsSub sub cs)"

text \<open>Crediting at the current price and net asset value.\<close>

definition recreditNow :: "OpEnv \<Rightarrow> int \<Rightarrow> int \<Rightarrow> string \<Rightarrow> int \<Rightarrow> string \<Rightarrow> int \<Rightarrow> int \<Rightarrow> int option \<Rightarrow> rat \<Rightarrow> rat \<Rightarrow> unit cmd" where
  "recreditNow e chatId userId sig tid sweepTxSig solLamports bertRaw confirmedAt solUsd bertUsd =
     (let sqlSum = ce_sqlSum (oe_cmd e) in
      andThen (onStore (gets (\<lambda>d. computeNavPerShare (case latestNavSnapshot d of Some s \<Rightarrow> n_totalValueUsd s | None \<Rightarrow> 0)
                                   (totalShares sqlSum d)))) (\<lambda>navPerShare.
      andThen (case confirmedAt of Some t \<Rightarrow> ret t | None \<Rightarrow> nowMs (oe_cmd e)) (\<lambda>confirmed.
      andThen (nowMs (oe_cmd e)) (\<lambda>sweptAt.
      andThen (nowMs (oe_cmd e)) (\<lambda>now.
      andThen (tryCatch (andThen (onStore (credit sqlSum
            \<lparr>cp_telegramId = tid, cp_inboundTxSig = sig, cp_sweepTxSig = sweepTxSig, cp_solLamports = solLamports,
             cp_bertRaw = bertRaw, cp_solUsd = solUsd, cp_bertUsd = bertUsd, cp_navPerShareAtDeposit = navPerShare,
             cp_confirmedAt = confirmed, cp_sweptAt = sweptAt, cp_now = now\<rparr>)) (\<lambda>_. ret None)) (\<lambda>reason. ret (Some reason))) (\<lambda>failed.
      case failed of
        Some reason \<Rightarrow>
          if containsSub ''unique'' (lowerAscii reason)
          then tell e chatId [Lit ''Deposit '', Lit sig, Lit '' already credited (race).'']
          else tell e chatId [Lit ''Recredit failed: '', Lit reason]
      | None \<Rightarrow>
          andThen (onStore (gets (\<lambda>d. case find (\<lambda>p. d_inboundTxSig p = sig) (listDepositsForUser tid d) of
                                       Some p \<Rightarrow> d_sharesMinted p | None \<Rightarrow> 0))) (\<lambda>sharesMinted.
          andThen (nowMs (oe_cmd e)) (\<lambda>ts.
          andThen (auditWrite ts userId ''deposit_recredited''
              [(''inboundTxSig'', JStr sig), (''sweepTxSig'', JStr sweepTxSig), (''targetTelegramId'', JInt tid),
               (''sharesMinted'', JNum sharesMinted), (''navPerShare'', JNum navPerShare)]) (\<lambda>_.
          tell e chatId
            [Lit ''Recredited deposit '', Lit sig, Lit '': '', Fixed 4 sharesMinted, Lit '' shares minted to user '',
             Lit (bigToString tid), Lit '' at NAV/share $'', Fixed 6 navPerShare, Lit ''.''])))))))))"

definition handleRecreditDeposit :: "OpEnv \<Rightarrow> int \<Rightarrow> int \<Rightarrow> string \<Rightarrow> unit cmd" where
  "handleRecreditDeposit e chatId userId text =
     (case wordAt1 text of
        None \<Rightarrow> tell e chatId [Lit ''Usage: /recreditdeposit <inboundTxSig>'']
      | Some sig \<Rightarrow>
          if \<not> oe_creditWired e
          then tell e chatId [Lit ''Recredit is not wired in this environment (missing creditEngine/getMid).'']
          else
            andThen (onStore (gets (hasDeposit sig))) (\<lambda>already.
            if already
            then tell e chatId [Lit ''Deposit '', Lit sig, Lit '' already credited '', Cp 0x2014, Lit '' nothing to do.'']
            else
              andThen (onStore (gets (listRecentAuditEvents 5000))) (\<lambda>recent.
              case recreditLookup sig recent of
                Inl refusal \<Rightarrow> tell e chatId refusal
              | Inr (tid, sweepTxSig, solLamports, bertRaw, confirmedAt) \<Rightarrow>
                  andThen (onStore (modify (oe_meanwhile e))) (\<lambda>_.
                  andThen (lift (oe_mid e)) (\<lambda>mid.
                  case mid of
                    None \<Rightarrow> tell e chatId
                      [Lit ''Oracle unavailable '', Cp 0x2014, Lit '' try /recreditdeposit again when the oracle recovers.'']
                  | Some (solUsd, bertUsd) \<Rightarrow>
                      recreditNow e chatId userId sig tid sweepTxSig solLamports bertRaw confirmedAt solUsd bertUsd)))))"

text \<open>The capture of \<open>/^\/resettotp\s+(-?\d+)/\<close>.\<close>

definition resetArgument :: "string \<Rightarrow> string option" where
  "resetArgument text =
     (let p = ''/resettotp''; r = drop (length p) text; ws = takeWhile isWs r; a = dropWhile isWs r;
          neg = (case a of c # _ \<Rightarrow> c = CHR ''-'' | [] \<Rightarrow> False);
          ds = takeWhile isDigit (if neg then tl a else a)
      in if take (length p) text = p \<and> ws \<noteq> [] \<and> ds \<noteq> [] then Some ((if neg then ''-'' else []) @ ds) else None)"

definition handleResetTotp :: "OpEnv \<Rightarrow> int \<Rightarrow> int \<Rightarrow> string \<Rightarrow> unit cmd" where
  "handleResetTotp e chatId userId text =
     (case resetArgument text of
        None \<Rightarrow> tell e chatId [Lit ''Usage: /resettotp <telegram_user_id>'']
      | Some arg \<Rightarrow>
          (case stringToNumber arg of
             None \<Rightarrow> tell e chatId [Lit ''No user with telegram_id '', Lit (if take 1 arg = ''-'' then ''-Infinity'' else ''Infinity''), Lit ''.'']
           | Some x \<Rightarrow>
               let targetId = \<lfloor>x\<rfloor> in
               andThen (onStore (gets (getUser targetId))) (\<lambda>user.
               if user = None then tell e chatId [Lit ''No user with telegram_id '', Num x, Lit ''.'']
               else
                 andThen (onStore (clearUserTotp targetId)) (\<lambda>_.
                 andThen (nowMs (oe_cmd e)) (\<lambda>ts.
                 andThen (auditWrite ts userId ''totp_reset'' [(''targetUserId'', JInt targetId)]) (\<lambda>_.
                 tell e chatId [Lit ''TOTP reset for user '', Num x, Lit ''. They must run /account to re-enroll.'']))))))"

end
