(* ===== verification/Venue.thy ===== *)
theory Venue
  imports Rebalancer Operator_Commands
begin

text \<open>
  What the two venue clients have in common (\<open>src/src/venueClient.ts\<close>): the pool state, the balances of the wallet,
  the value of a position, and the arithmetic of a swap to a target ratio. The locale \<open>venue\<close> is the part of the
  interface \<open>VenueClient\<close> that its callers rely on when they compare a stored position with the chain; both clients
  interpret it. The lemmas show that a swap never sells more than is held, and what a price of zero does to a
  comparison.
\<close>

text \<open>One awaited call after the other, without state.\<close>

definition thenR :: "'a result \<Rightarrow> ('a \<Rightarrow> 'b result) \<Rightarrow> 'b result" where
  "thenR r f = (case r of Inl e \<Rightarrow> Inl e | Inr x \<Rightarrow> f x)"

lemma thenR_simps [simp]: "thenR (Inl e) f = Inl e" "thenR (Inr x) f = f x"
  by (simp_all add: thenR_def)

lemma thenR_Inr: "thenR r f = Inr y \<longleftrightarrow> (\<exists>x. r = Inr x \<and> f x = Inr y)"
  by (cases r) auto

section \<open>Shared parts of the clients\<close>

record PoolState =
  pl_address :: string
  pl_feeTier :: rat
  pl_currentTickIndex :: int
  pl_sqrtPriceX64 :: int
  pl_bertUsd :: rat
  pl_solUsd :: rat
  pl_tvlUsd :: rat

text \<open>The SOL balance and the BERT balance; a missing token account is a balance of zero. \<open>tokenBalance\<close> is the
  answer to \<open>getTokenAccountBalance\<close>, or the error of deriving the account.\<close>

definition walletBalances :: "string \<Rightarrow> string option \<Rightarrow> int result \<Rightarrow> int result \<Rightarrow> (int \<times> int) result" where
  "walletBalances noPayer payer balance tokenBalance =
     (case payer of
        None \<Rightarrow> Inl noPayer
      | Some _ \<Rightarrow>
          thenR balance (\<lambda>solLamports.
            case tokenBalance of
              Inr bertRaw \<Rightarrow> Inr (solLamports, bertRaw)
            | Inl msg \<Rightarrow>
                if containsSub ''account not found'' (lowerAscii msg) \<or> containsSub ''could not find account'' (lowerAscii msg)
                then Inr (solLamports, 0) else Inl msg))"

text \<open>The range of a position in USD: its center and its width in percent.\<close>

definition usdRange :: "rat \<Rightarrow> rat \<Rightarrow> Range" where
  "usdRange lowerBertUsd upperBertUsd =
     (let centerBertUsd = ndiv (nadd lowerBertUsd upperBertUsd) 2
      in \<lparr>rg_lowerBertUsd = lowerBertUsd, rg_upperBertUsd = upperBertUsd, rg_centerBertUsd = centerBertUsd,
          rg_widthPct = (if centerBertUsd > 0 then nmul (ndiv (nsub upperBertUsd lowerBertUsd) centerBertUsd) 100 else 0)\<rparr>)"

text \<open>The price of BERT in USD at a pool price: \<open>direct\<close> when the pool price is SOL per BERT.\<close>

definition bertUsdAt :: "bool \<Rightarrow> rat \<Rightarrow> rat \<Rightarrow> rat" where
  "bertUsdAt direct solUsd price = (if direct then nmul price solUsd else if price > 0 then ndiv solUsd price else 0)"

text \<open>How much BERT is missing for the target ratio; negative when there is too much.\<close>

definition deltaBert :: "rat \<Rightarrow> rat \<Rightarrow> rat \<Rightarrow> rat \<Rightarrow> rat" where
  "deltaBert bertPerSol targetBertRatio bertHuman solHuman =
     nsub (nmul (nadd bertHuman (nmul solHuman bertPerSol)) targetBertRatio) bertHuman"

text \<open>\<open>Math.round\<close> of the amounts sold, in lamports and in raw BERT.\<close>

definition solToSell :: "rat \<Rightarrow> rat \<Rightarrow> int" where
  "solToSell bertPerSol delta = mathRound (nmul (ndiv delta bertPerSol) 1000000000)"

definition bertToSell :: "nat \<Rightarrow> rat \<Rightarrow> int" where
  "bertToSell decimals delta = mathRound (nmul (- delta) (10 ^ decimals))"

section \<open>A swap sells no more than is held\<close>

lemma double_nmul [simp]: "fl (nmul a b) = nmul a b" "fl (nadd a b) = nadd a b" "fl (nsub a b) = nsub a b"
    "fl (ndiv a b) = ndiv a b"
  by (simp_all add: num_op_defs)

text \<open>A coarse bound on the rounding error is enough, because half of the inventory is left as slack.\<close>

lemma fl_up: "0 \<le> x \<Longrightarrow> fl x \<le> 101 / 100 * x + tiny"
proof -
  assume x: "0 \<le> x"
  have "x * (1 + roundoff) \<le> 101 / 100 * x" using x by (simp add: roundoff_def algebra_simps)
  with dbl.rnd_upper [OF x] show ?thesis by linarith
qed

lemma fl_down: "0 \<le> x \<Longrightarrow> 99 / 100 * x - tiny \<le> fl x"
proof -
  assume x: "0 \<le> x"
  have "99 / 100 * x \<le> x * (1 - roundoff)" using x by (simp add: roundoff_def algebra_simps)
  with dbl.rnd_lower [OF x] show ?thesis by linarith
qed

lemma tiny_bounds: "0 < tiny" "tiny \<le> 1 / 10 ^ 20" "tiny / (1 / 2 ^ 500) \<le> 1 / 10 ^ 20"
  by (simp_all add: tiny_def)

lemma mathRound_le: "x < of_int n + 1 / 2 \<Longrightarrow> mathRound x \<le> n"
  by (simp add: mathRound_def floor_le_iff)

lemma deltaBert_up:
  assumes "0 \<le> b" "0 \<le> v"
  shows "nsub (nmul (nadd b v) (1 / 2)) b \<le> 52 / 100 * v + 4 * tiny"
proof -
  have a: "nadd b v \<le> 101 / 100 * (b + v) + tiny" using fl_up [of "b + v"] assms by (simp add: nadd_def)
  have n: "0 \<le> nadd b v" using assms by (simp add: nadd_def fl_nonneg)
  then have "nmul (nadd b v) (1 / 2) \<le> 101 / 200 * nadd b v + tiny" using fl_up [of "nadd b v / 2"] by (simp add: nmul_def)
  with a have le: "nmul (nadd b v) (1 / 2) - b \<le> 511 / 1000 * v + 2 * tiny"
    using assms tiny_bounds(1) by (simp add: field_simps)
  have "fl (nmul (nadd b v) (1 / 2) - b) \<le> fl (511 / 1000 * v + 2 * tiny)" by (rule fl_mono [OF le])
  also have "\<dots> \<le> 101 / 100 * (511 / 1000 * v + 2 * tiny) + tiny"
    using assms tiny_bounds(1) by (intro fl_up) linarith
  also have "\<dots> \<le> 52 / 100 * v + 4 * tiny" using assms tiny_bounds(1) by simp
  finally show ?thesis by (simp add: nsub_def)
qed

lemma human_up: "0 \<le> n \<Longrightarrow> 1 \<le> unit \<Longrightarrow> ndiv (numOfBig n) unit * unit \<le> 103 / 100 * of_int n + 3 * tiny * unit"
proof -
  assume n: "0 \<le> n" and u: "1 \<le> unit"
  have "numOfBig n \<le> 101 / 100 * of_int n + tiny" using fl_up [of "of_int n"] n by (simp add: numOfBig_def)
  moreover have m: "0 \<le> numOfBig n" using n by (simp add: numOfBig_def fl_nonneg)
  ultimately have "numOfBig n / unit * (101 / 100) \<le> 101 / 100 * (101 / 100 * of_int n + tiny) / unit"
    using u by (simp add: divide_simps)
  moreover have "ndiv (numOfBig n) unit \<le> 101 / 100 * (numOfBig n / unit) + tiny"
    using fl_up [of "numOfBig n / unit"] m u by (simp add: ndiv_def)
  ultimately have "ndiv (numOfBig n) unit \<le> 101 / 100 * (101 / 100 * of_int n + tiny) / unit + tiny"
    by (simp add: mult.commute)
  then have "ndiv (numOfBig n) unit * unit \<le> (101 / 100 * (101 / 100 * of_int n + tiny) / unit + tiny) * unit"
    using u by (intro mult_right_mono) auto
  also have "\<dots> = 101 / 100 * (101 / 100 * of_int n + tiny) + tiny * unit" using u by (simp add: field_simps)
  also have "\<dots> \<le> 103 / 100 * of_int n + 3 * tiny * unit"
  proof -
    have "tiny \<le> tiny * unit" using tiny_bounds(1) u by simp
    moreover have "0 \<le> (of_int n :: rat)" using n by simp
    moreover have "101 / 100 * (101 / 100 * of_int n + tiny) = 10201 / 10000 * of_int n + 101 / 100 * tiny"
      by (simp add: field_simps)
    ultimately show ?thesis using tiny_bounds(1) by linarith
  qed
  finally show ?thesis .
qed

text \<open>The amounts of a swap to equal halves.\<close>

lemma solToSell_le:
  assumes "0 \<le> sol" "0 \<le> b" "1 / 2 ^ 500 \<le> p"
  shows "solToSell p (deltaBert p (1 / 2) b (ndiv (numOfBig sol) 1000000000)) \<le> sol"
proof -
  define s where "s = ndiv (numOfBig sol) 1000000000"
  define v where "v = nmul s p"
  have p: "0 < p" using assms(3) by (rule less_le_trans [rotated]) simp
  have s0: "0 \<le> s" using assms(1) by (simp add: s_def num_op_defs fl_nonneg)
  then have v0: "0 \<le> v" using p by (simp add: v_def nmul_def fl_nonneg)
  define D where "D = deltaBert p (1 / 2) b s"
  have D: "D \<le> 52 / 100 * v + 4 * tiny"
    using deltaBert_up [OF assms(2) v0] by (simp add: D_def deltaBert_def v_def)
  have "v \<le> 101 / 100 * (s * p) + tiny" using fl_up [of "s * p"] s0 p by (simp add: v_def nmul_def)
  moreover have "0 \<le> s * p" using s0 p by simp
  ultimately have "D \<le> 526 / 1000 * (s * p) + 5 * tiny" using D tiny_bounds(1) by (simp add: field_simps)
  then have "D / p \<le> (526 / 1000 * (s * p) + 5 * tiny) / p" using p by (simp add: divide_right_mono)
  also have "\<dots> = 526 / 1000 * s + 5 * (tiny / p)" using p by (simp add: field_simps)
  also have "\<dots> \<le> 526 / 1000 * s + 5 / 10 ^ 20"
  proof -
    have "tiny / p \<le> tiny / (1 / 2 ^ 500)" using assms(3) tiny_bounds(1) p by (intro divide_left_mono) auto
    with tiny_bounds(3) show ?thesis by linarith
  qed
  finally have dp: "D / p \<le> 526 / 1000 * s + 5 / 10 ^ 20" .
  have "ndiv D p \<le> fl (526 / 1000 * s + 5 / 10 ^ 20)" unfolding ndiv_def by (rule fl_mono [OF dp])
  also have "\<dots> \<le> 101 / 100 * (526 / 1000 * s + 5 / 10 ^ 20) + tiny" using s0 by (intro fl_up) simp
  also have "\<dots> \<le> 532 / 1000 * s + 7 / 10 ^ 20" using s0 tiny_bounds(2) by (simp add: field_simps)
  finally have q: "ndiv D p * 1000000000 \<le> 532 / 1000 * (s * 1000000000) + 7 / 10 ^ 11" by simp
  have "s * 1000000000 \<le> 103 / 100 * of_int sol + 3 * tiny * 1000000000"
    unfolding s_def by (rule human_up) (use assms in auto)
  moreover have "0 \<le> (of_int sol :: rat)" using assms(1) by simp
  ultimately have q2: "ndiv D p * 1000000000 \<le> 549 / 1000 * of_int sol + 1 / 10 ^ 10"
    using q tiny_bounds(2) by (simp add: field_simps)
  have "nmul (ndiv D p) 1000000000 \<le> fl (549 / 1000 * of_int sol + 1 / 10 ^ 10)" unfolding nmul_def by (rule fl_mono [OF q2])
  also have "\<dots> \<le> 101 / 100 * (549 / 1000 * of_int sol + 1 / 10 ^ 10) + tiny" using assms(1) by (intro fl_up) simp
  also have "\<dots> < of_int sol + 1 / 2" using assms(1) tiny_bounds(2) by (simp add: field_simps)
  finally show ?thesis by (simp add: solToSell_def mathRound_le D_def s_def)
qed

lemma bertToSell_le:
  assumes "0 \<le> bert" "0 \<le> v" "10 ^ k * tiny \<le> 1 / 100" "b = ndiv (numOfBig bert) (10 ^ k)"
  shows "bertToSell k (nsub (nmul (nadd b v) (1 / 2)) b) \<le> bert"
proof -
  have b0: "0 \<le> b" using assms(1,4) by (simp add: num_op_defs fl_nonneg)
  have k: "(1::rat) \<le> 10 ^ k" by simp
  have "b \<le> nadd b v" using fl_mono [of b "b + v"] assms(2,4) by (simp add: nadd_def)
  then have "99 / 200 * b - tiny \<le> nmul (nadd b v) (1 / 2)"
    using fl_down [of "nadd b v / 2"] b0 by (simp add: nmul_def)
  then have le: "b - nmul (nadd b v) (1 / 2) \<le> 101 / 200 * b + tiny" by (simp add: field_simps)
  have neg: "- nsub x y = fl (y - x)" for x y using fl_minus [of "x - y"] by (simp add: nsub_def)
  have "- nsub (nmul (nadd b v) (1 / 2)) b \<le> fl (101 / 200 * b + tiny)" unfolding neg by (rule fl_mono [OF le])
  also have "\<dots> \<le> 101 / 100 * (101 / 200 * b + tiny) + tiny" using b0 tiny_bounds(1) by (intro fl_up) simp
  also have "\<dots> \<le> 511 / 1000 * b + 3 * tiny" using b0 tiny_bounds(1) by (simp add: field_simps)
  finally have "- nsub (nmul (nadd b v) (1 / 2)) b * 10 ^ k \<le> (511 / 1000 * b + 3 * tiny) * 10 ^ k"
    by (intro mult_right_mono) auto
  also have "\<dots> = 511 / 1000 * (b * 10 ^ k) + 3 * (10 ^ k * tiny)" by (simp add: field_simps)
  also have "\<dots> \<le> 511 / 1000 * (103 / 100 * of_int bert + 3 * (10 ^ k * tiny)) + 3 * (10 ^ k * tiny)"
    using human_up [OF assms(1) k] assms(4) by (simp add: mult.commute mult.left_commute)
  also have "\<dots> \<le> 53 / 100 * of_int bert + 1 / 10" using assms(1,3) by (simp add: field_simps)
  finally have q: "- nsub (nmul (nadd b v) (1 / 2)) b * 10 ^ k \<le> 53 / 100 * of_int bert + 1 / 10" .
  have "nmul (- nsub (nmul (nadd b v) (1 / 2)) b) (10 ^ k) \<le> fl (53 / 100 * of_int bert + 1 / 10)"
    unfolding nmul_def [of "- nsub (nmul (nadd b v) (1 / 2)) b"] by (rule fl_mono [OF q])
  also have "\<dots> \<le> 101 / 100 * (53 / 100 * of_int bert + 1 / 10) + tiny" using assms(1) by (intro fl_up) simp
  also have "\<dots> < of_int bert + 1 / 2" using assms(1) tiny_bounds(2) by (simp add: field_simps)
  finally show ?thesis by (simp add: bertToSell_def mathRound_le)
qed

section \<open>The interface\<close>

text \<open>What a client promises: a position is found under the name it was asked for; at a SOL price of zero its bounds
  are zero; and the pool state carries no USD prices.\<close>

locale venue =
  fixes getPosition :: "string \<Rightarrow> rat \<Rightarrow> PositionSnapshot option result"
    and getPoolState :: "PoolState result"
  assumes same_name: "getPosition i solUsd = Inr (Some pos) \<Longrightarrow> po_nftMint pos = i"
    and zero_range: "getPosition i 0 = Inr (Some pos) \<Longrightarrow> po_range pos = usdRange 0 0"
    and no_prices: "getPoolState = Inr st \<Longrightarrow> pl_bertUsd st = 0 \<and> pl_solUsd st = 0"
begin

text \<open>The pool is never a source of the oracle.\<close>

lemma no_sample: "fetchRaydium (map_sum id (\<lambda>st. (pl_bertUsd st, pl_solUsd st)) getPoolState) now = None"
  using no_prices by (cases getPoolState) (auto simp: fetchRaydium_def)

text \<open>Compared at a price of zero, no stored position with a lower bound agrees with the chain.\<close>

lemma zero_mismatch:
  assumes "getPosition (sp_nftMint stored) 0 = Inr onchain" "sp_lowerUsd stored \<noteq> 0"
  shows "\<exists>reason. reconcile (Some stored) onchain = MISMATCH reason"
proof (cases onchain)
  case (Some pos)
  then have "po_nftMint pos = sp_nftMint stored" "rg_lowerBertUsd (po_range pos) = 0"
    using assms(1) same_name zero_range by (auto simp: usdRange_def Let_def)
  then show ?thesis using Some assms(2) by (simp add: reconcile_def approxEqual_def)
qed (simp add: reconcile_def)

end

end
