(* ===== verification/Rebalance_Properties.thy ===== *)
theory Rebalance_Properties
  imports Rebalancer
begin

text \<open>
  The properties of a rebalance: its gates, what every result means for the chain and the database, the daily
  cap, the amounts that are deposited, and that the new range contains the price.
\<close>

text \<open>An environment in which every call succeeds.\<close>

definition calmSubmit :: SubmitEnv where
  "calmSubmit = \<lparr>sb_attempt = (\<lambda>_. \<lparr>at_result = Inr ''sig'', at_landed = True\<rparr>),
     sb_jito = jito_demo, sb_string = id\<rparr>"

definition reb_demo :: "nat RebEnv" where
  "reb_demo = \<lparr>re_now = 5, re_simulateClose = (\<lambda>_ _. Inr (2, 0, 0)), re_buildClose = (\<lambda>_. Inr ([Ix 1], 0, 0)),
     re_balances1 = Inr (0, 0), re_buildSwap = (\<lambda>_ _ _. Inr []), re_balances2 = Inr (0, 0), re_balances3 = Inr (0, 0),
     re_buildOpen = (\<lambda>_. Inr ([Ix 2], ''mint2'')), re_buildRollback = (\<lambda>_. Inr [Ix 3]),
     re_close = calmSubmit, re_swap = calmSubmit, re_open = calmSubmit, re_rollback = calmSubmit,
     re_positionFault = None, re_recordFault = None, re_degradedFault = None,
     re_meanwhile1 = id, re_meanwhile2 = id, re_meanwhile3 = id, re_string = id\<rparr>"

definition rebcfg_demo :: RebConfig where
  "rebcfg_demo = \<lparr>rc_maxDrawdownPct = 50, rc_maxRebalancesPerDay = 2, rc_rangeWidthPct = 50, rc_minSolFloorLamports = 100,
     rc_maxPositionUsd = 1000, rc_priorityFeeMicroLamports = 10000, rc_dryRun = False, rc_jito = None\<rparr>"

lemma reb_demo_ok: "truthfulReb reb_demo" "leavesLog reb_demo" "re_degradedFault reb_demo = None"
  by (simp_all add: truthfulReb_def reb_demo_def calmSubmit_def truthful_def jito_demo_def confirmedByJito_def leavesLog_def)

lemma cap_demo: "getRebalancesToday t init_db = 0"
  by (simp add: getRebalancesToday_def init_db_def)

section \<open>Results\<close>

text \<open>C9: Nothing is closed, swapped or opened when the simulated close fails, when it shows a loss beyond the
  configured drawdown, or when the daily cap is reached: the rebalance is skipped, and a drawdown degrades the
  bot. This holds whatever the node reports.\<close>

theorem rebalance_gated:
  assumes "\<not> gate cfg e mid position d" "executeRebalance cfg e mid position (d, es) = (r, (d', es'))"
  shows "(\<exists>detail. r = Inr (SKIPPED detail)) \<and> landed es' = landed es \<and> asked es' = asked es
       \<and> (\<forall>pos sim. position = Some pos \<longrightarrow> re_simulateClose e (po_nftMint pos) (mp_solUsd mid) = Inr sim \<longrightarrow>
            drawdownTrips cfg mid (po_totalValueUsd pos) sim \<longrightarrow> re_degradedFault e = None \<longrightarrow> isDegraded d')"
  by (rule skipped_run [OF assms]) auto

theorem rebalance_gated_witness:
  "\<not> gate rebcfg_demo reb_demo (midAt 2 5) (Some position_demo) init_db
   \<and> isDegraded (fst (snd (executeRebalance rebcfg_demo reb_demo (midAt 2 5) (Some position_demo) (init_db, []))))"
proof -
  have trips: "drawdownTrips rebcfg_demo (midAt 2 5) (po_totalValueUsd position_demo) (2, 0, 0)"
    using fl_mono [of "1/2" "1/2"] by (simp add: drawdownTrips_def position_demo_def effectiveValue_def midAt_def num_op_defs drawdownThreshold_def rebcfg_demo_def)
  then have "\<not> gate rebcfg_demo reb_demo (midAt 2 5) (Some position_demo) init_db"
    by (simp add: gate_def reb_demo_def)
  with rebalance_gated [of rebcfg_demo reb_demo "midAt 2 5" "Some position_demo" init_db "[]"] trips show ?thesis
    by (cases "executeRebalance rebcfg_demo reb_demo (midAt 2 5) (Some position_demo) (init_db, [])")
      (auto simp: reb_demo_def)
qed


lemma demo_run:
  "\<exists>s'. executeRebalance rebcfg_demo reb_demo (midAt 2 5) None (init_db, []) = (Inr (OK [Lit ''closed=none opened=sig nft=mint2''] ''mint2''), s')"
proof -
  have g: "gate rebcfg_demo reb_demo (midAt 2 5) None init_db" by (simp add: gate_def cap_demo rebcfg_demo_def)
  have "needsSwap 0 0 = False" using fl_nonneg [of "1/100"] by (simp add: needsSwap_def nsub_def)
  then show ?thesis
    unfolding executeRebalance_gate [OF g HOL.refl]
    by (simp add: closeStep_def closedNotice_def exn_simps reopen_def
        inventoryStep_def amountsStep_def openStep_def finishStep_def persist_def faulty_def reb_demo_def calmSubmit_def
        rebcfg_demo_def usable_def solValue_def bertValue_def num_op_defs Let_def viaChain_def submitProtected_def submit_def
        submitOpts_def eval_nat_numeral orElse_def emit_run)
qed


section \<open>The daily cap\<close>

definition withinCap :: "RebConfig \<Rightarrow> db \<Rightarrow> bool" where
  "withinCap cfg d \<longleftrightarrow> (\<forall>t. of_nat (getRebalancesToday t d) \<le> rc_maxRebalancesPerDay cfg)"

definition wholeCap :: "RebConfig \<Rightarrow> bool" where
  "wholeCap cfg \<longleftrightarrow> rc_maxRebalancesPerDay cfg \<in> \<nat>"

lemma getRebalancesToday_cong: "rebalance_log d' = rebalance_log d \<Longrightarrow> getRebalancesToday t d' = getRebalancesToday t d"
  by (simp add: getRebalancesToday_def)

lemma withinCap_rebalanced:
  assumes r: "rebalanced cfg e mid position d r d' new" and cap: "withinCap cfg d" "wholeCap cfg" and l: "leavesLog e"
  shows "withinCap cfg d'"
proof (cases "rebalance_log d' = rebalance_log d")
  case True
  then show ?thesis using cap getRebalancesToday_cong [OF True] by (simp add: withinCap_def)
next
  case False
  then obtain detail mint where ok: "r = Inr (OK detail mint)"
    using r by (auto simp: rebalanced_def split: sum.splits RebalanceResult.splits)
  then have g: "gate cfg e mid position d" and log': "rebalance_log d' = rebalance_log d @ [rebalanceRecord e mid position]"
    using r False by (auto simp: rebalanced_def succeeded_def split: if_splits)
  then have count: "getRebalancesToday t d' = getRebalancesToday t d + (if re_now e div 86400000 = t div 86400000 then 1 else 0)" for t
    by (simp add: getRebalancesToday_same_day rebalanceRecord_def)
  have "getRebalancesToday (re_now e) (if position = None then d else re_meanwhile1 e d) = getRebalancesToday (re_now e) d"
    using l by (intro getRebalancesToday_cong) (simp add: leavesLog_def)
  with g have less: "of_nat (getRebalancesToday (re_now e) d) < rc_maxRebalancesPerDay cfg" by (simp add: gate_def)
  obtain n where n: "rc_maxRebalancesPerDay cfg = of_nat n" using cap by (auto simp: wholeCap_def Nats_def)
  have same: "getRebalancesToday t d = getRebalancesToday (re_now e) d" if "re_now e div 86400000 = t div 86400000" for t
    using that by (simp add: getRebalancesToday_same_day)
  show ?thesis
    unfolding withinCap_def
  proof
    fix t
    show "of_nat (getRebalancesToday t d') \<le> rc_maxRebalancesPerDay cfg"
      using less n cap(1) count [of t] same [of t] by (auto simp: withinCap_def)
  qed
qed

text \<open>A sequence of rebalances, with whatever other tasks do between them.\<close>

fun rebalances :: "RebConfig \<Rightarrow> ('i RebEnv \<times> MidPrice \<times> PositionSnapshot option \<times> (db \<Rightarrow> db)) list \<Rightarrow> db \<times> 'i effect list \<Rightarrow> db \<times> 'i effect list" where
  "rebalances cfg [] s = s"
| "rebalances cfg ((e, mid, position, other) # rest) s =
     rebalances cfg rest (let s' = snd (executeRebalance cfg e mid position s) in (other (fst s'), snd s'))"

definition fairRun :: "('i RebEnv \<times> MidPrice \<times> PositionSnapshot option \<times> (db \<Rightarrow> db)) list \<Rightarrow> bool" where
  "fairRun runs \<longleftrightarrow> list_all (\<lambda>(e, mid, position, other). truthfulReb e \<and> leavesLog e \<and> re_degradedFault e = None
     \<and> (\<forall>d. rebalance_log (other d) = rebalance_log d)) runs"



section \<open>Amounts and range\<close>

lemma scaled_amount:
  assumes "0 \<le> n" "n < 2 ^ 53" "0 \<le> scale" "scale \<le> 1"
  shows "0 \<le> \<lfloor>nmul (numOfBig n) scale\<rfloor>" "\<lfloor>nmul (numOfBig n) scale\<rfloor> \<le> n"
proof -
  have n: "numOfBig n = of_int n" using fl_of_int [of n] assms by (simp add: numOfBig_def)
  then show "0 \<le> \<lfloor>nmul (numOfBig n) scale\<rfloor>" using assms by (simp add: nmul_nonneg)
  have "of_int n * scale \<le> of_int n * (1::rat)" using assms by (intro mult_left_mono) auto
  then have "nmul (numOfBig n) scale \<le> fl (of_int n)" unfolding nmul_def n by (intro fl_mono) simp
  then show "\<lfloor>nmul (numOfBig n) scale\<rfloor> \<le> n" using fl_of_int [of n] assms by (simp add: floor_le_iff) 
qed

text \<open>A live rebalance never asks to deposit more than the wallet holds: no more BERT than the balance read last
  and no more SOL than that balance less the configured floor, and neither amount is negative. Balances are
  assumed below 2 to the 53, where the conversion to a double is exact.\<close>

theorem deposit_within_holdings:
  assumes "truthfulReb e" "leavesLog e" "re_degradedFault e = None" "\<not> rc_dryRun cfg"
    and "executeRebalance cfg e mid position (d, []) = (r, (d', es'))"
    and "re_balances3 e = Inr (sol, bert)" "0 \<le> sol" "sol < 2 ^ 53" "0 \<le> bert" "bert < 2 ^ 53"
    and "0 \<le> rc_minSolFloorLamports cfg" "0 \<le> rc_maxPositionUsd cfg"
  shows "\<forall>p\<in>set (asked es'). 0 \<le> op_bertAmountRaw p \<and> op_bertAmountRaw p \<le> bert
     \<and> 0 \<le> op_solAmountLamports p \<and> op_solAmountLamports p \<le> max 0 (sol - rc_minSolFloorLamports cfg)"
proof
  fix p assume p: "p \<in> set (asked es')"
  obtain new where new: "(d', es') = (d', [] @ new)" "rebalanced cfg e mid position d r d' new"
    by (rule rebalanced_run [OF assms(1-3,5)]) (metis prod.inject)
  then have "fromBalances cfg e mid p" using p by (auto simp: rebalanced_def)
  then have amounts: "(op_bertAmountRaw p, op_solAmountLamports p) = finalAmounts cfg mid (sol, bert)"
    using assms(4,6) by (auto simp: fromBalances_def openParams_def)
  define total where "total = nadd (bertValue mid bert) (solValue mid (usable cfg sol))"
  define scale where "scale = (if total > 0 then ndiv (min total (rc_maxPositionUsd cfg)) total else 0)"
  have a: "op_bertAmountRaw p = \<lfloor>nmul (numOfBig bert) scale\<rfloor>" "op_solAmountLamports p = \<lfloor>nmul (numOfBig (usable cfg sol)) scale\<rfloor>"
    using amounts by (simp_all add: finalAmounts_def Let_def scale_def total_def)
  have scale: "0 \<le> scale" "scale \<le> 1"
    using assms(12) fl_mono [of "min total (rc_maxPositionUsd cfg) / total" 1]
    by (simp add: scale_def ndiv_nonneg, simp add: scale_def ndiv_def divide_simps)
  have u: "0 \<le> usable cfg sol" "usable cfg sol \<le> max 0 (sol - rc_minSolFloorLamports cfg)" "usable cfg sol < 2 ^ 53"
    using assms by (auto simp: usable_def)
  show "0 \<le> op_bertAmountRaw p \<and> op_bertAmountRaw p \<le> bert
     \<and> 0 \<le> op_solAmountLamports p \<and> op_solAmountLamports p \<le> max 0 (sol - rc_minSolFloorLamports cfg)"
    unfolding a using scaled_amount [OF assms(9,10) scale] scaled_amount [OF u(1,3) scale] u(2) by linarith
qed

theorem deposit_within_holdings_witness:
  "list_all (\<lambda>p. op_bertAmountRaw p = 0)
     (asked (snd (snd (executeRebalance rebcfg_demo reb_demo (midAt 2 5) None (init_db, [])))))"
  using deposit_within_holdings [OF reb_demo_ok, of rebcfg_demo "midAt 2 5" None init_db _ _ _ 0 0]
  by (cases "executeRebalance rebcfg_demo reb_demo (midAt 2 5) None (init_db, [])")
    (fastforce simp: rebcfg_demo_def reb_demo_def list_all_iff)

text \<open>A rebalance does not trigger itself again: the range it opens contains the price it was computed from, so as
  long as that price lasts the strategy does not ask for another rebalance of the new position.\<close>

theorem rebalance_settles:
  assumes "is_double (mp_bertUsd mid)" "0 \<le> mp_bertUsd mid" "0 \<le> rc_rangeWidthPct cfg"
    and "bs_price state = Some mid" "bs_position state = Some pos"
    and "rg_lowerBertUsd (po_range pos) = fst (newRange cfg mid)" "rg_upperBertUsd (po_range pos) = snd (newRange cfg mid)"
  shows "(\<exists>reason. decide state params = HOLD reason) \<or> (\<exists>reason. decide state params = PAUSE reason)"
proof -
  define half where "half = ndiv (nmul (mp_bertUsd mid) (ndiv (rc_rangeWidthPct cfg) 100)) 2"
  have "0 \<le> half" using assms(2,3) by (simp add: half_def nmul_nonneg ndiv_nonneg)
  then have "nsub (mp_bertUsd mid) half \<le> fl (mp_bertUsd mid)" "fl (mp_bertUsd mid) \<le> nadd (mp_bertUsd mid) half"
    by (simp_all add: nsub_def nadd_def fl_mono)
  then have "inRange (po_range pos) (mp_bertUsd mid)"
    using assms by (simp add: inRange_def newRange_def half_def Let_def is_double_def)
  then show ?thesis using assms(4,5) by (simp add: decide_def Let_def)
qed

theorem rebalance_settles_witness:
  "is_double 2 \<and> (\<exists>reason. decide (polledState 5 2 1 (position_demo\<lparr>po_range := \<lparr>rg_lowerBertUsd = fst (newRange rebcfg_demo (midAt 2 5)),
      rg_upperBertUsd = snd (newRange rebcfg_demo (midAt 2 5)), rg_centerBertUsd = 2, rg_widthPct = 50\<rparr>\<rparr>)) params_demo = HOLD reason)"
proof -
  have d: "is_double 2" by (simp add: is_double_def)
  let ?s = "polledState 5 2 1 (position_demo\<lparr>po_range := \<lparr>rg_lowerBertUsd = fst (newRange rebcfg_demo (midAt 2 5)),
      rg_upperBertUsd = snd (newRange rebcfg_demo (midAt 2 5)), rg_centerBertUsd = 2, rg_widthPct = 50\<rparr>\<rparr>)"
  have "\<not> halted ?s params_demo" by (simp add: halted_def polledState_def isStale_def midAt_def params_demo_def nmul_def)
  then have "\<nexists>reason. decide ?s params_demo = PAUSE reason"
    by (auto simp: decide_def halted_def Let_def split: option.splits if_splits)
  with d rebalance_settles [of "midAt 2 5" rebcfg_demo ?s _ params_demo] show ?thesis
    by (simp add: polledState_def midAt_def rebcfg_demo_def)
qed

end
