(* ===== verification/Meteora.thy ===== *)
theory Meteora
  imports Venue Rebalance_Properties
begin

text \<open>
  \<open>src/src/meteoraClient.ts\<close>, the client of a Meteora DLMM pool. The SDK is a parameter: \<open>Dlmm\<close> holds what its calls
  return, with the transactions of a type \<open>'i\<close> of instructions, and the price of a bin as the number that
  \<open>parseFloat\<close> and \<open>toNumber\<close> read from it. A position is a range of bins; bins below the active one hold the
  token Y, those above it the token X. The properties are about the partial close, which removes whole bins: it frees
  the amounts it is asked for if the position has them, touches nothing it need not, and never the active bin.
\<close>

section \<open>The SDK\<close>

record BinData =
  bd_binId :: int
  bd_positionXAmount :: int
  bd_positionYAmount :: int

record LbPosition =
  lb_publicKey :: string
  lb_totalXAmount :: int
  lb_totalYAmount :: int
  lb_feeX :: int
  lb_feeY :: int
  lb_lowerBinId :: int
  lb_upperBinId :: int
  lb_positionBinData :: "BinData list"

record ActiveBin =
  ab_binId :: int
  ab_price :: rat

text \<open>\<open>dl_parseKey\<close> is \<open>new PublicKey\<close>, \<open>dl_newKey\<close> the generated key of a new position, \<open>dl_number\<close> the text of a
  number.\<close>

record 'i Dlmm =
  dl_tokenX :: string
  dl_tokenY :: string
  dl_refetchStates :: "unit result"
  dl_positions :: "LbPosition list result"
  dl_activeBin :: "ActiveBin result"
  dl_baseFeePct :: rat
  dl_binPrice :: "int \<Rightarrow> rat"
  dl_binIdFromPrice :: "rat \<Rightarrow> bool \<Rightarrow> int"
  dl_addLiquidity :: "string \<Rightarrow> int \<Rightarrow> int \<Rightarrow> int \<Rightarrow> int \<Rightarrow> 'i tx result"
  dl_removeLiquidity :: "string \<Rightarrow> int \<Rightarrow> int \<Rightarrow> bool \<Rightarrow> 'i tx list result"
  dl_swapQuote :: "int \<Rightarrow> bool \<Rightarrow> int result"
  dl_swap :: "string \<Rightarrow> string \<Rightarrow> int \<Rightarrow> int \<Rightarrow> 'i tx result"
  dl_balance :: "int result"
  dl_tokenBalance :: "int result"
  dl_parseKey :: "string \<Rightarrow> unit result"
  dl_newKey :: string
  dl_number :: "rat \<Rightarrow> string"
  dl_now :: int

record MeteoraClient =
  mt_poolAddress :: string
  mt_bertMint :: string
  mt_payer :: "string option"
  mt_bertIsX :: bool

section \<open>meteoraClient.ts\<close>

definition meteoraInit :: "'i Dlmm \<Rightarrow> MeteoraClient \<Rightarrow> MeteoraClient" where
  "meteoraInit dl c = c\<lparr>mt_bertIsX := (dl_tokenX dl = mt_bertMint c)\<rparr>"

definition meteoraPoolState :: "MeteoraClient \<Rightarrow> 'i Dlmm \<Rightarrow> PoolState result" where
  "meteoraPoolState c dl =
     thenR (dl_refetchStates dl) (\<lambda>_.
     thenR (dl_activeBin dl) (\<lambda>activeBin.
     Inr \<lparr>pl_address = mt_poolAddress c, pl_feeTier = ndiv (dl_baseFeePct dl) 100, pl_currentTickIndex = ab_binId activeBin,
          pl_sqrtPriceX64 = 0, pl_bertUsd = 0, pl_solUsd = 0, pl_tvlUsd = 0\<rparr>))"

definition findPosition :: "string \<Rightarrow> LbPosition list \<Rightarrow> LbPosition option" where
  "findPosition nftMint = find (\<lambda>p. lb_publicKey p = nftMint)"

definition bertOf :: "MeteoraClient \<Rightarrow> 'a \<Rightarrow> 'a \<Rightarrow> 'a" where
  "bertOf c x y = (if mt_bertIsX c then x else y)"

definition solOf :: "MeteoraClient \<Rightarrow> 'a \<Rightarrow> 'a \<Rightarrow> 'a" where
  "solOf c x y = (if mt_bertIsX c then y else x)"

text \<open>The bounds of a position in USD; the lower bin is the upper bound when the price is BERT per SOL.\<close>

definition positionRange :: "MeteoraClient \<Rightarrow> 'i Dlmm \<Rightarrow> rat \<Rightarrow> LbPosition \<Rightarrow> Range" where
  "positionRange c dl solUsd pos =
     (let lowerPriceYPerX = dl_binPrice dl (lb_lowerBinId pos);
          upperPriceYPerX = dl_binPrice dl (lb_upperBinId pos);
          lower = (if mt_bertIsX c then nmul lowerPriceYPerX solUsd
                   else if upperPriceYPerX > 0 then ndiv solUsd upperPriceYPerX else 0);
          upper = (if mt_bertIsX c then nmul upperPriceYPerX solUsd
                   else if lowerPriceYPerX > 0 then ndiv solUsd lowerPriceYPerX else 0)
      in if lower > upper then usdRange upper lower else usdRange lower upper)"

definition meteoraGetPosition :: "MeteoraClient \<Rightarrow> 'i Dlmm \<Rightarrow> string \<Rightarrow> rat \<Rightarrow> PositionSnapshot option result" where
  "meteoraGetPosition c dl nftMint solUsd =
     (if mt_payer c = None then Inl ''getPosition requires payer to be set''
      else
        thenR (dl_parseKey dl nftMint) (\<lambda>_.
        thenR (dl_positions dl) (\<lambda>userPositions.
          case findPosition nftMint userPositions of
            None \<Rightarrow> Inr None
          | Some pos \<Rightarrow>
              let bertAmount = bertOf c (lb_totalXAmount pos) (lb_totalYAmount pos);
                  solAmount = solOf c (lb_totalXAmount pos) (lb_totalYAmount pos);
                  range = positionRange c dl solUsd pos
              in Inr (Some
                 \<lparr>po_nftMint = nftMint, po_range = range, po_bertAmount = bertAmount, po_solAmount = solAmount,
                  po_uncollectedFeesBert = bertOf c (lb_feeX pos) (lb_feeY pos),
                  po_uncollectedFeesSol = solOf c (lb_feeX pos) (lb_feeY pos),
                  po_totalValueUsd =
                    nadd (nmul (ndiv (numOfBig bertAmount) (10 ^ BERT_DECIMALS)) (rg_centerBertUsd range))
                         (nmul (ndiv (numOfBig solAmount) (10 ^ SOL_DECIMALS)) solUsd),
                  po_openedAt = dl_now dl\<rparr>))))"

definition usdToBinId :: "MeteoraClient \<Rightarrow> 'i Dlmm \<Rightarrow> rat \<Rightarrow> rat \<Rightarrow> bool \<Rightarrow> int result" where
  "usdToBinId c dl bertUsd solUsd roundDown =
     (if solUsd \<le> 0 \<or> bertUsd \<le> 0
      then Inl (''Invalid USD prices: bertUsd='' @ dl_number dl bertUsd @ '', solUsd='' @ dl_number dl solUsd)
      else Inr (dl_binIdFromPrice dl (if mt_bertIsX c then ndiv bertUsd solUsd else ndiv solUsd bertUsd) roundDown))"

definition meteoraBuildOpen :: "MeteoraClient \<Rightarrow> 'i Dlmm \<Rightarrow> OpenPositionParams \<Rightarrow> ('i tx \<times> string) result" where
  "meteoraBuildOpen c dl params =
     thenR (dl_refetchStates dl) (\<lambda>_.
     thenR (usdToBinId c dl (op_lowerUsd params) (op_solUsd params) True) (\<lambda>minBinId.
     thenR (usdToBinId c dl (op_upperUsd params) (op_solUsd params) False) (\<lambda>maxBinId.
       let actualMinBin = min minBinId maxBinId; actualMaxBin = max minBinId maxBinId;
           totalXAmount = (if mt_bertIsX c then op_bertAmountRaw params else op_solAmountLamports params);
           totalYAmount = (if mt_bertIsX c then op_solAmountLamports params else op_bertAmountRaw params)
       in thenR (dl_addLiquidity dl (dl_newKey dl) totalXAmount totalYAmount actualMinBin actualMaxBin) (\<lambda>tx.
          Inr (tx, dl_newKey dl)))))"

text \<open>The instructions of all returned transactions, in one.\<close>

definition mergeTxs :: "'i tx list \<Rightarrow> 'i tx" where
  "mergeTxs txs = concat (filter (\<lambda>t. t \<noteq> []) txs)"

definition expectedBert :: "MeteoraClient \<Rightarrow> LbPosition \<Rightarrow> int" where
  "expectedBert c pos = (if mt_bertIsX c then lb_totalXAmount pos + lb_feeX pos else lb_totalYAmount pos + lb_feeY pos)"

definition expectedSol :: "MeteoraClient \<Rightarrow> LbPosition \<Rightarrow> int" where
  "expectedSol c pos = (if mt_bertIsX c then lb_totalYAmount pos + lb_feeY pos else lb_totalXAmount pos + lb_feeX pos)"

definition meteoraBuildClose :: "MeteoraClient \<Rightarrow> 'i Dlmm \<Rightarrow> string \<Rightarrow> ('i tx \<times> int \<times> int) result" where
  "meteoraBuildClose c dl nftMint =
     (if mt_payer c = None then Inl ''buildClosePositionTx requires payer''
      else
        thenR (dl_refetchStates dl) (\<lambda>_.
        thenR (dl_positions dl) (\<lambda>userPositions.
          case findPosition nftMint userPositions of
            None \<Rightarrow> Inl (''buildClosePositionTx: position not found for '' @ nftMint)
          | Some pos \<Rightarrow>
              thenR (dl_removeLiquidity dl (lb_publicKey pos) (lb_lowerBinId pos) (lb_upperBinId pos) True) (\<lambda>txs.
              Inr (mergeTxs txs, expectedBert c pos, expectedSol c pos)))))"

text \<open>The partial close. The bins of a side, nearest to the active bin first.\<close>

definition binsBelow :: "int \<Rightarrow> BinData list \<Rightarrow> BinData list" where
  "binsBelow activeBin bins = sort_key (\<lambda>b. - bd_binId b) (filter (\<lambda>b. bd_binId b < activeBin) bins)"

definition binsAbove :: "int \<Rightarrow> BinData list \<Rightarrow> BinData list" where
  "binsAbove activeBin bins = sort_key bd_binId (filter (\<lambda>b. bd_binId b > activeBin) bins)"

definition solBins :: "MeteoraClient \<Rightarrow> int \<Rightarrow> BinData list \<Rightarrow> BinData list" where
  "solBins c activeBin bins = (if mt_bertIsX c then binsBelow activeBin bins else binsAbove activeBin bins)"

definition bertBins :: "MeteoraClient \<Rightarrow> int \<Rightarrow> BinData list \<Rightarrow> BinData list" where
  "bertBins c activeBin bins = (if mt_bertIsX c then binsAbove activeBin bins else binsBelow activeBin bins)"

definition solAmountIn :: "MeteoraClient \<Rightarrow> BinData \<Rightarrow> int" where
  "solAmountIn c b = (if mt_bertIsX c then bd_positionYAmount b else bd_positionXAmount b)"

definition bertAmountIn :: "MeteoraClient \<Rightarrow> BinData \<Rightarrow> int" where
  "bertAmountIn c b = (if mt_bertIsX c then bd_positionXAmount b else bd_positionYAmount b)"

fun collectBins :: "(BinData \<Rightarrow> int) \<Rightarrow> int \<Rightarrow> int \<Rightarrow> BinData list \<Rightarrow> int list" where
  "collectBins amountIn need collected [] = []"
| "collectBins amountIn need collected (b # bs) =
     (if collected \<ge> need then []
      else bd_binId b # collectBins amountIn need (collected + amountIn b) bs)"

definition selectSide :: "(BinData \<Rightarrow> int) \<Rightarrow> int \<Rightarrow> BinData list \<Rightarrow> int list" where
  "selectSide amountIn need bins = (if need > 0 then collectBins amountIn need 0 bins else [])"

datatype Side = SolSide | BertSide

definition sideRange :: "Side \<Rightarrow> int list \<Rightarrow> (Side \<times> int \<times> int) list" where
  "sideRange side ids = (if ids = [] then [] else [(side, Min (set ids), Max (set ids))])"

text \<open>The ranges of bins to remove: at most one per side.\<close>

definition partialRanges :: "MeteoraClient \<Rightarrow> int \<Rightarrow> BinData list \<Rightarrow> int \<Rightarrow> int \<Rightarrow> (Side \<times> int \<times> int) list" where
  "partialRanges c activeBin bins needSolLamports needBertRaw =
     sideRange SolSide (selectSide (solAmountIn c) needSolLamports (solBins c activeBin bins)) @
     sideRange BertSide (selectSide (bertAmountIn c) needBertRaw (bertBins c activeBin bins))"

fun removeRanges :: "'i Dlmm \<Rightarrow> string \<Rightarrow> (Side \<times> int \<times> int) list \<Rightarrow> 'i tx result" where
  "removeRanges dl position [] = Inr []"
| "removeRanges dl position ((side, fromBinId, toBinId) # ranges) =
     thenR (dl_removeLiquidity dl position fromBinId toBinId False) (\<lambda>txs.
     thenR (removeRanges dl position ranges) (\<lambda>rest. Inr (mergeTxs txs @ rest)))"

definition meteoraPartialClose :: "MeteoraClient \<Rightarrow> 'i Dlmm \<Rightarrow> string \<Rightarrow> int \<Rightarrow> int \<Rightarrow> 'i tx result" where
  "meteoraPartialClose c dl positionId needSolLamports needBertRaw =
     (if mt_payer c = None then Inl ''buildPartialCloseTx requires payer''
      else
        thenR (dl_refetchStates dl) (\<lambda>_.
        thenR (dl_positions dl) (\<lambda>userPositions.
          case findPosition positionId userPositions of
            None \<Rightarrow> Inl (''buildPartialCloseTx: position '' @ positionId @ '' not found'')
          | Some pos \<Rightarrow>
              thenR (dl_activeBin dl) (\<lambda>activeBin.
                let ranges = partialRanges c (ab_binId activeBin) (lb_positionBinData pos) needSolLamports needBertRaw
                in if ranges = []
                   then Inl ''buildPartialCloseTx: no bins selected (need amounts may be 0 or position has no eligible bins)''
                   else removeRanges dl (lb_publicKey pos) ranges))))"

definition meteoraSimulateClose :: "MeteoraClient \<Rightarrow> 'i Dlmm \<Rightarrow> string \<Rightarrow> rat \<Rightarrow> (rat \<times> int \<times> int) result" where
  "meteoraSimulateClose c dl nftMint solUsd =
     (if mt_payer c = None then Inl ''simulateClose requires payer''
      else
        thenR (dl_refetchStates dl) (\<lambda>_.
        thenR (dl_positions dl) (\<lambda>userPositions.
          case findPosition nftMint userPositions of
            None \<Rightarrow> Inl (''simulateClose: position not found for '' @ nftMint)
          | Some pos \<Rightarrow>
              if solUsd > 0
              then thenR (dl_activeBin dl) (\<lambda>activeBin.
                   Inr (bertUsdAt (mt_bertIsX c) solUsd (ab_price activeBin), expectedBert c pos, expectedSol c pos))
              else Inr (0, expectedBert c pos, expectedSol c pos))))"

definition meteoraBuildSwap :: "MeteoraClient \<Rightarrow> 'i Dlmm \<Rightarrow> int \<Rightarrow> int \<Rightarrow> rat \<Rightarrow> 'i tx result" where
  "meteoraBuildSwap c dl haveBertRaw haveSolLamports targetBertRatio =
     thenR (dl_refetchStates dl) (\<lambda>_.
     thenR (dl_activeBin dl) (\<lambda>activeBin.
       let bertPerSol = (if mt_bertIsX c then (if ab_price activeBin > 0 then ndiv 1 (ab_price activeBin) else 0)
                         else ab_price activeBin)
       in if bertPerSol \<le> 0 then Inr []
          else
            let delta = deltaBert bertPerSol targetBertRatio (ndiv (numOfBig haveBertRaw) (10 ^ BERT_DECIMALS))
                          (ndiv (numOfBig haveSolLamports) (10 ^ SOL_DECIMALS));
                bertToken = bertOf c (dl_tokenX dl) (dl_tokenY dl);
                solToken = solOf c (dl_tokenX dl) (dl_tokenY dl)
            in if \<bar>delta\<bar> < 1 then Inr []
               else if delta > 0
               then let inAmount = solToSell bertPerSol delta
                    in thenR (dl_swapQuote dl inAmount (\<not> mt_bertIsX c)) (\<lambda>minOutAmount.
                       dl_swap dl solToken bertToken inAmount minOutAmount)
               else let inAmount = bertToSell BERT_DECIMALS delta
                    in thenR (dl_swapQuote dl inAmount (mt_bertIsX c)) (\<lambda>minOutAmount.
                       dl_swap dl bertToken solToken inAmount minOutAmount)))"

definition meteoraBalances :: "MeteoraClient \<Rightarrow> 'i Dlmm \<Rightarrow> (int \<times> int) result" where
  "meteoraBalances c dl = walletBalances ''getWalletBalances requires payer'' (mt_payer c) (dl_balance dl) (dl_tokenBalance dl)"

section \<open>The client as a venue\<close>

lemma positionRange_zero: "positionRange c dl 0 pos = usdRange 0 0"
  by (simp add: positionRange_def Let_def num_op_defs)

interpretation meteora: venue "meteoraGetPosition c dl" "meteoraPoolState c dl" for c and dl :: "'i Dlmm"
proof
  show "po_nftMint pos = i" if "meteoraGetPosition c dl i solUsd = Inr (Some pos)" for i solUsd pos
    using that by (auto simp: meteoraGetPosition_def thenR_Inr Let_def split: if_splits option.splits)
  show "po_range pos = usdRange 0 0" if "meteoraGetPosition c dl i 0 = Inr (Some pos)" for i pos
    using that by (auto simp: meteoraGetPosition_def thenR_Inr Let_def positionRange_zero split: if_splits option.splits)
  show "pl_bertUsd st = 0 \<and> pl_solUsd st = 0" if "meteoraPoolState c dl = Inr st" for st
    using that by (auto simp: meteoraPoolState_def thenR_Inr)
qed

section \<open>The partial close\<close>

text \<open>The bins that are chosen of a side: a part next to the active bin that holds the amount needed, or the whole
  side if it does not hold it; without its last bin it would not be enough.\<close>

definition exactSide :: "(BinData \<Rightarrow> int) \<Rightarrow> int \<Rightarrow> BinData list \<Rightarrow> BinData list \<Rightarrow> bool" where
  "exactSide amountIn need side chosen \<longleftrightarrow>
     (\<exists>n. chosen = take n side) \<and> (need \<le> sum_list (map amountIn chosen) \<or> chosen = side)
     \<and> (chosen = [] \<or> sum_list (map amountIn (butlast chosen)) < need)"

lemma collectBins_prefix:
  "\<exists>n\<le>length bs. collectBins f need got bs = map bd_binId (take n bs)
     \<and> (need \<le> got + sum_list (map f (take n bs)) \<or> n = length bs)
     \<and> (n = 0 \<or> got + sum_list (map f (take (n - 1) bs)) < need)"
proof (induction bs arbitrary: got)
  case (Cons b bs)
  show ?case
  proof (cases "need \<le> got")
    case True
    then show ?thesis by (intro exI [of _ 0]) simp
  next
    case False
    obtain n where n: "n \<le> length bs" "collectBins f need (got + f b) bs = map bd_binId (take n bs)"
      "need \<le> got + f b + sum_list (map f (take n bs)) \<or> n = length bs"
      "n = 0 \<or> got + f b + sum_list (map f (take (n - 1) bs)) < need"
      using Cons.IH [of "got + f b"] by auto
    have "take n (b # bs) = (if n = 0 then [] else b # take (n - 1) bs)" by (cases n) simp_all
    then have "got + sum_list (map f (take n (b # bs))) < need" using n(4) False by auto
    with n False show ?thesis by (intro exI [of _ "Suc n"]) auto
  qed
qed simp

lemma selectSide_exact:
  "\<exists>chosen. exactSide f need bs chosen \<and> selectSide f need bs = map bd_binId chosen \<and> (\<exists>n. chosen = take n bs)
     \<and> (chosen = [] \<longrightarrow> need \<le> 0 \<or> bs = [])"
proof (cases "need > 0")
  case True
  obtain n where n: "n \<le> length bs" "collectBins f need 0 bs = map bd_binId (take n bs)"
    "need \<le> sum_list (map f (take n bs)) \<or> n = length bs" "n = 0 \<or> sum_list (map f (take (n - 1) bs)) < need"
    using collectBins_prefix [where got = 0 and bs = bs] by auto
  have "exactSide f need bs (take n bs)"
    using n by (auto simp: exactSide_def butlast_take)
  with n True show ?thesis by (intro exI [of _ "take n bs"]) (auto simp: selectSide_def)
next
  case False
  then show ?thesis by (intro exI [of _ "[]"]) (auto simp: exactSide_def selectSide_def intro: exI [of _ 0])
qed

text \<open>In a list that is sorted by its distance, the range of a chosen part contains no other bin.\<close>

lemma prefix_range:
  assumes "sorted_wrt (\<lambda>a b. key a < (key b :: int)) bs" "take n bs \<noteq> []" "b \<in> set bs"
  shows "b \<in> set (take n bs) \<longleftrightarrow> Min (key ` set (take n bs)) \<le> key b \<and> key b \<le> Max (key ` set (take n bs))"
proof
  assume r: "Min (key ` set (take n bs)) \<le> key b \<and> key b \<le> Max (key ` set (take n bs))"
  have "Max (key ` set (take n bs)) \<in> key ` set (take n bs)" using assms(2) by (intro Max_in) auto
  then obtain a where a: "a \<in> set (take n bs)" "key b \<le> key a" using r by auto
  show "b \<in> set (take n bs)"
  proof (rule ccontr)
    assume "b \<notin> set (take n bs)"
    then have "b \<in> set (drop n bs)" using assms(3) append_take_drop_id [of n bs] by (metis Un_iff set_append)
    then have "key a < key b"
      using assms(1) a(1) append_take_drop_id [of n bs] sorted_wrt_append by metis
    with a(2) show False by simp
  qed
qed simp

lemma strict_sort_key:
  assumes "distinct (map key bs)"
  shows "sorted_wrt (\<lambda>a b. key a < (key b :: int)) (sort_key key (filter P bs))"
proof -
  let ?s = "sort_key key (filter P bs)"
  have "sorted (map key ?s)" by simp
  moreover have "distinct (map key ?s)" using assms by (metis distinct_map distinct_map_filter set_sort distinct_sort)
  ultimately have "sorted_wrt (<) (map key ?s)" using strict_sorted_iff by blast
  then show ?thesis by (simp add: sorted_wrt_map)
qed

definition inIds :: "int list \<Rightarrow> BinData \<Rightarrow> bool" where
  "inIds ids b \<longleftrightarrow> ids \<noteq> [] \<and> Min (set ids) \<le> bd_binId b \<and> bd_binId b \<le> Max (set ids)"

lemma inIds_above:
  assumes "distinct (map bd_binId bins)" "b \<in> set bins"
  shows "inIds (map bd_binId (take n (binsAbove activeBin bins))) b \<longleftrightarrow> b \<in> set (take n (binsAbove activeBin bins))"
proof (cases "take n (binsAbove activeBin bins) = []")
  case False
  let ?t = "take n (binsAbove activeBin bins)"
  have sub: "set ?t \<subseteq> set (binsAbove activeBin bins)" by (rule set_take_subset)
  have "Min (bd_binId ` set ?t) \<in> bd_binId ` set ?t" using False by (intro Min_in) auto
  then have "activeBin < Min (bd_binId ` set ?t)" using sub by (auto simp: binsAbove_def)
  then have side: "b \<in> set (binsAbove activeBin bins)" if "Min (bd_binId ` set ?t) \<le> bd_binId b"
    using that assms(2) by (auto simp: binsAbove_def)
  have "b \<in> set ?t \<longleftrightarrow> Min (bd_binId ` set ?t) \<le> bd_binId b \<and> bd_binId b \<le> Max (bd_binId ` set ?t)"
    if "b \<in> set (binsAbove activeBin bins)"
    using False that unfolding binsAbove_def by (rule prefix_range [OF strict_sort_key [OF assms(1)]])
  with side sub False show ?thesis unfolding inIds_def set_map by blast
qed (auto simp: inIds_def)

lemma inIds_below:
  assumes "distinct (map bd_binId bins)" "b \<in> set bins"
  shows "inIds (map bd_binId (take n (binsBelow activeBin bins))) b \<longleftrightarrow> b \<in> set (take n (binsBelow activeBin bins))"
proof (cases "take n (binsBelow activeBin bins) = []")
  case False
  let ?t = "take n (binsBelow activeBin bins)" and ?neg = "\<lambda>b. - bd_binId b"
  have d: "distinct (map ?neg bins)" using assms(1) by (auto simp: distinct_map inj_on_def)
  have sub: "set ?t \<subseteq> set (binsBelow activeBin bins)" by (rule set_take_subset)
  have "Max (bd_binId ` set ?t) \<in> bd_binId ` set ?t" using False by (intro Max_in) auto
  then have "Max (bd_binId ` set ?t) < activeBin" using sub by (auto simp: binsBelow_def)
  then have side: "b \<in> set (binsBelow activeBin bins)" if "bd_binId b \<le> Max (bd_binId ` set ?t)"
    using that assms(2) by (auto simp: binsBelow_def)
  have img: "uminus ` bd_binId ` set ?t = ?neg ` set ?t" by (simp add: image_image)
  have "Min (?neg ` set ?t) = - Max (bd_binId ` set ?t)" "Max (?neg ` set ?t) = - Min (bd_binId ` set ?t)"
    using False minus_Max_eq_Min [of "bd_binId ` set ?t"] minus_Min_eq_Max [of "bd_binId ` set ?t"]
    by (simp_all add: img)
  moreover have "b \<in> set ?t \<longleftrightarrow> Min (?neg ` set ?t) \<le> ?neg b \<and> ?neg b \<le> Max (?neg ` set ?t)"
    if "b \<in> set (binsBelow activeBin bins)"
    using False that unfolding binsBelow_def by (rule prefix_range [OF strict_sort_key [OF d]])
  ultimately have "b \<in> set ?t \<longleftrightarrow> bd_binId b \<le> Max (bd_binId ` set ?t) \<and> Min (bd_binId ` set ?t) \<le> bd_binId b"
    if "b \<in> set (binsBelow activeBin bins)" using that by (simp only: neg_le_iff_le)
  then have "(Min (bd_binId ` set ?t) \<le> bd_binId b \<and> bd_binId b \<le> Max (bd_binId ` set ?t)) \<longleftrightarrow> b \<in> set ?t"
    using side sub by auto
  then show ?thesis using False unfolding inIds_def by (simp only: set_map map_is_Nil_conv) simp
qed (auto simp: inIds_def)

lemma inIds_side:
  assumes "distinct (map bd_binId bins)" "b \<in> set bins"
  shows "inIds (map bd_binId (take n (solBins c activeBin bins))) b \<longleftrightarrow> b \<in> set (take n (solBins c activeBin bins))"
    and "inIds (map bd_binId (take n (bertBins c activeBin bins))) b \<longleftrightarrow> b \<in> set (take n (bertBins c activeBin bins))"
  using inIds_above [OF assms] inIds_below [OF assms] by (simp_all add: solBins_def bertBins_def)

text \<open>An SDK whose instructions name the range they remove, and the bins that a transaction removes.\<close>

definition recordsRemovals :: "(string \<times> int \<times> int \<times> bool) Dlmm \<Rightarrow> bool" where
  "recordsRemovals dl \<longleftrightarrow> (\<forall>p lo hi shut. dl_removeLiquidity dl p lo hi shut = Inr [[Ix (p, lo, hi, shut)]])"

definition removes :: "(string \<times> int \<times> int \<times> bool) tx \<Rightarrow> BinData \<Rightarrow> bool" where
  "removes tx b \<longleftrightarrow> list_ex (\<lambda>ix. case ix of Ix (p, lo, hi, shut) \<Rightarrow> lo \<le> bd_binId b \<and> bd_binId b \<le> hi | _ \<Rightarrow> False) tx"

lemma removeRanges_run:
  "recordsRemovals dl \<Longrightarrow> removeRanges dl p ranges = Inr (map (\<lambda>(side, lo, hi). Ix (p, lo, hi, False)) ranges)"
  by (induction ranges) (auto simp: recordsRemovals_def mergeTxs_def)

lemma removes_ranges:
  "removes (map (\<lambda>(side, lo, hi). Ix (p, lo, hi, False)) (sideRange s ids @ sideRange t ids')) b \<longleftrightarrow> inIds ids b \<or> inIds ids' b"
  by (auto simp: removes_def sideRange_def inIds_def)

lemma side_not_active:
  "b \<in> set (solBins c activeBin bins) \<Longrightarrow> bd_binId b \<noteq> activeBin" "b \<in> set (bertBins c activeBin bins) \<Longrightarrow> bd_binId b \<noteq> activeBin"
  by (auto simp: solBins_def bertBins_def binsAbove_def binsBelow_def split: if_splits)

text \<open>C12: The partial close frees what is asked for and no more than whole bins require. On a position that the pool
  lists with distinct bins, it throws only if neither side has a bin to take for an amount that is asked for.
  Otherwise the transaction removes exactly two sets of bins: of the bins that hold SOL those next to the active bin,
  as many as are needed for the SOL that is asked for, or all of them, and one less would not be enough; and likewise
  of those that hold BERT. The active bin is never removed.\<close>

theorem partial_close_exact:
  assumes "recordsRemovals dl" "mt_payer c \<noteq> None" "dl_refetchStates dl = Inr ()" "dl_positions dl = Inr ps"
    and "findPosition i ps = Some pos" "dl_activeBin dl = Inr ab" "distinct (map bd_binId (lb_positionBinData pos))"
  shows "\<exists>S B. exactSide (solAmountIn c) needSol (solBins c (ab_binId ab) (lb_positionBinData pos)) S
     \<and> exactSide (bertAmountIn c) needBert (bertBins c (ab_binId ab) (lb_positionBinData pos)) B
     \<and> (case meteoraPartialClose c dl i needSol needBert of
          Inl e \<Rightarrow> (needSol \<le> 0 \<or> solBins c (ab_binId ab) (lb_positionBinData pos) = [])
                \<and> (needBert \<le> 0 \<or> bertBins c (ab_binId ab) (lb_positionBinData pos) = [])
        | Inr tx \<Rightarrow> (\<forall>b\<in>set (lb_positionBinData pos). (removes tx b \<longleftrightarrow> b \<in> set S \<or> b \<in> set B)
                        \<and> (removes tx b \<longrightarrow> bd_binId b \<noteq> ab_binId ab)))"
proof -
  let ?bins = "lb_positionBinData pos" and ?a = "ab_binId ab"
  obtain S n where S: "exactSide (solAmountIn c) needSol (solBins c ?a ?bins) S" "S = take n (solBins c ?a ?bins)"
    "selectSide (solAmountIn c) needSol (solBins c ?a ?bins) = map bd_binId S" "S = [] \<longrightarrow> needSol \<le> 0 \<or> solBins c ?a ?bins = []"
    using selectSide_exact by blast
  obtain B m where B: "exactSide (bertAmountIn c) needBert (bertBins c ?a ?bins) B" "B = take m (bertBins c ?a ?bins)"
    "selectSide (bertAmountIn c) needBert (bertBins c ?a ?bins) = map bd_binId B" "B = [] \<longrightarrow> needBert \<le> 0 \<or> bertBins c ?a ?bins = []"
    using selectSide_exact by blast
  let ?ranges = "sideRange SolSide (map bd_binId S) @ sideRange BertSide (map bd_binId B)"
  have run: "meteoraPartialClose c dl i needSol needBert =
      (if S = [] \<and> B = [] then Inl ''buildPartialCloseTx: no bins selected (need amounts may be 0 or position has no eligible bins)''
       else Inr (map (\<lambda>(side, lo, hi). Ix (lb_publicKey pos, lo, hi, False)) ?ranges))"
    using assms(2-6) S(3) B(3) removeRanges_run [OF assms(1)]
    by (auto simp: meteoraPartialClose_def partialRanges_def sideRange_def Let_def)
  have chosen: "removes (map (\<lambda>(side, lo, hi). Ix (lb_publicKey pos, lo, hi, False)) ?ranges) b \<longleftrightarrow> b \<in> set S \<or> b \<in> set B"
    if "b \<in> set ?bins" for b
    unfolding removes_ranges S(2) B(2) inIds_side [OF assms(7) that] ..
  have "bd_binId b \<noteq> ?a" if "b \<in> set S \<or> b \<in> set B" for b
    using that S(2) B(2) side_not_active by (metis in_set_takeD)
  with chosen have removed: "\<forall>b\<in>set ?bins. (removes (map (\<lambda>(side, lo, hi). Ix (lb_publicKey pos, lo, hi, False)) ?ranges) b \<longleftrightarrow> b \<in> set S \<or> b \<in> set B)
      \<and> (removes (map (\<lambda>(side, lo, hi). Ix (lb_publicKey pos, lo, hi, False)) ?ranges) b \<longrightarrow> bd_binId b \<noteq> ?a)" by blast
  show ?thesis
  proof (intro exI conjI)
    show "case meteoraPartialClose c dl i needSol needBert of
          Inl e \<Rightarrow> (needSol \<le> 0 \<or> solBins c ?a ?bins = []) \<and> (needBert \<le> 0 \<or> bertBins c ?a ?bins = [])
        | Inr tx \<Rightarrow> (\<forall>b\<in>set ?bins. (removes tx b \<longleftrightarrow> b \<in> set S \<or> b \<in> set B) \<and> (removes tx b \<longrightarrow> bd_binId b \<noteq> ?a))"
    proof (cases "S = [] \<and> B = []")
      case True
      then show ?thesis using run S(4) B(4) by simp
    next
      case False
      then show ?thesis unfolding run using removed by (simp only: if_False sum.case)
    qed
  qed (rule S(1) B(1))+
qed

text \<open>A pool with five bins around the active bin 10, where BERT is the token X.\<close>

definition dlmm_demo :: "(string \<times> int \<times> int \<times> bool) Dlmm" where
  "dlmm_demo = \<lparr>dl_tokenX = ''bert'', dl_tokenY = ''sol'', dl_refetchStates = Inr (),
     dl_positions = Inr [\<lparr>lb_publicKey = ''pos'', lb_totalXAmount = 120, lb_totalYAmount = 90, lb_feeX = 1, lb_feeY = 2,
       lb_lowerBinId = 8, lb_upperBinId = 12,
       lb_positionBinData = [\<lparr>bd_binId = 8, bd_positionXAmount = 0, bd_positionYAmount = 40\<rparr>,
         \<lparr>bd_binId = 9, bd_positionXAmount = 0, bd_positionYAmount = 30\<rparr>, \<lparr>bd_binId = 10, bd_positionXAmount = 20, bd_positionYAmount = 20\<rparr>,
         \<lparr>bd_binId = 11, bd_positionXAmount = 60, bd_positionYAmount = 0\<rparr>, \<lparr>bd_binId = 12, bd_positionXAmount = 40, bd_positionYAmount = 0\<rparr>]\<rparr>],
     dl_activeBin = Inr \<lparr>ab_binId = 10, ab_price = 1\<rparr>, dl_baseFeePct = 1, dl_binPrice = (\<lambda>i. of_int i), dl_binIdFromPrice = (\<lambda>x _. \<lfloor>x\<rfloor>),
     dl_addLiquidity = (\<lambda>_ _ _ _ _. Inr []), dl_removeLiquidity = (\<lambda>p lo hi shut. Inr [[Ix (p, lo, hi, shut)]]),
     dl_swapQuote = (\<lambda>a _. Inr a), dl_swap = (\<lambda>_ _ _ _. Inr []), dl_balance = Inr 0, dl_tokenBalance = Inr 0,
     dl_parseKey = (\<lambda>_. Inr ()), dl_newKey = ''new'', dl_number = (\<lambda>_. ''0''), dl_now = 1\<rparr>"

definition meteora_demo :: MeteoraClient where
  "meteora_demo = \<lparr>mt_poolAddress = ''pool'', mt_bertMint = ''bert'', mt_payer = Some ''payer'', mt_bertIsX = True\<rparr>"

definition pos_demo :: LbPosition where
  "pos_demo = hd (projr (dl_positions dlmm_demo))"

theorem partial_close_exact_witness:
  "meteoraPartialClose meteora_demo dlmm_demo ''pos'' 25 70 = Inr [Ix (''pos'', 9, 9, False), Ix (''pos'', 11, 12, False)]
   \<and> (\<exists>S. exactSide (solAmountIn meteora_demo) 25 (solBins meteora_demo 10 (lb_positionBinData pos_demo)) S)"
proof
  show "meteoraPartialClose meteora_demo dlmm_demo ''pos'' 25 70 = Inr [Ix (''pos'', 9, 9, False), Ix (''pos'', 11, 12, False)]"
    by code_simp
  have "recordsRemovals dlmm_demo" by (simp add: recordsRemovals_def dlmm_demo_def)
  moreover have "mt_payer meteora_demo \<noteq> None" "dl_refetchStates dlmm_demo = Inr ()" "dl_positions dlmm_demo = Inr [pos_demo]"
    "findPosition ''pos'' [pos_demo] = Some pos_demo" "dl_activeBin dlmm_demo = Inr \<lparr>ab_binId = 10, ab_price = 1\<rparr>"
    "distinct (map bd_binId (lb_positionBinData pos_demo))" by code_simp+
  ultimately show "\<exists>S. exactSide (solAmountIn meteora_demo) 25 (solBins meteora_demo 10 (lb_positionBinData pos_demo)) S"
    using partial_close_exact [of dlmm_demo meteora_demo "[pos_demo]" "''pos''" pos_demo "\<lparr>ab_binId = 10, ab_price = 1\<rparr>" 25 70]
    by auto
qed

section \<open>The swap\<close>

definition recordsSwaps :: "(string \<times> string \<times> int \<times> int) Dlmm \<Rightarrow> bool" where
  "recordsSwaps dl \<longleftrightarrow> (\<forall>i k a m. dl_swap dl i k a m = Inr [Ix (i, k, a, m)])"

lemma pow500 [simp]: "fl (1 / 2 ^ 500) = 1 / 2 ^ 500"
  using fl_dyadic [of 1 500] by simp

lemma inverse_price:
  assumes "0 < price" "price \<le> 2 ^ 500"
  shows "1 / 2 ^ 500 \<le> ndiv 1 price"
proof -
  have "1 / 2 ^ 500 \<le> 1 / price" using assms by (intro divide_left_mono) auto
  then show ?thesis using fl_mono [of "1 / 2 ^ 500" "1 / price"] by (simp only: ndiv_def pow500)
qed

text \<open>C13: A swap to equal halves sells no more than is held: it is nothing, or it sells SOL for BERT and at most the
  SOL it was told of, or BERT for SOL and at most the BERT. The tokens are named correctly whichever of the two is the
  token X. The price of the pool is assumed to be within the factor 2 to the 500 of one.\<close>

theorem swap_within_holdings:
  assumes "recordsSwaps dl" "meteoraBuildSwap c dl bert sol (1 / 2) = Inr tx" "0 \<le> bert" "0 \<le> sol"
    and "dl_activeBin dl = Inr ab" "1 / 2 ^ 500 \<le> ab_price ab" "ab_price ab \<le> 2 ^ 500"
  shows "tx = []
     \<or> (\<exists>a m. tx = [Ix (solOf c (dl_tokenX dl) (dl_tokenY dl), bertOf c (dl_tokenX dl) (dl_tokenY dl), a, m)] \<and> a \<le> sol)
     \<or> (\<exists>a m. tx = [Ix (bertOf c (dl_tokenX dl) (dl_tokenY dl), solOf c (dl_tokenX dl) (dl_tokenY dl), a, m)] \<and> a \<le> bert)"
proof -
  define p where "p = (if mt_bertIsX c then ndiv 1 (ab_price ab) else ab_price ab)"
  have pos: "0 < ab_price ab" using assms(6) by (rule less_le_trans [rotated]) simp
  then have p: "1 / 2 ^ 500 \<le> p" using assms(6) inverse_price [OF _ assms(7)] by (simp add: p_def)
  then have p0: "0 < p" by (rule less_le_trans [rotated]) simp
  define b where "b = ndiv (numOfBig bert) (10 ^ BERT_DECIMALS)"
  define s where "s = ndiv (numOfBig sol) (10 ^ SOL_DECIMALS)"
  have b0: "0 \<le> b" and v0: "0 \<le> nmul s p"
    using assms(3,4) p0 by (simp_all add: b_def s_def num_op_defs fl_nonneg)
  have sell_sol: "solToSell p (deltaBert p (1 / 2) b s) \<le> sol"
    using solToSell_le [OF assms(4) b0 p] by (simp add: s_def SOL_DECIMALS_def)
  have "10 ^ BERT_DECIMALS * tiny \<le> 1 / 100" by (simp add: BERT_DECIMALS_def tiny_def)
  then have sell_bert: "bertToSell BERT_DECIMALS (deltaBert p (1 / 2) b s) \<le> bert"
    unfolding deltaBert_def by (intro bertToSell_le [OF assms(3) v0]) (simp_all add: b_def)
  define D where "D = deltaBert p (1 / 2) b s"
  have sw: "dl_swap dl i k a = (\<lambda>m. Inr [Ix (i, k, a, m)])" for i k a using assms(1) by (auto simp: recordsSwaps_def)
  have price: "(if mt_bertIsX c then if ab_price ab > 0 then ndiv 1 (ab_price ab) else 0 else ab_price ab) = p"
    using pos by (simp add: p_def)
  have "meteoraBuildSwap c dl bert sol (1 / 2) = thenR (dl_refetchStates dl) (\<lambda>_.
      if \<bar>D\<bar> < 1 then Inr []
      else if D > 0 then thenR (dl_swapQuote dl (solToSell p D) (\<not> mt_bertIsX c)) (\<lambda>m.
        Inr [Ix (solOf c (dl_tokenX dl) (dl_tokenY dl), bertOf c (dl_tokenX dl) (dl_tokenY dl), solToSell p D, m)])
      else thenR (dl_swapQuote dl (bertToSell BERT_DECIMALS D) (mt_bertIsX c)) (\<lambda>m.
        Inr [Ix (bertOf c (dl_tokenX dl) (dl_tokenY dl), solOf c (dl_tokenX dl) (dl_tokenY dl), bertToSell BERT_DECIMALS D, m)]))"
    using assms(5) p0 by (simp add: meteoraBuildSwap_def Let_def price sw D_def b_def s_def)
  with assms(2) sell_sol sell_bert show ?thesis unfolding D_def [symmetric]
    by (auto simp: thenR_Inr split: if_splits)
qed

definition swap_demo :: "(string \<times> string \<times> int \<times> int) Dlmm" where
  "swap_demo = \<lparr>dl_tokenX = ''bert'', dl_tokenY = ''sol'', dl_refetchStates = Inr (), dl_positions = Inr [],
     dl_activeBin = Inr \<lparr>ab_binId = 10, ab_price = 1\<rparr>, dl_baseFeePct = 1, dl_binPrice = (\<lambda>i. of_int i), dl_binIdFromPrice = (\<lambda>x _. \<lfloor>x\<rfloor>),
     dl_addLiquidity = (\<lambda>_ _ _ _ _. Inr []), dl_removeLiquidity = (\<lambda>p lo hi shut. Inr []),
     dl_swapQuote = (\<lambda>a _. Inr (a - 1)), dl_swap = (\<lambda>i k a m. Inr [Ix (i, k, a, m)]), dl_balance = Inr 0, dl_tokenBalance = Inr 0,
     dl_parseKey = (\<lambda>_. Inr ()), dl_newKey = ''new'', dl_number = (\<lambda>_. ''0''), dl_now = 1\<rparr>"

theorem swap_within_holdings_witness:
  "meteoraBuildSwap meteora_demo swap_demo 0 4000000000 (1 / 2) = Inr [Ix (''sol'', ''bert'', 2000000000, 1999999999)]
   \<and> (2000000000 :: int) \<le> 4000000000"
proof -
  have num: "numOfBig 4000000000 = 4000000000" "numOfBig 0 = 0" by (simp_all add: numOfBig_def)
  have run: "meteoraBuildSwap meteora_demo swap_demo 0 4000000000 (1 / 2) = Inr [Ix (''sol'', ''bert'', 2000000000, 1999999999)]"
    by (simp add: meteoraBuildSwap_def swap_demo_def meteora_demo_def Let_def deltaBert_def num solToSell_def bertOf_def solOf_def
        mathRound_def num_op_defs SOL_DECIMALS_def BERT_DECIMALS_def floor_eq_iff)
  have "recordsSwaps swap_demo" "dl_activeBin swap_demo = Inr \<lparr>ab_binId = 10, ab_price = 1\<rparr>" by (simp_all add: recordsSwaps_def swap_demo_def)
  from swap_within_holdings [OF this(1) run _ _ this(2)]
  show ?thesis using run by (auto simp: meteora_demo_def swap_demo_def bertOf_def solOf_def)
qed

section \<open>The drawdown breaker\<close>

lemma numOfBig_mono: "a \<le> b \<Longrightarrow> numOfBig a \<le> numOfBig b"
  by (simp add: numOfBig_def fl_mono)

lemma value_mono:
  assumes "numOfBig x \<le> numOfBig x'" "numOfBig y \<le> numOfBig y'" "p \<le> p'" "0 \<le> p" "0 \<le> q" "0 \<le> x'"
  shows "nadd (nmul (ndiv (numOfBig x) 1000000) p) (nmul (ndiv (numOfBig y) 1000000000) q)
    \<le> nadd (nmul (ndiv (numOfBig x') 1000000) p') (nmul (ndiv (numOfBig y') 1000000000) q)"
proof -
  have x: "ndiv (numOfBig x) 1000000 \<le> ndiv (numOfBig x') 1000000" "ndiv (numOfBig y) 1000000000 \<le> ndiv (numOfBig y') 1000000000"
    using assms by (simp_all add: ndiv_def fl_mono divide_right_mono)
  have "0 \<le> ndiv (numOfBig x') 1000000" using assms(6) by (simp add: num_op_defs fl_nonneg)
  then have "ndiv (numOfBig x) 1000000 * p \<le> ndiv (numOfBig x') 1000000 * p'" using x assms by (intro mult_mono) auto
  moreover have "ndiv (numOfBig y) 1000000000 * q \<le> ndiv (numOfBig y') 1000000000 * q" using x assms by (intro mult_right_mono)
  ultimately show ?thesis by (simp add: nmul_def nadd_def fl_mono add_mono)
qed

text \<open>C39: The drawdown breaker does not see losses since the position was opened. Both values it compares are read from
  the pool at the same time: the value of the position in the middle of its range, and the value of closing it. So it
  cannot trip while the pool's price is not below the middle of the range, whatever the position was worth when it was
  opened.\<close>

theorem breaker_blind:
  assumes "meteoraGetPosition c dl i (mp_solUsd mid) = Inr (Some pos)" "meteoraSimulateClose c dl i (mp_solUsd mid) = Inr sim"
    and "rg_centerBertUsd (po_range pos) \<le> fst sim" "0 \<le> rg_centerBertUsd (po_range pos)" "0 \<le> mp_solUsd mid"
    and "0 \<le> po_bertAmount pos" "0 \<le> po_uncollectedFeesBert pos" "0 \<le> po_uncollectedFeesSol pos" "0 \<le> rc_maxDrawdownPct cfg"
  shows "\<not> drawdownTrips cfg mid (po_totalValueUsd pos) sim"
proof -
  obtain lb where lb: "fst (snd sim) = expectedBert c lb" "snd (snd sim) = expectedSol c lb"
      "po_bertAmount pos = bertOf c (lb_totalXAmount lb) (lb_totalYAmount lb)" "po_solAmount pos = solOf c (lb_totalXAmount lb) (lb_totalYAmount lb)"
      "po_uncollectedFeesBert pos = bertOf c (lb_feeX lb) (lb_feeY lb)" "po_uncollectedFeesSol pos = solOf c (lb_feeX lb) (lb_feeY lb)"
      "po_totalValueUsd pos = nadd (nmul (ndiv (numOfBig (po_bertAmount pos)) 1000000) (rg_centerBertUsd (po_range pos)))
         (nmul (ndiv (numOfBig (po_solAmount pos)) 1000000000) (mp_solUsd mid))"
    using assms(1,2)
    by (auto simp: meteoraGetPosition_def meteoraSimulateClose_def thenR_Inr Let_def BERT_DECIMALS_def SOL_DECIMALS_def
        split: if_splits option.splits)
  have amounts: "po_bertAmount pos \<le> fst (snd sim)" "po_solAmount pos \<le> snd (snd sim)" "0 \<le> fst (snd sim)"
    using lb assms(6-8) by (auto simp: expectedBert_def expectedSol_def bertOf_def solOf_def split: if_splits)
  have "po_totalValueUsd pos \<le> effectiveValue mid sim"
    unfolding lb(7) effectiveValue_def split_beta
    using amounts assms(3-5) by (intro value_mono numOfBig_mono) auto
  then have "po_totalValueUsd pos > 0 \<Longrightarrow> 1 \<le> ndiv (effectiveValue mid sim) (po_totalValueUsd pos)"
    using fl_mono [of 1 "effectiveValue mid sim / po_totalValueUsd pos"] by (simp add: ndiv_def)
  moreover have "drawdownThreshold cfg \<le> 1"
    using fl_mono [of "1 - fl (rc_maxDrawdownPct cfg / 100)" 1] assms(9) by (simp add: drawdownThreshold_def nsub_def ndiv_def fl_nonneg)
  ultimately show ?thesis by (fastforce simp: drawdownTrips_def)
qed

theorem breaker_blind_witness:
  "\<exists>pos sim. meteoraGetPosition meteora_demo (dlmm_demo\<lparr>dl_activeBin := Inr \<lparr>ab_binId = 10, ab_price = 10\<rparr>\<rparr>) ''pos'' 1 = Inr (Some pos)
     \<and> meteoraSimulateClose meteora_demo (dlmm_demo\<lparr>dl_activeBin := Inr \<lparr>ab_binId = 10, ab_price = 10\<rparr>\<rparr>) ''pos'' 1 = Inr sim
     \<and> \<not> drawdownTrips rebcfg_demo ((midAt 10 1)\<lparr>mp_solUsd := 1\<rparr>) (po_totalValueUsd pos) sim"
proof -
  let ?dl = "dlmm_demo\<lparr>dl_activeBin := Inr \<lparr>ab_binId = 10, ab_price = 10\<rparr>\<rparr>" and ?mid = "(midAt 10 1)\<lparr>mp_solUsd := 1\<rparr>"
  have mid: "mp_solUsd ?mid = 1" by (simp add: midAt_def)
  obtain pos where pos: "meteoraGetPosition meteora_demo ?dl ''pos'' 1 = Inr (Some pos)" "rg_centerBertUsd (po_range pos) = 10"
      "po_bertAmount pos = 120" "po_uncollectedFeesBert pos = 1" "po_uncollectedFeesSol pos = 2"
    by (simp add: meteoraGetPosition_def meteora_demo_def dlmm_demo_def findPosition_def bertOf_def solOf_def Let_def positionRange_def
        usdRange_def num_op_defs)
  have sim: "meteoraSimulateClose meteora_demo ?dl ''pos'' 1 = Inr (10, 121, 92)"
    by (simp add: meteoraSimulateClose_def meteora_demo_def dlmm_demo_def findPosition_def bertUsdAt_def expectedBert_def
        expectedSol_def num_op_defs)
  have "\<not> drawdownTrips rebcfg_demo ?mid (po_totalValueUsd pos) (10, 121, 92)"
    using breaker_blind [of meteora_demo ?dl "''pos''" ?mid pos "(10, 121, 92)" rebcfg_demo] pos sim mid
    by (simp add: rebcfg_demo_def)
  with pos sim show ?thesis by blast
qed

end
