(* ===== verification/Raydium.thy ===== *)
theory Raydium
  imports Meteora
begin

text \<open>
  \<open>src/src/raydiumClient.ts\<close>, the client of a Raydium CLMM pool. The SDK is a parameter, \<open>Clmm\<close>. The client caches
  the pool it read last, so its operations run on the state \<open>RaydiumClient\<close>. It interprets the locale \<open>venue\<close> like the
  Meteora client. The properties are about the swap: it stays within the holdings when SOL is the first token of the
  pool, as in the pool the bot was written for, but sells the wrong token when BERT is.
\<close>

section \<open>The SDK\<close>

record RaydiumPool =
  rp_mintA :: string
  rp_decimalsA :: nat
  rp_mintB :: string
  rp_decimalsB :: nat
  rp_feeRate :: rat
  rp_tvl :: "rat option"
  rp_tickCurrent :: "int option"
  rp_sqrtPriceX64 :: int

record ClmmPosition =
  cp_nftMint :: string
  cp_tickLower :: int
  cp_tickUpper :: int
  cp_liquidity :: int
  cp_tokenFeesOwedA :: int
  cp_tokenFeesOwedB :: int

text \<open>\<open>cl_tick\<close> is the tick next to the quotient of its first two arguments, computed in decimals; \<open>cl_amounts\<close> the
  amounts of a liquidity in a range, \<open>cl_closeAmounts\<close> those of a position with their minima after slippage,
  \<open>cl_expectedOut\<close> the quote of a swap.\<close>

record 'i Clmm =
  cl_pool :: "RaydiumPool result"
  cl_positions :: "ClmmPosition list result"
  cl_epochInfo :: "unit result"
  cl_sqrtPrice :: "int \<Rightarrow> int"
  cl_price :: "int \<Rightarrow> nat \<Rightarrow> nat \<Rightarrow> rat"
  cl_tick :: "rat \<Rightarrow> rat \<Rightarrow> nat \<Rightarrow> nat \<Rightarrow> int"
  cl_amounts :: "int \<Rightarrow> int \<Rightarrow> int \<Rightarrow> int \<Rightarrow> int \<times> int"
  cl_liquidityFrom :: "int \<Rightarrow> int \<Rightarrow> int \<Rightarrow> int \<Rightarrow> int \<Rightarrow> int"
  cl_closeAmounts :: "RaydiumPool \<Rightarrow> ClmmPosition \<Rightarrow> (int \<times> int \<times> int \<times> int) result"
  cl_open :: "int \<Rightarrow> int \<Rightarrow> int \<Rightarrow> int \<Rightarrow> int \<Rightarrow> ('i tx \<times> string) result"
  cl_decrease :: "ClmmPosition \<Rightarrow> int \<Rightarrow> int \<Rightarrow> 'i tx result"
  cl_expectedOut :: "string \<Rightarrow> int \<Rightarrow> int result"
  cl_swap :: "string \<Rightarrow> int \<Rightarrow> int \<Rightarrow> 'i tx result"
  cl_balance :: "int result"
  cl_tokenBalance :: "int result"
  cl_number :: "rat \<Rightarrow> string"
  cl_now :: int

record RaydiumClient =
  rd_poolAddress :: string
  rd_bertMint :: string
  rd_payer :: "string option"
  rd_cache :: "RaydiumPool option"

type_synonym 'a raydm = "(RaydiumClient, 'a) exn"

section \<open>raydiumClient.ts\<close>

definition SLIPPAGE_BPS :: rat where
  "SLIPPAGE_BPS = 300"

definition raydiumPoolState :: "'i Clmm \<Rightarrow> PoolState raydm" where
  "raydiumPoolState cl =
     andThen (lift (cl_pool cl)) (\<lambda>pool.
     andThen (modify (\<lambda>c. c\<lparr>rd_cache := Some pool\<rparr>)) (\<lambda>_.
     gets (\<lambda>c. \<lparr>pl_address = rd_poolAddress c, pl_feeTier = ndiv (rp_feeRate pool) 1000000,
        pl_currentTickIndex = (case rp_tickCurrent pool of Some t \<Rightarrow> t | None \<Rightarrow> 0), pl_sqrtPriceX64 = rp_sqrtPriceX64 pool,
        pl_bertUsd = 0, pl_solUsd = 0, pl_tvlUsd = (case rp_tvl pool of Some v \<Rightarrow> v | None \<Rightarrow> 0)\<rparr>)))"

text \<open>The cached pool, read first if there is none.\<close>

definition ensurePoolData :: "'i Clmm \<Rightarrow> RaydiumPool raydm" where
  "ensurePoolData cl =
     andThen (gets rd_cache) (\<lambda>cached.
       case cached of
         Some pool \<Rightarrow> ret pool
       | None \<Rightarrow> andThen (raydiumPoolState cl) (\<lambda>_. gets (\<lambda>c. the (rd_cache c))))"

definition isBertMintA :: "RaydiumClient \<Rightarrow> RaydiumPool \<Rightarrow> bool" where
  "isBertMintA c pool \<longleftrightarrow> rp_mintA pool = rd_bertMint c"

definition bertDecimals :: "bool \<Rightarrow> RaydiumPool \<Rightarrow> nat" where
  "bertDecimals bertA pool = (if bertA then rp_decimalsA pool else rp_decimalsB pool)"

definition snapshotOf :: "'i Clmm \<Rightarrow> bool \<Rightarrow> RaydiumPool \<Rightarrow> ClmmPosition \<Rightarrow> string \<Rightarrow> rat \<Rightarrow> PositionSnapshot" where
  "snapshotOf cl bertA pool pos nftMint solUsd =
     (let sqrtLower = cl_sqrtPrice cl (cp_tickLower pos); sqrtUpper = cl_sqrtPrice cl (cp_tickUpper pos);
          priceLower = cl_price cl sqrtLower (rp_decimalsA pool) (rp_decimalsB pool);
          priceUpper = cl_price cl sqrtUpper (rp_decimalsA pool) (rp_decimalsB pool);
          range = (if bertA then usdRange (nmul priceLower solUsd) (nmul priceUpper solUsd)
                   else usdRange (if priceUpper > 0 then ndiv solUsd priceUpper else 0)
                                 (if priceLower > 0 then ndiv solUsd priceLower else 0));
          amounts = cl_amounts cl (rp_sqrtPriceX64 pool) sqrtLower sqrtUpper (cp_liquidity pos);
          bertAmount = (if bertA then fst amounts else snd amounts);
          solAmount = (if bertA then snd amounts else fst amounts);
          bertValueUsd = (if rg_centerBertUsd range > 0
                          then nmul (ndiv (numOfBig bertAmount) (10 ^ bertDecimals bertA pool)) (rg_centerBertUsd range) else 0);
          solValueUsd = (if solUsd > 0 then nmul (ndiv (numOfBig solAmount) 1000000000) solUsd else 0)
      in \<lparr>po_nftMint = nftMint, po_range = range, po_bertAmount = bertAmount, po_solAmount = solAmount,
          po_uncollectedFeesBert = (if bertA then cp_tokenFeesOwedA pos else cp_tokenFeesOwedB pos),
          po_uncollectedFeesSol = (if bertA then cp_tokenFeesOwedB pos else cp_tokenFeesOwedA pos),
          po_totalValueUsd = nadd bertValueUsd solValueUsd, po_openedAt = cl_now cl\<rparr>)"

definition raydiumGetPosition :: "'i Clmm \<Rightarrow> string \<Rightarrow> rat \<Rightarrow> PositionSnapshot option raydm" where
  "raydiumGetPosition cl nftMint solUsd =
     andThen (gets rd_payer) (\<lambda>payer.
       if payer = None then throw ''getPosition requires payer to be set (read-only mode not supported)''
       else
         andThen (lift (cl_positions cl)) (\<lambda>positions.
           case find (\<lambda>p. cp_nftMint p = nftMint) positions of
             None \<Rightarrow> ret None
           | Some pos \<Rightarrow>
               andThen (ensurePoolData cl) (\<lambda>pool.
               gets (\<lambda>c. Some (snapshotOf cl (isBertMintA c pool) pool pos nftMint solUsd)))))"

definition usdToTick :: "'i Clmm \<Rightarrow> bool \<Rightarrow> RaydiumPool \<Rightarrow> rat \<Rightarrow> rat \<Rightarrow> int result" where
  "usdToTick cl bertA pool bertUsd solUsd =
     (if solUsd \<le> 0 \<or> bertUsd \<le> 0
      then Inl (''Invalid USD prices: bertUsd='' @ cl_number cl bertUsd @ '', solUsd='' @ cl_number cl solUsd)
      else Inr (if bertA then cl_tick cl bertUsd solUsd (rp_decimalsA pool) (rp_decimalsB pool)
                else cl_tick cl solUsd bertUsd (rp_decimalsA pool) (rp_decimalsB pool)))"

definition amountMax :: "int \<Rightarrow> int" where
  "amountMax amount = \<lceil>nmul (numOfBig amount) (nadd 1 (ndiv SLIPPAGE_BPS 10000))\<rceil>"

definition raydiumBuildOpen :: "'i Clmm \<Rightarrow> OpenPositionParams \<Rightarrow> ('i tx \<times> string) raydm" where
  "raydiumBuildOpen cl params =
     andThen (ensurePoolData cl) (\<lambda>pool.
     andThen (gets (\<lambda>c. isBertMintA c pool)) (\<lambda>bertA.
     andThen (lift (usdToTick cl bertA pool (op_lowerUsd params) (op_solUsd params))) (\<lambda>tick1.
     andThen (lift (usdToTick cl bertA pool (op_upperUsd params) (op_solUsd params))) (\<lambda>tick2.
       let tickLower = min tick1 tick2; tickUpper = max tick1 tick2;
           amountA = (if bertA then op_bertAmountRaw params else op_solAmountLamports params);
           amountB = (if bertA then op_solAmountLamports params else op_bertAmountRaw params);
           liquidity = cl_liquidityFrom cl (rp_sqrtPriceX64 pool) (cl_sqrtPrice cl tickLower) (cl_sqrtPrice cl tickUpper) amountA amountB
       in lift (cl_open cl tickLower tickUpper liquidity (amountMax amountA) (amountMax amountB))))))"

text \<open>The amounts of closing a position, as BERT and SOL, with what \<open>decreaseLiquidity\<close> needs.\<close>

definition closeAmounts :: "'i Clmm \<Rightarrow> string \<Rightarrow> string \<Rightarrow> (RaydiumPool \<times> ClmmPosition \<times> (int \<times> int) \<times> (int \<times> int)) raydm" where
  "closeAmounts cl missing nftMint =
     andThen (ensurePoolData cl) (\<lambda>pool.
     andThen (lift (cl_positions cl)) (\<lambda>positions.
       case find (\<lambda>p. cp_nftMint p = nftMint) positions of
         None \<Rightarrow> throw (missing @ nftMint)
       | Some pos \<Rightarrow>
           andThen (lift (cl_epochInfo cl)) (\<lambda>_.
           andThen (lift (cl_closeAmounts cl pool pos)) (\<lambda>(amountA, amountB, amountMinA, amountMinB).
           andThen (gets (\<lambda>c. isBertMintA c pool)) (\<lambda>bertA.
           ret (pool, pos, (if bertA then (amountA, amountB) else (amountB, amountA)), (amountMinA, amountMinB)))))))"

definition raydiumBuildClose :: "'i Clmm \<Rightarrow> string \<Rightarrow> ('i tx \<times> int \<times> int) raydm" where
  "raydiumBuildClose cl nftMint =
     andThen (closeAmounts cl ''buildClosePositionTx: position not found for nftMint='' nftMint) (\<lambda>(pool, pos, (bert, sol), (minA, minB)).
     andThen (lift (cl_decrease cl pos minA minB)) (\<lambda>tx.
     ret (tx, bert, sol)))"

definition raydiumPartialClose :: "string \<Rightarrow> int \<Rightarrow> int \<Rightarrow> 'i tx raydm" where
  "raydiumPartialClose positionId needSolLamports needBertRaw =
     throw ''UNIMPLEMENTED: partialClose not supported on Raydium client (MVP is Meteora-only)''"

definition raydiumSimulateClose :: "'i Clmm \<Rightarrow> string \<Rightarrow> rat \<Rightarrow> (rat \<times> int \<times> int) raydm" where
  "raydiumSimulateClose cl nftMint solUsd =
     andThen (closeAmounts cl ''simulateClose: position not found for nftMint='' nftMint) (\<lambda>(pool, pos, (bertOut, solOut), _).
     andThen (gets (\<lambda>c. isBertMintA c pool)) (\<lambda>bertA.
       let bertOutHuman = ndiv (numOfBig bertOut) (10 ^ bertDecimals bertA pool);
           poolPrice = cl_price cl (rp_sqrtPriceX64 pool) (rp_decimalsA pool) (rp_decimalsB pool)
       in ret (if bertOutHuman > 0 \<and> solUsd > 0 then bertUsdAt bertA solUsd poolPrice else 0, bertOut, solOut)))"

definition amountOutMin :: "int \<Rightarrow> int" where
  "amountOutMin expectedAmountOut = \<lfloor>nmul (numOfBig expectedAmountOut) (nsub 1 (ndiv SLIPPAGE_BPS 10000))\<rfloor>"

definition sellOn :: "'i Clmm \<Rightarrow> string \<Rightarrow> int \<Rightarrow> 'i tx raydm" where
  "sellOn cl inputMint amountIn =
     andThen (lift (cl_expectedOut cl inputMint amountIn)) (\<lambda>expectedAmountOut.
     lift (cl_swap cl inputMint amountIn (amountOutMin expectedAmountOut)))"

text \<open>When BERT is missing, the input is the first token of the pool, whichever that is.\<close>

definition raydiumBuildSwap :: "'i Clmm \<Rightarrow> int \<Rightarrow> int \<Rightarrow> rat \<Rightarrow> 'i tx raydm" where
  "raydiumBuildSwap cl haveBertRaw haveSolLamports targetBertRatio =
     andThen (ensurePoolData cl) (\<lambda>pool.
     andThen (gets (\<lambda>c. isBertMintA c pool)) (\<lambda>bertA.
       let poolPrice = cl_price cl (rp_sqrtPriceX64 pool) (rp_decimalsA pool) (rp_decimalsB pool);
           bertPerSol = (if bertA then (if poolPrice > 0 then ndiv 1 poolPrice else 0) else poolPrice);
           delta = deltaBert bertPerSol targetBertRatio (ndiv (numOfBig haveBertRaw) (10 ^ bertDecimals bertA pool))
                     (ndiv (numOfBig haveSolLamports) 1000000000)
       in if delta > 0 then sellOn cl (rp_mintA pool) (solToSell bertPerSol delta)
          else if delta < 0
          then sellOn cl (if bertA then rp_mintA pool else rp_mintB pool) (bertToSell (bertDecimals bertA pool) delta)
          else ret []))"

definition raydiumBalances :: "'i Clmm \<Rightarrow> (int \<times> int) raydm" where
  "raydiumBalances cl =
     andThen (gets rd_payer) (\<lambda>payer.
     lift (walletBalances ''getWalletBalances requires payer to be set (read-only mode not supported)'' payer (cl_balance cl) (cl_tokenBalance cl)))"

section \<open>The client as a venue\<close>

lemma snapshotOf_simps [simp]:
  "po_nftMint (snapshotOf cl bertA pool pos i p) = i" "po_range (snapshotOf cl bertA pool pos i 0) = usdRange 0 0"
  by (simp_all add: snapshotOf_def Let_def num_op_defs)

interpretation raydium: venue "\<lambda>i p. fst (raydiumGetPosition cl i p c)" "fst (raydiumPoolState cl c)" for c and cl :: "'i Clmm"
proof
  have run: "\<exists>bertA pool found. snap = snapshotOf cl bertA pool found i p"
    if "fst (raydiumGetPosition cl i p c) = Inr (Some snap)" for i p snap
    using that
    by (auto simp: raydiumGetPosition_def andThen_def gets_def lift_def ret_def throw_def split: sum.splits option.splits prod.splits if_splits)
  show "po_nftMint pos = i" if "fst (raydiumGetPosition cl i solUsd c) = Inr (Some pos)" for i solUsd pos
    using run [OF that] by auto
  show "po_range pos = usdRange 0 0" if "fst (raydiumGetPosition cl i 0 c) = Inr (Some pos)" for i pos
    using run [OF that] by auto
  show "pl_bertUsd st = 0 \<and> pl_solUsd st = 0" if "fst (raydiumPoolState cl c) = Inr st" for st
    using that by (auto simp: raydiumPoolState_def andThen_def lift_def modify_def gets_def split: sum.splits prod.splits)
qed

section \<open>The swap\<close>

definition recordsSales :: "(string \<times> int \<times> int) Clmm \<Rightarrow> bool" where
  "recordsSales cl \<longleftrightarrow> (\<forall>i a m. cl_swap cl i a m = Inr [Ix (i, a, m)])"

text \<open>With SOL as the first token, a swap to equal halves sells no more SOL, or no more BERT, than is held.\<close>

theorem raydium_swap_within_holdings:
  assumes "recordsSales cl" "rd_cache c = Some pool" "\<not> isBertMintA c pool" "fst (raydiumBuildSwap cl bert sol (1 / 2) c) = Inr tx"
    and "0 \<le> bert" "0 \<le> sol" "10 ^ rp_decimalsB pool * tiny \<le> 1 / 100"
    and "1 / 2 ^ 500 \<le> cl_price cl (rp_sqrtPriceX64 pool) (rp_decimalsA pool) (rp_decimalsB pool)"
  shows "tx = [] \<or> (\<exists>a m. tx = [Ix (rp_mintA pool, a, m)] \<and> a \<le> sol) \<or> (\<exists>a m. tx = [Ix (rp_mintB pool, a, m)] \<and> a \<le> bert)"
proof -
  define p where "p = cl_price cl (rp_sqrtPriceX64 pool) (rp_decimalsA pool) (rp_decimalsB pool)"
  define b where "b = ndiv (numOfBig bert) (10 ^ rp_decimalsB pool)"
  define D where "D = deltaBert p (1 / 2) b (ndiv (numOfBig sol) 1000000000)"
  have p: "1 / 2 ^ 500 \<le> p" using assms(8) by (simp only: p_def)
  then have p0: "0 < p" by (rule less_le_trans [rotated]) simp
  have b0: "0 \<le> b" and v0: "0 \<le> nmul (ndiv (numOfBig sol) 1000000000) p"
    using assms(5,6) p0 by (simp_all add: b_def num_op_defs fl_nonneg)
  have sold: "solToSell p D \<le> sol" "bertToSell (rp_decimalsB pool) D \<le> bert"
    using solToSell_le [OF assms(6) b0 p] bertToSell_le [OF assms(5) v0 assms(7) b_def] by (simp_all add: D_def deltaBert_def)
  have sell: "sellOn cl mint a c = (thenR (cl_expectedOut cl mint a) (\<lambda>x. Inr [Ix (mint, a, amountOutMin x)]), c)" for mint a
    using assms(1) by (cases "cl_expectedOut cl mint a") (simp_all add: sellOn_def exn_simps recordsSales_def)
  have "raydiumBuildSwap cl bert sol (1 / 2) c =
      (if D > 0 then sellOn cl (rp_mintA pool) (solToSell p D) c
       else if D < 0 then sellOn cl (rp_mintB pool) (bertToSell (rp_decimalsB pool) D) c else (Inr [], c))"
    using assms(2,3) by (simp add: raydiumBuildSwap_def ensurePoolData_def exn_simps Let_def bertDecimals_def p_def b_def D_def)
  with assms(4) sold show ?thesis by (auto simp: sell thenR_Inr split: if_splits)
qed

definition clmm_demo :: "(string \<times> int \<times> int) Clmm" where
  "clmm_demo = \<lparr>cl_pool = Inr \<lparr>rp_mintA = ''bert'', rp_decimalsA = 6, rp_mintB = ''sol'', rp_decimalsB = 9, rp_feeRate = 10000, rp_tvl = None,
       rp_tickCurrent = None, rp_sqrtPriceX64 = 1\<rparr>,
     cl_positions = Inr [], cl_epochInfo = Inr (), cl_sqrtPrice = id, cl_price = (\<lambda>_ _ _. 1), cl_tick = (\<lambda>_ _ _ _. 0),
     cl_amounts = (\<lambda>_ _ _ _. (0, 0)), cl_liquidityFrom = (\<lambda>_ _ _ _ _. 0), cl_closeAmounts = (\<lambda>_ _. Inr (0, 0, 0, 0)),
     cl_open = (\<lambda>_ _ _ _ _. Inr ([], '''')), cl_decrease = (\<lambda>_ _ _. Inr []), cl_expectedOut = (\<lambda>_ a. Inr 0),
     cl_swap = (\<lambda>i a m. Inr [Ix (i, a, m)]), cl_balance = Inr 0, cl_tokenBalance = Inr 0, cl_number = (\<lambda>_. ''0''), cl_now = 1\<rparr>"

definition raydium_demo :: RaydiumClient where
  "raydium_demo = \<lparr>rd_poolAddress = ''pool'', rd_bertMint = ''bert'', rd_payer = Some ''payer'', rd_cache = None\<rparr>"

text \<open>With BERT as the first token, a wallet that holds only SOL and needs BERT is made to sell BERT.\<close>

theorem raydium_sells_bert_for_bert:
  "fst (raydiumBuildSwap clmm_demo 0 4000000000 (1 / 2) raydium_demo) = Inr [Ix (''bert'', 2000000000, 0)]"
proof -
  have num: "numOfBig 4000000000 = 4000000000" "numOfBig 0 = 0" by (simp_all add: numOfBig_def)
  show ?thesis
    by (simp add: raydiumBuildSwap_def ensurePoolData_def raydiumPoolState_def exn_simps clmm_demo_def raydium_demo_def isBertMintA_def
        bertDecimals_def Let_def deltaBert_def num solToSell_def sellOn_def amountOutMin_def mathRound_def num_op_defs floor_eq_iff)
qed

end
