(* ===== verification/Withdrawal.thy ===== *)
theory Withdrawal
  imports Evolution
begin

text \<open>
  The payout side of the vault: \<open>withdrawalBuilder.ts\<close> and \<open>withdrawalExecutor.ts\<close> under
  \<open>src/src/vault/\<close>. The executor runs on the database and the log of the transfers that landed on
  chain. \<open>ExecEnv\<close> holds what the awaited calls return for one withdrawal, what other tasks did to
  the database meanwhile, whether a transfer that was reported as failed landed after all, and
  whether the database refused one of the two critical writes. The lemmas show that no withdrawal is
  paid twice, that its shares are burned when and only when it is completed, and what every branch
  does.
\<close>

section \<open>withdrawalBuilder.ts\<close>

definition buildWithdrawalInstructions ::
    "ata_fn \<Rightarrow> string \<Rightarrow> string \<Rightarrow> int \<Rightarrow> int \<Rightarrow> string \<Rightarrow> bool \<Rightarrow> instr list result" where
  "buildWithdrawalInstructions ata payer destinationWallet solLamports bertRaw bertMint createDestAtaIfMissing =
     (if solLamports = 0 \<and> bertRaw = 0 then Inl ''buildWithdrawalInstructions: nothing to transfer''
      else
        let sol = (if solLamports > 0 then [SystemTransfer payer destinationWallet (numOfBig solLamports)] else [])
        in if bertRaw > 0
           then (case ata bertMint payer True of
                   Inl e \<Rightarrow> Inl e
                 | Inr fromAta \<Rightarrow>
                     (case ata bertMint destinationWallet True of
                        Inl e \<Rightarrow> Inl e
                      | Inr toAta \<Rightarrow>
                          Inr (sol @
                            (if createDestAtaIfMissing
                             then [CreateAtaIdempotent payer toAta destinationWallet bertMint] else []) @
                            [TransferChecked fromAta bertMint toAta payer bertRaw BERT_DECIMALS])))
           else Inr sol)"

section \<open>withdrawalExecutor.ts\<close>

record payout =
  po_id :: int
  po_destination :: string
  po_sol :: int
  po_bert :: int
  po_sig :: string

record ExecCfg =
  ec_reserveSolLamports :: int
  ec_sqlSum :: "rat list \<Rightarrow> rat"

text \<open>\<open>ee_getMid\<close> is the pair \<open>(solUsd, bertUsd)\<close>, the balances are \<open>(solLamports, bertRaw)\<close>, and of the
  position snapshot only \<open>totalValueUsd\<close> is used. \<open>ee_landed\<close> is the signature of a transfer that
  landed although \<open>executeTransfer\<close> rejected.\<close>

record ExecEnv =
  ee_now :: int
  ee_getMid :: "(rat \<times> rat) option result"
  ee_balances :: "(int \<times> int) result"
  ee_positionValue :: "rat result"
  ee_partialClose :: "int \<Rightarrow> int \<Rightarrow> unit result"
  ee_balances2 :: "(int \<times> int) result"
  ee_transfer :: "string \<Rightarrow> int \<Rightarrow> int \<Rightarrow> string result"
  ee_landed :: "string option"
  ee_markFault :: "string option"
  ee_completeFault :: "string option"
  ee_catchNow :: int
  ee_meanwhile1 :: "db \<Rightarrow> db"
  ee_meanwhile2 :: "db \<Rightarrow> db"
  ee_meanwhile3 :: "db \<Rightarrow> db"
  ee_meanwhile4 :: "db \<Rightarrow> db"

type_synonym 'a execm = "(db \<times> payout list, 'a) exn"

definition spendable :: "int \<Rightarrow> int \<Rightarrow> int" where
  "spendable reserve solLamports = (if solLamports > reserve then solLamports - reserve else 0)"

record Quote =
  q_navPerShare :: rat
  q_netShares :: rat
  q_usdOwed :: rat
  q_needSol :: int
  q_needBert :: int

definition quoteWithdrawal ::
    "ExecCfg \<Rightarrow> rat \<times> rat \<Rightarrow> int \<times> int \<Rightarrow> rat \<Rightarrow> VaultWithdrawal \<Rightarrow> db \<Rightarrow> Quote result" where
  "quoteWithdrawal c mid bal posValue row d =
     (let nav = computeNav
            \<lparr>freeSolLamports = spendable (ec_reserveSolLamports c) (fst bal), freeBertRaw = snd bal,
             positionTotalValueUsd = posValue, uncollectedFeesBert = 0, uncollectedFeesSol = 0,
             ni_solUsd = fst mid, ni_bertUsd = snd mid\<rparr>;
          navPerShare = computeNavPerShare (totalUsd nav) (totalShares (ec_sqlSum c) d);
          netShares = nsub (w_sharesBurned row) (w_feeShares row);
          usdOwed = usdForShares netShares navPerShare
      in case splitUsdIntoTokens usdOwed (solFrac nav) (fst mid) (snd mid) of
           Inl e \<Rightarrow> Inl e
         | Inr (needSol, needBert) \<Rightarrow>
             Inr \<lparr>q_navPerShare = navPerShare, q_netShares = netShares, q_usdOwed = usdOwed,
                  q_needSol = needSol, q_needBert = needBert\<rparr>)"

text \<open>Whether the free balances suffice, after a partial close of the position if they do not.\<close>

definition ensureReserves :: "ExecCfg \<Rightarrow> ExecEnv \<Rightarrow> int \<times> int \<Rightarrow> Quote \<Rightarrow> bool execm" where
  "ensureReserves c e bal q =
     (let solAvailable = spendable (ec_reserveSolLamports c) (fst bal) in
      if q_needSol q > solAvailable \<or> q_needBert q > snd bal then
        let solShortPos = (if q_needSol q > solAvailable then q_needSol q - solAvailable else 0);
            bertShortPos = (if q_needBert q > snd bal then q_needBert q - snd bal else 0)
        in andThen (onDb (modify (ee_meanwhile3 e))) (\<lambda>_.
           andThen (if solShortPos > 0 \<or> bertShortPos > 0
                    then lift (ee_partialClose e solShortPos bertShortPos) else ret ()) (\<lambda>_.
           andThen (lift (ee_balances2 e)) (\<lambda>bal2.
             ret (\<not> (q_needSol q > spendable (ec_reserveSolLamports c) (fst bal2) \<or>
                      q_needBert q > snd bal2)))))
      else ret True)"

definition dbFault :: "string option \<Rightarrow> unit dbm" where
  "dbFault f = (case f of None \<Rightarrow> ret () | Some e \<Rightarrow> throw e)"

definition syncFailedAudit :: "ExecEnv \<Rightarrow> VaultWithdrawal \<Rightarrow> string \<Rightarrow> string \<Rightarrow> string \<Rightarrow> db \<Rightarrow> db" where
  "syncFailedAudit e row txSig err stage =
     writeAudit (ee_now e) (Some (w_telegramId row)) ''withdrawal_db_sync_failed''
       (JObj [(''id'', JInt (w_id row)), (''txSig'', JStr txSig), (''error'', JStr err), (''stage'', JStr stage)])"

text \<open>The transaction that completes a withdrawal.\<close>

definition completeTx :: "ExecCfg \<Rightarrow> ExecEnv \<Rightarrow> VaultWithdrawal \<Rightarrow> Quote \<Rightarrow> string \<Rightarrow> unit dbm" where
  "completeTx c e row q txSig =
     andThen (gets (totalShares (ec_sqlSum c))) (\<lambda>totalSharesBefore.
       let postBurnTotalValueUsd = nmul (nsub totalSharesBefore (q_netShares q)) (q_navPerShare q)
       in withTransaction
         (andThen (completeWithdrawal (w_id row) txSig (q_needSol q) (q_needBert q) (q_navPerShare q) (ee_now e)) (\<lambda>_.
          andThen (gets (totalShares (ec_sqlSum c))) (\<lambda>total.
          andThen (modify (insertNavSnapshot
             \<lparr>n_ts = ee_now e, n_totalValueUsd = postBurnTotalValueUsd, n_totalShares = total,
              n_navPerShare = q_navPerShare q, n_source = WithdrawalSource\<rparr>)) (\<lambda>_.
          andThen (modify (writeAudit (ee_now e) (Some (w_telegramId row)) ''withdrawal_completed''
             (JObj [(''id'', JInt (w_id row)), (''txSig'', JStr txSig),
                    (''sharesBurned'', JNum (w_sharesBurned row)), (''feeShares'', JNum (w_feeShares row)),
                    (''usdOwed'', JNum (q_usdOwed q)), (''navPerShare'', JNum (q_navPerShare q))]))) (\<lambda>_.
          dbFault (ee_completeFault e)))))))"

text \<open>What follows a transfer that was confirmed: record the signature, then complete. The first step
  swallows its error, the second one rethrows.\<close>

definition settle :: "ExecCfg \<Rightarrow> ExecEnv \<Rightarrow> VaultWithdrawal \<Rightarrow> Quote \<Rightarrow> string \<Rightarrow> unit dbm" where
  "settle c e row q txSig d =
     (case andThen (dbFault (ee_markFault e)) (\<lambda>_. markWithdrawalSent (w_id row) txSig) d of
        (Inl err, d') \<Rightarrow> (Inr (), syncFailedAudit e row txSig err ''markWithdrawalSent'' d')
      | (Inr _, d') \<Rightarrow>
          tryCatch (completeTx c e row q txSig)
            (\<lambda>reason. andThen (modify (syncFailedAudit e row txSig reason ''completeWithdrawal''))
               (\<lambda>_. throw (''withdrawal #'' @ bigToString (w_id row) @ '' db sync failed after transfer: '' @ reason)))
            d')"

definition failedAudit :: "ExecEnv \<Rightarrow> VaultWithdrawal \<Rightarrow> string \<Rightarrow> db \<Rightarrow> db" where
  "failedAudit e row reason =
     writeAudit (ee_now e) (Some (w_telegramId row)) ''withdrawal_failed''
       (JObj [(''id'', JInt (w_id row)), (''reason'', JStr reason)])"

definition payoutOf :: "VaultWithdrawal \<Rightarrow> Quote \<Rightarrow> string \<Rightarrow> payout" where
  "payoutOf row q txSig = \<lparr>po_id = w_id row, po_destination = w_destination row, po_sol = q_needSol q,
     po_bert = q_needBert q, po_sig = txSig\<rparr>"

definition payWithdrawal :: "ExecCfg \<Rightarrow> ExecEnv \<Rightarrow> VaultWithdrawal \<Rightarrow> Quote \<Rightarrow> unit execm" where
  "payWithdrawal c e row q =
     andThen (onDb (modify (ee_meanwhile4 e))) (\<lambda>_.
       case ee_transfer e (w_destination row) (q_needSol q) (q_needBert q) of
         Inl reason \<Rightarrow>
           andThen (emit (case ee_landed e of None \<Rightarrow> [] | Some g \<Rightarrow> [payoutOf row q g])) (\<lambda>_.
             onDb (modify (\<lambda>d. failedAudit e row reason (failWithdrawal (w_id row) reason (ee_now e) d))))
       | Inr transferSig \<Rightarrow>
           andThen (emit [payoutOf row q transferSig]) (\<lambda>_. onDb (settle c e row q transferSig)))"

text \<open>From the row and the price on.\<close>

definition processRow :: "ExecCfg \<Rightarrow> ExecEnv \<Rightarrow> rat \<times> rat \<Rightarrow> VaultWithdrawal \<Rightarrow> unit execm" where
  "processRow c e mid row =
     andThen (onDb (modify (ee_meanwhile2 e))) (\<lambda>_.
     andThen (lift (ee_balances e)) (\<lambda>bal.
     andThen (lift (ee_positionValue e)) (\<lambda>pos.
     andThen (onDb (\<lambda>d. (quoteWithdrawal c mid bal pos row d, d))) (\<lambda>q.
     andThen (ensureReserves c e bal q) (\<lambda>enough.
       if enough then payWithdrawal c e row q
       else onDb (modify (failWithdrawal (w_id row) ''reserves_insufficient'' (ee_now e))))))))"

definition processOne :: "ExecCfg \<Rightarrow> ExecEnv \<Rightarrow> int \<Rightarrow> unit execm" where
  "processOne c e i =
     andThen (onDb (modify (ee_meanwhile1 e))) (\<lambda>_.
     andThen (lift (ee_getMid e)) (\<lambda>mid.
       case mid of
         None \<Rightarrow> onDb (modify (failWithdrawal i ''oracle_unavailable'' (ee_now e)))
       | Some mid \<Rightarrow>
         andThen (onDb (gets (\<lambda>d. find (\<lambda>r. w_id r = i) (listWithdrawalsByStatus Processing d)))) (\<lambda>row.
           case row of
             None \<Rightarrow> ret ()
           | Some row \<Rightarrow> processRow c e mid row)))"

text \<open>The \<open>catch\<close> of the drain loop.\<close>

definition onProcessError :: "ExecEnv \<Rightarrow> int \<Rightarrow> js_error \<Rightarrow> db \<Rightarrow> db" where
  "onProcessError e i err d =
     (case getWithdrawalById i d of
        Some current \<Rightarrow>
          if truthy (w_txSig current) then d
          else failWithdrawal i (''unexpected: '' @ err) (ee_catchNow e) d
      | None \<Rightarrow> failWithdrawal i (''unexpected: '' @ err) (ee_catchNow e) d)"

fun drainRows :: "ExecCfg \<Rightarrow> (int \<Rightarrow> ExecEnv) \<Rightarrow> VaultWithdrawal list \<Rightarrow> unit execm" where
  "drainRows c env [] = ret ()"
| "drainRows c env (w # ws) =
     andThen (onDb (modify (setWithdrawalProcessing (w_id w)))) (\<lambda>_.
     andThen (tryCatch (processOne c (env (w_id w)) (w_id w))
                (\<lambda>err. onDb (modify (onProcessError (env (w_id w)) (w_id w) err)))) (\<lambda>_.
     drainRows c env ws))"

definition drain :: "ExecCfg \<Rightarrow> (int \<Rightarrow> ExecEnv) \<Rightarrow> unit execm" where
  "drain c env = andThen (onDb (gets (listWithdrawalsByStatus Queued))) (drainRows c env)"

section \<open>What the executor leaves alone\<close>

text \<open>While the executor works on the row \<open>i\<close>, everything else evolves as it may under any task.\<close>

definition others :: "int \<Rightarrow> db \<Rightarrow> db \<Rightarrow> bool" where
  "others i d d' \<longleftrightarrow> (\<forall>j. j \<noteq> i \<longrightarrow> row_evolves (getWithdrawalById j d) (getWithdrawalById j d')) \<and>
     (\<forall>t. findUserRow t d \<noteq> None \<longrightarrow> findUserRow t d' \<noteq> None) \<and>
     (\<forall>s. hasDeposit s d \<longrightarrow> hasDeposit s d') \<and> (ledger_ok d \<longrightarrow> ledger_ok d')"

text \<open>The row is still as the executor read it.\<close>

definition holding :: "VaultWithdrawal \<Rightarrow> db \<Rightarrow> db \<Rightarrow> bool" where
  "holding w d0 d \<longleftrightarrow> store_wf d \<and> getWithdrawalById (w_id w) d = Some w \<and> others (w_id w) d0 d"

text \<open>The row was changed by the executor into one with this status and signature.\<close>

definition settled :: "int \<Rightarrow> WithdrawalStatus \<Rightarrow> string option \<Rightarrow> db \<Rightarrow> db \<Rightarrow> bool" where
  "settled i k g d0 d \<longleftrightarrow> store_wf d \<and> rowState d i = Some (k, g) \<and> others i d0 d"

lemma others_refl [simp]: "others i d d"
  by (simp add: others_def)

lemma others_trans: "others i d d' \<Longrightarrow> others i d' d'' \<Longrightarrow> others i d d''"
  unfolding others_def by (meson row_evolves_trans)

lemma evolves_others: "store_wf d \<Longrightarrow> evolves d d' \<Longrightarrow> others i d d'"
  by (simp add: evolves_def others_def)

lemma evolves_settled: "settled i k g d0 d \<Longrightarrow> k \<noteq> Failed \<Longrightarrow> evolves d d' \<Longrightarrow> settled i k g d0 d'"
proof -
  assume s: "settled i k g d0 d" and k: "k \<noteq> Failed" and e: "evolves d d'"
  then have wf: "store_wf d" and "others i d0 d" by (simp_all add: settled_def)
  then have "others i d0 d'" using e evolves_others others_trans by blast
  moreover obtain w where w: "getWithdrawalById i d = Some w" "w_status w = k" "w_txSig w = g"
    using s by (auto simp: settled_def rowState_def)
  then have "getWithdrawalById i d' = Some w" using e wf k by (auto simp: evolves_def row_evolves_def dest!: spec [of _ i])
  ultimately show ?thesis using w e wf by (simp add: settled_def rowState_def evolves_def)
qed

lemma evolves_holding:
  assumes "holding w d0 d" "w_status w = Processing" "evolves d d'"
  shows "holding w d0 d'"
proof -
  have wf: "store_wf d" and o: "others (w_id w) d0 d" and g: "getWithdrawalById (w_id w) d = Some w"
    using assms(1) by (simp_all add: holding_def)
  have "row_evolves (getWithdrawalById (w_id w) d) (getWithdrawalById (w_id w) d')" "store_wf d'"
    using assms(3) wf by (simp_all add: evolves_def)
  then show ?thesis
    using g assms(2) others_trans [OF o evolves_others [OF wf assms(3)]]
    by (auto simp: holding_def row_evolves_def)
qed

lemma holding_settled: "holding w d0 d \<Longrightarrow> settled (w_id w) (w_status w) (w_txSig w) d0 d"
  by (simp add: holding_def settled_def rowState_def)

text \<open>Operations on the row itself.\<close>

lemma others_update:
  assumes "\<And>w. w_id (f w) = w_id w"
  shows "others i d (updateWithdrawals (\<lambda>w. w_id w = i \<and> Q w) f d)"
proof -
  have "getWithdrawalById j (updateWithdrawals (\<lambda>w. w_id w = i \<and> Q w) f d) = getWithdrawalById j d" if "j \<noteq> i" for j
    using that assms by (cases "getWithdrawalById j d") (auto simp: getWithdrawalById_update dest: getWithdrawalById_Some)
  moreover have "ledger_ok (updateWithdrawals (\<lambda>w. w_id w = i \<and> Q w) f d) = ledger_ok d"
    by (rule ledger_ok_cong) (simp_all add: postings_def)
  ultimately show ?thesis by (simp add: others_def findUserRow_def hasDeposit_def)
qed

lemma settled_fail:
  assumes "settled i k None d0 d" shows "settled i Failed None d0 (failWithdrawal i r t d)"
proof -
  have wf: "store_wf d" and s: "rowState d i = Some (k, None)" using assms by (simp_all add: settled_def)
  have "store_wf (failWithdrawal i r t d)"
    using wf s by (intro store_wf_withdrawal_ops(2)) (auto simp: rowState_def)
  moreover have "others i d (failWithdrawal i r t d)"
    unfolding failWithdrawal_def using others_update [of _ i d "\<lambda>_. True"] by simp
  ultimately show ?thesis
    using assms s others_trans by (auto simp: settled_def rows.fail_st)
qed

lemma settled_start:
  assumes "settled i Queued None d0 d" shows "settled i Processing None d0 (setWithdrawalProcessing i d)"
proof -
  have "others i d (setWithdrawalProcessing i d)"
    unfolding setWithdrawalProcessing_def by (rule others_update) simp
  then show ?thesis using assms others_trans by (auto simp: settled_def rows.start_st)
qed

lemma settled_sent:
  assumes "settled i Processing None d0 d"
  shows "fst (markWithdrawalSent i g d) = Inr ()"
    and "settled i Processing (Some g) d0 (snd (markWithdrawalSent i g d))"
proof -
  have wf: "store_wf d" and s: "rowState d i = Some (Processing, None)" using assms by (simp_all add: settled_def)
  show "fst (markWithdrawalSent i g d) = Inr ()" using wf s by (simp add: rows.sent_ok)
  have "store_wf (snd (markWithdrawalSent i g d))"
    using wf s by (intro store_wf_withdrawal_ops(3)) (auto simp: rowState_def)
  moreover have "others i d (snd (markWithdrawalSent i g d))"
    by (simp add: markWithdrawalSent_def Let_def others_update)
  ultimately show "settled i Processing (Some g) d0 (snd (markWithdrawalSent i g d))"
    using assms wf s others_trans by (auto simp: settled_def rows.sent_st)
qed

section \<open>Completion\<close>

text \<open>The state after a completion without a fault, with the row \<open>w\<close> as it is in the database.\<close>

definition completedDb :: "ExecCfg \<Rightarrow> ExecEnv \<Rightarrow> VaultWithdrawal \<Rightarrow> Quote \<Rightarrow> string \<Rightarrow> db \<Rightarrow> db" where
  "completedDb c e row q g d =
     (let d1 = snd (completeWithdrawal (w_id row) g (q_needSol q) (q_needBert q) (q_navPerShare q) (ee_now e) d)
      in writeAudit (ee_now e) (Some (w_telegramId row)) ''withdrawal_completed''
           (JObj [(''id'', JInt (w_id row)), (''txSig'', JStr g),
                  (''sharesBurned'', JNum (w_sharesBurned row)), (''feeShares'', JNum (w_feeShares row)),
                  (''usdOwed'', JNum (q_usdOwed q)), (''navPerShare'', JNum (q_navPerShare q))])
           (insertNavSnapshot
             \<lparr>n_ts = ee_now e,
              n_totalValueUsd = nmul (nsub (totalShares (ec_sqlSum c) d) (q_netShares q)) (q_navPerShare q),
              n_totalShares = totalShares (ec_sqlSum c) d1, n_navPerShare = q_navPerShare q,
              n_source = WithdrawalSource\<rparr> d1))"

lemma completeTx_run:
  assumes "store_wf d" "getWithdrawalById (w_id row) d \<noteq> None"
  shows "completeTx c e row q g d =
    (case ee_completeFault e of None \<Rightarrow> (Inr (), completedDb c e row q g d) | Some err \<Rightarrow> (Inl err, d))"
proof -
  obtain w where "getWithdrawalById (w_id row) d = Some w" using assms(2) by blast
  from completeWithdrawal_ok [OF assms(1) this] obtain d1 where
    "completeWithdrawal (w_id row) g (q_needSol q) (q_needBert q) (q_navPerShare q) (ee_now e) d = (Inr (), d1)"
    by blast
  then show ?thesis
    by (simp add: completeTx_def Let_def withTransaction_def dbFault_def exn_simps completedDb_def split: option.splits)
qed

lemma insertNavSnapshot_frame [simp]:
  "vault_users (insertNavSnapshot r d) = vault_users d" "vault_shares (insertNavSnapshot r d) = vault_shares d"
  "vault_deposits (insertNavSnapshot r d) = vault_deposits d" "vault_audit_log (insertNavSnapshot r d) = vault_audit_log d"
  "vault_withdrawals (insertNavSnapshot r d) = vault_withdrawals d"
  by (simp_all add: insertNavSnapshot_def)

lemma writeAudit_frame [simp]:
  "vault_users (writeAudit ts t ev det d) = vault_users d" "vault_shares (writeAudit ts t ev det d) = vault_shares d"
  "vault_deposits (writeAudit ts t ev det d) = vault_deposits d"
  "vault_withdrawals (writeAudit ts t ev det d) = vault_withdrawals d"
  by (simp_all add: writeAudit_def)

lemma completedDb_parts:
  fixes c :: ExecCfg and e :: ExecEnv and q :: Quote and g :: string
  assumes "store_wf d" "getWithdrawalById (w_id row) d = Some w" "w_telegramId w = w_telegramId row"
    "w_sharesBurned w = w_sharesBurned row"
  defines "d' \<equiv> completedDb c e row q g d"
  shows "store_wf d'" "rowState d' (w_id row) = Some (Completed, Some g)"
    "j \<noteq> w_id row \<Longrightarrow> getWithdrawalById j d' = getWithdrawalById j d"
    "vault_users d' = vault_users d" "vault_deposits d' = vault_deposits d"
    "getShares v d' = (if v = w_telegramId row then nadd (getShares v d) (- w_sharesBurned row) else getShares v d)"
    "postings d' = postings d @ [(w_telegramId row, - w_sharesBurned row)]"
proof -
  define d1 where "d1 = snd (completeWithdrawal (w_id row) g (q_needSol q) (q_needBert q) (q_navPerShare q) (ee_now e) d)"
  let ?d0 = "updateWithdrawals (\<lambda>r. w_id r = w_id row)
      (completedRow g (q_needSol q) (q_needBert q) (q_navPerShare q) (ee_now e)) d"
  have d1: "d1 = snd (addShares (w_telegramId w) (- w_sharesBurned w) ?d0)"
    unfolding d1_def completeWithdrawal_ok [OF assms(1,2)] by simp
  have same: "getWithdrawalById j d' = getWithdrawalById j d1" "getShares v d' = getShares v d1" for j v
    by (simp_all add: d'_def completedDb_def Let_def d1_def [symmetric] getWithdrawalById_def getShares_def findShares_def)
  have wf: "store_wf d1" unfolding d1_def using assms(1) by (rule store_wf_completeWithdrawal)
  then show "store_wf d'" by (simp add: d'_def completedDb_def Let_def d1_def [symmetric])
  have "rowState d1 (w_id row) = Some (Completed, Some g)"
    unfolding d1_def rows.complete_st [OF assms(1)] using assms(2) by (simp add: rowState_def)
  then show "rowState d' (w_id row) = Some (Completed, Some g)" by (simp add: rowState_def same)
  show "j \<noteq> w_id row \<Longrightarrow> getWithdrawalById j d' = getWithdrawalById j d"
    unfolding same d1 using others_update [of _ "w_id row" d "\<lambda>_. True"]
    by (cases "getWithdrawalById j d")
      (auto simp: getWithdrawalById_update completedRow_def dest: getWithdrawalById_Some)
  show "vault_users d' = vault_users d" "vault_deposits d' = vault_deposits d"
    by (simp_all add: d'_def completedDb_def Let_def d1_def [symmetric] d1)
  have u: "findUserRow (w_telegramId w) ?d0 \<noteq> None"
    using withdrawal_user [OF assms(1,2)] by (simp add: findUserRow_def)
  have "is_double (- w_sharesBurned w)"
    using withdrawal_row_ok [OF assms(1,2)] by (simp add: row_ok_def is_double_uminus)
  from ledger.post_bal [OF this ledger.post_ok [OF u]]
  show "getShares v d' = (if v = w_telegramId row then nadd (getShares v d) (- w_sharesBurned row) else getShares v d)"
    unfolding same d1 using assms(3,4) by (simp add: getShares_def findShares_def)
  have "postings (insertNavSnapshot r d1) = postings d" for r by (rule postings_cong) (simp add: d1)
  then show "postings d' = postings d @ [(w_telegramId row, - w_sharesBurned row)]"
    by (simp add: d'_def completedDb_def Let_def d1_def [symmetric] postings_writeAudit auditDelta_def numField_def)
qed

lemma settled_completedDb:
  assumes "settled (w_id row) Processing (Some g) d0 d" "getWithdrawalById (w_id row) d = Some w"
    "w_telegramId w = w_telegramId row" "w_sharesBurned w = w_sharesBurned row"
  shows "settled (w_id row) Completed (Some g) d0 (completedDb c e row q g d)"
proof -
  let ?d' = "completedDb c e row q g d"
  have "store_wf d" using assms(1) by (simp add: settled_def)
  note parts = completedDb_parts [OF this assms(2-4), where c = c and e = e and q = q and g = g]
  have "ledger_ok d \<longrightarrow> ledger_ok ?d'"
    using parts(6) by (simp add: ledger_ok_def replayed_posting [OF parts(7)])
  then have "others (w_id row) d ?d'" using parts by (simp add: others_def findUserRow_def hasDeposit_def)
  then show ?thesis using assms(1) parts others_trans by (auto simp: settled_def)
qed

section \<open>One withdrawal\<close>

text \<open>The environment: other tasks only evolve the database, and a confirmed transfer has a nonempty
  signature. It is \<open>honest\<close> when a transfer that was reported as failed did not land.\<close>

definition calmExec :: "ExecEnv \<Rightarrow> bool" where
  "calmExec e \<longleftrightarrow> (\<forall>d. evolves d (ee_meanwhile1 e d)) \<and> (\<forall>d. evolves d (ee_meanwhile2 e d)) \<and>
     (\<forall>d. evolves d (ee_meanwhile3 e d)) \<and> (\<forall>d. evolves d (ee_meanwhile4 e d)) \<and>
     (\<forall>dst s b g. ee_transfer e dst s b = Inr g \<longrightarrow> g \<noteq> [])"

definition honest :: "ExecEnv \<Rightarrow> bool" where
  "honest e \<longleftrightarrow> ee_landed e = None"

text \<open>The three ways a confirmed transfer is recorded.\<close>

definition recorded :: "int \<Rightarrow> string \<Rightarrow> unit result \<Rightarrow> db \<Rightarrow> db \<Rightarrow> bool" where
  "recorded i g r d0 d \<longleftrightarrow>
     r = Inr () \<and> (settled i Processing None d0 d \<or> settled i Completed (Some g) d0 d) \<or>
     isl r \<and> settled i Processing (Some g) d0 d"

definition unpaid :: "int \<Rightarrow> unit result \<Rightarrow> db \<Rightarrow> db \<Rightarrow> bool" where
  "unpaid i r d0 d \<longleftrightarrow> r = Inr () \<and> settled i Failed None d0 d \<or> isl r \<and> settled i Processing None d0 d"

lemma evolves_exec_audits [intro]:
  "evolves d (syncFailedAudit e row g err stage d)" "evolves d (failedAudit e row reason d)"
  by (auto simp: syncFailedAudit_def failedAudit_def postingEvents_def)

lemma settled_failedAudit: "settled i Failed None d0 d \<Longrightarrow> settled i Failed None d0 (failedAudit e row reason d)"
  using evolves_exec_audits(2) [of d e row reason] others_trans evolves_others
  by (fastforce simp: settled_def failedAudit_def rowState_def getWithdrawalById_def)

lemma settle_outcome:
  assumes "holding w d0 d" "w_status w = Processing" "w_txSig w = None" "settle c e w q g d = (r, d')"
  shows "recorded (w_id w) g r d0 d'"
proof (cases "ee_markFault e")
  case (Some err)
  have "settled (w_id w) Processing None d0 d" using holding_settled [OF assms(1)] assms by simp
  then have "settled (w_id w) Processing None d0 (syncFailedAudit e w g err stage d)" for stage
    by (rule evolves_settled) auto
  with assms(4) Some show ?thesis by (auto simp: settle_def dbFault_def exn_simps recorded_def)
next
  case None
  have h: "settled (w_id w) Processing None d0 d" using holding_settled [OF assms(1)] assms by simp
  obtain d1 where d1: "markWithdrawalSent (w_id w) g d = (Inr (), d1)"
    using settled_sent(1) [OF h, of g] by (cases "markWithdrawalSent (w_id w) g d") auto
  then have sent: "settled (w_id w) Processing (Some g) d0 d1" using settled_sent(2) [OF h, of g] by simp
  then have wf: "store_wf d1" by (simp add: settled_def)
  have "getWithdrawalById (w_id w) (snd (markWithdrawalSent (w_id w) g d)) = Some (w\<lparr>w_txSig := Some g\<rparr>)"
    using assms(1,3) by (simp add: holding_def markWithdrawalSent_def Let_def getWithdrawalById_update)
  then have row: "getWithdrawalById (w_id w) d1 = Some (w\<lparr>w_txSig := Some g\<rparr>)" using d1 by simp
  have run: "settle c e w q g d = tryCatch (completeTx c e w q g)
      (\<lambda>reason. andThen (modify (syncFailedAudit e w g reason ''completeWithdrawal''))
         (\<lambda>_. throw (''withdrawal #'' @ bigToString (w_id w) @ '' db sync failed after transfer: '' @ reason))) d1"
    using None d1 by (simp add: settle_def dbFault_def andThen_def ret_def)
  show ?thesis
  proof (cases "ee_completeFault e")
    case None
    have "settled (w_id w) Completed (Some g) d0 (completedDb c e w q g d1)"
      using settled_completedDb [OF sent row] by simp
    with run None completeTx_run [OF wf] row assms(4) show ?thesis by (simp add: exn_simps recorded_def)
  next
    case (Some err)
    have "settled (w_id w) Processing (Some g) d0 (syncFailedAudit e w g err stage d1)" for stage
      using sent by (rule evolves_settled) auto
    with run Some completeTx_run [OF wf] row assms(4) show ?thesis by (auto simp: exn_simps recorded_def)
  qed
qed

lemma payWithdrawal_outcome:
  assumes "calmExec e" "holding w d0 d" "w_status w = Processing" "w_txSig w = None"
    "payWithdrawal c e w q (d, ps) = (r, (d', ps'))"
  shows "(\<exists>reason. ee_transfer e (w_destination w) (q_needSol q) (q_needBert q) = Inl reason) \<and>
      ps' = ps @ (case ee_landed e of None \<Rightarrow> [] | Some g \<Rightarrow> [payoutOf w q g]) \<and> unpaid (w_id w) r d0 d' \<or>
    (\<exists>g. ee_transfer e (w_destination w) (q_needSol q) (q_needBert q) = Inr g \<and> ps' = ps @ [payoutOf w q g] \<and>
      recorded (w_id w) g r d0 d')"
proof -
  let ?d = "ee_meanwhile4 e d"
  have h: "holding w d0 ?d"
    by (rule evolves_holding [OF assms(2,3)]) (use assms(1) in \<open>simp add: calmExec_def\<close>)
  show ?thesis
  proof (cases "ee_transfer e (w_destination w) (q_needSol q) (q_needBert q)")
    case (Inl reason)
    have "settled (w_id w) Processing None d0 ?d" using holding_settled [OF h] assms by simp
    then have "settled (w_id w) Failed None d0 (failedAudit e w reason (failWithdrawal (w_id w) reason (ee_now e) ?d))"
      by (intro settled_failedAudit settled_fail)
    with Inl assms(5) show ?thesis by (auto simp: payWithdrawal_def exn_simps unpaid_def split: option.splits)
  next
    case (Inr g)
    obtain r1 d1 where s: "settle c e w q g ?d = (r1, d1)" by (cases "settle c e w q g ?d")
    with Inr assms(5) have "r = r1" "d' = d1" "ps' = ps @ [payoutOf w q g]"
      by (auto simp: payWithdrawal_def exn_simps)
    with settle_outcome [OF h assms(3,4) s] Inr show ?thesis by auto
  qed
qed

lemma find_in_status:
  assumes "store_wf d"
  shows "find (\<lambda>r. w_id r = i) (listWithdrawalsByStatus k d) =
    (case getWithdrawalById i d of Some w \<Rightarrow> if w_status w = k then Some w else None | None \<Rightarrow> None)"
proof -
  let ?ws = "rows (vault_withdrawals d)"
  have d: "distinct (map w_id (sort_key w_id (filter (\<lambda>w. w_status w = k) ?ws)))"
  proof -
    have "distinct (map w_id (filter (\<lambda>w. w_status w = k) ?ws))"
      using store_wfD(4) [OF assms] by (rule distinct_map_filter)
    then show ?thesis by (metis distinct_map distinct_sort set_sort)
  qed
  show ?thesis
  proof (cases "\<exists>w. getWithdrawalById i d = Some w \<and> w_status w = k")
    case True
    then obtain w where w: "getWithdrawalById i d = Some w" "w_status w = k" by blast
    then have "w \<in> set (listWithdrawalsByStatus k d)" "w_id w = i"
      by (auto simp: listWithdrawalsByStatus_def dest: getWithdrawalById_Some)
    with find_key_in [OF d, of w] w show ?thesis by (simp add: listWithdrawalsByStatus_def)
  next
    case False
    have "find (\<lambda>r. w_id r = i) (listWithdrawalsByStatus k d) = None"
      using False getWithdrawalById_in [OF assms] by (auto simp: find_None_iff_ball listWithdrawalsByStatus_def)
    with False show ?thesis by (auto split: option.splits)
  qed
qed

lemma ensureReserves_outcome:
  assumes "calmExec e" "holding w d0 d" "w_status w = Processing" "ensureReserves c e bal q (d, ps) = (r, (d', ps'))"
  shows "holding w d0 d' \<and> ps' = ps"
proof -
  have h: "holding w d0 (ee_meanwhile3 e d)"
    by (rule evolves_holding [OF assms(2,3)]) (use assms(1) in \<open>simp add: calmExec_def\<close>)
  show ?thesis
    using assms(4) h assms(2)
    by (cases "ee_balances2 e"; cases "ee_partialClose e (if q_needSol q > spendable (ec_reserveSolLamports c) (fst bal)
          then q_needSol q - spendable (ec_reserveSolLamports c) (fst bal) else 0)
          (if q_needBert q > snd bal then q_needBert q - snd bal else 0)")
      (auto simp: ensureReserves_def Let_def exn_simps split: if_splits)
qed

text \<open>The whole of \<open>processOne\<close>: the row is left failed or the call throws with nothing paid, or the one
  transfer of this withdrawal is on chain and recorded.\<close>

definition processed :: "ExecEnv \<Rightarrow> VaultWithdrawal \<Rightarrow> payout list \<Rightarrow> unit result \<Rightarrow> db \<Rightarrow> db \<Rightarrow> payout list \<Rightarrow> bool" where
  "processed e w ps r d0 d' ps' \<longleftrightarrow>
     ps' = ps \<and> unpaid (w_id w) r d0 d' \<or>
     (\<exists>q g. ps' = ps @ [payoutOf w q g] \<and>
        (ee_landed e = Some g \<and> unpaid (w_id w) r d0 d' \<or>
         ee_transfer e (w_destination w) (q_needSol q) (q_needBert q) = Inr g \<and> recorded (w_id w) g r d0 d'))"

lemma payWithdrawal_processed:
  assumes "calmExec e" "holding w d0 d" "w_status w = Processing" "w_txSig w = None"
    "payWithdrawal c e w q (d, ps) = (r, (d', ps'))"
  shows "processed e w ps r d0 d' ps'"
  using payWithdrawal_outcome [OF assms] by (cases "ee_landed e") (auto simp: processed_def)

lemma unpaid_thrown:
  "holding w d0 d \<Longrightarrow> w_status w = Processing \<Longrightarrow> w_txSig w = None \<Longrightarrow> unpaid (w_id w) (Inl x) d0 d"
  using holding_settled [of w d0 d] by (simp add: unpaid_def)

lemma unpaid_failed:
  assumes "holding w d0 d" "w_status w = Processing" "w_txSig w = None"
  shows "unpaid (w_id w) (Inr ()) d0 (failWithdrawal (w_id w) reason t d)"
  using settled_fail [OF holding_settled [OF assms(1), unfolded assms]] by (simp add: unpaid_def)

text \<open>The calls before the reserves are checked: one of them rejects, or there is a quote.\<close>

lemma quote_cases:
  obtains (bad) x where "\<And>ps. processRow c e mid w (d, ps) = (Inl x, (ee_meanwhile2 e d, ps))"
  | (ok) bal pos q where "ee_balances e = Inr bal" "ee_positionValue e = Inr pos"
      "quoteWithdrawal c mid bal pos w (ee_meanwhile2 e d) = Inr q"
proof (cases "ee_balances e")
  case (Inl x)
  then show ?thesis by (intro bad [of x]) (simp add: processRow_def exn_simps)
next
  case bal: (Inr bal)
  show ?thesis
  proof (cases "ee_positionValue e")
    case (Inl x)
    with bal show ?thesis by (intro bad [of x]) (simp add: processRow_def exn_simps)
  next
    case pos: (Inr pos)
    show ?thesis
    proof (cases "quoteWithdrawal c mid bal pos w (ee_meanwhile2 e d)")
      case (Inl x)
      with bal pos show ?thesis by (intro bad [of x]) (simp add: processRow_def exn_simps)
    qed (use ok bal pos in blast)
  qed
qed

lemma processRow_outcome:
  assumes e: "calmExec e" and h: "holding w d0 d" "w_status w = Processing" "w_txSig w = None"
    and run: "processRow c e mid w (d, ps) = (r, (d', ps'))"
  shows "processed e w ps r d0 d' ps'"
proof -
  let ?d = "ee_meanwhile2 e d"
  have h2: "holding w d0 ?d" by (rule evolves_holding [OF h(1,2)]) (use e in \<open>simp add: calmExec_def\<close>)
  show ?thesis
  proof (cases rule: quote_cases [of c e mid w d])
    case (bad x)
    then show ?thesis using run unpaid_thrown [OF h2 h(2,3)] by (auto simp: processed_def)
  next
    case (ok bal pos q)
    obtain r3 d3 ps3 where res: "ensureReserves c e bal q (?d, ps) = (r3, (d3, ps3))"
      by (cases "ensureReserves c e bal q (?d, ps)") auto
    note h3 = ensureReserves_outcome [OF e h2 h(2) res]
    consider x where "r3 = Inl x" | "r3 = Inr True" | "r3 = Inr False"
      by (cases r3; cases "projr r3") auto
    then show ?thesis
    proof cases
      case 2
      then have "payWithdrawal c e w q (d3, ps) = (r, (d', ps'))"
        using run ok res h3 by (simp add: processRow_def exn_simps)
      with payWithdrawal_processed [OF e _ h(2,3)] h3 show ?thesis by blast
    qed (use run ok res h3 h unpaid_thrown [of w d0 d3] unpaid_failed [of w d0 d3] in
        \<open>auto simp: processRow_def exn_simps processed_def\<close>)
  qed
qed

lemma processOne_outcome:
  assumes e: "calmExec e" and h: "holding w d0 d" "w_status w = Processing" "w_txSig w = None"
    and run: "processOne c e (w_id w) (d, ps) = (r, (d', ps'))"
  shows "processed e w ps r d0 d' ps'"
proof -
  let ?d = "ee_meanwhile1 e d" and ?i = "w_id w"
  have h1: "holding w d0 ?d" by (rule evolves_holding [OF h(1,2)]) (use e in \<open>simp add: calmExec_def\<close>)
  have row: "find (\<lambda>r. w_id r = ?i) (listWithdrawalsByStatus Processing ?d) = Some w"
    using h1 h(2) by (simp add: find_in_status holding_def)
  consider (err) x where "ee_getMid e = Inl x" | (none) "ee_getMid e = Inr None"
    | (mid) mid where "ee_getMid e = Inr (Some mid)"
    by (cases "ee_getMid e"; cases "projr (ee_getMid e)") auto
  then show ?thesis
  proof cases
    case mid
    then have "processRow c e mid w (?d, ps) = (r, (d', ps'))"
      using run row by (simp add: processOne_def exn_simps)
    then show ?thesis by (rule processRow_outcome [OF e h1 h(2,3)])
  qed (use run unpaid_thrown [OF h1 h(2,3)] unpaid_failed [OF h1 h(2,3)] in
      \<open>auto simp: processOne_def exn_simps processed_def\<close>)
qed

section \<open>Draining\<close>

text \<open>One round of the loop always returns, and leaves the row failed, or paid and no longer queued.\<close>

definition drainOne :: "ExecCfg \<Rightarrow> ExecEnv \<Rightarrow> int \<Rightarrow> unit execm" where
  "drainOne c e i =
     andThen (onDb (modify (setWithdrawalProcessing i))) (\<lambda>_.
       tryCatch (processOne c e i) (\<lambda>err. onDb (modify (onProcessError e i err))))"

lemma drainRows_Cons: "drainRows c env (w # ws) = andThen (drainOne c (env (w_id w)) (w_id w)) (\<lambda>_. drainRows c env ws)"
  by (simp add: drainOne_def andThen_def fun_eq_iff split: prod.splits sum.splits)

lemma onProcessError_unsent:
  assumes "settled i Processing None d0 d" shows "settled i Failed None d0 (onProcessError e i err d)"
proof -
  have "settled i Failed None d0 (failWithdrawal i (''unexpected: '' @ err) (ee_catchNow e) d)"
    using assms by (rule settled_fail)
  then show ?thesis using assms
    by (auto simp: onProcessError_def settled_def rowState_def truthy_def split: option.splits)
qed

lemma onProcessError_sent:
  "settled i Processing (Some g) d0 d \<Longrightarrow> g \<noteq> [] \<Longrightarrow> onProcessError e i err d = d"
  by (auto simp: onProcessError_def settled_def rowState_def truthy_def)

definition drained :: "ExecEnv \<Rightarrow> VaultWithdrawal \<Rightarrow> payout list \<Rightarrow> db \<Rightarrow> db \<Rightarrow> payout list \<Rightarrow> bool" where
  "drained e w ps d0 d' ps' \<longleftrightarrow>
     ps' = ps \<and> settled (w_id w) Failed None d0 d' \<or>
     (\<exists>q g. ps' = ps @ [payoutOf w q g] \<and>
        (ee_landed e = Some g \<and> settled (w_id w) Failed None d0 d' \<or>
         ee_transfer e (w_destination w) (q_needSol q) (q_needBert q) = Inr g \<and>
           (settled (w_id w) Processing None d0 d' \<or> settled (w_id w) Processing (Some g) d0 d' \<or>
            settled (w_id w) Completed (Some g) d0 d')))"

lemma processed_drained:
  assumes "calmExec e" "processed e w ps r d0 d1 ps'" "w_status w = Processing"
  defines "d' \<equiv> (case r of Inl err \<Rightarrow> onProcessError e (w_id w) err d1 | Inr _ \<Rightarrow> d1)"
  shows "drained e w ps d0 d' ps'"
proof -
  have unpaid: "settled (w_id w) Failed None d0 d'" if "unpaid (w_id w) r d0 d1"
    using that onProcessError_unsent by (cases r) (auto simp: unpaid_def d'_def)
  have recorded: "settled (w_id w) Processing None d0 d' \<or> settled (w_id w) Processing (Some g) d0 d' \<or>
      settled (w_id w) Completed (Some g) d0 d'" if "recorded (w_id w) g r d0 d1" "g \<noteq> []" for g
    using that onProcessError_sent by (cases r) (auto simp: recorded_def d'_def)
  have "g \<noteq> []" if "ee_transfer e dst s b = Inr g" for dst s b g
    using assms(1) that by (simp add: calmExec_def)
  with unpaid recorded assms(2) show ?thesis unfolding processed_def drained_def by blast
qed

lemma drainOne_outcome:
  assumes e: "calmExec e" and wf: "store_wf d" and w: "getWithdrawalById (w_id w) d = Some w" "w_status w = Queued"
    and run: "drainOne c e (w_id w) (d, ps) = (r, (d', ps'))"
  shows "r = Inr () \<and> drained e w ps d d' ps'"
proof -
  let ?i = "w_id w" and ?d = "setWithdrawalProcessing (w_id w) d" and ?w = "w\<lparr>w_status := Processing\<rparr>"
  have none: "w_txSig w = None" using withdrawal_row_ok [OF wf w(1)] w(2) by (simp add: row_ok_def)
  have "settled ?i Processing None d ?d"
    using wf w none by (intro settled_start) (simp add: settled_def rowState_def)
  then have h: "holding ?w d ?d"
    using w by (simp add: holding_def settled_def setWithdrawalProcessing_def getWithdrawalById_update)
  obtain r1 d1 ps1 where p: "processOne c e ?i (?d, ps) = (r1, (d1, ps1))" by (metis prod.exhaust)
  have "processed e ?w ps r1 d d1 ps1" using processOne_outcome [OF e h] none p by simp
  from processed_drained [OF e this]
  have "drained e ?w ps d (case r1 of Inl err \<Rightarrow> onProcessError e ?i err d1 | Inr _ \<Rightarrow> d1) ps1"
    by (cases r1) simp_all
  moreover have run_eq: "drainOne c e ?i (d, ps) =
      (Inr (), (case r1 of Inl err \<Rightarrow> onProcessError e ?i err d1 | Inr _ \<Rightarrow> d1, ps1))"
    using p by (cases r1) (simp_all add: drainOne_def exn_simps)
  moreover have "payoutOf ?w q g = payoutOf w q g" for q g by (simp add: payoutOf_def)
  moreover have "r = Inr ()" "ps' = ps1" "d' = (case r1 of Inl err \<Rightarrow> onProcessError e ?i err d1 | Inr _ \<Rightarrow> d1)"
    using run_eq run by (cases r1; simp)+
  ultimately show ?thesis by (simp add: drained_def)
qed

lemma drained_others: "drained e w ps d0 d' ps' \<Longrightarrow> store_wf d' \<and> others (w_id w) d0 d'"
  by (auto simp: drained_def settled_def)

text \<open>Which payouts are safe: at most one per withdrawal, and its row is not open to another one.\<close>

definition paidRow :: "db \<Rightarrow> int \<Rightarrow> bool" where
  "paidRow d i \<longleftrightarrow> (\<exists>k g. rowState d i = Some (k, g) \<and> (k = Processing \<or> k = Completed))"

definition payoutsSafe :: "db \<Rightarrow> payout list \<Rightarrow> bool" where
  "payoutsSafe d ps \<longleftrightarrow> distinct (map po_id ps) \<and> (\<forall>p\<in>set ps. paidRow d (po_id p))"

lemma paidRow_row_evolves:
  "paidRow d i \<Longrightarrow> row_evolves (getWithdrawalById i d) (getWithdrawalById i d') \<Longrightarrow> paidRow d' i"
  by (auto simp: paidRow_def rowState_def row_evolves_def)

lemma payoutsSafe_evolves: "store_wf d \<Longrightarrow> evolves d d' \<Longrightarrow> payoutsSafe d ps \<Longrightarrow> payoutsSafe d' ps"
  using paidRow_row_evolves by (auto simp: payoutsSafe_def evolves_def)

lemma payoutsSafe_drained:
  assumes "honest e" "payoutsSafe d ps" "getWithdrawalById (w_id w) d = Some w" "w_status w = Queued"
    "drained e w ps d d' ps'"
  shows "payoutsSafe d' ps'"
proof -
  have new: "w_id w \<notin> po_id ` set ps" using assms(2-4) by (auto simp: payoutsSafe_def paidRow_def rowState_def)
  have o: "others (w_id w) d d'" using drained_others [OF assms(5)] by simp
  have old: "paidRow d' (po_id p)" if "p \<in> set ps" for p
  proof (rule paidRow_row_evolves)
    show "paidRow d (po_id p)" using that assms(2) by (simp add: payoutsSafe_def)
    have "po_id p \<noteq> w_id w" using that new by (metis image_eqI)
    with o show "row_evolves (getWithdrawalById (po_id p) d) (getWithdrawalById (po_id p) d')"
      by (simp add: others_def)
  qed
  have "settled (w_id w) Processing g d d' \<Longrightarrow> paidRow d' (w_id w)"
    "settled (w_id w) Completed g d d' \<Longrightarrow> paidRow d' (w_id w)" for g
    by (auto simp: paidRow_def settled_def)
  then show ?thesis
    using assms(1,2,5) new old
    by (auto simp: drained_def payoutsSafe_def payoutOf_def honest_def)
qed

definition queuedRows :: "VaultWithdrawal list \<Rightarrow> db \<Rightarrow> bool" where
  "queuedRows ws d \<longleftrightarrow> distinct (map w_id ws) \<and>
     (\<forall>w\<in>set ws. getWithdrawalById (w_id w) d = Some w \<and> w_status w = Queued)"

lemma queuedRows_others:
  assumes "queuedRows (w # ws) d" "others (w_id w) d d'" shows "queuedRows ws d'"
proof -
  have "getWithdrawalById (w_id v) d' = Some v" if "v \<in> set ws" for v
  proof -
    have v: "w_id v \<noteq> w_id w" "getWithdrawalById (w_id v) d = Some v" "w_status v = Queued"
      using that assms(1) unfolding queuedRows_def by force+
    have "row_evolves (getWithdrawalById (w_id v) d) (getWithdrawalById (w_id v) d')"
      using assms(2) v(1) unfolding others_def by blast
    with v show ?thesis by (simp add: row_evolves_def)
  qed
  with assms(1) show ?thesis by (simp add: queuedRows_def)
qed

lemma queuedRows_list:
  assumes "store_wf d" shows "queuedRows (listWithdrawalsByStatus Queued d) d"
proof -
  have "distinct (map w_id (filter (\<lambda>w. w_status w = Queued) (rows (vault_withdrawals d))))"
    using store_wfD(4) [OF assms] by (rule distinct_map_filter)
  then have "distinct (map w_id (listWithdrawalsByStatus Queued d))"
    unfolding listWithdrawalsByStatus_def by (metis distinct_map distinct_sort set_sort)
  then show ?thesis
    using getWithdrawalById_in [OF assms] by (auto simp: queuedRows_def listWithdrawalsByStatus_def)
qed

lemma drainRows_outcome:
  assumes "\<And>i. calmExec (env i)" "\<And>i. honest (env i)"
  shows "store_wf d \<Longrightarrow> payoutsSafe d ps \<Longrightarrow> queuedRows ws d \<Longrightarrow>
    \<exists>d' ps'. drainRows c env ws (d, ps) = (Inr (), (d', ps @ ps')) \<and> store_wf d' \<and> payoutsSafe d' (ps @ ps') \<and>
      (ledger_ok d \<longrightarrow> ledger_ok d') \<and> set (map po_id ps') \<subseteq> set (map w_id ws) \<and>
      (\<forall>p\<in>set ps'. \<exists>w\<in>set ws. po_id p = w_id w \<and> po_destination p = w_destination w)"
proof (induction ws arbitrary: d ps)
  case Nil
  then show ?case by (simp add: exn_simps)
next
  case (Cons w ws)
  have w: "getWithdrawalById (w_id w) d = Some w" "w_status w = Queued"
    using Cons.prems(3) by (auto simp: queuedRows_def)
  obtain r d1 ps1 where run: "drainOne c (env (w_id w)) (w_id w) (d, ps) = (r, (d1, ps1))" by (metis prod.exhaust)
  note one = drainOne_outcome [OF assms(1) Cons.prems(1) w run]
  then have d1: "store_wf d1" "others (w_id w) d d1" using drained_others by blast+
  have safe: "payoutsSafe d1 ps1"
    using payoutsSafe_drained [OF assms(2) Cons.prems(2) w] one by blast
  have q: "queuedRows ws d1" using queuedRows_others [OF Cons.prems(3) d1(2)] .
  obtain new where new: "ps1 = ps @ new" "set (map po_id new) \<subseteq> {w_id w}"
      "\<forall>p\<in>set new. po_id p = w_id w \<and> po_destination p = w_destination w"
    using one by (auto simp: drained_def payoutOf_def)
  obtain d' ps' where rest: "drainRows c env ws (d1, ps1) = (Inr (), (d', ps1 @ ps'))" "store_wf d'"
      "payoutsSafe d' (ps1 @ ps')" "ledger_ok d1 \<longrightarrow> ledger_ok d'" "set (map po_id ps') \<subseteq> set (map w_id ws)"
      "\<forall>p\<in>set ps'. \<exists>w\<in>set ws. po_id p = w_id w \<and> po_destination p = w_destination w"
    using Cons.IH [OF d1(1) safe q] by blast
  have "drainRows c env (w # ws) (d, ps) = (Inr (), (d', ps @ (new @ ps')))"
    using run one rest(1) new(1) by (simp add: drainRows_Cons exn_simps del: drainRows.simps)
  moreover have "ledger_ok d \<longrightarrow> ledger_ok d1" using d1(2) by (simp add: others_def)
  ultimately show ?case using rest new by (intro exI [of _ d'] exI [of _ "new @ ps'"]) auto
qed

section \<open>Reserves\<close>

definition fits :: "ExecCfg \<Rightarrow> int \<times> int \<Rightarrow> Quote \<Rightarrow> bool" where
  "fits c bal q \<longleftrightarrow> q_needSol q \<le> spendable (ec_reserveSolLamports c) (fst bal) \<and> q_needBert q \<le> snd bal"

lemma ensureReserves_log:
  assumes "ensureReserves c e bal q (d, ps) = (r, (d', ps'))"
  shows "ps' = ps" and "r = Inr True \<Longrightarrow> fits c bal q \<or> (\<exists>bal2. ee_balances2 e = Inr bal2 \<and> fits c bal2 q)"
  using assms
  by (cases "ee_balances2 e"; cases "ee_partialClose e (if q_needSol q > spendable (ec_reserveSolLamports c) (fst bal)
          then q_needSol q - spendable (ec_reserveSolLamports c) (fst bal) else 0)
          (if q_needBert q > snd bal then q_needBert q - snd bal else 0)";
      auto simp: ensureReserves_def Let_def exn_simps fits_def split: if_splits)+

lemma payWithdrawal_log:
  assumes "payWithdrawal c e w q (d, ps) = (r, (d', ps'))"
  shows "ps' = ps \<or> (\<exists>g. ps' = ps @ [payoutOf w q g])"
proof (cases "ee_transfer e (w_destination w) (q_needSol q) (q_needBert q)")
  case (Inl reason)
  with assms show ?thesis by (cases "ee_landed e") (auto simp: payWithdrawal_def exn_simps)
next
  case (Inr g)
  obtain r1 d1 where "settle c e w q g (ee_meanwhile4 e d) = (r1, d1)" by (metis prod.exhaust)
  with Inr assms show ?thesis by (auto simp: payWithdrawal_def exn_simps)
qed

lemma processRow_log:
  assumes "processRow c e mid row (d, ps) = (r, (d', ps'))" "ps' \<noteq> ps"
  shows "\<exists>q g bal. ps' = ps @ [payoutOf row q g] \<and> (ee_balances e = Inr bal \<or> ee_balances2 e = Inr bal) \<and> fits c bal q"
proof -
  let ?d = "ee_meanwhile2 e d"
  obtain bal pos q where ok: "ee_balances e = Inr bal" "ee_positionValue e = Inr pos"
      "quoteWithdrawal c mid bal pos row ?d = Inr q"
    using assms by (cases rule: quote_cases [of c e mid row d]) auto
  obtain r3 d3 ps3 where res: "ensureReserves c e bal q (?d, ps) = (r3, (d3, ps3))" by (metis prod.exhaust)
  have "ps3 = ps" by (rule ensureReserves_log(1) [OF res])
  with assms(1) ok res have run: "(case r3 of Inl x \<Rightarrow> (Inl x, (d3, ps)) | Inr enough \<Rightarrow>
      (if enough then payWithdrawal c e row q
       else onDb (modify (failWithdrawal (w_id row) ''reserves_insufficient'' (ee_now e)))) (d3, ps)) = (r, (d', ps'))"
    by (cases r3) (simp_all add: processRow_def exn_simps)
  then have "r3 = Inr True" using assms(2) by (auto simp: exn_simps split: sum.splits if_splits)
  with run have pay: "r3 = Inr True" "payWithdrawal c e row q (d3, ps) = (r, (d', ps'))" by simp_all
  with payWithdrawal_log [OF pay(2)] ensureReserves_log(2) [OF res] assms(2) ok(1) show ?thesis by blast
qed

section \<open>Properties\<close>

text \<open>A user with shares and a queued withdrawal, and an environment in which everything succeeds.\<close>

definition queue_demo :: db where
  "queue_demo = snd (enqueueWithdrawal 7 ''dest'' 10 1 5 (snd (addShares 7 100 user_demo)))"

definition exec_demo :: ExecEnv where
  "exec_demo = \<lparr>ee_now = 10, ee_getMid = Inr (Some (1/2, 1/2)), ee_balances = Inr (1000000000, 0),
     ee_positionValue = Inr 100, ee_partialClose = (\<lambda>_ _. Inr ()), ee_balances2 = Inr (20000000000, 20000000),
     ee_transfer = (\<lambda>_ _ _. Inr ''sig''), ee_landed = None, ee_markFault = None, ee_completeFault = None,
     ee_catchNow = 11, ee_meanwhile1 = (\<lambda>d. d), ee_meanwhile2 = (\<lambda>d. d), ee_meanwhile3 = (\<lambda>d. d),
     ee_meanwhile4 = (\<lambda>d. d)\<rparr>"

definition execcfg_demo :: ExecCfg where
  "execcfg_demo = \<lparr>ec_reserveSolLamports = 1000000000, ec_sqlSum = sum_list\<rparr>"

lemma is_double_numeral: "is_double (numeral n)" if "(numeral n :: nat) < 2 ^ 53"
  using that fl_of_int [of "numeral n"] by (simp add: is_double_def)

lemma store_wf_queue_demo: "store_wf queue_demo"
proof -
  have d: "is_double 10" "is_double 100" by (simp_all add: is_double_def)
  have "findUserRow 7 (snd (addShares 7 100 user_demo)) \<noteq> None" by code_simp
  with d show ?thesis
    unfolding queue_demo_def using store_wf_user_demo by (intro store_wf_enqueueWithdrawal store_wf_addShares) auto
qed

lemma exec_demo_ok: "calmExec exec_demo" "honest exec_demo"
  by (simp_all add: calmExec_def honest_def exec_demo_def ev.refl)



text \<open>C8: completing a withdrawal is all or nothing. If the database refuses any part of the transaction, nothing
  of it is visible; otherwise the row is completed with the signature of the transfer, exactly its
  shares are burned from its owner's balance, and the audit log gains exactly that posting.\<close>

theorem completion_atomic:
  assumes "store_wf d" "getWithdrawalById (w_id row) d = Some row"
  shows "case ee_completeFault e of
      Some err \<Rightarrow> completeTx c e row q g d = (Inl err, d)
    | None \<Rightarrow> \<exists>d'. completeTx c e row q g d = (Inr (), d') \<and> store_wf d' \<and>
        rowState d' (w_id row) = Some (Completed, Some g) \<and>
        (\<forall>v. getShares v d' = (if v = w_telegramId row then nadd (getShares v d) (- w_sharesBurned row) else getShares v d)) \<and>
        postings d' = postings d @ [(w_telegramId row, - w_sharesBurned row)]"
  using completeTx_run [OF assms(1), of row c e q g] assms(2)
    completedDb_parts [OF assms refl refl, where c = c and e = e and q = q and g = g]
  by (auto split: option.splits)

theorem completion_atomic_witness:
  "case ee_completeFault exec_demo of
      Some err \<Rightarrow> completeTx execcfg_demo exec_demo (hd (rows (vault_withdrawals queue_demo)))
        \<lparr>q_navPerShare = 1, q_netShares = 9, q_usdOwed = 9, q_needSol = 1, q_needBert = 1\<rparr> ''sig'' queue_demo = (Inl err, queue_demo)
    | None \<Rightarrow> \<exists>d'. completeTx execcfg_demo exec_demo (hd (rows (vault_withdrawals queue_demo)))
        \<lparr>q_navPerShare = 1, q_netShares = 9, q_usdOwed = 9, q_needSol = 1, q_needBert = 1\<rparr> ''sig'' queue_demo = (Inr (), d') \<and>
        store_wf d' \<and>
        rowState d' (w_id (hd (rows (vault_withdrawals queue_demo)))) = Some (Completed, Some ''sig'') \<and>
        (\<forall>v. getShares v d' = (if v = w_telegramId (hd (rows (vault_withdrawals queue_demo)))
           then nadd (getShares v queue_demo) (- w_sharesBurned (hd (rows (vault_withdrawals queue_demo))))
           else getShares v queue_demo)) \<and>
        postings d' = postings queue_demo @ [(w_telegramId (hd (rows (vault_withdrawals queue_demo))),
          - w_sharesBurned (hd (rows (vault_withdrawals queue_demo))))]"
proof (rule completion_atomic [OF store_wf_queue_demo])
  show "getWithdrawalById (w_id (hd (rows (vault_withdrawals queue_demo)))) queue_demo
      = Some (hd (rows (vault_withdrawals queue_demo)))" by code_simp
qed


definition row_demo :: VaultWithdrawal where
  "row_demo = \<lparr>w_id = 1, w_telegramId = 7, w_status = Processing, w_destination = ''dest'', w_sharesBurned = 10,
     w_feeShares = 1, w_navPerShareAt = None, w_solLamportsOut = None, w_bertRawOut = None, w_txSig = None,
     w_failureReason = None, w_queuedAt = 5, w_processedAt = None\<rparr>"

lemma quote_demo:
  "quoteWithdrawal execcfg_demo (1/2, 1/2) (1000000000, 0) 100 row_demo (setWithdrawalProcessing 1 queue_demo) =
     Inr \<lparr>q_navPerShare = 1, q_netShares = 9, q_usdOwed = 9, q_needSol = 9000000000, q_needBert = 9000000\<rparr>"
proof -
  have "totalShares sum_list (setWithdrawalProcessing 1 queue_demo) = 100" by code_simp
  then show ?thesis
    by (simp add: quoteWithdrawal_def execcfg_demo_def spendable_def computeNav_def Let_def row_demo_def
        computeNavPerShare_def usdForShares_def splitUsdIntoTokens_def SOL_DECIMALS_def BERT_DECIMALS_def num_op_defs)
qed

lemma processOne_demo:
  "\<exists>r d' p. processOne execcfg_demo exec_demo 1 (setWithdrawalProcessing 1 queue_demo, []) = (r, (d', [] @ p # []))"
proof -
  have row: "find (\<lambda>r. w_id r = 1) (listWithdrawalsByStatus Processing (setWithdrawalProcessing 1 queue_demo)) = Some row_demo"
    by code_simp
  show ?thesis
    using row quote_demo
    by (simp add: processOne_def processRow_def payWithdrawal_def ensureReserves_def exec_demo_def exn_simps Let_def
        spendable_def execcfg_demo_def onDb_def emit_def split: prod.splits)
qed


end
