(* ===== verification/Vault_Tick.thy ===== *)
theory Vault_Tick
  imports Withdrawal Operator_Commands Rebalancer
begin

text \<open>
  \<open>src/src/vault/tick.ts\<close>: the vault's part of a tick. The state \<open>bot\<close> is that of the whole process: the database,
  the logs of the sweeps, of the payouts and of the effects of the rebalancer, and the variables of the main loop
  (\<open>src/src/main.ts\<close>). A component runs on its own part through \<open>overSweeps\<close>, \<open>overPayouts\<close> and
  \<open>overEffects\<close>. The lemmas show that no failing step stops the others, when payouts are made, and that every
  whitelist change that is due is activated.
\<close>

section \<open>The state of the process\<close>

record 'i bot =
  b_db :: db
  b_sweeps :: "sweep list"
  b_payouts :: "payout list"
  b_effects :: "'i effect list"
  b_priceHistory :: "MidPrice list"
  b_ticksInRange :: nat
  b_ticksTotal :: nat
  b_lastHourlyReport :: int
  b_lastAlerted :: "string option"
  b_heartbeat :: "int option"

type_synonym ('i, 'a) botm = "('i bot, 'a) exn"

definition overSweeps :: "(db \<times> sweep list, 'a) exn \<Rightarrow> ('i, 'a) botm" where
  "overSweeps m s = (case m (b_db s, b_sweeps s) of (r, (d, x)) \<Rightarrow> (r, s\<lparr>b_db := d, b_sweeps := x\<rparr>))"

definition overPayouts :: "(db \<times> payout list, 'a) exn \<Rightarrow> ('i, 'a) botm" where
  "overPayouts m s = (case m (b_db s, b_payouts s) of (r, (d, x)) \<Rightarrow> (r, s\<lparr>b_db := d, b_payouts := x\<rparr>))"

definition overEffects :: "(db \<times> 'i effect list, 'a) exn \<Rightarrow> ('i, 'a) botm" where
  "overEffects m s = (case m (b_db s, b_effects s) of (r, (d, x)) \<Rightarrow> (r, s\<lparr>b_db := d, b_effects := x\<rparr>))"

definition overDb :: "'a dbm \<Rightarrow> ('i, 'a) botm" where
  "overDb m s = (case m (b_db s) of (r, d) \<Rightarrow> (r, s\<lparr>b_db := d\<rparr>))"

section \<open>tick.ts\<close>

record 'i VaultTickDeps =
  vt_isKilled :: bool
  vt_pollAddress :: "string \<Rightarrow> ('i, unit) botm"
  vt_drain :: "('i, unit) botm"
  vt_activateAt :: int
  vt_auditAt :: int

fun pollUsers :: "(string \<Rightarrow> ('i, unit) botm) \<Rightarrow> VaultUser list \<Rightarrow> ('i, unit) botm" where
  "pollUsers poll [] = ret ()"
| "pollUsers poll (u # users) =
     andThen (tryCatch (poll (vu_depositAddress u)) (\<lambda>_. ret ())) (\<lambda>_. pollUsers poll users)"

definition activatedAudit :: "int \<Rightarrow> PendingWhitelistChange \<Rightarrow> db \<Rightarrow> db" where
  "activatedAudit ts row =
     writeAudit ts (Some (c_telegramId row)) ''whitelist_activated''
       (JObj [(''id'', JInt (c_id row)),
              (''oldAddress'', (case c_oldAddress row of None \<Rightarrow> JNull | Some a \<Rightarrow> JStr a)),
              (''newAddress'', JStr (c_newAddress row))])"

definition activationStep :: "int \<Rightarrow> int \<Rightarrow> unit dbm" where
  "activationStep activateAt auditAt =
     tryCatch (andThen (activateDue activateAt) (\<lambda>activated. modify (fold (activatedAudit auditAt) activated)))
       (\<lambda>_. ret ())"

definition drainAllowed :: "bool \<Rightarrow> db \<Rightarrow> bool" where
  "drainAllowed killed d \<longleftrightarrow> \<not> isDegraded d \<and> \<not> killed \<and> \<not> isVaultPaused (\<lambda>k. getFlag k d)"

definition runVaultTick :: "'i VaultTickDeps \<Rightarrow> ('i, unit) botm" where
  "runVaultTick deps =
     andThen (overDb (gets listUsers)) (\<lambda>users.
     andThen (pollUsers (vt_pollAddress deps) users) (\<lambda>_.
     andThen (overDb (gets (drainAllowed (vt_isKilled deps)))) (\<lambda>allowed.
     andThen (if allowed then tryCatch (vt_drain deps) (\<lambda>_. ret ()) else ret ()) (\<lambda>_.
     overDb (activationStep (vt_activateAt deps) (vt_auditAt deps))))))"

definition runVaultPreRebalance :: "(string \<Rightarrow> ('i, unit) botm) \<Rightarrow> ('i, unit) botm" where
  "runVaultPreRebalance poll = andThen (overDb (gets listUsers)) (pollUsers poll)"

definition runVaultPostRebalance :: "bool \<Rightarrow> ('i, unit) botm \<Rightarrow> int \<Rightarrow> int \<Rightarrow> ('i, unit) botm" where
  "runVaultPostRebalance killed drainAll activateAt auditAt =
     andThen (overDb (gets (drainAllowed killed))) (\<lambda>allowed.
     andThen (if allowed then tryCatch drainAll (\<lambda>_. ret ()) else ret ()) (\<lambda>_.
     overDb (activationStep activateAt auditAt)))"

section \<open>Facts\<close>

lemma overDb_run [exn_simps]: "m (b_db s) = (r, d) \<Longrightarrow> overDb m s = (r, s\<lparr>b_db := d\<rparr>)"
  by (simp add: overDb_def)

lemma overDb_gets [exn_simps]: "overDb (gets f) s = (Inr (f (b_db s)), s)"
  by (simp add: overDb_def gets_def)

lemma swallow_run: "tryCatch m (\<lambda>_. ret ()) s = (Inr (), snd (m s))" for m :: "('s, unit) exn"
  by (cases "m s"; cases "fst (m s)") (auto simp: exn_simps)

lemma pollUsers_run:
  "pollUsers poll users s = (Inr (), fold (\<lambda>u s. snd (poll (vu_depositAddress u) s)) users s)"
  by (induction users arbitrary: s) (simp_all add: exn_simps swallow_run)

lemma activationStep_run:
  "activationStep t ts d = (Inr (), fold (activatedAudit ts) (listDueWhitelistChanges t d) (snd (activateDue t d)))"
  by (simp add: activationStep_def activateDue_run exn_simps)

lemma runVaultPostRebalance_run:
  "runVaultPostRebalance killed drainAll t ts s =
     (let s1 = (if drainAllowed killed (b_db s) then snd (drainAll s) else s)
      in (Inr (), s1\<lparr>b_db := snd (activationStep t ts (b_db s1))\<rparr>))"
  by (simp add: runVaultPostRebalance_def exn_simps swallow_run Let_def overDb_def activationStep_run)

lemma fold_activatedAudit:
  "rows (vault_pending_whitelist_changes (fold (activatedAudit ts) rs d)) = rows (vault_pending_whitelist_changes d)"
  "vault_withdrawals (fold (activatedAudit ts) rs d) = vault_withdrawals d"
  by (induction rs arbitrary: d) (simp_all add: activatedAudit_def writeAudit_def)

lemma activationStep_due: "listDueWhitelistChanges t (snd (activationStep t ts d)) = []"
proof -
  have "set (listDueWhitelistChanges t (snd (activationStep t ts d))) = {}"
    by (auto simp: listDueWhitelistChanges_def activationStep_run activateDue_run fold_activatedAudit changes_fold
        in_updateWhere split: if_splits)
  then show ?thesis by simp
qed

lemma fold_activated_withdrawals: "vault_withdrawals (fold (activated t) due d) = vault_withdrawals d"
  by (induction due arbitrary: d) simp_all

lemma activationStep_withdrawals: "vault_withdrawals (snd (activationStep t ts d)) = vault_withdrawals d"
  by (simp add: activationStep_run activateDue_run fold_activatedAudit fold_activated_withdrawals)

lemma evolves_activationStep [intro]: "evolves d (snd (activationStep t ts d))"
proof -
  have step: "evolves d (activatedAudit ts row d)" for row d
    by (auto simp: activatedAudit_def postingEvents_def)
  have "evolves d (fold (activatedAudit ts) rs d)" for rs d
    by (induction rs arbitrary: d) (auto intro: ev.refl ev.trans [OF step])
  then show ?thesis using ev.trans [OF evolves_activateDue [of d t]] by (simp add: activationStep_run)
qed

section \<open>Properties\<close>


text \<open>C29: No failing step stops the tick. Before the rebalance the address of every user is polled, in order,
  whichever polls throw. After it, a drain takes place exactly if the bot is neither degraded nor killed and the
  vault is not paused; otherwise no payout is made and no withdrawal row changes. In every case, also when the
  drain throws, every whitelist change that is due has been activated at the end.\<close>

theorem vault_tick_isolated:
  "runVaultPreRebalance poll s =
     (Inr (), fold (\<lambda>u s. snd (poll (vu_depositAddress u) s)) (listUsers (b_db s)) s)
   \<and> (\<exists>s'. runVaultPostRebalance killed drainAll t ts s = (Inr (), s')
      \<and> listDueWhitelistChanges t (b_db s') = []
      \<and> b_payouts s' = (if drainAllowed killed (b_db s) then b_payouts (snd (drainAll s)) else b_payouts s)
      \<and> vault_withdrawals (b_db s') =
          vault_withdrawals (if drainAllowed killed (b_db s) then b_db (snd (drainAll s)) else b_db s))"
  by (simp add: runVaultPreRebalance_def exn_simps pollUsers_run runVaultPostRebalance_run Let_def activationStep_due
      activationStep_withdrawals)

end
