(* ===== verification/Main_Loop.thy ===== *)
theory Main_Loop
  imports Vault_Tick
begin

text \<open>
  The main loop of \<open>src/src/main.ts\<close>: the closures that connect the components, one tick, and the hourly report.
  \<open>TickEnv\<close> holds what the awaited calls of one tick return. The endless loop is a list of ticks. The text of a
  decision is compared as the string it is rendered to; \<open>render\<close> stands for the number formatting of the
  language.
\<close>

section \<open>Configuration and environment\<close>

record MainCfg =
  mc_enabled :: bool
  mc_vault :: bool
  mc_oracleDivergenceBps :: rat
  mc_params :: StrategyParams
  mc_reb :: RebConfig
  mc_pipeline :: PipelineCfg
  mc_exec :: ExecCfg
  mc_render :: "frag list \<Rightarrow> string"

record ReportEnv =
  rp_balances1 :: "(int \<times> int) result"
  rp_balances2 :: "(int \<times> int) result"
  rp_balances3 :: "(int \<times> int) result"
  rp_volume :: "(rat \<times> rat) option result"

record 'i TickEnv =
  te_tickStart :: int
  te_killFile :: bool
  te_liveEnabled :: "bool result"
  te_samples :: "PriceSample option result list"
  te_watcher :: "string \<Rightarrow> WatcherEnv"
  te_inflow :: "InflowEvent \<Rightarrow> PipelineEnv"
  te_getPosition :: "string \<Rightarrow> rat \<Rightarrow> PositionSnapshot option result"
  te_meanwhile :: "db \<Rightarrow> db"
  te_rebalance :: "'i RebEnv"
  te_exec :: "int \<Rightarrow> ExecEnv"
  te_activateAt :: int
  te_auditAt :: int
  te_report :: ReportEnv
  te_heartbeatFault :: "js_error option"

section \<open>The closures of main.ts\<close>

definition MAX_HISTORY_SAMPLES :: nat where
  "MAX_HISTORY_SAMPLES = 120"

text \<open>\<open>getMid\<close>: the most recent trusted price.\<close>

definition lastMid :: "MidPrice list \<Rightarrow> (rat \<times> rat) option" where
  "lastMid history = (if history = [] then None else Some (mp_solUsd (last history), mp_bertUsd (last history)))"

text \<open>\<open>getNavPerShare\<close> of the deposit pipeline.\<close>

definition snapshotNavPerShare :: "(rat list \<Rightarrow> rat) \<Rightarrow> db \<Rightarrow> rat" where
  "snapshotNavPerShare sqlSum d =
     computeNavPerShare (case latestNavSnapshot d of Some n \<Rightarrow> n_totalValueUsd n | None \<Rightarrow> 0) (totalShares sqlSum d)"

definition wirePipeline :: "(rat list \<Rightarrow> rat) \<Rightarrow> MidPrice list \<Rightarrow> PipelineEnv \<Rightarrow> PipelineEnv" where
  "wirePipeline sqlSum history e =
     e\<lparr>pe_preflightMid := Inr (lastMid history), pe_mid := Inr (lastMid history),
       pe_navPerShare := (\<lambda>d. Inr (snapshotNavPerShare sqlSum d))\<rparr>"

definition wireExec :: "MidPrice list \<Rightarrow> ExecEnv \<Rightarrow> ExecEnv" where
  "wireExec history e = e\<lparr>ee_getMid := Inr (lastMid history)\<rparr>"

text \<open>\<open>executeTransfer\<close> of the withdrawal executor: the instructions of the builder, through the submitter. The
  second component of the result is what landed. The options do not pass \<open>dryRun\<close> on.\<close>

definition transferOpts :: "RebConfig \<Rightarrow> SubmitOptions" where
  "transferOpts cfg = \<lparr>so_priorityFeeMicroLamports = Some (rc_priorityFeeMicroLamports cfg), so_maxRetries = None,
     so_dryRun = False\<rparr>"

definition executeTransfer ::
    "RebConfig \<Rightarrow> PipelineCfg \<Rightarrow> SubmitEnv \<Rightarrow> string \<Rightarrow> int \<Rightarrow> int \<Rightarrow> string result \<times> instr tx list" where
  "executeTransfer cfg pc se destination solLamports bertRaw =
     (case buildWithdrawalInstructions (pc_ata pc) (pc_payer pc) destination solLamports bertRaw (pc_bertMint pc) True of
        Inl err \<Rightarrow> (Inl err, [])
      | Inr ixs \<Rightarrow> submit se (transferOpts cfg) (map Ix ixs) [])"

text \<open>\<open>getNav\<close> of the commands: \<open>bal\<close> and \<open>pos\<close> are the balances and the position as the venue client returns them.\<close>

definition snapshotFallback :: "(rat list \<Rightarrow> rat) \<Rightarrow> db \<Rightarrow> (rat \<times> rat) option" where
  "snapshotFallback sqlSum d = map_option (\<lambda>n. (n_totalValueUsd n, totalShares sqlSum d)) (latestNavSnapshot d)"

definition liveNav :: "int \<Rightarrow> rat \<Rightarrow> rat \<Rightarrow> int \<times> int \<Rightarrow> PositionSnapshot option \<Rightarrow> NavSnapshot" where
  "liveNav reserve solUsd bertUsd bal pos =
     computeNav
       \<lparr>freeSolLamports = (if fst bal > reserve then fst bal - reserve else 0), freeBertRaw = snd bal,
        positionTotalValueUsd = (case pos of Some p \<Rightarrow> po_totalValueUsd p | None \<Rightarrow> 0),
        uncollectedFeesBert = (case pos of Some p \<Rightarrow> po_uncollectedFeesBert p | None \<Rightarrow> 0),
        uncollectedFeesSol = (case pos of Some p \<Rightarrow> po_uncollectedFeesSol p | None \<Rightarrow> 0),
        ni_solUsd = solUsd, ni_bertUsd = bertUsd\<rparr>"

definition mainGetNav ::
    "(rat list \<Rightarrow> rat) \<Rightarrow> int \<Rightarrow> MidPrice list \<Rightarrow> (int \<times> int) result \<Rightarrow> (string \<Rightarrow> rat \<Rightarrow> PositionSnapshot option result) \<Rightarrow> db
      \<Rightarrow> (rat \<times> rat) option" where
  "mainGetNav sqlSum reserve history balances getPosition d =
     (if history = [] then snapshotFallback sqlSum d
      else let mid = last history in
        case balances of
          Inl _ \<Rightarrow> snapshotFallback sqlSum d
        | Inr bal \<Rightarrow>
            let pos = (case getCurrentPosition d of
                         None \<Rightarrow> None
                       | Some stored \<Rightarrow> (case getPosition (sp_nftMint stored) (mp_solUsd mid) of Inl _ \<Rightarrow> None | Inr p \<Rightarrow> p))
            in Some (totalUsd (liveNav reserve (mp_solUsd mid) (mp_bertUsd mid) bal pos), totalShares sqlSum d))"

section \<open>The parts of a tick\<close>

definition killSwitch :: "MainCfg \<Rightarrow> 'i TickEnv \<Rightarrow> bool" where
  "killSwitch cfg te \<longleftrightarrow>
     te_killFile te \<or> \<not> (case te_liveEnabled te of Inr enabled \<Rightarrow> enabled | Inl _ \<Rightarrow> mc_enabled cfg)"

definition tickSolUsd :: "PriceSample list \<Rightarrow> rat" where
  "tickSolUsd samples = (case find (\<lambda>s. ps_solUsd s > 0) samples of Some s \<Rightarrow> ps_solUsd s | None \<Rightarrow> 150)"

definition tickMid :: "MainCfg \<Rightarrow> 'i TickEnv \<Rightarrow> MidPrice option" where
  "tickMid cfg te =
     (let samples = fetchAllSources (te_samples te)
      in computeTrustedMid samples (tickSolUsd samples) (te_tickStart te) (mc_oracleDivergenceBps cfg))"

definition pushHistory :: "MidPrice option \<Rightarrow> MidPrice list \<Rightarrow> MidPrice list" where
  "pushHistory mid history =
     (case mid of
        None \<Rightarrow> history
      | Some m \<Rightarrow> let h = history @ [m] in if length h > MAX_HISTORY_SAMPLES then tl h else h)"

definition vaultPoll :: "MainCfg \<Rightarrow> 'i TickEnv \<Rightarrow> string \<Rightarrow> ('i, unit) botm" where
  "vaultPoll cfg te address s =
     overSweeps (pollAddress (pc_bertMint (mc_pipeline cfg)) (te_watcher te address)
       (\<lambda>ev. onInflow (mc_pipeline cfg) (wirePipeline (pc_sqlSum (mc_pipeline cfg)) (b_priceHistory s) (te_inflow te ev)) ev)
       address) s"

definition vaultDrain :: "MainCfg \<Rightarrow> 'i TickEnv \<Rightarrow> ('i, unit) botm" where
  "vaultDrain cfg te s = overPayouts (drain (mc_exec cfg) (\<lambda>i. wireExec (b_priceHistory s) (te_exec te i))) s"

definition heartbeat :: "'i TickEnv \<Rightarrow> ('i, unit) botm" where
  "heartbeat te =
     (case te_heartbeatFault te of
        Some err \<Rightarrow> throw err
      | None \<Rightarrow> modify (\<lambda>s. s\<lparr>b_heartbeat := Some (te_tickStart te)\<rparr>))"

definition countTick :: "MidPrice option \<Rightarrow> PositionSnapshot option \<Rightarrow> ('i, unit) botm" where
  "countTick mid position =
     modify (\<lambda>s. s\<lparr>b_ticksTotal := b_ticksTotal s + 1,
       b_ticksInRange := (case (position, mid) of
          (Some pos, Some m) \<Rightarrow> if inRange (po_range pos) (mp_bertUsd m) then b_ticksInRange s + 1 else b_ticksInRange s
        | _ \<Rightarrow> b_ticksInRange s)\<rparr>)"

definition botStateOf :: "MainCfg \<Rightarrow> 'i TickEnv \<Rightarrow> PositionSnapshot option \<Rightarrow> 'i bot \<Rightarrow> BotState" where
  "botStateOf cfg te position s =
     \<lparr>bs_price = tickMid cfg te, bs_priceHistory = b_priceHistory s, bs_position = position,
      bs_lastRebalanceAt = lastRebalanceAt (b_db s), bs_rebalancesToday = getRebalancesToday (te_tickStart te) (b_db s),
      bs_killSwitchTripped = killSwitch cfg te, bs_degraded = isDegraded (b_db s), bs_now = te_tickStart te\<rparr>"

definition alert :: "MainCfg \<Rightarrow> Severity \<Rightarrow> string \<Rightarrow> frag list \<Rightarrow> ('i, unit) botm" where
  "alert cfg sev lead reason s =
     (if b_lastAlerted s = Some (mc_render cfg reason) then (Inr (), s)
      else andThen (overEffects (notify sev (Lit lead # reason)))
             (\<lambda>_. modify (\<lambda>s. s\<lparr>b_lastAlerted := Some (mc_render cfg reason)\<rparr>)) s)"

definition actOn :: "MainCfg \<Rightarrow> 'i TickEnv \<Rightarrow> PositionSnapshot option \<Rightarrow> Decision \<Rightarrow> ('i, unit) botm" where
  "actOn cfg te position decision =
     (case decision of
        REBALANCE reason center \<Rightarrow>
          (case tickMid cfg te of
             None \<Rightarrow> ret ()
           | Some mid \<Rightarrow> andThen (overEffects (executeRebalance (mc_reb cfg) (te_rebalance te) mid position)) (\<lambda>_. ret ()))
      | PAUSE reason \<Rightarrow> alert cfg CRITICAL ''PAUSE: '' reason
      | ALERT_ONLY reason \<Rightarrow> alert cfg WARN ''ALERT_ONLY: '' reason
      | HOLD reason \<Rightarrow> modify (\<lambda>s. s\<lparr>b_lastAlerted := None\<rparr>))"

section \<open>The hourly report\<close>

definition utcHour :: "int \<Rightarrow> int" where
  "utcHour ms = (ms div 3600000) mod 24"

definition formatVaultStatsLine :: "VaultStats \<Rightarrow> frag list" where
  "formatVaultStatsLine v =
     [Lit ''Vault: '', Num (of_nat (vs_depositorCount v)), Lit '' depositors, TVL $'', Fixed 2 (vs_tvlUsd v),
      Lit '', NAV/share $'', Fixed 4 (vs_navPerShare v), Lit '' (24h '', Cp 0x394, Lit '' '',
      Lit (if vs_navPerShareDelta24hPct v \<ge> 0 then ''+'' else ''''), Fixed 2 (vs_navPerShareDelta24hPct v), Lit ''%), '',
      Num (of_nat (vs_queuedWithdrawals v)), Lit '' queued'']"

definition balanceLine :: "MidPrice option \<Rightarrow> (int \<times> int) result \<Rightarrow> frag list" where
  "balanceLine mid balances =
     (case balances of
        Inl _ \<Rightarrow> [Lit ''Wallet: unavailable'']
      | Inr bal \<Rightarrow>
          let freeSol = ndiv (numOfBig (fst bal)) 1000000000; freeBert = ndiv (numOfBig (snd bal)) 1000000;
              solPrice = (case mid of Some m \<Rightarrow> mp_solUsd m | None \<Rightarrow> 0);
              bertPrice = (case mid of Some m \<Rightarrow> mp_bertUsd m | None \<Rightarrow> 0);
              freeSolUsd = nmul freeSol solPrice; freeBertUsd = nmul freeBert bertPrice
          in [Lit ''Wallet: '', Fixed 4 freeSol, Lit '' SOL ($'', Fixed 2 freeSolUsd, Lit '') + '', Fixed 0 freeBert,
              Lit '' BERT ($'', Fixed 2 freeBertUsd, Lit '') = $'', Fixed 2 (nadd freeSolUsd freeBertUsd), Lit '' free''])"

definition feeLine :: "MidPrice option \<Rightarrow> PositionSnapshot \<Rightarrow> frag list" where
  "feeLine mid pos =
     (let feesBert = ndiv (numOfBig (po_uncollectedFeesBert pos)) 1000000;
          feesSol = ndiv (numOfBig (po_uncollectedFeesSol pos)) 1000000000;
          fees = nadd (nmul feesBert (case mid of Some m \<Rightarrow> mp_bertUsd m | None \<Rightarrow> 0))
                      (nmul feesSol (case mid of Some m \<Rightarrow> mp_solUsd m | None \<Rightarrow> 0))
      in [Lit ''Fees: '', Fixed 4 feesBert, Lit '' BERT + '', Fixed 6 feesSol, Lit '' SOL ($'', Fixed 4 fees, Lit '')''])"

text \<open>Total holdings count the whole SOL balance; the vault's value leaves the reserve out.\<close>

definition midNav :: "int \<Rightarrow> MidPrice option \<Rightarrow> int \<times> int \<Rightarrow> PositionSnapshot option \<Rightarrow> rat" where
  "midNav reserve mid bal pos =
     totalUsd (liveNav reserve (case mid of Some m \<Rightarrow> mp_solUsd m | None \<Rightarrow> 0) (case mid of Some m \<Rightarrow> mp_bertUsd m | None \<Rightarrow> 0) bal pos)"

definition vaultLine :: "MainCfg \<Rightarrow> 'i TickEnv \<Rightarrow> MidPrice option \<Rightarrow> PositionSnapshot option \<Rightarrow> db \<Rightarrow> frag list" where
  "vaultLine cfg te mid pos d =
     (let tvlUsd = (case rp_balances3 (te_report te) of
                      Inr bal \<Rightarrow> midNav (rc_minSolFloorLamports (mc_reb cfg)) mid bal pos
                    | Inl _ \<Rightarrow> (case latestNavSnapshot d of Some n \<Rightarrow> n_totalValueUsd n | None \<Rightarrow> 0))
      in formatVaultStatsLine (computeVaultStats (length (listUsers d)) (totalShares (ec_sqlSum (mc_exec cfg)) d) tvlUsd
           (countPendingWithdrawals d) (navSnapshotAtOrBefore (te_tickStart te - 24 * 3600 * 1000) d)))"

definition statusLine :: "MainCfg \<Rightarrow> 'i TickEnv \<Rightarrow> db \<Rightarrow> frag list" where
  "statusLine cfg te d =
     Lit ''Status: '' # (if killSwitch cfg te then [Cp 0x1F534, Lit '' KILLED'']
       else if isDegraded d then [Cp 0x1F7E1, Lit '' DEGRADED''] else [Cp 0x1F7E2, Lit '' OK''])"

definition hourlyLines :: "MainCfg \<Rightarrow> 'i TickEnv \<Rightarrow> PositionSnapshot option \<Rightarrow> 'i bot \<Rightarrow> frag list list" where
  "hourlyLines cfg te pos s =
     (let mid = tickMid cfg te; rep = te_report te; total = of_nat (b_ticksTotal s) :: rat;
          uptimeMin = \<lfloor>ndiv (nmul total (st_pollIntervalSec (mc_params cfg))) 60\<rfloor>
      in filter (\<lambda>l. l \<noteq> [])
       [[Cp 0x1F4CA, Lit '' Hourly Status ('', IsoMinutes (te_tickStart te), Lit ''Z)''],
        Lit ''Price: '' # (case mid of Some m \<Rightarrow> [Lit ''$'', Fixed 6 (mp_bertUsd m)] | None \<Rightarrow> [Lit ''no oracle'']),
        Lit ''Range: '' # (case pos of
             Some p \<Rightarrow> [Lit ''$'', Fixed 6 (rg_lowerBertUsd (po_range p)), Lit ''-$'', Fixed 6 (rg_upperBertUsd (po_range p))]
           | None \<Rightarrow> [Lit ''none'']),
        [Lit ''In-range: ''] @ (if b_ticksTotal s > 0 then [Fixed 1 (nmul (ndiv (of_nat (b_ticksInRange s)) total) 100)] else [Lit ''N/A''])
          @ [Lit ''% ('', Num (of_nat (b_ticksInRange s)), Lit ''/'', Num total, Lit '' ticks, ~'', Num (of_int uptimeMin), Lit ''m)''],
        balanceLine mid (rp_balances1 rep),
        (case pos of Some p \<Rightarrow> [Lit ''Position: $'', Fixed 2 (po_totalValueUsd p), Lit '' in pool''] | None \<Rightarrow> []),
        (case pos of Some p \<Rightarrow> feeLine mid p | None \<Rightarrow> []),
        (case (pos, rp_balances2 rep) of
           (Some p, Inr bal) \<Rightarrow> [Lit ''Total holdings: $'', Fixed 2 (totalUsd (computeNav
              \<lparr>freeSolLamports = fst bal, freeBertRaw = snd bal, positionTotalValueUsd = po_totalValueUsd p,
               uncollectedFeesBert = po_uncollectedFeesBert p, uncollectedFeesSol = po_uncollectedFeesSol p,
               ni_solUsd = (case mid of Some m \<Rightarrow> mp_solUsd m | None \<Rightarrow> 0), ni_bertUsd = (case mid of Some m \<Rightarrow> mp_bertUsd m | None \<Rightarrow> 0)\<rparr>))]
         | _ \<Rightarrow> []),
        (if mc_vault cfg then vaultLine cfg te mid pos (b_db s) else []),
        (case rp_volume rep of Inr (Some (vol1h, vol24)) \<Rightarrow>
           [Lit ''Pool volume: $'', Fixed 0 vol1h, Lit ''/1h, $'', Fixed 0 vol24, Lit ''/24h''] | _ \<Rightarrow> []),
        [Lit ''Rebalances today: '', Num (of_nat (getRebalancesToday (te_tickStart te) (b_db s))), Lit ''/'',
         Num (st_maxRebalancesPerDay (mc_params cfg))],
        statusLine cfg te (b_db s)])"

definition hourlyReport :: "MainCfg \<Rightarrow> 'i TickEnv \<Rightarrow> PositionSnapshot option \<Rightarrow> ('i, unit) botm" where
  "hourlyReport cfg te pos s =
     (if utcHour (te_tickStart te) = b_lastHourlyReport s then (Inr (), s)
      else andThen (overEffects (notify INFO (joinLines (hourlyLines cfg te pos s))))
             (\<lambda>_. modify (\<lambda>s. s\<lparr>b_lastHourlyReport := utcHour (te_tickStart te), b_ticksInRange := 0, b_ticksTotal := 0\<rparr>)) s)"

section \<open>A tick\<close>

definition openInitial :: "MainCfg \<Rightarrow> 'i TickEnv \<Rightarrow> MidPrice \<Rightarrow> ('i, unit) botm" where
  "openInitial cfg te mid =
     andThen (overEffects (executeRebalance (mc_reb cfg) (te_rebalance te) mid None)) (\<lambda>result.
     andThen (case result of OK detail _ \<Rightarrow> overEffects (notify INFO (Lit ''Initial position opened: '' # detail)) | _ \<Rightarrow> ret ()) (\<lambda>_.
     heartbeat te))"

definition decideAndAct :: "MainCfg \<Rightarrow> 'i TickEnv \<Rightarrow> PositionSnapshot option \<Rightarrow> Decision \<Rightarrow> ('i, unit) botm" where
  "decideAndAct cfg te position decision =
     andThen (countTick (tickMid cfg te) position) (\<lambda>_.
     andThen (actOn cfg te position decision) (\<lambda>_.
     andThen (if mc_vault cfg
              then runVaultPostRebalance (killSwitch cfg te) (vaultDrain cfg te) (te_activateAt te) (te_auditAt te)
              else ret ()) (\<lambda>_.
     andThen (hourlyReport cfg te position) (\<lambda>_.
     heartbeat te))))"

definition afterPosition :: "MainCfg \<Rightarrow> 'i TickEnv \<Rightarrow> StoredPosition option \<Rightarrow> PositionSnapshot option \<Rightarrow> ('i, unit) botm" where
  "afterPosition cfg te stored position s =
     (case tickMid cfg te of
        Some mid \<Rightarrow>
          if stored = None \<and> position = None \<and> \<not> killSwitch cfg te \<and> \<not> isDegraded (b_db s) then openInitial cfg te mid s
          else decideAndAct cfg te position (decide (botStateOf cfg te position s) (mc_params cfg)) s
      | None \<Rightarrow> decideAndAct cfg te position (decide (botStateOf cfg te position s) (mc_params cfg)) s)"

definition tickBody :: "MainCfg \<Rightarrow> 'i TickEnv \<Rightarrow> ('i, unit) botm" where
  "tickBody cfg te =
     andThen (modify (\<lambda>s. s\<lparr>b_priceHistory := pushHistory (tickMid cfg te) (b_priceHistory s)\<rparr>)) (\<lambda>_.
     andThen (if mc_vault cfg then runVaultPreRebalance (vaultPoll cfg te) else ret ()) (\<lambda>_.
     andThen (overDb (gets getCurrentPosition)) (\<lambda>stored.
       case stored of
         None \<Rightarrow> afterPosition cfg te stored None
       | Some p \<Rightarrow>
           andThen (overDb (modify (te_meanwhile te))) (\<lambda>_.
             case te_getPosition te (sp_nftMint p) (case tickMid cfg te of Some m \<Rightarrow> mp_solUsd m | None \<Rightarrow> 0) of
               Inl _ \<Rightarrow> heartbeat te
             | Inr position \<Rightarrow> afterPosition cfg te stored position))))"

definition tick :: "MainCfg \<Rightarrow> 'i TickEnv \<Rightarrow> 'i bot \<Rightarrow> 'i bot" where
  "tick cfg te s =
     snd (tryCatch (tickBody cfg te) (\<lambda>err. overEffects (notify WARN [Lit (''Tick failed: '' @ err)])) s)"

fun ticks :: "MainCfg \<Rightarrow> 'i TickEnv list \<Rightarrow> 'i bot \<Rightarrow> 'i bot" where
  "ticks cfg [] s = s"
| "ticks cfg (te # tes) s = ticks cfg tes (tick cfg te s)"

end
