(* ===== verification/Main_Properties.thy ===== *)
theory Main_Properties
  imports Main_Loop Rebalance_Properties
begin

text \<open>
  The properties of the main loop: what the kill switch and a failing RPC node stop, the bound of the price
  history, the transfer of a withdrawal through the submitter, and the invariant of the vault over any
  number of ticks. A relation between the states before and after a step that is reflexive and transitive is an
  instance of \<open>store_order\<close>, whose rules then follow the structure of the tick.
\<close>

section \<open>Nothing leaves the wallet\<close>

definition quietly :: "'i bot \<Rightarrow> 'i bot \<Rightarrow> bool" where
  "quietly s s' \<longleftrightarrow> b_payouts s' = b_payouts s \<and> landed (b_effects s') = landed (b_effects s)
     \<and> asked (b_effects s') = asked (b_effects s)"

interpretation quiet: store_order quietly
  by unfold_locales (simp_all add: quietly_def)

lemma quiet_overSweeps: "stays quietly (overSweeps m)"
  by (simp add: stays_def overSweeps_def quietly_def split_beta)

lemma quiet_overDb: "stays quietly (overDb m)"
  by (simp add: stays_def overDb_def quietly_def split_beta)

lemma quiet_notify: "stays quietly (overEffects (notify sev msg))"
  by (simp add: stays_def overEffects_def notify_def emit_def quietly_def)

lemma quiet_heartbeat: "stays quietly (heartbeat te)"
  by (auto simp: heartbeat_def quietly_def split: option.splits intro!: quiet.stays_pure quiet.stays_modify)

lemma quiet_if: "stays quietly m \<Longrightarrow> stays quietly n \<Longrightarrow> stays quietly (if b then m else n)"
  by simp

lemma quiet_pollUsers: "(\<And>a. stays quietly (poll a)) \<Longrightarrow> stays quietly (pollUsers poll users)"
  by (induction users) (auto intro: quiet.stays_pure quiet.stays_andThen quiet.stays_tryCatch)

lemma quiet_vaultPoll: "stays quietly (vaultPoll cfg te a)"
  by (simp add: stays_def vaultPoll_def staysD [OF quiet_overSweeps])

lemma quiet_note:
  "(\<And>s. quietly s (f s)) \<Longrightarrow> stays quietly (andThen (overEffects (notify sev msg)) (\<lambda>_. modify f))"
  by (intro quiet.stays_andThen quiet_notify quiet.stays_modify)

lemma quiet_alert: "stays quietly (alert cfg sev lead reason)"
  by (auto simp: stays_def alert_def quiet.refl intro!: staysD [OF quiet_note]) (simp_all add: quietly_def)

lemma quiet_hourlyReport: "stays quietly (hourlyReport cfg te pos)"
  by (auto simp: stays_def hourlyReport_def quiet.refl intro!: staysD [OF quiet_note]) (simp_all add: quietly_def)

lemma quiet_countTick: "stays quietly (countTick mid pos)"
  by (auto simp: countTick_def quietly_def intro!: quiet.stays_modify)

lemma quiet_pre: "stays quietly (runVaultPreRebalance (vaultPoll cfg te))"
  unfolding runVaultPreRebalance_def by (intro quiet.stays_andThen quiet_overDb quiet_pollUsers quiet_vaultPoll)

lemma quiet_post_killed: "stays quietly (runVaultPostRebalance True drainAll t ts)"
  by (simp add: stays_def runVaultPostRebalance_run drainAllowed_def Let_def quietly_def)

lemmas quiet_rules = quiet.stays_pure quiet.stays_andThen quiet.stays_tryCatch quiet_overDb quiet_notify quiet_heartbeat
  quiet_alert quiet_hourlyReport quiet_countTick quiet_pre quiet_if

lemma quiet_decideAndAct:
  assumes "killSwitch cfg te" "\<And>r c. decision \<noteq> REBALANCE r c"
  shows "stays quietly (decideAndAct cfg te position decision)"
proof -
  have "stays quietly (actOn cfg te position decision)"
    using assms(2) by (auto simp: actOn_def quietly_def split: Decision.splits intro!: quiet_rules quiet.stays_modify)
  then show ?thesis
    unfolding decideAndAct_def using assms(1) by (auto intro!: quiet_rules quiet_post_killed)
qed

lemma quiet_afterPosition: "killSwitch cfg te \<Longrightarrow> stays quietly (afterPosition cfg te stored position)"
proof -
  assume kill: "killSwitch cfg te"
  have "decide (botStateOf cfg te position s) (mc_params cfg) = PAUSE [Lit ''kill switch tripped'']" for s
    using kill by (simp add: decide_def botStateOf_def)
  with kill show ?thesis
    using quiet_decideAndAct [OF kill, of "PAUSE [Lit ''kill switch tripped'']" position]
    by (auto simp: stays_def afterPosition_def split: option.splits)
qed

text \<open>The beginning of the tick is quiet in any case.\<close>

lemma quiet_tick:
  assumes "\<And>stored position. stays quietly (afterPosition cfg te stored position)"
  shows "quietly s (tick cfg te s)"
proof -
  have "stays quietly (tickBody cfg te)"
    unfolding tickBody_def using assms
    by (auto simp: quietly_def split: option.splits sum.splits intro!: quiet_rules quiet.stays_modify)
  then have "stays quietly (tryCatch (tickBody cfg te) (\<lambda>err. overEffects (notify WARN [Lit (''Tick failed: '' @ err)])))"
    by (intro quiet_rules)
  then show ?thesis unfolding tick_def by (rule staysD)
qed


definition watcher_demo :: WatcherEnv where
  "watcher_demo = \<lparr>we_bertAta = (\<lambda>a. Inr (a @ ''-ata'')), we_signatures = (\<lambda>_. Inr []), we_parsed = (\<lambda>_. Inr None),
     we_meanwhile = (\<lambda>_ d. d), we_nowMs = 9\<rparr>"

definition tick_demo :: "bool \<Rightarrow> nat TickEnv" where
  "tick_demo kill = \<lparr>te_tickStart = 5, te_killFile = kill, te_liveEnabled = Inr True,
     te_samples = [Inr (Some (sample_demo ''jupiter'' 2 150)), Inr (Some (sample_demo ''dexscreener'' 2 150))],
     te_watcher = (\<lambda>_. watcher_demo), te_inflow = (\<lambda>_. env_demo), te_getPosition = (\<lambda>_ _. Inl ''rpc down''),
     te_meanwhile = id, te_rebalance = reb_demo, te_exec = (\<lambda>_. exec_demo), te_activateAt = 6, te_auditAt = 7,
     te_report = \<lparr>rp_balances1 = Inl ''rpc down'', rp_balances2 = Inl ''rpc down'', rp_balances3 = Inl ''rpc down'',
       rp_volume = Inr None\<rparr>, te_heartbeatFault = None\<rparr>"

definition main_demo :: MainCfg where
  "main_demo = \<lparr>mc_enabled = True, mc_vault = True, mc_oracleDivergenceBps = 150, mc_params = params_demo,
     mc_reb = rebcfg_demo, mc_pipeline = cfg_demo, mc_exec = execcfg_demo, mc_render = (\<lambda>_. ''text'')\<rparr>"

definition start :: "db \<Rightarrow> 'i bot" where
  "start d = \<lparr>b_db = d, b_sweeps = [], b_payouts = [], b_effects = [], b_priceHistory = [], b_ticksInRange = 0,
     b_ticksTotal = 0, b_lastHourlyReport = 0, b_lastAlerted = None, b_heartbeat = None\<rparr>"


section \<open>A node that does not answer\<close>

text \<open>The state in which the tick reads the stored position.\<close>

definition polledBot :: "MainCfg \<Rightarrow> 'i TickEnv \<Rightarrow> 'i bot \<Rightarrow> 'i bot" where
  "polledBot cfg te s =
     (let s1 = s\<lparr>b_priceHistory := pushHistory (tickMid cfg te) (b_priceHistory s)\<rparr>
      in if mc_vault cfg then fold (\<lambda>u s. snd (vaultPoll cfg te (vu_depositAddress u) s)) (listUsers (b_db s1)) s1 else s1)"

lemma tickBody_polled:
  "tickBody cfg te s =
     (let s1 = polledBot cfg te s in
      case getCurrentPosition (b_db s1) of
        None \<Rightarrow> afterPosition cfg te None None s1
      | Some p \<Rightarrow>
          let s2 = s1\<lparr>b_db := te_meanwhile te (b_db s1)\<rparr> in
          (case te_getPosition te (sp_nftMint p) (case tickMid cfg te of Some m \<Rightarrow> mp_solUsd m | None \<Rightarrow> 0) of
             Inl _ \<Rightarrow> heartbeat te s2
           | Inr position \<Rightarrow> afterPosition cfg te (Some p) position s2))"
proof -
  have pre: "(if mc_vault cfg then runVaultPreRebalance (vaultPoll cfg te) else ret ())
      (s\<lparr>b_priceHistory := pushHistory (tickMid cfg te) (b_priceHistory s)\<rparr>) = (Inr (), polledBot cfg te s)"
    by (simp add: polledBot_def Let_def runVaultPreRebalance_def exn_simps pollUsers_run)
  show ?thesis
    unfolding tickBody_def andThen_def modify_def
    by (simp only: prod.case sum.case pre)
      (simp add: Let_def overDb_def gets_def split: option.splits sum.splits)
qed

lemma quietly_polled: "quietly s (polledBot cfg te s)"
proof -
  let ?s1 = "s\<lparr>b_priceHistory := pushHistory (tickMid cfg te) (b_priceHistory s)\<rparr>"
  have "quietly s ?s1" by (simp add: quietly_def)
  moreover have "quietly ?s1 (polledBot cfg te s)"
    using staysD [OF quiet_pre, of ?s1 cfg te]
    by (cases "mc_vault cfg") (simp_all add: polledBot_def Let_def runVaultPreRebalance_def exn_simps pollUsers_run quiet.refl)
  ultimately show ?thesis by (rule quiet.trans)
qed

text \<open>When a position is stored and the node cannot report it, the tick goes no further than the heartbeat: no
  second position is opened, nothing is rebalanced and no withdrawal is paid.\<close>

theorem rpc_failure_skips:
  assumes "getCurrentPosition (b_db (polledBot cfg te s)) = Some p"
    and "\<And>solUsd. \<exists>err. te_getPosition te (sp_nftMint p) solUsd = Inl err"
  shows "b_payouts (tick cfg te s) = b_payouts s \<and> landed (b_effects (tick cfg te s)) = landed (b_effects s)
     \<and> asked (b_effects (tick cfg te s)) = asked (b_effects s)
     \<and> (te_heartbeatFault te = None \<longrightarrow> b_heartbeat (tick cfg te s) = Some (te_tickStart te))"
proof -
  let ?s2 = "(polledBot cfg te s)\<lparr>b_db := te_meanwhile te (b_db (polledBot cfg te s))\<rparr>"
  obtain err where "te_getPosition te (sp_nftMint p) (case tickMid cfg te of Some m \<Rightarrow> mp_solUsd m | None \<Rightarrow> 0) = Inl err"
    using assms(2) by blast
  then have body: "tickBody cfg te s = heartbeat te ?s2" using assms(1) by (simp add: tickBody_polled Let_def)
  have run: "tick cfg te s = snd (tryCatch (heartbeat te) (\<lambda>err. overEffects (notify WARN [Lit (''Tick failed: '' @ err)])) ?s2)"
    by (simp add: tick_def tryCatch_def body)
  have "quietly ?s2 (tick cfg te s)" unfolding run
    by (rule staysD) (intro quiet.stays_tryCatch quiet_heartbeat quiet_notify)
  moreover have "quietly s ?s2" using quietly_polled [of s cfg te] by (simp add: quietly_def)
  ultimately have "quietly s (tick cfg te s)" by (rule quiet.trans [rotated])
  moreover have "b_heartbeat (tick cfg te s) = Some (te_tickStart te)" if "te_heartbeatFault te = None"
    using that by (simp add: run heartbeat_def exn_simps)
  ultimately show ?thesis by (simp add: quietly_def)
qed

definition positioned_demo :: db where
  "positioned_demo = setCurrentPosition stored_demo init_db"

theorem rpc_failure_skips_witness:
  "getCurrentPosition (b_db (polledBot main_demo (tick_demo False) (start positioned_demo))) = Some stored_demo
   \<and> asked (b_effects (tick main_demo (tick_demo False) (start positioned_demo))) = []"
proof -
  have "listUsers positioned_demo = []" by (simp add: positioned_demo_def setCurrentPosition_def init_db_def listUsers_def)
  then have p: "getCurrentPosition (b_db (polledBot main_demo (tick_demo False) (start positioned_demo))) = Some stored_demo"
    by (simp add: polledBot_def start_def Let_def) (simp add: positioned_demo_def setCurrentPosition_def getCurrentPosition_def)
  with rpc_failure_skips [OF p] show ?thesis by (simp add: tick_demo_def start_def)
qed

section \<open>What a whole tick keeps\<close>

text \<open>The interface between the tick and its parts: a relation that every part of the tick respects. Then the tick
  respects it.\<close>

locale tick_law = store_order R for R :: "'i bot \<Rightarrow> 'i bot \<Rightarrow> bool" +
  fixes cfg :: MainCfg and te :: "'i TickEnv"
  assumes poll: "mc_vault cfg \<Longrightarrow> stays R (vaultPoll cfg te a)"
    and rebalance: "stays R (overEffects (executeRebalance (mc_reb cfg) (te_rebalance te) mid position))"
    and payouts: "mc_vault cfg \<Longrightarrow> stays R (vaultDrain cfg te)"
    and notice: "stays R (overEffects (notify sev msg))"
    and activation: "stays R (overDb (activationStep (te_activateAt te) (te_auditAt te)))"
    and waiting: "R s (s\<lparr>b_db := te_meanwhile te (b_db s)\<rparr>)"
    and memory: "R s (s\<lparr>b_lastAlerted := x\<rparr>)" "R s (s\<lparr>b_ticksTotal := n, b_ticksInRange := k\<rparr>)"
      "R s (s\<lparr>b_lastHourlyReport := h, b_ticksInRange := k, b_ticksTotal := n\<rparr>)" "R s (s\<lparr>b_heartbeat := t\<rparr>)"
begin

lemma reads: "stays R (overDb (gets f))"
  by (simp add: stays_def overDb_gets refl)

lemmas tick_rules = stays_pure stays_andThen stays_tryCatch notice reads

lemma stays_heartbeat: "stays R (heartbeat te)"
  by (auto simp: heartbeat_def split: option.splits intro!: tick_rules stays_modify memory)

lemma stays_alert: "stays R (alert cfg sev lead reason)"
  by (auto simp: stays_def alert_def refl
      intro!: staysD [OF stays_andThen, OF notice stays_modify, OF memory(1)])

lemma stays_hourlyReport: "stays R (hourlyReport cfg te position)"
  by (auto simp: stays_def hourlyReport_def refl
      intro!: staysD [OF stays_andThen, OF notice stays_modify, OF memory(3)])

lemma stays_actOn: "stays R (actOn cfg te position decision)"
  by (auto simp: actOn_def split: Decision.splits option.splits
      intro!: tick_rules stays_alert stays_modify memory rebalance)

lemma stays_post: "mc_vault cfg \<Longrightarrow> stays R (runVaultPostRebalance killed (vaultDrain cfg te) (te_activateAt te) (te_auditAt te))"
  unfolding runVaultPostRebalance_def by (auto intro!: tick_rules activation payouts)

lemma stays_decideAndAct: "stays R (decideAndAct cfg te position decision)"
  unfolding decideAndAct_def countTick_def
  by (auto intro!: tick_rules stays_modify memory stays_actOn stays_post stays_hourlyReport stays_heartbeat)

lemma stays_openInitial: "stays R (openInitial cfg te mid)"
  unfolding openInitial_def
  by (auto split: RebalanceResult.splits intro!: tick_rules rebalance stays_heartbeat)

lemma stays_afterPosition: "stays R (afterPosition cfg te stored position)"
  unfolding stays_def
proof
  fix s
  show "R s (snd (afterPosition cfg te stored position s))"
    unfolding afterPosition_def
    by (auto split: option.splits intro!: staysD [OF stays_openInitial] staysD [OF stays_decideAndAct])
qed

lemma keeps_polled:
  assumes "\<And>s. R s (s\<lparr>b_priceHistory := pushHistory (tickMid cfg te) (b_priceHistory s)\<rparr>)"
  shows "R s (polledBot cfg te s)"
proof -
  let ?s1 = "s\<lparr>b_priceHistory := pushHistory (tickMid cfg te) (b_priceHistory s)\<rparr>"
  have "R u (fold (\<lambda>u s. snd (vaultPoll cfg te (vu_depositAddress u) s)) users u)" if "mc_vault cfg" for users :: "VaultUser list" and u
    using that by (induction users arbitrary: u) (auto intro: refl trans [OF staysD [OF poll]])
  then have "R ?s1 (polledBot cfg te s)" by (simp add: polledBot_def Let_def refl)
  with assms trans show ?thesis by blast
qed

lemma keeps_tick:
  assumes "\<And>s. R s (polledBot cfg te s)"
  shows "R s (tick cfg te s)"
proof -
  have "R s (snd (tickBody cfg te s))" for s
  proof -
    let ?s1 = "polledBot cfg te s" and ?s2 = "(polledBot cfg te s)\<lparr>b_db := te_meanwhile te (b_db (polledBot cfg te s))\<rparr>"
    have "R ?s1 (snd (tickBody cfg te s))"
      using trans [OF waiting [of ?s1]] staysD [OF stays_afterPosition] staysD [OF stays_heartbeat]
      by (simp add: tickBody_polled Let_def split: option.splits sum.splits)
    with assms trans show ?thesis by blast
  qed
  then have "stays R (tickBody cfg te)" by (simp add: stays_def)
  then show ?thesis unfolding tick_def by (intro staysD [OF stays_tryCatch] notice)
qed

end

section \<open>A vault that is not wired\<close>

definition idle :: "'i bot \<Rightarrow> 'i bot \<Rightarrow> bool" where
  "idle s s' \<longleftrightarrow> b_payouts s' = b_payouts s \<and> b_sweeps s' = b_sweeps s"

interpretation idle: tick_law "\<lambda>s s'. \<not> mc_vault cfg \<longrightarrow> idle s s'" cfg te for cfg te
  by unfold_locales (auto simp: idle_def stays_def overEffects_def overDb_def split_beta)

lemma idle_tick: "\<not> mc_vault cfg \<Longrightarrow> idle s (tick cfg te s)"
proof -
  have "\<not> mc_vault cfg \<longrightarrow> idle s (tick cfg te s)"
    by (intro idle.keeps_tick idle.keeps_polled) (simp add: idle_def)
  then show "\<not> mc_vault cfg \<Longrightarrow> idle s (tick cfg te s)" by simp
qed

lemma idle_ticks: "\<not> mc_vault cfg \<Longrightarrow> idle s (ticks cfg tes s)"
  by (induction tes arbitrary: s) (use idle_tick in \<open>fastforce simp: idle_def\<close>)+

section \<open>The price history\<close>

definition historyBounded :: "'i bot \<Rightarrow> bool" where
  "historyBounded s \<longleftrightarrow> length (b_priceHistory s) \<le> MAX_HISTORY_SAMPLES"

interpretation hist: tick_law "\<lambda>s s'. historyBounded s \<longrightarrow> historyBounded s'" cfg te for cfg te
  by unfold_locales
    (auto simp: historyBounded_def stays_def vaultPoll_def vaultDrain_def overSweeps_def overPayouts_def overEffects_def
      overDb_def split_beta)

lemma history_tick: "historyBounded s \<Longrightarrow> historyBounded (tick cfg te s)"
proof -
  have "historyBounded s \<longrightarrow> historyBounded (s\<lparr>b_priceHistory := pushHistory m (b_priceHistory s)\<rparr>)"
    for s :: "'a bot" and m
    by (auto simp: historyBounded_def pushHistory_def Let_def split: option.splits)
  then have "historyBounded s \<longrightarrow> historyBounded (tick cfg te s)"
    by (intro hist.keeps_tick hist.keeps_polled)
  then show "historyBounded s \<Longrightarrow> historyBounded (tick cfg te s)" by simp
qed

lemma ticks_keep: "(\<And>te s. P s \<Longrightarrow> P (tick cfg te s)) \<Longrightarrow> P s \<Longrightarrow> P (ticks cfg tes s)"
  by (induction tes arbitrary: s) auto

text \<open>The price history never outgrows its maximum: after any number of ticks, whatever they meet, it holds at
  most that many samples, if it did before.\<close>

theorem history_bounded:
  assumes "length (b_priceHistory s) \<le> MAX_HISTORY_SAMPLES"
  shows "length (b_priceHistory (ticks cfg tes s)) \<le> MAX_HISTORY_SAMPLES"
proof -
  have "historyBounded (ticks cfg tes s)"
    by (rule ticks_keep) (use assms history_tick in \<open>auto simp: historyBounded_def\<close>)
  then show ?thesis by (simp add: historyBounded_def)
qed

theorem history_bounded_witness:
  "length (b_priceHistory (ticks main_demo (replicate 200 (tick_demo False)) (start init_db))) \<le> MAX_HISTORY_SAMPLES"
  by (rule history_bounded) (simp add: start_def)

section \<open>The invariant of the vault\<close>

definition vaultInv :: "'i bot \<Rightarrow> bool" where
  "vaultInv s \<longleftrightarrow> store_wf (b_db s) \<and> ledger_ok (b_db s) \<and> payoutsSafe (b_db s) (b_payouts s)"

lemma vaultInv_evolves:
  "vaultInv s \<Longrightarrow> evolves (b_db s) (b_db s') \<Longrightarrow> b_payouts s' = b_payouts s \<Longrightarrow> vaultInv s'"
  using payoutsSafe_evolves by (auto simp: vaultInv_def evolves_def)

lemma vaultInv_write: "vaultInv s \<Longrightarrow> evolves (b_db s) d \<Longrightarrow> vaultInv (s\<lparr>b_db := d\<rparr>)"
  by (rule vaultInv_evolves) simp_all

text \<open>What other tasks do while the tick waits evolves the database, and a transfer reported as failed did not
  land.\<close>

definition calmReb :: "'i RebEnv \<Rightarrow> bool" where
  "calmReb e \<longleftrightarrow> (\<forall>d. evolves d (re_meanwhile1 e d) \<and> evolves d (re_meanwhile2 e d) \<and> evolves d (re_meanwhile3 e d))"

definition calmTick :: "'i TickEnv \<Rightarrow> bool" where
  "calmTick te \<longleftrightarrow> (\<forall>a g d. evolves d (we_meanwhile (te_watcher te a) g d)) \<and> (\<forall>x. calm (te_inflow te x))
     \<and> (\<forall>d. evolves d (te_meanwhile te d)) \<and> calmReb (te_rebalance te)
     \<and> (\<forall>i. calmExec (te_exec te i) \<and> honest (te_exec te i))"

lemma evl_viaChain: "stays evolvesLog (viaChain st m)"
  by (auto simp: stays_def viaChain_def evolvesLog_def ev.refl split: prod.splits)

lemma evl_notify: "stays evolvesLog (notify sev msg)"
  unfolding notify_def by (rule stays_emit)

lemma ev_faulty: "(\<And>d. evolves d (f d)) \<Longrightarrow> stays evolves (faulty fault f)"
  by (auto simp: faulty_def split: option.splits intro!: ev.stays_pure ev.stays_modify)

lemma evl_degrade: "stays evolvesLog (degrade e reason)"
  unfolding degrade_def by (intro stays_onDb ev_faulty evolves_aux)

lemmas reb_rules = evl.stays_pure evl.stays_andThen evl.stays_tryCatch
  stays_tryElse [OF evl.store_order_axioms] evl_viaChain evl_notify evl_degrade stays_onDb stays_emit

lemma evl_preflight: "calmReb e \<Longrightarrow> stays evolvesLog (preflight cfg e mid position)"
  unfolding preflight_def calmReb_def
  by (auto simp: Let_def split: option.splits intro!: reb_rules ev.stays_modify)

lemma evl_closeStep: "stays evolvesLog (closeStep cfg e position)"
  unfolding closeStep_def by (auto simp: Let_def split: option.splits sum.splits intro!: reb_rules)

lemma evl_closedNotice: "stays evolvesLog (closedNotice e position sig)"
  unfolding closedNotice_def by (auto split: option.splits sum.splits intro!: reb_rules)

lemma evl_inventoryStep: "stays evolvesLog (inventoryStep cfg e mid)"
  unfolding inventoryStep_def swapStep_def amountsStep_def by (auto simp: Let_def intro!: reb_rules)

lemma evl_openStep: "stays evolvesLog (openStep cfg e params)"
  unfolding openStep_def by (auto intro!: reb_rules split: prod.splits)

lemma evl_rollback: "stays evolvesLog (rollback cfg e mint)"
  unfolding rollback_def by (intro reb_rules)

lemma ev_persist: "stays evolves (persist e pos rec)"
  unfolding persist_def by (intro ev.stays_andThen ev_faulty evolves_aux)

lemma evl_finishStep: "calmReb e \<Longrightarrow> stays evolvesLog (finishStep cfg e mid position closeSig openSig mint half)"
  unfolding finishStep_def calmReb_def
  by (auto simp: Let_def intro!: reb_rules ev_persist evl_rollback ev.stays_modify)

lemma evl_reopen: "calmReb e \<Longrightarrow> stays evolvesLog (reopen cfg e mid position closeSig)"
  unfolding reopen_def
  by (auto simp: Let_def calmReb_def [symmetric] split: prod.splits
      intro!: reb_rules evl_inventoryStep evl_openStep evl_finishStep ev.stays_modify)
    (simp_all add: calmReb_def)

lemma evl_executeRebalance: "calmReb e \<Longrightarrow> stays evolvesLog (executeRebalance cfg e mid position)"
  unfolding executeRebalance_def
  by (auto split: option.splits sum.splits
      intro!: reb_rules evl_preflight evl_closeStep evl_closedNotice evl_reopen stays_read ev.stays_pure)

lemma vaultPoll_evolves:
  assumes "calmTick te" shows "evolves (b_db s) (b_db (snd (vaultPoll cfg te a s)))"
    "b_payouts (snd (vaultPoll cfg te a s)) = b_payouts s"
proof -
  let ?in = "\<lambda>ev. onInflow (mc_pipeline cfg) (wirePipeline (pc_sqlSum (mc_pipeline cfg)) (b_priceHistory s) (te_inflow te ev)) ev"
  have "calm (wirePipeline q h (te_inflow te ev))" for q h ev
    using assms by (simp add: calmTick_def calm_def wirePipeline_def)
  then have "stays evolvesLog (?in ev)" for ev by (rule stays_onInflow)
  then have "stays evolvesLog (pollAddress (pc_bertMint (mc_pipeline cfg)) (te_watcher te a) ?in a)"
    using assms by (intro stays_pollAddress) (simp_all add: calmTick_def)
  from staysD [OF this, of "(b_db s, b_sweeps s)"]
  show "evolves (b_db s) (b_db (snd (vaultPoll cfg te a s)))"
    by (simp add: vaultPoll_def overSweeps_def evolvesLog_def split_beta)
  show "b_payouts (snd (vaultPoll cfg te a s)) = b_payouts s"
    by (simp add: vaultPoll_def overSweeps_def split_beta)
qed

lemma vaultDrain_inv:
  assumes "calmTick te" "vaultInv s" shows "vaultInv (snd (vaultDrain cfg te s))"
proof -
  let ?env = "\<lambda>i. wireExec (b_priceHistory s) (te_exec te i)"
  have env: "calmExec (?env i)" "honest (?env i)" for i
    using assms(1) by (simp_all add: calmTick_def calmExec_def honest_def wireExec_def)
  have "store_wf (b_db s)" "payoutsSafe (b_db s) (b_payouts s)" using assms(2) by (simp_all add: vaultInv_def)
  from drainRows_outcome [where env = ?env, OF env this queuedRows_list [OF this(1)], of "mc_exec cfg"] assms(2)
  show ?thesis by (auto simp: vaultDrain_def overPayouts_def drain_def exn_simps vaultInv_def)
qed

lemma overEffects_evolves:
  assumes "stays evolvesLog m" shows "evolves (b_db s) (b_db (snd (overEffects m s)))"
  using staysD [OF assms, of "(b_db s, b_effects s)"] by (simp add: overEffects_def evolvesLog_def split_beta)

lemma overEffects_payouts [simp]: "b_payouts (snd (overEffects m s)) = b_payouts s"
  by (simp add: overEffects_def split_beta)

interpretation inv: tick_law "\<lambda>s s'. calmTick te \<longrightarrow> vaultInv s \<longrightarrow> vaultInv s'" cfg te for cfg te
proof (unfold_locales, goal_cases)
  case (3 a)
  show ?case using vaultPoll_evolves vaultInv_evolves by (fastforce simp: stays_def)
next
  case (4 mid position)
  show ?case
    unfolding stays_def
    by (auto simp: calmTick_def intro: vaultInv_evolves overEffects_evolves [OF evl_executeRebalance])
next
  case 5
  then show ?case using vaultDrain_inv by (auto simp: stays_def)
next
  case (6 sev msg)
  show ?case unfolding stays_def by (auto intro: vaultInv_evolves overEffects_evolves [OF evl_notify])
next
  case 7
  show ?case
    unfolding stays_def
    by (auto simp: overDb_def split_beta intro: vaultInv_write)
next
  case (8 s)
  then show ?case by (auto simp: calmTick_def intro: vaultInv_evolves)
qed (auto simp: vaultInv_def)

lemma tick_inv: "calmTick te \<Longrightarrow> vaultInv s \<Longrightarrow> vaultInv (tick cfg te s)"
  using inv.keeps_tick [OF inv.keeps_polled, where te = te and s = s and cfg = cfg] by (simp add: vaultInv_def)

text \<open>The invariant of the vault survives any number of ticks. Whatever oracle, node and other tasks do, as long
  as the tasks that run in between evolve the database and a transfer reported as failed did not land, after every
  tick the tables are well formed, every share balance is the replay of the audit log, no withdrawal was paid
  twice and none that was paid can be paid again.\<close>

theorem ticks_keep_vault:
  assumes "list_all calmTick tes" "vaultInv s"
  shows "vaultInv (ticks cfg tes s)"
  using assms by (induction tes arbitrary: s) (auto intro: tick_inv)

lemma calm_demo: "calmTick (tick_demo k)"
  using exec_demo_ok
  by (simp add: calmTick_def tick_demo_def watcher_demo_def env_demo_def calm_def calmReb_def reb_demo_def ev.refl)

lemma vaultInv_init: "vaultInv (start init_db)"
  by (simp add: vaultInv_def start_def store_wf_init ledger_ok_def payoutsSafe_def)
    (simp add: init_db_def getShares_def findShares_def replayedShares_def postings_def emptyTable_def List.map_filter_def)

text \<open>A depositor with credited shares and a queued withdrawal.\<close>

definition vault_demo :: db where
  "vault_demo = snd (enqueueWithdrawal 7 ''dest'' 10 1 5 (snd (credit sum_list credit_demo user_demo)))"

lemma vaultInv_demo: "vaultInv (start vault_demo)"
proof -
  have user: "findUserRow 7 user_demo \<noteq> None" by code_simp
  have "evolves init_db user_demo" unfolding user_demo_def by (rule evolves_createUser)
  also have c: "evolves user_demo (snd (credit sum_list credit_demo user_demo))" by (rule evolves_credit)
  finally have funded: "evolves init_db (snd (credit sum_list credit_demo user_demo))" .
  have "findUserRow 7 (snd (credit sum_list credit_demo user_demo)) \<noteq> None"
    using c user store_wf_user_demo by (simp add: evolves_def)
  then have "evolves init_db vault_demo"
    unfolding vault_demo_def by (intro ev.trans [OF funded] evolves_enqueueWithdrawal) (simp_all add: is_double_def)
  then have "vaultInv ((start init_db)\<lparr>b_db := vault_demo\<rparr>)" using vaultInv_init vaultInv_write by (fastforce simp: start_def)
  then show ?thesis by (simp add: start_def)
qed

theorem ticks_keep_vault_witness:
  "vaultInv (ticks main_demo (replicate 3 (tick_demo False)) (start vault_demo))"
  by (rule ticks_keep_vault) (simp_all add: calm_demo list_all_iff vaultInv_demo)

section \<open>The transfer of a withdrawal\<close>

text \<open>What a list of instructions pays to a wallet, in SOL, and to its token account, in BERT.\<close>

definition solPaid :: "string \<Rightarrow> instr list \<Rightarrow> rat list" where
  "solPaid dest ixs = List.map_filter (\<lambda>ix. case ix of SystemTransfer _ to a \<Rightarrow> if to = dest then Some a else None | _ \<Rightarrow> None) ixs"

definition bertPaid :: "PipelineCfg \<Rightarrow> string \<Rightarrow> instr list \<Rightarrow> int list" where
  "bertPaid pc dest ixs =
     List.map_filter (\<lambda>ix. case ix of
        TransferChecked _ mint to _ a _ \<Rightarrow> if mint = pc_bertMint pc \<and> pc_ata pc mint dest True = Inr to then Some a else None
      | _ \<Rightarrow> None) ixs"

text \<open>C33: The transfer of a withdrawal, from the builder through the submitter. When the node reports truthfully, a
  transfer that returns a signature landed exactly one transaction, which pays the destination the SOL and the
  BERT of the withdrawal, once each, and pays nobody else; a transfer that throws landed nothing, which is what
  the executor relies on. The flag for dry runs plays no part.\<close>

theorem transfer_once:
  assumes "truthful se" "executeTransfer cfg pc se dest sol bert = (r, chain)"
  shows "case r of
      Inl err \<Rightarrow> chain = []
    | Inr sig \<Rightarrow> \<exists>ixs. chain = [budgetedTx (transferOpts cfg) (map Ix ixs)]
        \<and> solPaid dest ixs = (if 0 < sol then [numOfBig sol] else [])
        \<and> bertPaid pc dest ixs = (if 0 < bert then [bert] else [])
        \<and> length ixs = (if 0 < sol then 1 else 0) + (if 0 < bert then 2 else (0::nat))"
proof (cases "buildWithdrawalInstructions (pc_ata pc) (pc_payer pc) dest sol bert (pc_bertMint pc) True")
  case (Inl err)
  with assms(2) show ?thesis by (auto simp: executeTransfer_def)
next
  case (Inr ixs)
  have paid: "solPaid dest ixs = (if 0 < sol then [numOfBig sol] else [])"
    "bertPaid pc dest ixs = (if 0 < bert then [bert] else [])"
    "length ixs = (if 0 < sol then 1 else 0) + (if 0 < bert then 2 else 0)"
    using Inr by (auto simp: buildWithdrawalInstructions_def Let_def solPaid_def bertPaid_def List.map_filter_def
        split: if_splits sum.splits)
  have "submit se (transferOpts cfg) (map Ix ixs) [] = (r, chain)" using assms(2) Inr by (simp add: executeTransfer_def)
  then show ?thesis
    by (rule rpc.outcome [OF assms(1)]) (use paid in \<open>auto simp: transferOpts_def\<close>)
qed

theorem transfer_once_witness:
  "\<exists>chain. executeTransfer rebcfg_demo cfg_demo submit_demo ''dest'' 5 0 = (Inr ''sig'', chain) \<and> length chain = 1"
proof -
  have truth: "truthful submit_demo"
    by (simp add: truthful_def submit_demo_def jito_demo_def confirmedByJito_def)
  have "\<exists>chain. executeTransfer rebcfg_demo cfg_demo submit_demo ''dest'' 5 0 = (Inr ''sig'', chain)"
    by (simp add: executeTransfer_def buildWithdrawalInstructions_def transferOpts_def submit_def submit_demo_def
        andThen_def modify_def ret_def eval_nat_numeral)
  then obtain chain where run: "executeTransfer rebcfg_demo cfg_demo submit_demo ''dest'' 5 0 = (Inr ''sig'', chain)" ..
  with transfer_once [OF truth run] show ?thesis by auto
qed

end
