(* ===== verification/Cli.thy ===== *)
theory Cli
  imports Raydium Main_Properties
begin

text \<open>
  The operator's command line, \<open>src/src/cli/\<close>. Each command runs on the database and the log of effects, like the
  rebalancer; what is read from the terminal, from the node and from the clock is in \<open>CliEnv\<close>. What a command prints
  is its value where it prints a report, and left out otherwise. \<open>Exit\<close> is \<open>process.exit\<close>. The lemmas show that every
  command respects the vault's tables, the properties what the founding of the vault establishes and what a
  reconciliation does.
\<close>

section \<open>Environment\<close>

record 'i CliEnv =
  cx_now :: int
  cx_osUser :: string
  cx_answer :: string
  cx_runtime :: "unit result"
  cx_samples :: "PriceSample option result list"
  cx_getPosition :: "string \<Rightarrow> rat \<Rightarrow> PositionSnapshot option result"
  cx_buildClose :: "string \<Rightarrow> ('i tx \<times> int \<times> int) result"
  cx_submit :: SubmitEnv
  cx_rebalance :: "'i RebEnv"
  cx_string :: "js_error \<Rightarrow> string"

datatype CliExit = Returned | Exit int

definition operatorAction :: "'i CliEnv \<Rightarrow> string \<Rightarrow> db \<Rightarrow> db" where
  "operatorAction e command = recordOperatorAction \<lparr>oa_ts = cx_now e, oa_command = command, oa_osUser = cx_osUser e\<rparr>"

section \<open>The commands\<close>

definition runClearDegraded :: "'i CliEnv \<Rightarrow> ('i, CliExit) rebm" where
  "runClearDegraded e =
     andThen (onDb (gets isDegraded)) (\<lambda>degraded.
       if \<not> degraded then ret Returned
       else if trim (cx_answer e) \<noteq> ''YES'' then ret Returned
       else
         andThen (onDb (modify (setDegraded (cx_now e) False ''cleared by operator''))) (\<lambda>_.
         andThen (onDb (modify (operatorAction e ''clear-degraded''))) (\<lambda>_.
         ret Returned)))"

text \<open>\<open>pause\<close> and \<open>resume\<close> run on the database and the \<open>enabled\<close> entry of the configuration file.\<close>

definition runPause :: "'i CliEnv \<Rightarrow> unit result \<Rightarrow> bool \<Rightarrow> (db \<times> bool, CliExit) exn" where
  "runPause e configIo pause =
     andThen (lift configIo) (\<lambda>_.
     andThen (modify (\<lambda>(d, _). (d, \<not> pause))) (\<lambda>_.
     andThen (onDb (modify (operatorAction e (if pause then ''pause'' else ''resume'')))) (\<lambda>_.
     ret Returned)))"

definition cliSolUsd :: "PriceSample list \<Rightarrow> rat" where
  "cliSolUsd samples = (case samples of [] \<Rightarrow> 150 | s # _ \<Rightarrow> ps_solUsd s)"

definition cliMid :: "rat \<Rightarrow> 'i CliEnv \<Rightarrow> MidPrice option" where
  "cliMid divergenceBps e =
     (let samples = fetchAllSources (cx_samples e)
      in computeTrustedMid samples (cliSolUsd samples) (cx_now e) divergenceBps)"

definition cliPosition :: "'i CliEnv \<Rightarrow> MidPrice \<Rightarrow> ('i, PositionSnapshot option) rebm" where
  "cliPosition e mid =
     andThen (onDb (gets getCurrentPosition)) (\<lambda>stored.
       case stored of
         None \<Rightarrow> ret None
       | Some p \<Rightarrow> lift (cx_getPosition e (sp_nftMint p) (mp_solUsd mid)))"

definition exitOf :: "RebalanceResult \<Rightarrow> CliExit" where
  "exitOf result = (case result of FAILED _ \<Rightarrow> Exit 1 | _ \<Rightarrow> Returned)"

text \<open>The submitter of the command line has no Jito client.\<close>

definition runForceRebalance :: "RebConfig \<Rightarrow> rat \<Rightarrow> 'i CliEnv \<Rightarrow> ('i, CliExit) rebm" where
  "runForceRebalance cfg divergenceBps e =
     andThen (lift (cx_runtime e)) (\<lambda>_.
       case cliMid divergenceBps e of
         None \<Rightarrow> ret (Exit 1)
       | Some mid \<Rightarrow>
           andThen (cliPosition e mid) (\<lambda>currentPosition.
           andThen (onDb (modify (operatorAction e ''rebalance --force''))) (\<lambda>_.
           andThen (executeRebalance (cfg\<lparr>rc_jito := None\<rparr>) (cx_rebalance e) mid currentPosition) (\<lambda>result.
           ret (exitOf result)))))"

definition runCollectFees :: "RebConfig \<Rightarrow> rat \<Rightarrow> 'i CliEnv \<Rightarrow> ('i, CliExit) rebm" where
  "runCollectFees cfg divergenceBps e =
     andThen (lift (cx_runtime e)) (\<lambda>_.
       case cliMid divergenceBps e of
         None \<Rightarrow> ret (Exit 1)
       | Some mid \<Rightarrow>
           andThen (cliPosition e mid) (\<lambda>currentPosition.
           andThen (executeRebalance (cfg\<lparr>rc_jito := None\<rparr>) (cx_rebalance e) mid currentPosition) (\<lambda>result.
           andThen (onDb (modify (operatorAction e ''collect-fees''))) (\<lambda>_.
           ret (exitOf result)))))"

definition runEmergencyExit :: "RebConfig \<Rightarrow> 'i CliEnv \<Rightarrow> ('i, CliExit) rebm" where
  "runEmergencyExit cfg e =
     (if trim (cx_answer e) \<noteq> ''CLOSE'' then ret Returned
      else
        andThen (lift (cx_runtime e)) (\<lambda>_.
        andThen (onDb (gets getCurrentPosition)) (\<lambda>stored.
          case stored of
            None \<Rightarrow> andThen (onDb (modify (operatorAction e ''emergency-exit:no-position''))) (\<lambda>_. ret Returned)
          | Some p \<Rightarrow>
              tryElse
                (andThen (lift (cx_buildClose e (sp_nftMint p))) (\<lambda>(closeTx, _).
                 viaChain CloseStep (submit (cx_submit e) (submitOpts cfg) closeTx)))
                (\<lambda>err. andThen (notify CRITICAL [Lit (''emergency-exit FAILED: '' @ cx_string e err)]) (\<lambda>_. ret (Exit 1)))
                (\<lambda>closeSig.
                   andThen (if rc_dryRun cfg then ret () else onDb (modify clearCurrentPosition)) (\<lambda>_.
                   andThen (onDb (modify (operatorAction e ''emergency-exit''))) (\<lambda>_.
                   andThen (notify CRITICAL [Lit (''EMERGENCY EXIT executed by '' @ cx_osUser e), Lit '' '', Cp 0x2014,
                      Lit ('' closeSig='' @ closeSig)]) (\<lambda>_.
                   ret Returned)))))))"

definition runCloseOrphan :: "RebConfig \<Rightarrow> 'i CliEnv \<Rightarrow> string \<Rightarrow> ('i, CliExit) rebm" where
  "runCloseOrphan cfg e nftMint =
     andThen (lift (cx_runtime e)) (\<lambda>_.
       case cx_buildClose e nftMint of
         Inl _ \<Rightarrow> ret (Exit 1)
       | Inr (closeTx, _) \<Rightarrow>
           if trim (cx_answer e) \<noteq> ''CLOSE'' then ret Returned
           else
             tryElse (viaChain CloseStep (submit (cx_submit e) (submitOpts cfg) closeTx))
               (\<lambda>err. andThen (notify CRITICAL [Lit (''close-orphan FAILED for '' @ nftMint @ '': '' @ cx_string e err)]) (\<lambda>_. ret (Exit 1)))
               (\<lambda>closeSig.
                  andThen (onDb (modify (operatorAction e (''close-orphan:'' @ nftMint)))) (\<lambda>_.
                  andThen (notify INFO [Lit (''Orphan position '' @ nftMint @ '' closed by '' @ cx_osUser e), Lit '' '', Cp 0x2014,
                     Lit ('' sig='' @ closeSig)]) (\<lambda>_.
                  ret Returned))))"

definition positionOf :: "PositionSnapshot \<Rightarrow> StoredPosition" where
  "positionOf onchain = \<lparr>sp_nftMint = po_nftMint onchain, sp_lowerUsd = rg_lowerBertUsd (po_range onchain),
     sp_upperUsd = rg_upperBertUsd (po_range onchain), sp_centerUsd = rg_centerBertUsd (po_range onchain),
     sp_openedAt = po_openedAt onchain\<rparr>"

text \<open>The position is read at a SOL price of zero.\<close>

definition runReconcile :: "'i CliEnv \<Rightarrow> ('i, CliExit) rebm" where
  "runReconcile e =
     andThen (lift (cx_runtime e)) (\<lambda>_.
     andThen (onDb (gets getCurrentPosition)) (\<lambda>stored.
     andThen (case stored of None \<Rightarrow> ret None | Some p \<Rightarrow> lift (cx_getPosition e (sp_nftMint p) 0)) (\<lambda>onchain.
       case reconcile stored onchain of
         MISMATCH reason \<Rightarrow>
           if trim (cx_answer e) \<noteq> ''YES'' then ret Returned
           else
             andThen (onDb (modify (case onchain of Some p \<Rightarrow> setCurrentPosition (positionOf p) | None \<Rightarrow> clearCurrentPosition))) (\<lambda>_.
             andThen (onDb (modify (operatorAction e ''reconcile:overwrite''))) (\<lambda>_.
             andThen (notify WARN (Lit (''Operator reconcile overwrite by '' @ cx_osUser e @ '': '') # reason)) (\<lambda>_.
             ret Returned)))
       | _ \<Rightarrow> andThen (onDb (modify (operatorAction e ''reconcile:ok''))) (\<lambda>_. ret Returned))))"

section \<open>Reports\<close>

record StatusOutput =
  so_timestamp :: int
  so_enabled :: bool
  so_degraded :: bool
  so_currentPosition :: "StoredPosition option"
  so_lastRebalanceAt :: "int option"
  so_rebalancesToday :: nat
  so_recentOperatorActions :: "OperatorAction list"

definition runStatus :: "bool \<Rightarrow> int \<Rightarrow> db \<Rightarrow> StatusOutput" where
  "runStatus enabled now d =
     \<lparr>so_timestamp = now, so_enabled = enabled, so_degraded = isDegraded d, so_currentPosition = getCurrentPosition d,
      so_lastRebalanceAt = lastRebalanceAt d, so_rebalancesToday = getRebalancesToday now d,
      so_recentOperatorActions = listOperatorActions 10 d\<rparr>"

record Report =
  rt_days :: int
  rt_since :: int
  rt_totalFees :: frag
  rt_avgDrift :: frag
  rt_records :: "RebalanceRecord list"
  rt_operatorActions :: "OperatorAction list"

definition runReport :: "int \<Rightarrow> int \<Rightarrow> db \<Rightarrow> Report" where
  "runReport days now d =
     (let sinceMs = now - days * 86400000;
          rebalances = listRebalancesSince sinceMs d;
          totalFees = foldl nadd 0 (map rr_feesCollectedUsd rebalances);
          drifts = map (\<lambda>r. \<bar>nsub (rr_newCenterUsd r) (rr_oldCenterUsd r)\<bar>) rebalances;
          avgDrift = (if drifts \<noteq> [] then ndiv (foldl nadd 0 drifts) (of_nat (length drifts)) else 0)
      in \<lparr>rt_days = days, rt_since = sinceMs, rt_totalFees = Fixed 6 totalFees, rt_avgDrift = Fixed 8 avgDrift,
          rt_records = rebalances, rt_operatorActions = listOperatorActionsSince sinceMs d\<rparr>)"

section \<open>Founding the vault\<close>

record BootstrapParams =
  bp_cipher :: cipher
  bp_keypair :: "string \<times> bytes"
  bp_iv :: bytes
  bp_masterKey :: bytes
  bp_operatorTelegramId :: int
  bp_initialNavUsd :: rat
  bp_ensureAta :: "string \<Rightarrow> unit result"
  bp_now :: int

record BootstrapResult =
  br_operatorTelegramId :: int
  br_depositAddress :: string
  br_initialShares :: rat
  br_navPerShare :: rat

definition bootstrapTx :: "BootstrapParams \<Rightarrow> bytes \<times> bytes \<Rightarrow> unit dbm" where
  "bootstrapTx p enc =
     withTransaction
       (andThen (createUser (bp_operatorTelegramId p) Operator (fst (bp_keypair p)) (fst enc) (snd enc) (bp_now p) (bp_now p)) (\<lambda>_.
        andThen (addShares (bp_operatorTelegramId p) (bp_initialNavUsd p)) (\<lambda>_.
        andThen (modify (insertNavSnapshot \<lparr>n_ts = bp_now p, n_totalValueUsd = bp_initialNavUsd p, n_totalShares = bp_initialNavUsd p,
           n_navPerShare = 1, n_source = Bootstrap\<rparr>)) (\<lambda>_.
        modify (writeAudit (bp_now p) (Some (bp_operatorTelegramId p)) ''bootstrap''
          (JObj [(''initialNavUsd'', JNum (bp_initialNavUsd p))]))))))"

definition runBootstrap :: "BootstrapParams \<Rightarrow> BootstrapResult dbm" where
  "runBootstrap p =
     andThen (gets listUsers) (\<lambda>users.
       if length users > 0 then throw ''vault-bootstrap: vault already initialised (users exist)''
       else
         andThen (lift (encrypt (bp_cipher p) (bp_iv p) (snd (bp_keypair p)) (bp_masterKey p))) (\<lambda>enc.
         andThen (bootstrapTx p enc) (\<lambda>_.
         andThen (lift (bp_ensureAta p (fst (bp_keypair p)))) (\<lambda>_.
         ret \<lparr>br_operatorTelegramId = bp_operatorTelegramId p, br_depositAddress = fst (bp_keypair p),
              br_initialShares = bp_initialNavUsd p, br_navPerShare = 1\<rparr>))))"

section \<open>Start-up\<close>

text \<open>From \<open>main.ts\<close>: before the loop starts, the stored position is compared with the chain at the current SOL price.\<close>

definition startUp :: "PriceSample option result list \<Rightarrow> (string \<Rightarrow> rat \<Rightarrow> PositionSnapshot option result) \<Rightarrow> ('i, CliExit) rebm" where
  "startUp results getPosition =
     andThen (onDb (gets getCurrentPosition)) (\<lambda>stored.
     andThen (case stored of None \<Rightarrow> ret None | Some p \<Rightarrow> lift (getPosition (sp_nftMint p) (tickSolUsd (fetchAllSources results)))) (\<lambda>onchain.
       case reconcile stored onchain of
         MISMATCH reason \<Rightarrow>
           andThen (notify CRITICAL (Lit ''Startup reconciliation FAILED: '' # reason @ [Lit ''. Refusing to start.''])) (\<lambda>_. ret (Exit 2))
       | _ \<Rightarrow> ret Returned))"

text \<open>\<open>vault/preflight.ts\<close>: the token account of the main wallet, created if it is missing. \<open>existing\<close> tells whether
  the account exists, \<open>submitTx\<close> sends a transaction.\<close>

definition preflightVaultAta :: "ata_fn \<Rightarrow> string \<Rightarrow> string \<Rightarrow> bool result \<Rightarrow> (instr list \<Rightarrow> string result) \<Rightarrow> (string \<times> bool) result" where
  "preflightVaultAta ata payer bertMint existing submitTx =
     thenR (ata bertMint payer False) (\<lambda>account.
     thenR existing (\<lambda>present.
       if present then Inr (account, False)
       else thenR (submitTx [CreateAtaIdempotent payer account payer bertMint]) (\<lambda>_. Inr (account, True))))"

text \<open>\<open>notifier.ts\<close>: where a message is posted. Each channel has one destination for critical messages and one for
  all others; both posts are awaited with \<open>Promise.allSettled\<close>, so a failing one stops nothing.\<close>

record TelegramChannel =
  tch_botToken :: string
  tch_chatIdInfo :: string
  tch_chatIdCritical :: string

record DiscordChannel =
  dch_webhookInfo :: string
  dch_webhookCritical :: string

record NotifierChannels =
  nc_telegram :: "TelegramChannel option"
  nc_discord :: "DiscordChannel option"

datatype Post = PostDiscord string "frag list" | PostTelegram string string "frag list"

definition showSeverity :: "Severity \<Rightarrow> string" where
  "showSeverity sev = (case sev of INFO \<Rightarrow> ''INFO'' | WARN \<Rightarrow> ''WARN'' | CRITICAL \<Rightarrow> ''CRITICAL'')"

definition sendPosts :: "NotifierChannels \<Rightarrow> int \<Rightarrow> Severity \<Rightarrow> frag list \<Rightarrow> Post list" where
  "sendPosts channels now sev message =
     (let body = [Lit (''['' @ showSeverity sev @ ''] ''), Iso now, Cp 10] @ message;
          critical = (sev = CRITICAL)
      in (case nc_discord channels of
            Some d \<Rightarrow> [PostDiscord (if critical then dch_webhookCritical d else dch_webhookInfo d) body]
          | None \<Rightarrow> []) @
         (case nc_telegram channels of
            Some t \<Rightarrow> [PostTelegram (tch_botToken t) (if critical then tch_chatIdCritical t else tch_chatIdInfo t) body]
          | None \<Rightarrow> []))"

section \<open>The commands keep the vault\<close>

lemma evolves_operatorAction [intro]: "evolves d (operatorAction e command d)"
  unfolding operatorAction_def by (rule evolves_aux)

lemma evl_modify: "(\<And>d. evolves d (f d)) \<Longrightarrow> stays evolvesLog (onDb (modify f))"
  by (intro stays_onDb ev.stays_modify)

lemma evl_tryElse:
  "stays evolvesLog m \<Longrightarrow> (\<And>err. stays evolvesLog (h err)) \<Longrightarrow> (\<And>x. stays evolvesLog (k x)) \<Longrightarrow> stays evolvesLog (tryElse m h k)"
  by (rule stays_tryElse [OF evl.store_order_axioms])

lemmas evl_rules = evl.stays_pure evl.stays_andThen evl.stays_tryCatch evl_tryElse stays_onDb stays_emit evl_viaChain evl_notify
  ev.stays_pure ev.stays_modify evolves_operatorAction evolves_aux

lemma stays_commands:
  "stays evolvesLog (runClearDegraded e)" "stays evolvesLog (runEmergencyExit cfg e)" "stays evolvesLog (runCloseOrphan cfg e i)"
  "stays evolvesLog (runReconcile e)" "stays evolvesLog (startUp results getPosition)"
proof -
  show "stays evolvesLog (runClearDegraded e)" unfolding runClearDegraded_def by (auto intro!: evl_rules)
  show "stays evolvesLog (runEmergencyExit cfg e)"
    unfolding runEmergencyExit_def by (auto intro!: evl_rules split: option.splits prod.splits)
  show "stays evolvesLog (runCloseOrphan cfg e i)"
    unfolding runCloseOrphan_def by (auto intro!: evl_rules split: sum.splits prod.splits)
  show "stays evolvesLog (runReconcile e)"
    unfolding runReconcile_def by (auto intro!: evl_rules split: option.splits ReconcileResult.splits)
  show "stays evolvesLog (startUp results getPosition)"
    unfolding startUp_def by (auto intro!: evl_rules split: option.splits ReconcileResult.splits)
qed

lemma stays_rebalances:
  assumes "calmReb (cx_rebalance e)"
  shows "stays evolvesLog (runForceRebalance cfg bps e)" "stays evolvesLog (runCollectFees cfg bps e)"
proof -
  have p: "stays evolvesLog (cliPosition e mid)" for mid unfolding cliPosition_def by (auto intro!: evl_rules split: option.splits)
  note r = evl_executeRebalance [OF assms]
  show "stays evolvesLog (runForceRebalance cfg bps e)" "stays evolvesLog (runCollectFees cfg bps e)"
    unfolding runForceRebalance_def runCollectFees_def by (auto intro!: evl_rules p r split: option.splits)
qed

section \<open>The founding\<close>

lemma no_users_no_shares: "store_wf d \<Longrightarrow> vault_users d = [] \<Longrightarrow> getShares u d = 0 \<and> findShares u d = None"
  by (auto simp: getShares_def findShares_def wf_defs find_None_iff findUserRow_def split: option.splits dest: find_SomeD)

lemma listUsers_Nil: "listUsers d = [] \<longleftrightarrow> vault_users d = []"
  by (metis Nil_is_map_conv length_0_conv length_sort listUsers_def)

text \<open>The database after the transaction.\<close>

definition founded :: "BootstrapParams \<Rightarrow> bytes \<times> bytes \<Rightarrow> db \<Rightarrow> db" where
  "founded p enc d = snd (bootstrapTx p enc d)"

lemma bootstrapTx_run:
  assumes "store_wf d" "vault_users d = []"
  shows "bootstrapTx p enc d = (Inr (), founded p enc d)"
    and "founded p enc d = writeAudit (bp_now p) (Some (bp_operatorTelegramId p)) ''bootstrap'' (JObj [(''initialNavUsd'', JNum (bp_initialNavUsd p))])
      (insertNavSnapshot \<lparr>n_ts = bp_now p, n_totalValueUsd = bp_initialNavUsd p, n_totalShares = bp_initialNavUsd p,
           n_navPerShare = 1, n_source = Bootstrap\<rparr>
        (snd (addShares (bp_operatorTelegramId p) (bp_initialNavUsd p)
          (snd (createUser (bp_operatorTelegramId p) Operator (fst (bp_keypair p)) (fst enc) (snd enc) (bp_now p) (bp_now p) d)))))"
proof -
  define d1 where "d1 = snd (createUser (bp_operatorTelegramId p) Operator (fst (bp_keypair p)) (fst enc) (snd enc) (bp_now p) (bp_now p) d)"
  define d2 where "d2 = snd (addShares (bp_operatorTelegramId p) (bp_initialNavUsd p) d1)"
  have c: "createUser (bp_operatorTelegramId p) Operator (fst (bp_keypair p)) (fst enc) (snd enc) (bp_now p) (bp_now p) d = (Inr (), d1)"
    using assms(2) by (simp add: createUser_def d1_def)
  have "findUserRow (bp_operatorTelegramId p) d1 \<noteq> None" using assms(2) by (simp add: d1_def createUser_def findUserRow_def)
  then have a: "addShares (bp_operatorTelegramId p) (bp_initialNavUsd p) d1 = (Inr (), d2)"
    using addShares_ok unfolding d2_def by (metis prod.collapse)
  have run: "bootstrapTx p enc d = (Inr (), writeAudit (bp_now p) (Some (bp_operatorTelegramId p)) ''bootstrap'' (JObj [(''initialNavUsd'', JNum (bp_initialNavUsd p))])
      (insertNavSnapshot \<lparr>n_ts = bp_now p, n_totalValueUsd = bp_initialNavUsd p, n_totalShares = bp_initialNavUsd p,
           n_navPerShare = 1, n_source = Bootstrap\<rparr> d2))"
    unfolding bootstrapTx_def withTransaction_def by (rule atomically_run(1)) (simp add: exn_simps c a)
  then show "bootstrapTx p enc d = (Inr (), founded p enc d)" by (simp add: founded_def)
  show "founded p enc d = writeAudit (bp_now p) (Some (bp_operatorTelegramId p)) ''bootstrap'' (JObj [(''initialNavUsd'', JNum (bp_initialNavUsd p))])
      (insertNavSnapshot \<lparr>n_ts = bp_now p, n_totalValueUsd = bp_initialNavUsd p, n_totalShares = bp_initialNavUsd p,
           n_navPerShare = 1, n_source = Bootstrap\<rparr>
        (snd (addShares (bp_operatorTelegramId p) (bp_initialNavUsd p)
          (snd (createUser (bp_operatorTelegramId p) Operator (fst (bp_keypair p)) (fst enc) (snd enc) (bp_now p) (bp_now p) d)))))"
    unfolding founded_def run d2_def d1_def by simp
qed

lemma founded_effect:
  assumes "store_wf d" "vault_users d = []" "is_double (bp_initialNavUsd p)"
  shows "getShares u (founded p enc d) = (if u = bp_operatorTelegramId p then bp_initialNavUsd p else 0)"
    and "map u_telegram_id (vault_users (founded p enc d)) = [bp_operatorTelegramId p]"
    and "map u_role (vault_users (founded p enc d)) = [Operator]"
    and "postings (founded p enc d) = postings d @ [(bp_operatorTelegramId p, bp_initialNavUsd p)]"
    and "store_wf (founded p enc d)"
    and "vault_withdrawals (founded p enc d) = vault_withdrawals d" "vault_deposits (founded p enc d) = vault_deposits d"
proof -
  let ?d1 = "snd (createUser (bp_operatorTelegramId p) Operator (fst (bp_keypair p)) (fst enc) (snd enc) (bp_now p) (bp_now p) d)"
  note f = bootstrapTx_run(2) [OF assms(1,2), of p enc]
  have user: "findUserRow (bp_operatorTelegramId p) ?d1 \<noteq> None" using assms(2) by (simp add: createUser_def findUserRow_def)
  have s0: "getShares v ?d1 = 0" for v
    using no_users_no_shares [OF assms(1,2)] assms(2) by (simp add: createUser_def getShares_def findShares_def)
  have s1: "getShares v (snd (addShares (bp_operatorTelegramId p) (bp_initialNavUsd p) ?d1))
      = (if v = bp_operatorTelegramId p then bp_initialNavUsd p else 0)" for v
    using addShares_getShares [OF assms(3) addShares_ok [OF user]] s0 assms(3) by (simp add: nadd_def is_double_def)
  have "getShares u (founded p enc d) = getShares u (snd (addShares (bp_operatorTelegramId p) (bp_initialNavUsd p) ?d1))"
    by (simp add: f) (simp add: getShares_def findShares_def insertNavSnapshot_def)
  then show "getShares u (founded p enc d) = (if u = bp_operatorTelegramId p then bp_initialNavUsd p else 0)"
    by (simp only: s1)
  show "map u_telegram_id (vault_users (founded p enc d)) = [bp_operatorTelegramId p]"
    "map u_role (vault_users (founded p enc d)) = [Operator]"
    using assms(2) by (simp_all add: f writeAudit_def insertNavSnapshot_def createUser_def)
  have "postings (insertNavSnapshot n (snd (addShares v x ?d1))) = postings d" for n v x
    by (rule postings_cong) (simp add: insertNavSnapshot_def createUser_def)
  then show "postings (founded p enc d) = postings d @ [(bp_operatorTelegramId p, bp_initialNavUsd p)]"
    by (simp add: f postings_writeAudit auditDelta_def numField_def)
  have "store_wf (snd (addShares (bp_operatorTelegramId p) (bp_initialNavUsd p) ?d1))"
    by (intro store_wf_addShares store_wf_createUser assms)
  then show "store_wf (founded p enc d)" by (simp add: f)
  show "vault_withdrawals (founded p enc d) = vault_withdrawals d" "vault_deposits (founded p enc d) = vault_deposits d"
    by (simp_all add: f writeAudit_def insertNavSnapshot_def createUser_def)
qed

lemma evolves_founded:
  assumes "store_wf d" "vault_users d = []" "is_double (bp_initialNavUsd p)"
  shows "evolves d (founded p enc d)"
proof -
  note eff = founded_effect [OF assms]
  have z: "getShares u d = 0" for u using no_users_no_shares [OF assms(1,2)] by simp
  have "ledger_ok (founded p enc d)" if "ledger_ok d"
    using that z assms(3) unfolding ledger_ok_def replayed_posting [OF eff(4)] eff(1) by (auto simp: nadd_def is_double_def)
  then show ?thesis
    using eff(5-7) assms(2) by (simp add: evolves_def getWithdrawalById_def hasDeposit_def findUserRow_def)
qed

lemma runBootstrap_cases:
  assumes "store_wf d" "runBootstrap p d = (r, d')"
  obtains (refused) err where "r = Inl err" "d' = d" "vault_users d \<noteq> [] \<or> length (bp_masterKey p) \<noteq> 32"
  | (opened) enc where "vault_users d = []" "length (bp_masterKey p) = 32" "d' = founded p enc d"
      "r = thenR (bp_ensureAta p (fst (bp_keypair p))) (\<lambda>_. Inr \<lparr>br_operatorTelegramId = bp_operatorTelegramId p,
         br_depositAddress = fst (bp_keypair p), br_initialShares = bp_initialNavUsd p, br_navPerShare = 1\<rparr>)"
proof (cases "vault_users d = [] \<and> length (bp_masterKey p) = 32")
  case True
  then obtain enc where enc: "encrypt (bp_cipher p) (bp_iv p) (snd (bp_keypair p)) (bp_masterKey p) = Inr enc"
    by (cases "ci_seal (bp_cipher p) (bp_masterKey p) (bp_iv p) (snd (bp_keypair p))") (simp add: encrypt_def)
  note run = bootstrapTx_run(1) [OF assms(1), of p enc]
  from True assms(2) have "d' = founded p enc d" "r = thenR (bp_ensureAta p (fst (bp_keypair p))) (\<lambda>_. Inr \<lparr>br_operatorTelegramId = bp_operatorTelegramId p,
         br_depositAddress = fst (bp_keypair p), br_initialShares = bp_initialNavUsd p, br_navPerShare = 1\<rparr>)"
    by (cases "bp_ensureAta p (fst (bp_keypair p))"; simp add: runBootstrap_def exn_simps listUsers_Nil enc run)+
  with True opened show ?thesis by blast
next
  case False
  with assms(2) refused show ?thesis
    by (auto simp: runBootstrap_def exn_simps listUsers_Nil encrypt_def split: if_splits)
qed

text \<open>The founding of the vault happens once and completely, or not at all. With any user in the database, or with a
  master key that is not of 32 bytes, it throws and changes nothing. Otherwise afterwards the operator is the only user
  and holds all shares, as many as the opening value in USD, the ledger still replays to the balances, and a second
  founding is refused.\<close>

theorem bootstrap_founds:
  assumes "store_wf d" "ledger_ok d" "is_double (bp_initialNavUsd p)" "runBootstrap p d = (r, d')"
  shows "if vault_users d \<noteq> [] \<or> length (bp_masterKey p) \<noteq> 32 then (\<exists>err. r = Inl err) \<and> d' = d
     else map u_telegram_id (vault_users d') = [bp_operatorTelegramId p] \<and> map u_role (vault_users d') = [Operator]
       \<and> (\<forall>u. getShares u d' = (if u = bp_operatorTelegramId p then bp_initialNavUsd p else 0))
       \<and> store_wf d' \<and> ledger_ok d' \<and> (\<forall>q. \<exists>err. runBootstrap q d' = (Inl err, d'))"
  using assms(1,4)
proof (cases rule: runBootstrap_cases)
  case (opened enc)
  note eff = founded_effect [OF assms(1) opened(1) assms(3), where enc = enc]
  have "ledger_ok d'" using evolves_founded [OF assms(1) opened(1) assms(3)] assms(1,2) opened(3) by (simp add: evolves_def)
  moreover have "\<exists>err. runBootstrap q d' = (Inl err, d')" for q
  proof -
    have "vault_users d' \<noteq> []" using eff(2) opened(3) by auto
    then show ?thesis by (simp add: runBootstrap_def exn_simps listUsers_Nil)
  qed
  ultimately show ?thesis using opened eff by simp
qed auto

definition boot_demo :: BootstrapParams where
  "boot_demo = \<lparr>bp_cipher = null_cipher, bp_keypair = (''opkey'', [1, 2]), bp_iv = [], bp_masterKey = replicate 32 0,
     bp_operatorTelegramId = 42, bp_initialNavUsd = 500, bp_ensureAta = (\<lambda>_. Inr ()), bp_now = 1\<rparr>"

theorem bootstrap_founds_witness:
  "getShares 42 (snd (runBootstrap boot_demo init_db)) = 500 \<and> ledger_ok (snd (runBootstrap boot_demo init_db))"
proof -
  have "vaultInv (start init_db)" by (rule vaultInv_init)
  then have i: "store_wf init_db" "ledger_ok init_db" by (simp_all add: vaultInv_def start_def)
  have p: "is_double (bp_initialNavUsd boot_demo)" by (simp add: boot_demo_def is_double_def)
  have e: "\<not> (vault_users init_db \<noteq> [] \<or> length (bp_masterKey boot_demo) \<noteq> 32)" by (simp add: init_db_def boot_demo_def)
  obtain r d' where run: "runBootstrap boot_demo init_db = (r, d')" by (cases "runBootstrap boot_demo init_db")
  from bootstrap_founds [OF i p run] e run show ?thesis by (simp add: boot_demo_def)
qed

section \<open>Reconciling at a price of zero\<close>

lemma position_overwritten: "getCurrentPosition (operatorAction e command (setCurrentPosition p d)) = Some p"
  by (simp add: operatorAction_def recordOperatorAction_def getCurrentPosition_def setCurrentPosition_def)

context venue
begin

lemma reconcile_poisons:
  fixes e :: "'i CliEnv" and es :: "'i effect list"
  assumes "getCurrentPosition d = Some stored" "sp_lowerUsd stored \<noteq> 0" "cx_runtime e = Inr ()" "cx_getPosition e = getPosition"
    and "getPosition (sp_nftMint stored) 0 = Inr (Some pos)" "trim (cx_answer e) = ''YES''"
  shows "\<exists>d' es' p. runReconcile e (d, es) = (Inr Returned, (d', es')) \<and> getCurrentPosition d' = Some p
     \<and> sp_nftMint p = sp_nftMint stored \<and> sp_lowerUsd p = 0 \<and> sp_upperUsd p = 0
     \<and> (\<forall>results pos'. getPosition (sp_nftMint p) (tickSolUsd (fetchAllSources results)) = Inr (Some pos')
           \<longrightarrow> rg_lowerBertUsd (po_range pos') \<noteq> 0 \<longrightarrow> fst (startUp results getPosition (d', es')) = Inr (Exit 2))"
proof -
  obtain reason where r: "reconcile (Some stored) (Some pos) = MISMATCH reason"
    using zero_mismatch [OF assms(5,2)] by blast
  define d' where "d' = operatorAction e ''reconcile:overwrite'' (setCurrentPosition (positionOf pos) d)"
  have run: "runReconcile e (d, es) = (Inr Returned,
      (d', es @ [Notified WARN (Lit (''Operator reconcile overwrite by '' @ cx_osUser e @ '': '') # reason)]))"
    using assms r by (simp add: runReconcile_def exn_simps d'_def)
  have p: "getCurrentPosition d' = Some (positionOf pos)" by (simp add: d'_def position_overwritten)
  have z: "sp_nftMint (positionOf pos) = sp_nftMint stored" "sp_lowerUsd (positionOf pos) = 0" "sp_upperUsd (positionOf pos) = 0"
    using same_name [OF assms(5)] zero_range [OF assms(5)] by (simp_all add: positionOf_def usdRange_def Let_def)
  have "fst (startUp results getPosition (d', es')) = Inr (Exit 2)"
    if "getPosition (sp_nftMint (positionOf pos)) (tickSolUsd (fetchAllSources results)) = Inr (Some pos')"
      "rg_lowerBertUsd (po_range pos') \<noteq> 0" for results pos' and es' :: "'i effect list"
  proof -
    have "reconcile (Some (positionOf pos)) (Some pos') =
        MISMATCH [Lit ''lower price differs: stored='', Num 0, Lit '' chain='', Num (rg_lowerBertUsd (po_range pos'))]"
      using that z same_name [OF that(1)] by (simp add: reconcile_def approxEqual_def)
    with that(1) p show ?thesis by (simp add: startUp_def exn_simps)
  qed
  with run p z show ?thesis by blast
qed

end

text \<open>C38: The \<open>reconcile\<close> command breaks what it is meant to repair. It reads the position at a SOL price of zero, so the
  bounds it compares with are zero and every stored position with a lower bound is reported as a mismatch, also a sound
  one. If the operator confirms, the stored bounds become zero, and from then on the bot refuses to start as long as the
  position on chain has a lower bound.\<close>

theorem reconcile_zeroes_bounds:
  fixes e :: "'i CliEnv" and es :: "'i effect list" and dl :: "'j Dlmm"
  assumes "getCurrentPosition d = Some stored" "sp_lowerUsd stored \<noteq> 0" "cx_runtime e = Inr ()"
    and "cx_getPosition e = meteoraGetPosition c dl" "meteoraGetPosition c dl (sp_nftMint stored) 0 = Inr (Some pos)"
    and "trim (cx_answer e) = ''YES''"
  shows "\<exists>d' es' p. runReconcile e (d, es) = (Inr Returned, (d', es')) \<and> getCurrentPosition d' = Some p
     \<and> sp_nftMint p = sp_nftMint stored \<and> sp_lowerUsd p = 0 \<and> sp_upperUsd p = 0
     \<and> (\<forall>results pos'. meteoraGetPosition c dl (sp_nftMint p) (tickSolUsd (fetchAllSources results)) = Inr (Some pos')
           \<longrightarrow> rg_lowerBertUsd (po_range pos') \<noteq> 0 \<longrightarrow> fst (startUp results (meteoraGetPosition c dl) (d', es')) = Inr (Exit 2))"
  by (rule meteora.reconcile_poisons [OF assms])

definition cli_demo :: "nat CliEnv" where
  "cli_demo = \<lparr>cx_now = 5, cx_osUser = ''root'', cx_answer = ''YES'', cx_runtime = Inr (), cx_samples = [],
     cx_getPosition = meteoraGetPosition meteora_demo dlmm_demo, cx_buildClose = (\<lambda>_. Inr ([], 0, 0)), cx_submit = calmSubmit,
     cx_rebalance = reb_demo, cx_string = id\<rparr>"

definition sound_demo :: StoredPosition where
  "sound_demo = \<lparr>sp_nftMint = ''pos'', sp_lowerUsd = 1200, sp_upperUsd = 1800, sp_centerUsd = 1500, sp_openedAt = 1\<rparr>"

theorem reconcile_zeroes_bounds_witness:
  "fst (startUp [] (meteoraGetPosition meteora_demo dlmm_demo) (setCurrentPosition sound_demo init_db, [] :: nat effect list)) = Inr Returned
   \<and> (\<exists>d' es'. runReconcile cli_demo (setCurrentPosition sound_demo init_db, []) = (Inr Returned, (d', es'))
        \<and> fst (startUp [] (meteoraGetPosition meteora_demo dlmm_demo) (d', es')) = Inr (Exit 2))"
proof -
  let ?d = "setCurrentPosition sound_demo init_db"
  have stored: "getCurrentPosition ?d = Some sound_demo" by (simp add: getCurrentPosition_def setCurrentPosition_def)
  obtain pos where pos: "meteoraGetPosition meteora_demo dlmm_demo ''pos'' 0 = Inr (Some pos)"
    by (simp add: meteoraGetPosition_def meteora_demo_def dlmm_demo_def findPosition_def Let_def)
  have price: "tickSolUsd (fetchAllSources []) = 150" by (simp add: tickSolUsd_def fetchAllSources_def List.map_filter_def)
  obtain pos' where pos': "meteoraGetPosition meteora_demo dlmm_demo ''pos'' 150 = Inr (Some pos')" "po_nftMint pos' = ''pos''"
      "rg_lowerBertUsd (po_range pos') = 1200" "rg_upperBertUsd (po_range pos') = 1800"
    by (simp add: meteoraGetPosition_def meteora_demo_def dlmm_demo_def findPosition_def Let_def positionRange_def usdRange_def num_op_defs)
  have "reconcile (Some sound_demo) (Some pos') = OK_MATCH"
    using pos' fl_mono [of "1 / 16" "1 / 10"] fl_dyadic [of 1 4]
    by (simp add: reconcile_def sound_demo_def approxEqual_def num_op_defs)
  then have before: "fst (startUp [] (meteoraGetPosition meteora_demo dlmm_demo) (?d, [] :: nat effect list)) = Inr Returned"
    using stored pos' by (simp add: startUp_def exn_simps price) (simp add: sound_demo_def exn_simps)
  have name: "sp_nftMint sound_demo = ''pos''" by (simp add: sound_demo_def)
  have "trim (cx_answer cli_demo) = ''YES''" by code_simp
  moreover have "sp_lowerUsd sound_demo \<noteq> 0" "cx_runtime cli_demo = Inr ()"
    "cx_getPosition cli_demo = meteoraGetPosition meteora_demo dlmm_demo" by (simp_all add: sound_demo_def cli_demo_def)
  moreover have "meteoraGetPosition meteora_demo dlmm_demo (sp_nftMint sound_demo) 0 = Inr (Some pos)" using pos name by simp
  ultimately obtain d' es' and p :: StoredPosition where r: "runReconcile cli_demo (?d, []) = (Inr Returned, (d', es'))" "sp_nftMint p = sp_nftMint sound_demo"
      "\<forall>results pos'. meteoraGetPosition meteora_demo dlmm_demo (sp_nftMint p) (tickSolUsd (fetchAllSources results)) = Inr (Some pos')
         \<longrightarrow> rg_lowerBertUsd (po_range pos') \<noteq> 0 \<longrightarrow> fst (startUp results (meteoraGetPosition meteora_demo dlmm_demo) (d', es')) = Inr (Exit 2)"
    using reconcile_zeroes_bounds [OF stored, of cli_demo meteora_demo dlmm_demo pos "[]"] by blast
  have "fst (startUp [] (meteoraGetPosition meteora_demo dlmm_demo) (d', es')) = Inr (Exit 2)"
    using r(2,3) pos'(1,3) price name by simp
  with before r(1) show ?thesis by blast
qed

end
