(* ===== verification/Command_Safety.thy ===== *)
theory Command_Safety
  imports Command_Laws
begin

text \<open>
  The properties of the requests a Telegram user can make. \<open>Request\<close> lists the entry points of
  \<open>CommandHandlers\<close> and \<open>handle\<close> runs one. The interpretations of the interfaces of \<open>Command_Laws\<close> show that a request
  keeps the store invariant, never attaches a keyboard when the buttons are switched off, leaves
  every other user alone, and moves nothing of value without the second factor.
\<close>

datatype Request = Account | Accept | Decline | Deposit | Balance | Stats | Menu
  | Withdraw string | SetWhitelist string | CancelWhitelist | Message string

fun handle :: "CmdEnv \<Rightarrow> int \<Rightarrow> int \<Rightarrow> Request \<Rightarrow> unit cmd" where
  "handle e chatId userId Account = handleAccount e chatId userId"
| "handle e chatId userId Accept = handleAccept e chatId userId"
| "handle e chatId userId Decline = handleDecline e chatId userId"
| "handle e chatId userId Deposit = handleDeposit e chatId userId"
| "handle e chatId userId Balance = handleBalance e chatId userId"
| "handle e chatId userId Stats = handleStats e chatId (Some userId)"
| "handle e chatId userId Menu = handleMenu e chatId userId"
| "handle e chatId userId (Withdraw text) = handleWithdraw e chatId userId text"
| "handle e chatId userId (SetWhitelist text) = handleSetWhitelist e chatId userId text"
| "handle e chatId userId CancelWhitelist = handleCancelWhitelist e chatId userId"
| "handle e chatId userId (Message text) = handleMessage e chatId userId text"

section \<open>The second factor\<close>

definition lastCounter :: "int \<Rightarrow> db \<Rightarrow> int option" where
  "lastCounter u d = Option.bind (findUserRow u d) u_totp_last_used_counter"

definition totpKey :: "int \<Rightarrow> db \<Rightarrow> (bytes option \<times> bytes option \<times> int option) option" where
  "totpKey u d = map_option (\<lambda>r. (u_totp_secret_enc r, u_totp_secret_iv r, u_totp_enrolled_at r)) (findUserRow u d)"

text \<open>The code is the one of the time step \<open>c\<close> for the stored secret of an enrolled user, and that step
  is later than the last one he used.\<close>

definition acceptable :: "CmdEnv \<Rightarrow> int \<Rightarrow> string \<Rightarrow> int \<Rightarrow> db \<Rightarrow> bool" where
  "acceptable e u code c d \<longleftrightarrow> isSixDigits code \<and> (\<forall>l. lastCounter u d = Some l \<longrightarrow> l < c) \<and>
     (\<exists>enc iv t secret. totpKey u d = Some (Some enc, Some iv, Some t) \<and> t \<noteq> 0 \<and>
        decrypt (en_cipher (ce_enroll e)) enc iv (ce_masterKey e) = Inr secret \<and>
        te_validate (en_totp (ce_enroll e)) (fromUtf8 secret) code =
          Some (c - currentCounter (te_counterMs (en_totp (ce_enroll e)))))"

lemma verifyTotp_cases:
  obtains (accepted) c where "acceptable e u code c (ch_db s)"
      "verifyTotp e u code s = (Inr True, s\<lparr>ch_db := setTotpLastCounter u c (ch_db s)\<rparr>)"
  | (refused) r where "verifyTotp e u code s = (r, s)" "r \<noteq> Inr True"
proof (cases "findUserRow u (ch_db s)")
  case None
  then have "verifyTotp e u code s = (Inr False, s)"
    by (simp add: verifyTotp_def onStore_def exn_simps getUser_def)
  then show ?thesis by (intro refused) auto
next
  case (Some r)
  show ?thesis
  proof (cases "u_totp_enrolled_at r = None \<or> u_totp_enrolled_at r = Some 0 \<or> u_totp_secret_enc r = None \<or> u_totp_secret_iv r = None")
    case True
    with Some have "verifyTotp e u code s = (Inr False, s)"
      by (auto simp: verifyTotp_def onStore_def exn_simps getUser_def rowToUser_def getUserSecrets_def
          split: option.splits)
    then show ?thesis by (intro refused) auto
  next
    case False
    then obtain t enc iv where t: "u_totp_enrolled_at r = Some t" "t \<noteq> 0" "u_totp_secret_enc r = Some enc"
      "u_totp_secret_iv r = Some iv" by auto
    let ?dec = "decrypt (en_cipher (ce_enroll e)) enc iv (ce_masterKey e)"
    show ?thesis
    proof (cases ?dec)
      case (Inl x)
      with Some t have "verifyTotp e u code s = (Inl x, s)"
        by (simp add: verifyTotp_def onStore_def exn_simps getUser_def rowToUser_def getUserSecrets_def)
      then show ?thesis by (intro refused) auto
    next
      case (Inr secret)
      let ?r = "verifyCode (en_totp (ce_enroll e)) (fromUtf8 secret) code (u_totp_last_used_counter r)"
      have run: "verifyTotp e u code s = (if vr_ok ?r
          then (Inr True, s\<lparr>ch_db := setTotpLastCounter u (vr_counter ?r) (ch_db s)\<rparr>) else (Inr False, s))"
        using Some t Inr
        by (simp add: verifyTotp_def onStore_def exn_simps getUser_def rowToUser_def getUserSecrets_def)
      show ?thesis
      proof (cases "vr_ok ?r")
        case True
        then have "acceptable e u code (vr_counter ?r) (ch_db s)"
          using Some t Inr verifyCode_ok [of "en_totp (ce_enroll e)" "fromUtf8 secret" code "u_totp_last_used_counter r"]
          by (auto simp: acceptable_def lastCounter_def totpKey_def)
        with True run show ?thesis by (intro accepted) auto
      next
        case False
        with run show ?thesis by (intro refused) auto
      qed
    qed
  qed
qed

lemma lastCounter_setTotpLastCounter:
  "findUserRow u d \<noteq> None \<Longrightarrow> lastCounter u (setTotpLastCounter u c d) = Some c"
  by (auto simp: lastCounter_def setTotpLastCounter_def updateUser_def findUserRow_def
      find_updateWhere [where key = u_telegram_id] split: if_splits dest: find_SomeD)

lemma totpKey_setTotpLastCounter [simp]: "totpKey v (setTotpLastCounter u c d) = totpKey v d"
  by (cases "findUserRow v d")
    (auto simp: totpKey_def setTotpLastCounter_def updateUser_def findUserRow_def
      find_updateWhere [where key = u_telegram_id])

lemma acceptable_user: "acceptable e u code c d \<Longrightarrow> findUserRow u d \<noteq> None"
  by (auto simp: acceptable_def totpKey_def)

section \<open>Relations that do not depend on the second factor\<close>

locale open_law = session_law R e u for R e u +
  assumes verifies: "stays R (verifyTotp e u code)"
    and unlocks: "R s (s\<lparr>ch_unlockedUntil := (ch_unlockedUntil s)(u \<mapsto> t)\<rparr>)"
    and withdraws: "stays R (doWithdraw e u c amount)"
    and requests: "stays R (onStore (requestChange (ce_cooldownMs e) u a now))"
    and cancels: "stays R (onStore (\<lambda>d. case cancelPending u ''user'' d of (ok, d') \<Rightarrow> (Inr ok, d')))"
begin

lemma stays_verifyTotpGated: "stays R (verifyTotpGated e u code op)"
proof -
  have "stays R (setUnlocked e u)"
    unfolding setUnlocked_def by (intro stays_andThen stays_nowMs stays_modify unlocks)
  then show ?thesis
    unfolding verifyTotpGated_def
    by (auto intro!: law_rules verifies split: option.splits simp: postingEvents_def)
qed

lemma stays_gated: "stays R m \<Longrightarrow> stays R (gated e c u text op retry invalid m)"
  unfolding gated_def by (auto intro!: law_rules stays_verifyTotpGated split: Gate.splits)

lemma stays_ifUnlocked: "stays R m \<Longrightarrow> stays R m' \<Longrightarrow> stays R (ifUnlocked e u m m')"
  unfolding ifUnlocked_def by (auto intro!: law_rules stays_isUnlocked)

lemma stays_doSetWhitelist: "stays R (doSetWhitelist e u c addr)"
  unfolding doSetWhitelist_def by (auto intro!: law_rules requests simp: postingEvents_def split: prod.splits)

lemma stays_doCancelWhitelist: "stays R (doCancelWhitelist e u c)"
  unfolding doCancelWhitelist_def by (auto intro!: law_rules cancels simp: postingEvents_def)

end

sublocale open_law < cl: command_law R e u code "stays R" for code
  by unfold_locales
    (auto intro: stays_gated stays_ifUnlocked stays_doDepositReveal stays_doBalanceReveal withdraws
      stays_doSetWhitelist stays_doCancelWhitelist)

text \<open>The two groups of handlers together cover every request.\<close>

locale request_law = open_law R e u + enroll_law R e u for R e u
begin

lemma stays_handle: "stays R (handle e c u req)"
proof (cases req)
  case (Message t)
  have "stays R (dispatchPending e c u t p)" for p
  proof (cases "p = PTotp_setup_confirm")
    case True
    then show ?thesis by (simp add: dispatchPending_def stays_respondTotpSetupConfirm)
  qed (rule cl.stays_dispatchPending [OF HOL.refl])
  then show ?thesis
    using Message by (auto simp: handleMessage_def intro!: law_rules stays_unlessLocked split: option.splits)
qed (auto intro: stays_handleAccount stays_handleAccept stays_handleDecline cl.stays_reveals
    stays_handleStats stays_handleMenu cl.stays_handleWithdraw cl.stays_handleSetWhitelist
    cl.stays_handleCancelWhitelist)

end

section \<open>Requests keep the store invariant\<close>

definition calmCmd :: "CmdEnv \<Rightarrow> bool" where
  "calmCmd e \<longleftrightarrow> (\<forall>n d. evolves d (ce_meanwhile e n d))"

definition cmdEvolves :: "CmdEnv \<Rightarrow> Session \<Rightarrow> Session \<Rightarrow> bool" where
  "cmdEvolves e s s' \<longleftrightarrow> (calmCmd e \<longrightarrow> evolves (ch_db s) (ch_db s'))"

lemma cmdEvolves_db: "ch_db s' = ch_db s \<Longrightarrow> cmdEvolves e s s'"
  by (simp add: cmdEvolves_def ev.refl)

interpretation cse: session_law "cmdEvolves e" e u for e u
  by unfold_locales
    (auto simp: cmdEvolves_def calmCmd_def ev.refl intro: evolves_trans evolves_writeAudit)

lemma stays_onStore_evolves: "stays evolves m \<Longrightarrow> stays (cmdEvolves e) (onStore m)"
  by (simp add: stays_def cmdEvolves_def onStore_def split_beta)

text \<open>The same for a session whose user exists.\<close>

definition userEvolves :: "CmdEnv \<Rightarrow> int \<Rightarrow> Session \<Rightarrow> Session \<Rightarrow> bool" where
  "userEvolves e u s s' \<longleftrightarrow> (store_wf (ch_db s) \<and> findUserRow u (ch_db s) \<noteq> None \<longrightarrow> cmdEvolves e s s')"

lemma userEvolvesI: "cmdEvolves e s s' \<Longrightarrow> userEvolves e u s s'"
  by (simp add: userEvolves_def)

interpretation cue: session_law "userEvolves e v" e u for e u v
proof unfold_locales
  show "userEvolves e v s q" if "userEvolves e v s t" "userEvolves e v t q" for s t q
  proof (cases "calmCmd e")
    case True
    with that show ?thesis
      unfolding userEvolves_def cmdEvolves_def by (metis (no_types, lifting) evolves_def evolves_trans)
  qed (simp add: userEvolves_def cmdEvolves_def)
qed (auto intro!: userEvolvesI cse.refl cse.clock cse.outbox cse.pending cse.attempts cse.limits cse.audit cse.nav)

lemma queueWithdrawal_evolves: "stays (userEvolves e u) (queueWithdrawal e u c a dst n)"
proof -
  have "stays (userEvolves e u) (onStore (\<lambda>d. case enqueueWithdrawal u dst (ndiv a n) f q d of (i, d') \<Rightarrow> (Inr i, d')))" for f q
    by (simp add: stays_def onStore_def split_beta userEvolves_def cmdEvolves_def is_double_ops evolves_enqueueWithdrawal)
  then show ?thesis
    unfolding queueWithdrawal_def Let_def by (auto intro!: cue.law_rules simp: postingEvents_def)
qed

lemma doWithdraw_evolves: "stays (cmdEvolves e) (doWithdraw e u c a)"
  unfolding stays_def
proof
  fix s
  have "stays (userEvolves e u) (doWithdraw e u c a)"
    unfolding doWithdraw_def Let_def by (auto intro!: cue.law_rules queueWithdrawal_evolves split: option.splits)
  then have "userEvolves e u s (snd (doWithdraw e u c a s))" by (rule staysD)
  moreover have "snd (doWithdraw e u c a s) = s" if "findUserRow u (ch_db s) = None"
    using that by (simp add: doWithdraw_def Let_def onStore_def andThen_def gets_def getUser_def throw_def)
  ultimately show "cmdEvolves e s (snd (doWithdraw e u c a s))"
    by (cases "findUserRow u (ch_db s) = None"; cases "store_wf (ch_db s)")
      (auto simp: userEvolves_def cse.refl cmdEvolves_def evolves_def)
qed

interpretation cev: request_law "cmdEvolves e" e u for e u
proof unfold_locales
  fix code s t c amount a now
  show "stays (cmdEvolves e) (verifyTotp e u code)"
    unfolding stays_def
  proof
    show "cmdEvolves e s (snd (verifyTotp e u code s))" for s
      by (cases rule: verifyTotp_cases [of e u code s])
        (auto simp: cmdEvolves_def ev.refl evolves_user_updates)
  qed
  show "cmdEvolves e s (s\<lparr>ch_unlockedUntil := (ch_unlockedUntil s)(u \<mapsto> t)\<rparr>)"
    by (simp add: cmdEvolves_db)
  show "stays (cmdEvolves e) (doWithdraw e u c amount)" by (rule doWithdraw_evolves)
  show "stays (cmdEvolves e) (onStore (requestChange (ce_cooldownMs e) u a now))"
    by (intro stays_onStore_evolves) (simp add: stays_def evolves_requestChange)
  show "stays (cmdEvolves e) (onStore (\<lambda>d. case cancelPending u ''user'' d of (ok, d') \<Rightarrow> (Inr ok, d')))"
    by (intro stays_onStore_evolves) (simp add: stays_def split_beta evolves_cancelPending)
qed (intro stays_onStore_evolves stays_accept stays_beginTotpEnrollment stays_confirmTotp)+

section \<open>Keyboards\<close>

definition sendsPlain :: "CmdEnv \<Rightarrow> Session \<Rightarrow> Session \<Rightarrow> bool" where
  "sendsPlain e s s' \<longleftrightarrow> (\<exists>rs. ch_replies s' = ch_replies s @ rs \<and> (\<forall>r\<in>set rs. plainExtras e (rp_extras r)))"

lemma sendsPlain_none: "ch_replies s' = ch_replies s \<Longrightarrow> sendsPlain e s s'"
  by (simp add: sendsPlain_def)

lemma stays_onStore_plain: "stays (sendsPlain e) (onStore m)"
  by (simp add: stays_def onStore_def split_beta sendsPlain_none)

interpretation csp: session_law "sendsPlain e" e u for e u
proof unfold_locales
  show "sendsPlain e s q" if "sendsPlain e s t" "sendsPlain e t q" for s t q
    using that by (auto simp: sendsPlain_def)
qed (auto simp: sendsPlain_def)

lemma queueWithdrawal_plain: "stays (sendsPlain e) (queueWithdrawal e u c a dst n)"
  unfolding queueWithdrawal_def Let_def
  by (auto intro!: csp.law_rules stays_onStore_plain simp: postingEvents_def)

interpretation crp: request_law "sendsPlain e" e u for e u
proof unfold_locales
  show "stays (sendsPlain e) (doWithdraw e u c amount)" for c amount
    unfolding doWithdraw_def Let_def
    by (auto intro!: csp.law_rules queueWithdrawal_plain split: option.splits)
qed (auto intro: sendsPlain_none simp: verifyTotp_def stays_onStore_plain)

section \<open>Other users\<close>

text \<open>What the database and the session hold of one user.\<close>

definition ownDb :: "int \<Rightarrow> db \<Rightarrow> _" where
  "ownDb v d = (findUserRow v d, findShares v d,
     filter (\<lambda>w. w_telegramId w = v) (rows (vault_withdrawals d)),
     filter (\<lambda>c. c_telegramId c = v) (rows (vault_pending_whitelist_changes d)),
     filter (\<lambda>p. d_telegramId p = v) (rows (vault_deposits d)))"

definition ownView :: "int \<Rightarrow> Session \<Rightarrow> _" where
  "ownView v s = (ch_pending s v, ch_totpSetupFailures s v, ch_unlockedUntil s v,
     lockedUntil (ch_limiter s) v, failures (ch_limiter s) v, ownDb v (ch_db s))"

definition undisturbed :: "CmdEnv \<Rightarrow> bool" where
  "undisturbed e \<longleftrightarrow> ce_meanwhile e = (\<lambda>_ d. d)"

definition isolated :: "CmdEnv \<Rightarrow> int \<Rightarrow> Session \<Rightarrow> Session \<Rightarrow> bool" where
  "isolated e u s s' \<longleftrightarrow> (undisturbed e \<longrightarrow> cmdEvolves e s s' \<and>
     (store_wf (ch_db s) \<longrightarrow> (\<forall>v. v \<noteq> u \<longrightarrow> ownView v s' = ownView v s)))"

lemma undisturbed_calm: "undisturbed e \<Longrightarrow> calmCmd e"
  by (simp add: undisturbed_def calmCmd_def ev.refl)

lemma ownDb_writeAudit [simp]: "ownDb v (writeAudit ts t ev det d) = ownDb v d"
  by (simp add: ownDb_def findUserRow_def findShares_def writeAudit_def)

lemma ownDb_updateUser:
  "v \<noteq> u \<Longrightarrow> (\<And>r. u_telegram_id (f r) = u_telegram_id r) \<Longrightarrow> ownDb v (updateUser u f d) = ownDb v d"
  by (auto simp: ownDb_def updateUser_def findShares_def findUserRow_def find_updateWhere [where key = u_telegram_id]
      map_option_case split: option.splits dest: find_SomeD)

lemma ownDb_user_updates [simp]:
  assumes "v \<noteq> u"
  shows "ownDb v (setTotp u a b t d) = ownDb v d" "ownDb v (setTotpLastCounter u c d) = ownDb v d"
    "ownDb v (setWhitelistImmediate u w t d) = ownDb v d"
  using assms by (simp_all add: setTotp_def setTotpLastCounter_def setWhitelistImmediate_def ownDb_updateUser)

lemma ownDb_createUser [simp]: "v \<noteq> u \<Longrightarrow> ownDb v (snd (createUser u r a b c t w d)) = ownDb v d"
  by (auto simp: ownDb_def createUser_def findShares_def findUserRow_def find_append split: option.splits)

lemma ownDb_enqueues [simp]:
  assumes "v \<noteq> u"
  shows "ownDb v (snd (enqueueWithdrawal u dst b f q d)) = ownDb v d"
    "ownDb v (snd (enqueueWhitelistChange u oa na rt ta st d)) = ownDb v d"
  using assms by (simp_all add: ownDb_def enqueueWithdrawal_def enqueueWhitelistChange_def findShares_def findUserRow_def
      table_simps)

lemma filter_updateWhere_other:
  "(\<And>r. r \<in> set rs \<Longrightarrow> P r \<Longrightarrow> \<not> Q r \<and> \<not> Q (f r)) \<Longrightarrow> filter Q (updateWhere P f rs) = filter Q rs"
  by (induction rs) (auto simp: updateWhere_def)

lemma mostRecentPendingChange_Some:
  assumes "mostRecentPendingChange u d = Some p"
  shows "p \<in> set (rows (vault_pending_whitelist_changes d))" "c_telegramId p = u" "c_status p = Pending"
proof -
  let ?xs = "rev (sort_key c_requestedAt (filter (\<lambda>c. c_telegramId c = u \<and> c_status c = Pending)
      (rows (vault_pending_whitelist_changes d))))"
  have "p \<in> set ?xs" using assms by (cases ?xs) (simp_all add: mostRecentPendingChange_def del: rev_is_Nil_conv)
  then show "p \<in> set (rows (vault_pending_whitelist_changes d))" "c_telegramId p = u" "c_status p = Pending"
    by simp_all
qed

lemma ownDb_cancelPending [simp]:
  assumes "v \<noteq> u" "store_wf d"
  shows "ownDb v (snd (cancelPending u reason d)) = ownDb v d"
proof (cases "mostRecentPendingChange u d")
  case (Some p)
  let ?rs = "rows (vault_pending_whitelist_changes d)"
  have p: "p \<in> set ?rs" "c_telegramId p = u"
    using Some mostRecentPendingChange_Some by auto
  have "wfTable c_id (vault_pending_whitelist_changes d)" using assms by (simp add: store_wf_def)
  then have "c_telegramId r = u" if "r \<in> set ?rs" "c_id r = c_id p" for r using that p wfTable_unique by metis
  then show ?thesis
    using assms(1) Some
    by (auto simp: cancelPending_def ownDb_def cancelPendingWhitelist_def updateChange_def findShares_def findUserRow_def
        table_simps intro!: filter_updateWhere_other)
qed (simp add: cancelPending_def)

lemma isolatedI:
  "cmdEvolves e s s' \<Longrightarrow> (\<And>v. v \<noteq> u \<Longrightarrow> undisturbed e \<Longrightarrow> store_wf (ch_db s) \<Longrightarrow> ownView v s' = ownView v s) \<Longrightarrow> isolated e u s s'"
  by (simp add: isolated_def)

interpretation csi: session_law "isolated e u" e u for e u
proof unfold_locales
  show "isolated e u s q" if "isolated e u s t" "isolated e u t q" for s t q
    using that undisturbed_calm [of e] cse.trans [of e s t q]
    unfolding isolated_def cmdEvolves_def evolves_def by metis
qed (auto intro!: isolatedI cse.refl cse.clock cse.outbox cse.pending cse.attempts cse.limits cse.audit cse.nav
    simp: ownView_def undisturbed_def)

text \<open>A step on the database alone.\<close>

lemma stays_onStore_isolated:
  assumes "stays evolves m" "\<And>v d. v \<noteq> u \<Longrightarrow> store_wf d \<Longrightarrow> ownDb v (snd (m d)) = ownDb v d"
  shows "stays (isolated e u) (onStore m)"
  using assms by (auto simp: stays_def isolated_def onStore_def split_beta cmdEvolves_def ownView_def)

lemma ownDb_enrollment:
  assumes "v \<noteq> u"
  shows "ownDb v (snd (accept e u now d)) = ownDb v d" "ownDb v (snd (beginTotpEnrollment e u d)) = ownDb v d"
    "ownDb v (snd (confirmTotp e u code now d)) = ownDb v d"
proof -
  show "ownDb v (snd (accept e u now d)) = ownDb v d"
    using assms
    by (auto simp: accept_def andThen_def gets_def ret_def lift_def split: option.splits sum.splits prod.splits)
      (metis ownDb_createUser snd_conv)+
  show "ownDb v (snd (beginTotpEnrollment e u d)) = ownDb v d"
    using assms
    by (auto simp: beginTotpEnrollment_def andThen_def gets_def ret_def lift_def throw_def modify_def
        split: option.splits sum.splits prod.splits)
  show "ownDb v (snd (confirmTotp e u code now d)) = ownDb v d"
    using assms
    by (auto simp: confirmTotp_def andThen_def gets_def ret_def lift_def modify_def Let_def
        split: option.splits sum.splits prod.splits)
qed

lemma ownDb_requestChange: "v \<noteq> u \<Longrightarrow> ownDb v (snd (requestChange cd u a now d)) = ownDb v d"
  by (auto simp: requestChange_def andThen_def gets_def throw_def withTransaction_def atomically_def split_beta Let_def
      split: option.splits sum.splits)

text \<open>Queueing a withdrawal needs no invariant for that.\<close>

definition othersKept :: "CmdEnv \<Rightarrow> int \<Rightarrow> Session \<Rightarrow> Session \<Rightarrow> bool" where
  "othersKept e u s s' \<longleftrightarrow> (undisturbed e \<longrightarrow> (\<forall>v. v \<noteq> u \<longrightarrow> ownView v s' = ownView v s))"

interpretation cok: session_law "othersKept e u" e u for e u
  by unfold_locales (auto simp: othersKept_def ownView_def undisturbed_def)

lemma doWithdraw_isolated: "stays (isolated e u) (doWithdraw e u c a)"
proof -
  have "stays (othersKept e u) (onStore (\<lambda>d. case enqueueWithdrawal u dst b f q d of (i, d') \<Rightarrow> (Inr i, d')))" for dst b f q
    by (simp add: stays_def onStore_def split_beta othersKept_def ownView_def)
  then have "stays (othersKept e u) (queueWithdrawal e u c a dst n)" for dst n
    unfolding queueWithdrawal_def Let_def by (auto intro!: cok.law_rules simp: postingEvents_def)
  then have "stays (othersKept e u) (doWithdraw e u c a)"
    unfolding doWithdraw_def Let_def by (auto intro!: cok.law_rules split: option.splits)
  with doWithdraw_evolves [of e u c a] show ?thesis by (auto simp: stays_def isolated_def othersKept_def)
qed

interpretation cri: request_law "isolated e u" e u for e u
proof unfold_locales
  fix code s t c amount a now
  show "stays (isolated e u) (verifyTotp e u code)"
    unfolding stays_def
  proof
    show "isolated e u s (snd (verifyTotp e u code s))" for s
      by (cases rule: verifyTotp_cases [of e u code s])
        (auto simp: ownView_def cmdEvolves_def evolves_user_updates intro!: isolatedI csi.refl)
  qed
  show "isolated e u s (s\<lparr>ch_unlockedUntil := (ch_unlockedUntil s)(u \<mapsto> t)\<rparr>)"
    by (auto intro!: isolatedI cev.unlocks simp: ownView_def)
  show "stays (isolated e u) (doWithdraw e u c amount)" by (rule doWithdraw_isolated)
  show "stays (isolated e u) (onStore (requestChange (ce_cooldownMs e) u a now))"
    by (intro stays_onStore_isolated) (auto simp: stays_def evolves_requestChange ownDb_requestChange)
  show "stays (isolated e u) (onStore (\<lambda>d. case cancelPending u ''user'' d of (ok, d') \<Rightarrow> (Inr ok, d')))"
    by (intro stays_onStore_isolated) (auto simp: stays_def split_beta evolves_cancelPending)
qed (auto intro!: stays_onStore_isolated stays_accept stays_beginTotpEnrollment stays_confirmTotp simp: ownDb_enrollment)

section \<open>Nothing moves without the second factor\<close>

text \<open>The part of the database that stands for money and where it goes.\<close>

definition valuables :: "db \<Rightarrow> _" where
  "valuables d = (vault_withdrawals d, vault_pending_whitelist_changes d, vault_shares d, vault_deposits d,
     vault_nav_snapshots d, (\<lambda>v. whitelistOf v d))"

definition wasUnlocked :: "CmdEnv \<Rightarrow> int \<Rightarrow> Session \<Rightarrow> bool" where
  "wasUnlocked e u s \<longleftrightarrow> (\<exists>t n. ch_unlockedUntil s u = Some t \<and> ch_clockReads s \<le> n \<and> ce_clock e n < t)"

text \<open>The request presented a fresh code, which is used up by it.\<close>

definition codeUsed :: "CmdEnv \<Rightarrow> int \<Rightarrow> string \<Rightarrow> Session \<Rightarrow> Session \<Rightarrow> bool" where
  "codeUsed e u code s s' \<longleftrightarrow>
     (\<exists>c. acceptable e u code c (ch_db s) \<and> lastCounter u (ch_db s') = Some c)"

text \<open>The secret and the enrollment stay; either a fresh code was used, or no session is unlocked and the
  valuables stay, unless the session was unlocked before.\<close>

definition authorised :: "CmdEnv \<Rightarrow> int \<Rightarrow> string \<Rightarrow> Session \<Rightarrow> Session \<Rightarrow> bool" where
  "authorised e u code s s' \<longleftrightarrow> (undisturbed e \<longrightarrow>
     totpKey u (ch_db s') = totpKey u (ch_db s) \<and> ch_clockReads s \<le> ch_clockReads s' \<and>
     (codeUsed e u code s s' \<or>
      lastCounter u (ch_db s') = lastCounter u (ch_db s) \<and> ch_unlockedUntil s' = ch_unlockedUntil s \<and>
      (wasUnlocked e u s \<or> valuables (ch_db s') = valuables (ch_db s))))"

text \<open>What the work after a verification may do.\<close>

definition keepsKeys :: "CmdEnv \<Rightarrow> int \<Rightarrow> Session \<Rightarrow> Session \<Rightarrow> bool" where
  "keepsKeys e u s s' \<longleftrightarrow> (undisturbed e \<longrightarrow>
     totpKey u (ch_db s') = totpKey u (ch_db s) \<and> ch_clockReads s \<le> ch_clockReads s' \<and>
     lastCounter u (ch_db s') = lastCounter u (ch_db s) \<and> ch_unlockedUntil s' = ch_unlockedUntil s)"

text \<open>What happens before it.\<close>

definition harmless :: "CmdEnv \<Rightarrow> int \<Rightarrow> Session \<Rightarrow> Session \<Rightarrow> bool" where
  "harmless e u s s' \<longleftrightarrow> keepsKeys e u s s' \<and> (undisturbed e \<longrightarrow> valuables (ch_db s') = valuables (ch_db s))"

lemma writeAudit_valuables [simp]:
  "valuables (writeAudit ts t ev det d) = valuables d" "totpKey u (writeAudit ts t ev det d) = totpKey u d"
  "lastCounter u (writeAudit ts t ev det d) = lastCounter u d"
  by (simp_all add: valuables_def totpKey_def lastCounter_def whitelistOf_row findUserRow_def writeAudit_def)

interpretation cha: session_law "harmless e u" e u for e u
  by unfold_locales (auto simp: harmless_def keepsKeys_def undisturbed_def)

interpretation ckk: session_law "keepsKeys e u" e u for e u
  by unfold_locales (auto simp: keepsKeys_def undisturbed_def)

lemma harmless_authorised: "harmless e u s s' \<Longrightarrow> authorised e u code s s'"
  by (auto simp: harmless_def keepsKeys_def authorised_def)

lemma acceptable_back:
  assumes "acceptable e u code c (ch_db t)" "totpKey u (ch_db t) = totpKey u (ch_db s)"
    "codeUsed e u code s t \<or> lastCounter u (ch_db t) = lastCounter u (ch_db s)"
  shows "acceptable e u code c (ch_db s)"
  using assms(3)
proof
  assume "codeUsed e u code s t"
  then obtain b where b: "acceptable e u code b (ch_db s)" "lastCounter u (ch_db t) = Some b"
    by (auto simp: codeUsed_def)
  then have "b < c" using assms(1) by (simp add: acceptable_def)
  then have "\<forall>l. lastCounter u (ch_db s) = Some l \<longrightarrow> l < c" using b(1) by (auto simp: acceptable_def)
  then show ?thesis using assms(1,2) by (auto simp: acceptable_def)
qed (use assms in \<open>simp add: acceptable_def\<close>)

lemma authorised_trans:
  assumes "authorised e u code s t" "authorised e u code t q"
  shows "authorised e u code s q"
proof (cases "undisturbed e")
  case True
  note a = assms [unfolded authorised_def, THEN mp, OF True]
  show ?thesis
  proof (cases "codeUsed e u code t q")
    case True
    then have "codeUsed e u code s q" using a(1) acceptable_back unfolding codeUsed_def by meson
    with a show ?thesis by (auto simp: authorised_def)
  next
    case q: False
    show ?thesis
    proof (cases "codeUsed e u code s t")
      case True
      then have "codeUsed e u code s q" using a(2) q by (auto simp: codeUsed_def)
      with a show ?thesis by (auto simp: authorised_def)
    next
      case False
      have "wasUnlocked e u t \<Longrightarrow> wasUnlocked e u s"
        using a(1) False by (auto simp: wasUnlocked_def intro: order_trans)
      with a False q show ?thesis by (auto simp: authorised_def)
    qed
  qed
qed (simp add: authorised_def)

text \<open>A gated verification succeeds only by using up a fresh code, and otherwise is harmless.\<close>

lemma verifyTotpGated_outcome:
  assumes "verifyTotpGated e u code op s = (r, s')"
  shows "if r = Inr Verified then codeUsed e u code s s' \<and> totpKey u (ch_db s') = totpKey u (ch_db s) \<and>
           ch_clockReads s \<le> ch_clockReads s' else harmless e u s s'"
proof -
  define good where "good = andThen (onLimiter (\<lambda>l. ((), recordSuccess u l))) (\<lambda>_. andThen (setUnlocked e u) (\<lambda>_. ret Verified))"
  define bad where "bad now = andThen (onLimiter (recordFailure (ce_limiter e) u now)) (\<lambda>r.
       andThen (auditWrite now u ''totp_verify_failed'' [(''op'', JStr op)]) (\<lambda>_.
         case r of Some until \<Rightarrow> andThen (auditWrite now u ''totp_rate_limited'' [(''until'', JInt until)])
             (\<lambda>_. ret (LockedUntil until)) | None \<Rightarrow> ret Rejected))" for now
  let ?now = "ce_clock e (ch_clockReads s)"
  obtain l lim where l: "isLockedOut u ?now (ch_limiter s) = (l, lim)" by fastforce
  define s2 where "s2 = s\<lparr>ch_clockReads := Suc (ch_clockReads s), ch_limiter := lim\<rparr>"
  have run: "verifyTotpGated e u code op s = (case l of Some until \<Rightarrow> (Inr (LockedUntil until), s2)
      | None \<Rightarrow> andThen (verifyTotp e u code) (\<lambda>ok. if ok then good else bad ?now) s2)"
    using l unfolding verifyTotpGated_def good_def bad_def
    by (simp add: s2_def andThen_def [of "nowMs e"] andThen_def [of "onLimiter (isLockedOut u t)" for t]
        nowMs_def onLimiter_def [of "isLockedOut u t" for t] ret_def split: option.splits)
  have h2: "harmless e u s s2" by (simp add: harmless_def keepsKeys_def s2_def)
  have bad: "harmless e u s2 (snd (bad now s2))" "fst (bad now s2) \<noteq> Inr Verified" for now
    unfolding bad_def
    by (rule staysD, auto intro!: cha.law_rules simp: postingEvents_def split: option.splits)
      (auto simp: andThen_def onLimiter_def auditWrite_def onStore_def modify_def ret_def split: option.splits prod.splits)
  show ?thesis
  proof (cases l)
    case (Some t)
    with run assms h2 show ?thesis by auto
  next
    case None
    show ?thesis
    proof (cases rule: verifyTotp_cases [of e u code s2])
      case (accepted c)
      have "lastCounter u (setTotpLastCounter u c (ch_db s)) = Some c"
        using accepted by (intro lastCounter_setTotpLastCounter) (auto simp: s2_def dest: acceptable_user)
      then show ?thesis using assms run None accepted
        by (auto simp: andThen_def good_def onLimiter_def setUnlocked_def nowMs_def modify_def ret_def codeUsed_def s2_def)
    next
      case (refused q)
      then have "(r, s') = (case q of Inl x \<Rightarrow> (Inl x, s2) | Inr b \<Rightarrow> bad ?now s2)"
        using assms run None by (cases q) (auto simp: andThen_def)
      then show ?thesis
        using h2 bad [of ?now] cha.trans [OF h2] by (cases q; cases "bad ?now s2") auto
    qed
  qed
qed

lemma codeUsed_keepsKeys:
  "undisturbed e \<Longrightarrow> codeUsed e u code s t \<Longrightarrow> keepsKeys e u t q \<Longrightarrow> codeUsed e u code s q"
  by (simp add: codeUsed_def keepsKeys_def)

lemma gated_authorised:
  assumes "stays (keepsKeys e u) m"
  shows "stays (authorised e u (trim text)) (gated e c u text op retry invalid m)"
  unfolding stays_def
proof
  fix s :: Session
  let ?s = "s\<lparr>ch_pending := (ch_pending s)(u := None)\<rparr>"
  obtain r t where v: "verifyTotpGated e u (trim text) op ?s = (r, t)" by fastforce
  note out = verifyTotpGated_outcome [OF v]
  have "authorised e u (trim text) ?s (snd (gated e c u text op retry invalid m s))"
  proof (cases "r = Inr Verified")
    case True
    then have "snd (gated e c u text op retry invalid m s) = snd (m t)"
      using v by (simp add: gated_def clearPending_def modify_def andThen_def)
    moreover have "keepsKeys e u t (snd (m t))" using assms by (rule staysD)
    ultimately show ?thesis
      using True out codeUsed_keepsKeys [of e u "trim text" ?s t "snd (m t)"]
      by (auto simp: authorised_def keepsKeys_def)
  next
    case False
    define rest where "rest v = (case v of LockedUntil until \<Rightarrow>
           andThen (nowMs e) (\<lambda>now. say e c (lockedText (until - now)) (errorKeyboard (Some retry)))
       | Rejected \<Rightarrow> say e c [Lit invalid] (errorKeyboard (Some retry)) | Verified \<Rightarrow> ret ())" for v
    have "stays (harmless e u) (rest v)" for v
      unfolding rest_def by (auto intro!: cha.law_rules split: Gate.splits)
    moreover have "snd (gated e c u text op retry invalid m s) = (case r of Inl x \<Rightarrow> t | Inr v \<Rightarrow> snd (rest v t))"
      using v False by (auto simp: gated_def clearPending_def modify_def andThen_def rest_def split: sum.splits Gate.splits)
    ultimately have "harmless e u t (snd (gated e c u text op retry invalid m s))"
      by (cases r) (auto simp: cha.refl staysD)
    then show ?thesis using out False cha.trans harmless_authorised by metis
  qed
  then show "authorised e u (trim text) s (snd (gated e c u text op retry invalid m s))"
    by (simp add: authorised_def codeUsed_def wasUnlocked_def)
qed

lemma ifUnlocked_authorised:
  assumes "stays (keepsKeys e u) m" "stays (authorised e u code) m'"
  shows "stays (authorised e u code) (ifUnlocked e u m m')"
  unfolding stays_def
proof
  fix s
  obtain b t where b: "isUnlocked e u s = (Inr b, t)" "b \<Longrightarrow> wasUnlocked e u s"
    by (cases "ch_unlockedUntil s u") (auto simp: isUnlocked_def andThen_def gets_def ret_def nowMs_def wasUnlocked_def)
  have "harmless e u s (snd (isUnlocked e u s))" by (rule staysD [OF cha.stays_isUnlocked])
  then have h: "harmless e u s t" using b by simp
  have run: "ifUnlocked e u m m' s = (if b then m t else m' t)" using b by (simp add: ifUnlocked_def andThen_def)
  show "authorised e u code s (snd (ifUnlocked e u m m' s))"
  proof (cases b)
    case True
    then have "keepsKeys e u s (snd (m t))"
      using h staysD [OF assms(1), of t] ckk.trans by (auto simp: harmless_def)
    with True run b show ?thesis by (auto simp: authorised_def keepsKeys_def)
  next
    case False
    then show ?thesis using run h staysD [OF assms(2), of t] harmless_authorised authorised_trans by metis
  qed
qed

interpretation csa: session_law "authorised e u code" e u for e u code
proof unfold_locales
  show "authorised e u code s q" if "authorised e u code s t" "authorised e u code t q" for s t q
    using that by (rule authorised_trans)
qed (auto intro!: harmless_authorised cha.refl cha.clock cha.outbox cha.pending cha.attempts cha.limits cha.audit cha.nav)

lemma requestChange_keepsKeys:
  "totpKey u (snd (requestChange cd u a now d)) = totpKey u d \<and> lastCounter u (snd (requestChange cd u a now d)) = lastCounter u d"
proof -
  have "totpKey u (setWhitelistImmediate u a now d') = totpKey u d' \<and> lastCounter u (setWhitelistImmediate u a now d') = lastCounter u d'" for d'
    by (cases "findUserRow u d'") (auto simp: totpKey_def lastCounter_def setWhitelistImmediate_def updateUser_def findUserRow_def
        find_updateWhere [where key = u_telegram_id])
  then show ?thesis
    by (auto simp: requestChange_def andThen_def gets_def throw_def withTransaction_def atomically_def split_beta Let_def
        totpKey_def lastCounter_def split: option.splits sum.splits)
qed

lemma stays_onStore_keepsKeys:
  "(\<And>d. totpKey u (snd (m d)) = totpKey u d \<and> lastCounter u (snd (m d)) = lastCounter u d) \<Longrightarrow> stays (keepsKeys e u) (onStore m)"
  by (simp add: stays_def onStore_def split_beta keepsKeys_def)

lemma whitelist_keepsKeys:
  "stays (keepsKeys e u) (doSetWhitelist e u c addr)" "stays (keepsKeys e u) (doCancelWhitelist e u c)"
proof -
  show "stays (keepsKeys e u) (doSetWhitelist e u c addr)"
    unfolding doSetWhitelist_def
    by (auto intro!: ckk.law_rules stays_onStore_keepsKeys requestChange_keepsKeys simp: postingEvents_def split: prod.splits)
  have "totpKey u (snd (cancelPending u r d)) = totpKey u d \<and> lastCounter u (snd (cancelPending u r d)) = lastCounter u d" for r d
    by (auto simp: cancelPending_def cancelPendingWhitelist_def totpKey_def lastCounter_def split: option.splits)
  then show "stays (keepsKeys e u) (doCancelWhitelist e u c)"
    unfolding doCancelWhitelist_def
    by (auto intro!: ckk.law_rules stays_onStore_keepsKeys simp: postingEvents_def split_beta)
qed

lemma doWithdraw_keepsKeys: "stays (keepsKeys e u) (doWithdraw e u c a)"
proof -
  have "stays (keepsKeys e u) (onStore (\<lambda>d. case enqueueWithdrawal u dst b f q d of (i, d') \<Rightarrow> (Inr i, d')))" for dst b f q
    by (intro stays_onStore_keepsKeys) (simp add: split_beta enqueueWithdrawal_def totpKey_def lastCounter_def findUserRow_def)
  then have "stays (keepsKeys e u) (queueWithdrawal e u c a dst n)" for dst n
    unfolding queueWithdrawal_def Let_def by (auto intro!: ckk.law_rules simp: postingEvents_def)
  then show ?thesis
    unfolding doWithdraw_def Let_def by (auto intro!: ckk.law_rules split: option.splits)
qed

interpretation cau: command_law "authorised e u code" e u code "stays (keepsKeys e u)" for e u code
  by unfold_locales
    (auto intro: gated_authorised ifUnlocked_authorised ckk.stays_doDepositReveal ckk.stays_doBalanceReveal
      doWithdraw_keepsKeys whitelist_keepsKeys)

text \<open>Enrollment touches the secret, but nothing of value.\<close>

definition worthless :: "CmdEnv \<Rightarrow> Session \<Rightarrow> Session \<Rightarrow> bool" where
  "worthless e s s' \<longleftrightarrow> (undisturbed e \<longrightarrow>
     ch_unlockedUntil s' = ch_unlockedUntil s \<and> valuables (ch_db s') = valuables (ch_db s))"

lemma valuables_totp [simp]:
  "valuables (setTotp u a b t d) = valuables d" "valuables (setTotpLastCounter u c d) = valuables d"
proof -
  have "whitelistOf v (updateUser u f d) = whitelistOf v d"
    if "\<And>r. u_telegram_id (f r) = u_telegram_id r" "\<And>r. u_whitelist_address (f r) = u_whitelist_address r" for v f
    using that by (cases "findUserRow v d") (auto simp: whitelistOf_row updateUser_def findUserRow_def
        find_updateWhere [where key = u_telegram_id])
  then show "valuables (setTotp u a b t d) = valuables d" "valuables (setTotpLastCounter u c d) = valuables d"
    by (auto simp: valuables_def setTotp_def setTotpLastCounter_def) (auto simp: updateUser_def)
qed

lemma valuables_createUser [simp]: "valuables (snd (createUser u r a b c t w d)) = valuables d"
  by (auto simp: valuables_def createUser_def whitelistOf_row findUserRow_def find_append fun_eq_iff split: option.splits)

lemma valuables_enrollment:
  "valuables (snd (accept e u now d)) = valuables d" "valuables (snd (beginTotpEnrollment e u d)) = valuables d"
  "valuables (snd (confirmTotp e u code now d)) = valuables d"
proof -
  show "valuables (snd (accept e u now d)) = valuables d"
    by (auto simp: accept_def andThen_def gets_def ret_def lift_def split: option.splits sum.splits prod.splits)
      (metis valuables_createUser snd_conv)+
  show "valuables (snd (beginTotpEnrollment e u d)) = valuables d"
    by (auto simp: beginTotpEnrollment_def andThen_def gets_def ret_def lift_def throw_def modify_def
        split: option.splits sum.splits prod.splits)
  show "valuables (snd (confirmTotp e u code now d)) = valuables d"
    by (auto simp: confirmTotp_def andThen_def gets_def ret_def lift_def modify_def Let_def
        split: option.splits sum.splits prod.splits)
qed

interpretation cwo: enroll_law "worthless e" e u for e u
  by unfold_locales
    (auto simp: worthless_def undisturbed_def stays_def onStore_def split_beta valuables_enrollment)

end
