(* ===== verification/Command_Properties.thy ===== *)
theory Command_Properties
  imports Command_Safety
begin

text \<open>
  The properties of \<open>CommandHandlers\<close>, stated over the handlers themselves, with a session in which one
  enrolled member has a whitelisted address, shares and a pending withdrawal.
\<close>

section \<open>A session\<close>

definition member_demo :: db where
  "member_demo = setWhitelistImmediate 7 ''W'' 3 (setTotp 7 (utf8 ''KEY'' @ replicate 16 0) (replicate 12 1) 2
     (snd (addShares 7 100 user_demo)))"

definition cmd_demo :: CmdEnv where
  "cmd_demo = \<lparr>ce_config = \<lparr>cc_withdrawalFeeBps = 0, cc_minWithdrawalUsd = 5, cc_maxDailyWithdrawalsPerUser = 2,
       cc_maxDailyWithdrawalUsdPerUser = 1000, cc_maxPendingWithdrawals = 50, cc_uiButtons = False\<rparr>,
     ce_limiter = defaultLimiter,
     ce_enroll = \<lparr>en_cipher = null_cipher, en_masterKey = replicate 32 0, en_keypair = (''B'', [1]),
       en_iv = replicate 12 2, en_iv2 = replicate 12 3, en_secret = ''NEW'', en_ensureAta = (\<lambda>_. Inr ()),
       en_totp = \<lparr>te_validate = (\<lambda>secret code. if secret = ''KEY'' \<and> code = ''123456'' then Some 0 else None),
                  te_counterMs = 0\<rparr>\<rparr>,
     ce_masterKey = replicate 32 0, ce_cooldownMs = 86400000, ce_sqlSum = sum_list,
     ce_publicKey = (\<lambda>_. True), ce_qr = (\<lambda>_. Inr ''png''), ce_nav = (\<lambda>_. Inr (Some (100, 100))),
     ce_meanwhile = (\<lambda>_ d. d), ce_clock = (\<lambda>n. 1000 + int n), ce_deliver = (\<lambda>_. Inr ())\<rparr>"

definition session_demo :: Session where
  "session_demo = \<lparr>ch_db = member_demo, ch_pending = [7 \<mapsto> PWithdraw 50], ch_totpSetupFailures = Map.empty,
     ch_unlockedUntil = Map.empty, ch_limiter = newLimiter, ch_clockReads = 0, ch_navCalls = 0, ch_replies = []\<rparr>"

lemma undisturbed_demo: "undisturbed cmd_demo" "calmCmd cmd_demo"
  by (simp_all add: undisturbed_def calmCmd_def cmd_demo_def ev.refl)

lemma store_wf_member_demo: "store_wf member_demo"
proof -
  have "store_wf (snd (addShares 7 100 user_demo))"
    using store_wf_user_demo by (intro store_wf_addShares) (auto simp: is_double_def)
  moreover have "evolves (snd (addShares 7 100 user_demo)) member_demo"
    unfolding member_demo_def by (intro evolves_trans [OF evolves_user_updates(1) evolves_user_updates(3)])
  ultimately show ?thesis by (simp add: evolves_def)
qed

section \<open>Invariants\<close>

text \<open>Whatever a user sends and whatever other tasks do while the handler waits, a request keeps the
  invariant of the store, loses no user and no deposit, touches no withdrawal that is not failed
  except by adding one, and the share balances stay the replay of the audit log.\<close>

theorem request_evolves:
  assumes "\<And>n d. evolves d (ce_meanwhile e n d)"
  shows "evolves (ch_db s) (ch_db (snd (handle e c u req s)))"
  using staysD [OF cev.stays_handle, of e s c u req] assms by (simp add: cmdEvolves_def calmCmd_def)

theorem request_evolves_witness:
  "evolves (ch_db session_demo) (ch_db (snd (handle cmd_demo 1 7 (Message ''123456'') session_demo)))"
  by (rule request_evolves) (simp add: cmd_demo_def ev.refl)

text \<open>With the buttons switched off, no reply to any request carries a keyboard.\<close>

theorem buttons_off:
  assumes "\<not> cc_uiButtons (ce_config e)"
  shows "\<exists>rs. ch_replies (snd (handle e c u req s)) = ch_replies s @ rs \<and>
     (\<forall>r\<in>set rs. ex_keyboard (rp_extras r) = None)"
  using staysD [OF crp.stays_handle, of e s c u req] assms by (auto simp: sendsPlain_def plainExtras_def)

theorem buttons_off_witness:
  "\<exists>rs. ch_replies (snd (handle cmd_demo 1 7 Menu session_demo)) = ch_replies session_demo @ rs \<and>
     (\<forall>r\<in>set rs. ex_keyboard (rp_extras r) = None)"
  by (rule buttons_off) (simp add: cmd_demo_def)

text \<open>A request of one user changes nothing that the session or the database holds of another: his
  pending action, session, lockout, account row, shares, withdrawals, whitelist changes and deposits.\<close>

theorem request_isolated:
  assumes "ce_meanwhile e = (\<lambda>_ d. d)" "store_wf (ch_db s)" "v \<noteq> u"
  shows "ownView v (snd (handle e c u req s)) = ownView v s"
  using staysD [OF cri.stays_handle, of e u s c req] assms by (simp add: isolated_def undisturbed_def)

theorem request_isolated_witness:
  "ownView 7 (snd (handle cmd_demo 1 8 (Message ''123456'') session_demo)) = ownView 7 session_demo"
  by (rule request_isolated) (simp_all add: cmd_demo_def session_demo_def store_wf_member_demo)

section \<open>The second factor\<close>

text \<open>C16: a code is accepted only for an enrolled user, if the OTP library matches it to a time step for the
  secret he stored and this step is later than every one he used before; accepting it records the
  step, so that neither this code nor one of an earlier step is ever accepted again.\<close>

theorem totp_no_replay:
  assumes "fst (verifyTotp e u code s) = Inr True"
  shows "\<exists>c. acceptable e u code c (ch_db s) \<and> lastCounter u (ch_db (snd (verifyTotp e u code s))) = Some c \<and>
     (\<forall>e' code' c'. acceptable e' u code' c' (ch_db (snd (verifyTotp e u code s))) \<longrightarrow> c < c')"
proof (cases rule: verifyTotp_cases [of e u code s])
  case (accepted c)
  then have "lastCounter u (setTotpLastCounter u c (ch_db s)) = Some c"
    by (intro lastCounter_setTotpLastCounter acceptable_user)
  with accepted show ?thesis by (auto simp: acceptable_def)
qed (use assms in auto)

theorem totp_no_replay_witness:
  "\<exists>c. acceptable cmd_demo 7 ''123456'' c (ch_db session_demo) \<and>
     lastCounter 7 (ch_db (snd (verifyTotp cmd_demo 7 ''123456'' session_demo))) = Some c \<and>
     (\<forall>e' code' c'. acceptable e' 7 code' c' (ch_db (snd (verifyTotp cmd_demo 7 ''123456'' session_demo))) \<longrightarrow> c < c')"
  by (rule totp_no_replay) code_simp

lemma authorised_request:
  assumes q: "undisturbed e"
  shows "(\<exists>t. req = Message t \<and> codeUsed e u (trim t) s (snd (handle e c u req s))) \<or>
     ch_unlockedUntil (snd (handle e c u req s)) = ch_unlockedUntil s \<and>
     (wasUnlocked e u s \<or> valuables (ch_db (snd (handle e c u req s))) = valuables (ch_db s))"
proof -
  let ?s = "snd (handle e c u req s)"
  have plain: ?thesis if "authorised e u [] s ?s"
    using that q by (auto simp: authorised_def codeUsed_def acceptable_def isSixDigits_def)
  have enrol: ?thesis if "worthless e s ?s" using that q by (simp add: worthless_def)
  show ?thesis
  proof (cases req)
    case (Message t)
    have "authorised e u (trim t) s ?s \<or> worthless e s ?s"
    proof (cases "ch_pending s u")
      case None
      then show ?thesis using Message by (simp add: handleMessage_def andThen_def gets_def ret_def csa.refl)
    next
      case (Some p)
      let ?d = "dispatchPending e c u t p"
      have run: "?s = snd (if p \<noteq> PDisclaimer then unlessLocked e c u ?d s else ?d s)"
        using Message Some by (simp add: handleMessage_def andThen_def gets_def)
      show ?thesis
      proof (cases "p = PTotp_setup_confirm")
        case True
        then have "stays (worthless e) ?d" by (simp add: dispatchPending_def cwo.stays_respondTotpSetupConfirm)
        then have "worthless e s (snd (unlessLocked e c u ?d s))" by (intro staysD [OF cwo.stays_unlessLocked])
        then show ?thesis using run True by simp
      next
        case False
        then have "stays (authorised e u (trim t)) ?d" by (intro cau.stays_dispatchPending) simp_all
        then have "authorised e u (trim t) s (snd (unlessLocked e c u ?d s))" "authorised e u (trim t) s (snd (?d s))"
          by (auto intro: staysD [OF csa.stays_unlessLocked] staysD)
        then show ?thesis using run by (cases "p = PDisclaimer") simp_all
      qed
    qed
    then show ?thesis
    proof
      assume "authorised e u (trim t) s ?s"
      then show ?thesis using q Message by (auto simp: authorised_def)
    qed (rule enrol)
  next
    case Account
    then show ?thesis by (intro enrol) (simp add: staysD [OF cwo.stays_handleAccount])
  next
    case Accept
    then show ?thesis by (intro enrol) (simp add: staysD [OF cwo.stays_handleAccept])
  qed (rule plain, simp add: staysD [OF csa.stays_handleDecline] staysD [OF cau.stays_reveals(1)]
      staysD [OF cau.stays_reveals(2)] staysD [OF csa.stays_handleStats] staysD [OF csa.stays_handleMenu]
      staysD [OF cau.stays_handleWithdraw] staysD [OF cau.stays_handleSetWhitelist]
      staysD [OF cau.stays_handleCancelWhitelist])+
qed

text \<open>C4: nothing of value moves without the second factor. For every request of a user, either his message
  is a fresh code for his secret, which the request uses up, or no session is unlocked, and the
  withdrawals, shares, deposits, whitelist changes and withdrawal addresses of all users are as
  before, unless his session was unlocked already and had not expired.\<close>

theorem request_authorised:
  assumes "ce_meanwhile e = (\<lambda>_ d. d)"
  shows "(\<exists>t. req = Message t \<and> codeUsed e u (trim t) s (snd (handle e c u req s))) \<or>
     ch_unlockedUntil (snd (handle e c u req s)) = ch_unlockedUntil s \<and>
     (wasUnlocked e u s \<or> valuables (ch_db (snd (handle e c u req s))) = valuables (ch_db s))"
  using assms by (intro authorised_request) (simp add: undisturbed_def)

theorem request_authorised_witness:
  "(\<exists>t. Message ''123456'' = Message t \<and>
      codeUsed cmd_demo 7 (trim t) session_demo (snd (handle cmd_demo 1 7 (Message ''123456'') session_demo))) \<or>
    ch_unlockedUntil (snd (handle cmd_demo 1 7 (Message ''123456'') session_demo)) = ch_unlockedUntil session_demo \<and>
    (wasUnlocked cmd_demo 7 session_demo \<or>
     valuables (ch_db (snd (handle cmd_demo 1 7 (Message ''123456'') session_demo))) = valuables (ch_db session_demo))"
  by (rule request_authorised) (simp add: cmd_demo_def)

text \<open>While a user is locked out, no message of his is checked against his secret: a gated verification
  returns at once, and a message that answers a pending action only gets a reply. The pending
  action, the failure counters and the database stay as they are.\<close>

theorem locked_out_inert:
  assumes "lockedUntil (ch_limiter s) u = Some t" "ce_clock e (ch_clockReads s) < t"
  shows "verifyTotpGated e u code op s = (Inr (LockedUntil t), s\<lparr>ch_clockReads := Suc (ch_clockReads s)\<rparr>) \<and>
    (ch_pending s u \<noteq> Some PDisclaimer \<longrightarrow>
      (\<exists>rs n. snd (handleMessage e c u text s) = s\<lparr>ch_clockReads := n, ch_replies := ch_replies s @ rs\<rparr>))"
proof
  have l: "isLockedOut u (ce_clock e (ch_clockReads s)) (ch_limiter s) = (Some t, ch_limiter s)"
    using assms by (simp add: isLockedOut_def)
  then show "verifyTotpGated e u code op s = (Inr (LockedUntil t), s\<lparr>ch_clockReads := Suc (ch_clockReads s)\<rparr>)"
    by (simp add: verifyTotpGated_def andThen_def nowMs_def onLimiter_def ret_def)
  show "ch_pending s u \<noteq> Some PDisclaimer \<longrightarrow>
      (\<exists>rs n. snd (handleMessage e c u text s) = s\<lparr>ch_clockReads := n, ch_replies := ch_replies s @ rs\<rparr>)"
  proof (cases "ch_pending s u")
    case None
    then have "snd (handleMessage e c u text s) = s" by (simp add: handleMessage_def andThen_def gets_def ret_def)
    then show ?thesis by (intro impI exI [of _ "[]"] exI [of _ "ch_clockReads s"]) simp
  next
    case (Some p)
    obtain r x where "rejectIfLocked e c u s = (r, s\<lparr>ch_clockReads := Suc (ch_clockReads s), ch_replies := ch_replies s @ [x]\<rparr>)"
      "r = Inr True \<or> (\<exists>m. r = Inl m)"
      using l by (cases "ce_deliver e \<lparr>rp_chatId = c, rp_text = lockedText (t - ce_clock e (ch_clockReads s)), rp_extras = noExtras\<rparr>")
        (auto simp: rejectIfLocked_def andThen_def nowMs_def onLimiter_def reply_def ret_def Let_def)
    then have "snd (unlessLocked e c u m s) = s\<lparr>ch_clockReads := Suc (ch_clockReads s), ch_replies := ch_replies s @ [x]\<rparr>" for m
      by (auto simp: unlessLocked_def andThen_def ret_def)
    with Some show ?thesis by (auto simp: handleMessage_def andThen_def gets_def)
  qed
qed

definition locked_demo :: Session where
  "locked_demo = session_demo\<lparr>ch_limiter := newLimiter\<lparr>lockedUntil := [7 \<mapsto> 900000]\<rparr>\<rparr>"

theorem locked_out_inert_witness:
  "verifyTotpGated cmd_demo 7 ''123456'' ''withdraw'' locked_demo =
      (Inr (LockedUntil 900000), locked_demo\<lparr>ch_clockReads := Suc (ch_clockReads locked_demo)\<rparr>) \<and>
    (ch_pending locked_demo 7 \<noteq> Some PDisclaimer \<longrightarrow>
      (\<exists>rs n. snd (handleMessage cmd_demo 1 7 ''123456'' locked_demo) =
        locked_demo\<lparr>ch_clockReads := n, ch_replies := ch_replies locked_demo @ rs\<rparr>))"
  by (rule locked_out_inert) (simp_all add: locked_demo_def session_demo_def newLimiter_def cmd_demo_def)

section \<open>Withdrawals\<close>

text \<open>The limits of \<open>/withdraw\<close>, at the clock readings of the checks and the net asset value of the request.\<close>

definition withinCaps :: "CmdEnv \<Rightarrow> int \<Rightarrow> rat \<Rightarrow> Session \<Rightarrow> bool" where
  "withinCaps e u a s \<longleftrightarrow> (let c = ce_config e; d = ch_db s in
     cc_minWithdrawalUsd c \<le> a \<and>
     (\<exists>n. countUserWithdrawalsLast24h u (ce_clock e n) d < cc_maxDailyWithdrawalsPerUser c) \<and>
     (\<exists>n. nadd (sumUserWithdrawalUsdLast24h (ce_sqlSum e) u (ce_clock e n) d) a \<le> cc_maxDailyWithdrawalUsdPerUser c) \<and>
     countPendingWithdrawals d < cc_maxPendingWithdrawals c \<and>
     (\<exists>navUsd navShares. ce_nav e (ch_navCalls s) = Inr (Some (navUsd, navShares)) \<and>
        a \<le> nadd (usdForShares (getShares u d) (computeNavPerShare navUsd navShares)) balanceTolerance))"

text \<open>What queueing one withdrawal of \<open>a\<close> dollars does to the session.\<close>

definition queuedFor :: "CmdEnv \<Rightarrow> int \<Rightarrow> rat \<Rightarrow> Session \<Rightarrow> Session \<Rightarrow> bool" where
  "queuedFor e u a s s' \<longleftrightarrow> ch_pending s' = ch_pending s \<and>
     (\<exists>w nps. rows (vault_withdrawals (ch_db s')) = rows (vault_withdrawals (ch_db s)) @ [w] \<and>
        w_telegramId w = u \<and> w_status w = Queued \<and> w_txSig w = None \<and>
        Some (w_destination w) = whitelistOf u (ch_db s) \<and> 0 < nps \<and> w_sharesBurned w = ndiv a nps \<and>
        w_feeShares w = fst (splitFee (w_sharesBurned w) (cc_withdrawalFeeBps (ce_config e))))"

definition notQueued :: "Session \<Rightarrow> Session \<Rightarrow> bool" where
  "notQueued s s' \<longleftrightarrow> vault_withdrawals (ch_db s') = vault_withdrawals (ch_db s) \<and> ch_pending s' = ch_pending s"

lemmas session_run = andThen_def nowMs_def onStore_def gets_def getNav_def ret_def throw_def say_def reply_def Let_def
  auditWrite_def modify_def

lemma doWithdraw_outcome:
  assumes "undisturbed e"
  shows "notQueued s (snd (doWithdraw e u c a s)) \<or> queuedFor e u a s (snd (doWithdraw e u c a s))"
proof -
  have q: "queuedFor e u a s (snd (queueWithdrawal e u c a dst n t))"
    if "ch_db t = ch_db s" "ch_pending t = ch_pending s" "Some dst = whitelistOf u (ch_db s)" "0 < n" for dst n t
    using that unfolding queueWithdrawal_def queuedFor_def
    by (auto simp: session_run enqueueWithdrawal_def table_simps writeAudit_def)
  show ?thesis
  proof (cases "getUser u (ch_db s)")
    case None
    then show ?thesis by (simp add: doWithdraw_def session_run notQueued_def)
  next
    case (Some v)
    have "whitelistOf u (ch_db s) = Some (the (vu_whitelistAddress v))" if "truthy (vu_whitelistAddress v)"
      using Some that by (auto simp: whitelistOf_def truthy_def split: option.splits)
    then show ?thesis
      using Some assms q
      by (auto simp: doWithdraw_def session_run undisturbed_def notQueued_def split: option.splits sum.splits)
  qed
qed

lemma withdrawChecks_passed:
  assumes "withdrawChecks e u x a s = (Inr None, t)"
  shows "cc_minWithdrawalUsd (ce_config e) \<le> a" "a \<le> nadd x balanceTolerance"
    "\<exists>n. countUserWithdrawalsLast24h u (ce_clock e n) (ch_db s) < cc_maxDailyWithdrawalsPerUser (ce_config e)"
    "\<exists>n. nadd (sumUserWithdrawalUsdLast24h (ce_sqlSum e) u (ce_clock e n) (ch_db s)) a
       \<le> cc_maxDailyWithdrawalUsdPerUser (ce_config e)"
    "countPendingWithdrawals (ch_db s) < cc_maxPendingWithdrawals (ce_config e)"
  using assms by (auto simp: withdrawChecks_def session_run not_le not_less split: if_splits)

lemma same_clock [simp]: "\<exists>n. s = s\<lparr>ch_clockReads := n\<rparr>"
  by (rule exI [of _ "ch_clockReads s"]) simp

lemma withdrawChecks_state:
  "\<exists>n. snd (withdrawChecks e u x a s) = s\<lparr>ch_clockReads := n\<rparr>"
  by (auto simp: withdrawChecks_def session_run)

lemma rejectIfLocked_state:
  "ch_db (snd (rejectIfLocked e c u s)) = ch_db s \<and> ch_pending (snd (rejectIfLocked e c u s)) = ch_pending s \<and>
   ch_navCalls (snd (rejectIfLocked e c u s)) = ch_navCalls s"
  by (auto simp: rejectIfLocked_def session_run onLimiter_def split: option.splits prod.splits sum.splits)

lemma isUnlocked_run: "\<exists>b n. isUnlocked e u s = (Inr b, s\<lparr>ch_clockReads := n\<rparr>)"
  by (auto simp: isUnlocked_def session_run split: option.splits)

text \<open>The outcome of a valid amount: refused, asked for a code, or queued, the latter two only within the
  limits.\<close>

definition withdrawOutcome :: "CmdEnv \<Rightarrow> int \<Rightarrow> Session \<Rightarrow> Session \<Rightarrow> bool" where
  "withdrawOutcome e u s s' \<longleftrightarrow> notQueued s s' \<or>
     (\<exists>a. withinCaps e u a s \<and>
        (queuedFor e u a s s' \<or>
         vault_withdrawals (ch_db s') = vault_withdrawals (ch_db s) \<and> ch_pending s' = (ch_pending s)(u \<mapsto> PWithdraw a)))"

lemma notQueued_say: "ch_db t = ch_db s \<Longrightarrow> ch_pending t = ch_pending s \<Longrightarrow> notQueued s (snd (say e c x k t))"
  by (simp add: notQueued_def session_run)

lemma withdrawOutcome_cong:
  assumes "ch_db t = ch_db s" "ch_pending t = ch_pending s" "ch_navCalls t = ch_navCalls s"
  shows "withdrawOutcome e u t s' = withdrawOutcome e u s s'"
  using assms by (simp add: withdrawOutcome_def notQueued_def withinCaps_def queuedFor_def)

lemma withdraw_ask:
  assumes "undisturbed e" "ch_db t = ch_db s" "ch_pending t = ch_pending s" "withinCaps e u a s"
  shows "withdrawOutcome e u s (snd (ifUnlocked e u (doWithdraw e u c a)
     (andThen (setPending u (PWithdraw a)) (\<lambda>_. say e c x k)) t))"
proof -
  obtain b n where b: "isUnlocked e u t = (Inr b, t\<lparr>ch_clockReads := n\<rparr>)" using isUnlocked_run by blast
  let ?t = "t\<lparr>ch_clockReads := n\<rparr>"
  have "notQueued s s' = notQueued ?t s'" "queuedFor e u a s s' = queuedFor e u a ?t s'" for s'
    using assms(2,3) by (simp_all add: notQueued_def queuedFor_def)
  moreover have "notQueued ?t (snd (doWithdraw e u c a ?t)) \<or> queuedFor e u a ?t (snd (doWithdraw e u c a ?t))"
    using assms(1) by (rule doWithdraw_outcome)
  ultimately show ?thesis using b assms(2-4)
    by (auto simp: ifUnlocked_def andThen_def [of "isUnlocked e u"] withdrawOutcome_def)
      (auto simp: setPending_def session_run)
qed

lemma onStore_gets: "onStore (gets f) s = (Inr (f (ch_db s)), s)"
  by (simp add: onStore_def gets_def)

lemma withdraw_valid:
  assumes "undisturbed e" "ce_nav e (ch_navCalls s) = Inr (Some (navUsd, navShares))"
    and "ch_db t = ch_db s" "ch_pending t = ch_pending s"
    and "x = usdForShares (getShares u (ch_db s)) (computeNavPerShare navUsd navShares)"
  shows "withdrawOutcome e u s (snd (andThen (withdrawChecks e u x a) (\<lambda>refused.
     case refused of Some (refusal, keyboard) \<Rightarrow> say e c refusal keyboard
     | None \<Rightarrow> ifUnlocked e u (doWithdraw e u c a) (andThen (setPending u (PWithdraw a)) (\<lambda>_. say e c y k))) t))"
    (is "withdrawOutcome e u s (snd (andThen ?checks ?go t))")
proof -
  obtain n where n: "snd (withdrawChecks e u x a t) = t\<lparr>ch_clockReads := n\<rparr>" using withdrawChecks_state by blast
  let ?t = "t\<lparr>ch_clockReads := n\<rparr>"
  consider (err) m where "withdrawChecks e u x a t = (Inl m, ?t)"
    | (refused) r k' where "withdrawChecks e u x a t = (Inr (Some (r, k')), ?t)"
    | (passed) "withdrawChecks e u x a t = (Inr None, ?t)"
    using n by (cases "withdrawChecks e u x a t"; cases "fst (withdrawChecks e u x a t)")
      (auto, metis option.exhaust surj_pair)
  then show ?thesis
  proof cases
    case err
    then show ?thesis using assms by (simp add: andThen_def withdrawOutcome_def notQueued_def)
  next
    case (refused r k')
    then have "notQueued s (snd (andThen ?checks ?go t))"
      using assms notQueued_say [of ?t s] by (simp add: andThen_def)
    then show ?thesis by (simp add: withdrawOutcome_def)
  next
    case passed
    then have "withinCaps e u a s"
      using withdrawChecks_passed [OF passed] assms by (auto simp: withinCaps_def Let_def)
    then have "withdrawOutcome e u s (snd (ifUnlocked e u (doWithdraw e u c a)
        (andThen (setPending u (PWithdraw a)) (\<lambda>_. say e c y k)) ?t))"
      using assms by (intro withdraw_ask) simp_all
    with passed show ?thesis by (simp add: andThen_def [of ?checks])
  qed
qed



section \<open>The amount entry\<close>

text \<open>What the typed amount needs: no counter of past or pending withdrawals occurs.\<close>

definition entryOk :: "CmdEnv \<Rightarrow> int \<Rightarrow> rat \<Rightarrow> rat \<Rightarrow> Session \<Rightarrow> bool" where
  "entryOk e u n nps s \<longleftrightarrow> 0 < n \<and> 0 < nps \<and> truthy (whitelistOf u (ch_db s)) \<and>
     cc_minWithdrawalUsd (ce_config e) \<le> n \<and> n \<le> nadd (usdForShares (getShares u (ch_db s)) nps) balanceTolerance \<and>
     (\<exists>t. ch_unlockedUntil s u = Some t \<and> (\<forall>k. ce_clock e k < t))"

lemma entry_queues:
  fixes c :: int
  assumes e: "undisturbed e" "\<And>k. ce_nav e k = Inr (Some (navUsd, navShares))"
    and n: "stringToNumber (trim text) = Some n" "entryOk e u n (computeNavPerShare navUsd navShares) s"
  defines "s' \<equiv> snd (respondWithdrawAmountEntry e c u text s)"
  shows "\<exists>w. rows (vault_withdrawals (ch_db s')) = rows (vault_withdrawals (ch_db s)) @ [w] \<and> w_telegramId w = u \<and>
      w_sharesBurned w = ndiv n (computeNavPerShare navUsd navShares)"
    and "entryOk e u n (computeNavPerShare navUsd navShares) s'"
proof -
  obtain v w where v: "getUser u (ch_db s) = Some v" "vu_whitelistAddress v = Some w" "w \<noteq> []"
    using n(2) by (cases "getUser u (ch_db s)") (auto simp: entryOk_def whitelistOf_def truthy_def split: option.splits)
  obtain t where t: "ch_unlockedUntil s u = Some t" "\<And>k. ce_clock e k < t" using n(2) by (auto simp: entryOk_def)
  note f = e(1) [unfolded undisturbed_def] e(2) v t n(1) n(2) [unfolded entryOk_def]
  let ?b = "ndiv n (computeNavPerShare navUsd navShares)"
  let ?x = "enqueueWithdrawal u w ?b (fst (splitFee ?b (cc_withdrawalFeeBps (ce_config e)))) (ce_clock e (Suc (ch_clockReads s))) (ch_db s)"
  have "\<exists>q det. ch_db s' = writeAudit q (Some u) ''withdrawal_queued'' det (snd ?x) \<and> ch_unlockedUntil s' = ch_unlockedUntil s"
    unfolding s'_def respondWithdrawAmountEntry_def ifUnlocked_def isUnlocked_def clearPending_def doWithdraw_def queueWithdrawal_def
    using f by (simp add: session_run truthy_def split_beta not_less not_le) blast
  then obtain q det where s': "ch_db s' = writeAudit q (Some u) ''withdrawal_queued'' det (snd ?x)"
    "ch_unlockedUntil s' = ch_unlockedUntil s" by blast
  show "\<exists>w. rows (vault_withdrawals (ch_db s')) = rows (vault_withdrawals (ch_db s)) @ [w] \<and> w_telegramId w = u \<and>
      w_sharesBurned w = ndiv n (computeNavPerShare navUsd navShares)"
    by (simp add: s' writeAudit_def enqueueWithdrawal_def table_simps)
  have "whitelistOf x (ch_db s') = whitelistOf x (ch_db s)" "getShares x (ch_db s') = getShares x (ch_db s)" for x
    by (simp_all add: s' whitelistOf_row findUserRow_def getShares_def findShares_def writeAudit_def enqueueWithdrawal_def)
  then show "entryOk e u n (computeNavPerShare navUsd navShares) s'" using n(2) by (simp add: entryOk_def s')
qed

text \<open>C34: a typed withdrawal amount is checked against the balance and the minimum only. In an unlocked session,
  two equal amounts in a row are both queued, each against the same shares, whatever the daily
  count, the daily sum and the length of the queue are, because neither the limits of \<open>/withdraw\<close> nor
  the withdrawals that are queued already are looked at.\<close>

theorem amount_entry_twice:
  assumes "ce_meanwhile e = (\<lambda>_ d. d)" "\<And>k. ce_nav e k = Inr (Some (navUsd, navShares))"
    and "stringToNumber (trim text) = Some n" "entryOk e u n (computeNavPerShare navUsd navShares) s"
  shows "\<exists>w1 w2. rows (vault_withdrawals (ch_db (snd (respondWithdrawAmountEntry e c u text
       (snd (respondWithdrawAmountEntry e c u text s)))))) = rows (vault_withdrawals (ch_db s)) @ [w1, w2] \<and>
     w_telegramId w1 = u \<and> w_telegramId w2 = u \<and>
     w_sharesBurned w1 = ndiv n (computeNavPerShare navUsd navShares) \<and> w_sharesBurned w2 = w_sharesBurned w1"
proof -
  have q: "undisturbed e" using assms(1) by (simp add: undisturbed_def)
  note first = entry_queues [OF q assms(2,3,4), where c = c]
  note second = entry_queues(1) [OF q assms(2,3) first(2), where c = c]
  from first(1) second show ?thesis by auto
qed

definition rich_demo :: Session where
  "rich_demo = session_demo\<lparr>ch_unlockedUntil := [7 \<mapsto> 5000]\<rparr>"

definition limited_demo :: CmdEnv where
  "limited_demo = cmd_demo\<lparr>ce_config := (ce_config cmd_demo)\<lparr>cc_maxDailyWithdrawalsPerUser := 0,
     cc_maxPendingWithdrawals := 0\<rparr>, ce_clock := (\<lambda>_. 1000)\<rparr>"

lemma entryOk_demo: "entryOk limited_demo 7 100 (computeNavPerShare 100 100) rich_demo"
proof -
  have "getShares 7 member_demo = 100" "whitelistOf 7 member_demo = Some ''W''" by code_simp+
  moreover have "100 \<le> nadd 100 balanceTolerance"
    unfolding balanceTolerance_def by (rule nadd_ge_left) (simp_all add: is_double_def fl_nonneg)
  ultimately show ?thesis
    by (simp add: entryOk_def rich_demo_def session_demo_def limited_demo_def cmd_demo_def truthy_def
        computeNavPerShare_def usdForShares_def num_op_defs)
qed

theorem amount_entry_twice_witness:
  "\<exists>w1 w2. rows (vault_withdrawals (ch_db (snd (respondWithdrawAmountEntry limited_demo 1 7 ''100''
       (snd (respondWithdrawAmountEntry limited_demo 1 7 ''100'' rich_demo)))))) = rows (vault_withdrawals (ch_db rich_demo)) @ [w1, w2] \<and>
     w_telegramId w1 = 7 \<and> w_telegramId w2 = 7 \<and>
     w_sharesBurned w1 = ndiv 100 (computeNavPerShare 100 100) \<and> w_sharesBurned w2 = w_sharesBurned w1"
proof (rule amount_entry_twice [OF _ _ _ entryOk_demo])
  show "stringToNumber (trim ''100'') = Some 100" by code_simp
qed (simp_all add: limited_demo_def cmd_demo_def)

end
