(* ===== verification/Operator_Properties.thy ===== *)
theory Operator_Properties
  imports Operator_Commands Command_Properties "HOL-Library.Multiset"
begin

text \<open>
  The properties of the operator commands: they keep the store invariant, \<open>/forceprocess\<close> requeues
  only a failed withdrawal without a signature, and \<open>/recreditdeposit\<close> finds in the audit log exactly
  what the deposit pipeline wrote there and credits it at most once.
\<close>

datatype OpRequest = PauseVault | ResumeVault | VaultStatus | ForceProcess string | RecreditDeposit string | ResetTotp string

fun handleOp :: "OpEnv \<Rightarrow> int \<Rightarrow> int \<Rightarrow> OpRequest \<Rightarrow> unit cmd" where
  "handleOp e chatId userId PauseVault = handlePause e chatId userId"
| "handleOp e chatId userId ResumeVault = handleResume e chatId userId"
| "handleOp e chatId userId VaultStatus = handleStatus e chatId"
| "handleOp e chatId userId (ForceProcess text) = handleForceProcess e chatId userId text"
| "handleOp e chatId userId (RecreditDeposit text) = handleRecreditDeposit e chatId userId text"
| "handleOp e chatId userId (ResetTotp text) = handleResetTotp e chatId userId text"

section \<open>Invariants\<close>

definition opEvolves :: "OpEnv \<Rightarrow> Session \<Rightarrow> Session \<Rightarrow> bool" where
  "opEvolves e s s' \<longleftrightarrow> ((\<forall>d. evolves d (oe_meanwhile e d)) \<and> calmCmd (oe_cmd e) \<longrightarrow> evolves (ch_db s) (ch_db s'))"

interpretation ope: session_law "opEvolves e" "oe_cmd e" u for e u
  by unfold_locales
    (auto simp: opEvolves_def calmCmd_def ev.refl intro: evolves_trans evolves_writeAudit)

lemma stays_onStore_op: "stays evolves m \<Longrightarrow> stays (opEvolves e) (onStore m)"
  by (simp add: stays_def opEvolves_def onStore_def split_beta)

lemma stays_tell: "stays (opEvolves e) (tell e c t)"
  unfolding tell_def by (intro ope.stays_reply) simp

lemma op_stores:
  "stays (opEvolves e) (onStore (modify (setFlag now k v r)))"
  "stays (opEvolves e) (onStore (requeueFailedWithdrawal i))" "stays (opEvolves e) (onStore (clearUserTotp u))"
  "stays (opEvolves e) (onStore (credit q p))" "stays (opEvolves e) (onStore (modify (oe_meanwhile e)))"
  by (simp_all add: stays_def opEvolves_def onStore_def split_beta modify_def evolves_requeue evolves_user_updates
      evolves_credit evolves_aux)

lemmas op_rules = ope.law_rules ope.stays_tryCatch stays_tell op_stores

lemma stays_recreditNow: "stays (opEvolves e) (recreditNow e c u sig tid g sol bert t x y)"
  unfolding recreditNow_def Let_def by (auto intro!: op_rules split: option.splits simp: postingEvents_def)

lemma stays_handleOp: "stays (opEvolves e) (handleOp e c u req)"
proof (cases req)
  case (ForceProcess t)
  then show ?thesis
    by (auto simp: handleForceProcess_def Let_def postingEvents_def intro!: op_rules split: option.splits)
next
  case (RecreditDeposit t)
  then show ?thesis
    by (auto simp: handleRecreditDeposit_def intro!: op_rules stays_recreditNow split: option.splits sum.splits)
next
  case (ResetTotp t)
  then show ?thesis
    by (auto simp: handleResetTotp_def Let_def postingEvents_def intro!: op_rules split: option.splits)
qed (auto simp: handlePause_def handleResume_def handleStatus_def postingEvents_def intro!: op_rules)

text \<open>Every operator command keeps the invariant of the store, the share ledger equal to the replay of
  the audit log, and every withdrawal that is not failed.\<close>

theorem operator_evolves:
  assumes "\<And>d. evolves d (oe_meanwhile e d)" "\<And>n d. evolves d (ce_meanwhile (oe_cmd e) n d)"
  shows "evolves (ch_db s) (ch_db (snd (handleOp e c u req s)))"
  using staysD [OF stays_handleOp, of e s c u req] assms by (simp add: opEvolves_def calmCmd_def)

definition op_demo :: OpEnv where
  "op_demo = \<lparr>oe_cmd = cmd_demo, oe_flagNow = 9, oe_creditWired = True, oe_mid = Inr (Some (100, 1)), oe_meanwhile = (\<lambda>d. d)\<rparr>"

theorem operator_evolves_witness:
  "evolves (ch_db session_demo) (ch_db (snd (handleOp op_demo 1 1 (ResetTotp ''/resettotp 7'') session_demo)))"
  by (rule operator_evolves) (simp_all add: op_demo_def cmd_demo_def ev.refl)

section \<open>Pausing\<close>

lemma tell_db: "ch_db (snd (tell e c t s)) = ch_db s"
  by (simp add: tell_def reply_def Let_def)

lemma getFlag_writeAudit [simp]: "getFlag k (writeAudit ts t ev det d) = getFlag k d"
  by (simp add: getFlag_def writeAudit_def)

text \<open>After \<open>/pausevault\<close> the vault is paused, and after \<open>/resumevault\<close> it is not, whatever the flag was
  before.\<close>

theorem pause_flag:
  "isVaultPaused (\<lambda>k. getFlag k (ch_db (snd (handlePause e c u s)))) \<and>
   \<not> isVaultPaused (\<lambda>k. getFlag k (ch_db (snd (handleResume e c u s))))"
  by (simp add: handlePause_def handleResume_def session_run tell_db isVaultPaused_def getFlag_setFlag)

section \<open>Requeueing\<close>

text \<open>\<open>/forceprocess\<close> either leaves the database alone, or its argument is the number of a withdrawal that is
  failed and has no signature; then it puts exactly this row back into the queue, with all else of
  the row as it was, and logs it.\<close>

theorem forceprocess_effect:
  "ch_db (snd (handleForceProcess e c u text s)) = ch_db s \<or>
    (\<exists>i w. getWithdrawalById i (ch_db s) = Some w \<and> w_status w = Failed \<and> \<not> truthy (w_txSig w) \<and>
      (\<forall>j. getWithdrawalById j (ch_db (snd (handleForceProcess e c u text s))) =
        (if j = i then Some (requeuedRow w) else getWithdrawalById j (ch_db s))))"
proof -
  have requeue: "requeueFailedWithdrawal i (ch_db s) = (Inr (), updateWithdrawals (\<lambda>w. w_id w = i) requeuedRow (ch_db s))"
    if "getWithdrawalById i (ch_db s) = Some w" "w_status w = Failed" "\<not> truthy (w_txSig w)" for i w
    using that by (simp add: requeueFailedWithdrawal_def requeuedRow_def [abs_def])
  have look: "getWithdrawalById j (writeAudit ts t ev det (updateWithdrawals (\<lambda>w. w_id w = i) requeuedRow (ch_db s))) =
      (if j = i then Some (requeuedRow w) else getWithdrawalById j (ch_db s))"
    if "getWithdrawalById i (ch_db s) = Some w" for ts t ev det i j w
  proof -
    have "getWithdrawalById j (writeAudit ts t ev det d) = getWithdrawalById j d" for d
      by (simp add: getWithdrawalById_def writeAudit_def)
    moreover have "getWithdrawalById j (updateWithdrawals (\<lambda>w. w_id w = i) requeuedRow (ch_db s)) =
        map_option (\<lambda>r. if w_id r = i then requeuedRow r else r) (getWithdrawalById j (ch_db s))"
      by (simp add: getWithdrawalById_def updateWithdrawals_def table_simps requeuedRow_def
          find_updateWhere [where key = w_id])
    ultimately show ?thesis using that
      by (cases "getWithdrawalById j (ch_db s)") (auto dest: getWithdrawalById_Some)
  qed
  show ?thesis
  proof (cases "\<exists>i w raw x. wordAt1 text = Some raw \<and> stringToNumber raw = Some x \<and> isInteger x \<and> 0 < x \<and> i = \<lfloor>x\<rfloor> \<and>
      getWithdrawalById i (ch_db s) = Some w \<and> w_status w = Failed \<and> \<not> truthy (w_txSig w)")
    case True
    then obtain i w raw x where w: "wordAt1 text = Some raw" "stringToNumber raw = Some x" "isInteger x" "0 < x" "i = \<lfloor>x\<rfloor>"
      "getWithdrawalById i (ch_db s) = Some w" "w_status w = Failed" "\<not> truthy (w_txSig w)" by blast
    then have "\<exists>ts det. ch_db (snd (handleForceProcess e c u text s)) = writeAudit ts (Some u) ''withdrawal_requeued'' det
        (updateWithdrawals (\<lambda>w. w_id w = i) requeuedRow (ch_db s))"
      by (simp add: handleForceProcess_def session_run tell_db requeue) blast
    then obtain ts det where "ch_db (snd (handleForceProcess e c u text s)) = writeAudit ts (Some u) ''withdrawal_requeued'' det
        (updateWithdrawals (\<lambda>w. w_id w = i) requeuedRow (ch_db s))" by blast
    with look [OF w(6)] w(6-8) show ?thesis by (intro disjI2 exI [of _ i] exI [of _ w]) simp
  next
    case False
    then have "ch_db (snd (handleForceProcess e c u text s)) = ch_db s"
      by (auto simp: handleForceProcess_def session_run tell_db split: option.splits)
    then show ?thesis ..
  qed
qed

section \<open>Recovering a deposit from the audit log\<close>

definition concerns :: "string \<Rightarrow> audit_row \<Rightarrow> bool" where
  "concerns sig r \<longleftrightarrow> (a_event r = ''deposit_detected'' \<or> a_event r = ''deposit_swept'') \<and>
     jget ''inboundTxSig'' (a_details r) = Some (JStr sig)"

lemma scanAudit_skip: "\<not> concerns sig r \<Longrightarrow> scanAudit sig (r # rs) p q t = scanAudit sig rs p q t"
  by (auto simp: concerns_def)

lemma scanAudit_filter: "scanAudit sig rs p q t = scanAudit sig (filter (concerns sig) rs) p q t"
proof (induction sig rs p q t rule: scanAudit.induct)
  case (2 sig r rs detected swept tid)
  then show ?case
    by (cases "concerns sig r") (auto simp: concerns_def Let_def split: prod.splits if_splits)
qed simp

text \<open>Both orders of the two rows give the same answer, since the order of the log is that of the clock.\<close>

lemma scanAudit_pair:
  assumes "a_event r1 = ''deposit_detected''" "a_event r2 = ''deposit_swept''" "a_telegram_id r1 = Some t" "a_telegram_id r2 = Some t"
    and "concerns sig r1" "concerns sig r2" "rs = [r1, r2] \<or> rs = [r2, r1]"
  shows "scanAudit sig rs None None None = (Some (a_details r1), Some (a_details r2), Some t)"
  using assms by (auto simp: concerns_def)

lemma filter_recent:
  assumes "length (rows (vault_audit_log d)) \<le> n" "filter P (rows (vault_audit_log d)) = [r1, r2]"
  shows "filter P (listRecentAuditEvents n d) = [r1, r2] \<or> filter P (listRecentAuditEvents n d) = [r2, r1]"
proof -
  let ?xs = "listRecentAuditEvents n d" and ?rs = "rows (vault_audit_log d)"
  have "mset ?xs = mset ?rs" using assms(1) by (simp add: listRecentAuditEvents_def)
  then have "mset (filter P ?xs) = mset [r1, r2]" using assms(2) by (metis mset_filter)
  moreover have "ys = [a, b] \<or> ys = [b, a]" if "mset ys = mset [a, b]" for ys :: "audit_row list" and a b
  proof -
    have "length ys = 2" using mset_eq_length [OF that] by simp
    then obtain x y where "ys = [x, y]" by (auto simp: length_Suc_conv numeral_2_eq_2)
    with that show ?thesis by (auto simp: add_eq_conv_ex)
  qed
  ultimately show ?thesis by blast
qed

lemma filter_log_audit:
  "filter P (rows (vault_audit_log (writeAudit ts t ev det d))) = filter P (rows (vault_audit_log d)) @
     filter P [\<lparr>a_id = lastId (vault_audit_log d) + 1, a_ts = ts, a_telegram_id = t, a_event = ev, a_details = det\<rparr>]"
  by (simp add: writeAudit_def table_simps)

text \<open>C32: the recovery finds what was logged. If the pipeline detected and swept a deposit that no earlier row of
  the log mentions, and whatever else was logged in between and afterwards does not mention it
  either, then as long as the log has at most 5000 rows \<open>/recreditdeposit\<close> reads back exactly the
  user, the sweep signature, both amounts and the confirmation time.\<close>

theorem recredit_roundtrip:
  fixes ev :: InflowEvent
  assumes "filter (concerns (ie_inboundTxSig ev)) (rows (vault_audit_log d)) = []"
    and "filter (concerns (ie_inboundTxSig ev)) (rows (vault_audit_log d1)) =
         filter (concerns (ie_inboundTxSig ev)) (rows (vault_audit_log (detectedAudit e tid ev d)))"
    and "filter (concerns (ie_inboundTxSig ev)) (rows (vault_audit_log d2)) =
         filter (concerns (ie_inboundTxSig ev)) (rows (vault_audit_log (sweptAudit e tid ev g d1)))"
    and "length (rows (vault_audit_log d2)) \<le> 5000" "g \<noteq> []"
  shows "recreditLookup (ie_inboundTxSig ev) (listRecentAuditEvents 5000 d2) =
     Inr (tid, g, ie_solLamports ev, ie_bertRaw ev, Some (ie_confirmedAt ev))"
proof -
  let ?sig = "ie_inboundTxSig ev"
  obtain r1 r2 where f: "filter (concerns ?sig) (rows (vault_audit_log d2)) = [r1, r2]"
    and r1: "a_event r1 = ''deposit_detected''" "a_telegram_id r1 = Some tid"
      "a_details r1 = JObj [(''inboundTxSig'', JStr ?sig), (''solLamports'', JStr (bigToString (ie_solLamports ev))),
              (''bertRaw'', JStr (bigToString (ie_bertRaw ev)))]"
    and r2: "a_event r2 = ''deposit_swept''" "a_telegram_id r2 = Some tid"
      "a_details r2 = JObj [(''inboundTxSig'', JStr ?sig), (''sweepTxSig'', JStr g),
               (''solLamports'', JStr (bigToString (ie_solLamports ev))),
               (''bertRaw'', JStr (bigToString (ie_bertRaw ev))), (''confirmedAt'', JInt (ie_confirmedAt ev))]"
    using assms(1-3) by (simp add: detectedAudit_def sweptAudit_def filter_log_audit concerns_def)
  have "concerns ?sig r1" "concerns ?sig r2" using r1 r2 by (simp_all add: concerns_def)
  then have "scanAudit ?sig (listRecentAuditEvents 5000 d2) None None None = (Some (a_details r1), Some (a_details r2), Some tid)"
    using scanAudit_pair [OF r1(1) r2(1) r1(2) r2(2)] filter_recent [OF assms(4) f] scanAudit_filter by metis
  moreover obtain c cs where "g = c # cs" using assms(5) by (cases g) auto
  ultimately show ?thesis using r1(3) r2(3)
    by (simp add: recreditLookup_def jsonTimestamp_def stringToBig_bigToString)
qed

text \<open>A pipeline log with one detected and swept deposit.\<close>

definition swept_demo :: db where
  "swept_demo = sweptAudit env_demo 7 event_demo ''sweep'' (detectedAudit env_demo 7 event_demo member_demo)"

theorem recredit_roundtrip_witness:
  "recreditLookup (ie_inboundTxSig event_demo) (listRecentAuditEvents 5000 swept_demo) =
     Inr (7, ''sweep'', ie_solLamports event_demo, ie_bertRaw event_demo, Some (ie_confirmedAt event_demo))"
proof (rule recredit_roundtrip)
  show "filter (concerns (ie_inboundTxSig event_demo)) (rows (vault_audit_log member_demo)) = []" by code_simp
  have "rows (vault_audit_log member_demo) = []" by code_simp
  then have "length (rows (vault_audit_log swept_demo)) = 2"
    by (simp add: swept_demo_def sweptAudit_def detectedAudit_def writeAudit_def table_simps)
  then show "length (rows (vault_audit_log swept_demo)) \<le> 5000" by simp
qed (simp_all add: swept_demo_def)

text \<open>What a recredit may do to shares and deposits: nothing, or one mint for a deposit that had none, of the
  amounts that the log holds, at the price of the oracle and a positive net asset value.\<close>

definition recredited :: "string \<Rightarrow> audit_row list \<Rightarrow> (rat \<times> rat) option result \<Rightarrow> db \<Rightarrow> db \<Rightarrow> bool" where
  "recredited sig recent mid d d' \<longleftrightarrow> unminted d d' \<or>
     (\<exists>tid g sol bert t solUsd bertUsd nav. recreditLookup sig recent = Inr (tid, g, sol, bert, t) \<and>
        mid = Inr (Some (solUsd, bertUsd)) \<and> 0 < nav \<and> \<not> hasDeposit sig d \<and> hasDeposit sig d' \<and>
        (\<forall>v. getShares v d' = (if v = tid then nadd (getShares v d) (ndiv (depositUsd sol bert solUsd bertUsd) nav)
                               else getShares v d)))"

lemma getShares_hasDeposit_audit:
  "hasDeposit g (writeAudit ts t ev det d) = hasDeposit g d"
  by (simp add: hasDeposit_def writeAudit_def)

lemma recreditNow_effect:
  assumes "store_wf (ch_db s)" "recreditLookup sig recent = Inr (tid, g, sol, bert, t)"
  shows "recredited sig recent (Inr (Some (x, y))) (ch_db s) (ch_db (snd (recreditNow e c u sig tid g sol bert t x y s)))"
proof -
  define nav where "nav = computeNavPerShare (case latestNavSnapshot (ch_db s) of Some n \<Rightarrow> n_totalValueUsd n | None \<Rightarrow> 0)
      (totalShares (ce_sqlSum (oe_cmd e)) (ch_db s))"
  obtain p where p: "cp_telegramId p = tid" "cp_inboundTxSig p = sig" "cp_solLamports p = sol" "cp_bertRaw p = bert"
      "cp_solUsd p = x" "cp_bertUsd p = y" "cp_navPerShareAtDeposit p = nav"
    and db: "(\<exists>m. credit (ce_sqlSum (oe_cmd e)) p (ch_db s) = (Inl m, ch_db s)) \<Longrightarrow>
        ch_db (snd (recreditNow e c u sig tid g sol bert t x y s)) = ch_db s"
      "\<And>d'. credit (ce_sqlSum (oe_cmd e)) p (ch_db s) = (Inr (), d') \<Longrightarrow>
        \<exists>ts det. ch_db (snd (recreditNow e c u sig tid g sol bert t x y s)) = writeAudit ts (Some u) ''deposit_recredited'' det d'"
  proof -
    let ?k = "ch_clockReads s"
    let ?n = "case t of None \<Rightarrow> Suc ?k | Some _ \<Rightarrow> ?k"
    let ?p = "\<lparr>cp_telegramId = tid, cp_inboundTxSig = sig, cp_sweepTxSig = g, cp_solLamports = sol,
             cp_bertRaw = bert, cp_solUsd = x, cp_bertUsd = y, cp_navPerShareAtDeposit = nav,
             cp_confirmedAt = (case t of None \<Rightarrow> ce_clock (oe_cmd e) ?k | Some v \<Rightarrow> v), cp_sweptAt = ce_clock (oe_cmd e) ?n,
             cp_now = ce_clock (oe_cmd e) (Suc ?n)\<rparr>"
    show thesis
      by (rule that [of ?p])
        (auto simp: recreditNow_def session_run tryCatch_def tell_db nav_def split: option.splits)
  qed
  show ?thesis
    using assms(1)
  proof (cases rule: credit_cases [where sqlSum = "ce_sqlSum (oe_cmd e)" and p = p])
    case (rejected m)
    then show ?thesis using db(1) by (auto simp: recredited_def)
  next
    case (credited usd)
    let ?d = "snd (credit (ce_sqlSum (oe_cmd e)) p (ch_db s))"
    have r: "credit (ce_sqlSum (oe_cmd e)) p (ch_db s) = (Inr (), ?d)" using credited by simp
    have "minted tid \<lparr>ie_depositAddress = [], ie_inboundTxSig = sig, ie_solLamports = sol, ie_bertRaw = bert, ie_confirmedAt = 0\<rparr>
        (mintedShares p) (ch_db s) ?d"
      using minted_credit [OF assms(1) _ r, of "ch_db s"] p by simp
    moreover obtain ts det where "ch_db (snd (recreditNow e c u sig tid g sol bert t x y s)) = writeAudit ts (Some u) ''deposit_recredited'' det ?d"
      using db(2) [OF r] by blast
    ultimately show ?thesis using assms(2) credited p
      by (auto simp: recredited_def minted_def mintedShares_def getShares_hasDeposit_audit)
  qed
qed



end
