(* ===== verification/Telegram.thy ===== *)
theory Telegram
  imports Operator_Properties
begin

text \<open>
  \<open>src/src/vault/uiCallbacks.ts\<close> and \<open>src/src/telegramCommander.ts\<close>, with the registrations and the operator
  commands of \<open>src/src/main.ts\<close>: which handler a Telegram update reaches. \<open>Commander\<close> is the state of
  \<open>TelegramCommander\<close> with the session of the handlers and the \<open>enabled\<close> entry of the configuration
  file. HTTP is a parameter: a batch of updates is what \<open>getUpdates\<close> returned.
\<close>

section \<open>uiCallbacks.ts\<close>

datatype ButtonAction = Do Request | ShowSettings | AskAmount | AskAddress | CancelPending

definition routeOf :: "string \<Rightarrow> ButtonAction option" where
  "routeOf data =
     (if data = ''nav:home'' then Some (Do Menu)
      else if data = ''nav:create_account'' then Some (Do Account)
      else if data = ''nav:settings'' then Some ShowSettings
      else if data = ''enr:accept'' then Some (Do Accept)
      else if data = ''enr:decline'' then Some (Do Decline)
      else if data = ''act:deposit'' then Some (Do Deposit)
      else if data = ''act:balance'' then Some (Do Balance)
      else if data = ''act:stats'' then Some (Do Stats)
      else if data = ''act:withdraw'' then Some (Do (Withdraw ''/withdraw''))
      else if data = ''wd:p25'' then Some (Do (Withdraw ''/withdraw 25%''))
      else if data = ''wd:p50'' then Some (Do (Withdraw ''/withdraw 50%''))
      else if data = ''wd:p75'' then Some (Do (Withdraw ''/withdraw 75%''))
      else if data = ''wd:p100'' then Some (Do (Withdraw ''/withdraw 100%''))
      else if data = ''wd:custom'' then Some AskAmount
      else if data = ''wl:set'' then Some AskAddress
      else if data = ''wl:cancel'' then Some (Do CancelWhitelist)
      else if data = ''cancel'' then Some CancelPending
      else None)"

definition withKeyboard :: "InlineKeyboardMarkup \<Rightarrow> extras" where
  "withKeyboard k = noExtras\<lparr>ex_keyboard := Some k\<rparr>"

definition route :: "CmdEnv \<Rightarrow> int \<Rightarrow> int \<Rightarrow> string \<Rightarrow> unit cmd" where
  "route e chatId userId data =
     (case routeOf data of
        None \<Rightarrow> ret ()
      | Some (Do req) \<Rightarrow> handle e chatId userId req
      | Some ShowSettings \<Rightarrow> reply e chatId [Lit ''Settings''] (withKeyboard settingsKeyboard)
      | Some AskAmount \<Rightarrow>
          andThen (setPending userId PWithdraw_amount_entry) (\<lambda>_.
          reply e chatId [Lit ''Reply with a USD amount (e.g., 25).''] (withKeyboard cancelKeyboard))
      | Some AskAddress \<Rightarrow>
          andThen (setPending userId PSetwhitelist_address_entry) (\<lambda>_.
          reply e chatId [Lit ''Paste the Solana address you want withdrawals sent to.'', Cp 10,
              Lit ''(Must be a regular wallet, not a program account.)''] (withKeyboard cancelKeyboard))
      | Some CancelPending \<Rightarrow>
          andThen (clearPending userId) (\<lambda>_.
          reply e chatId [Lit ''Cancelled.''] (withKeyboard postActionKeyboard)))"

section \<open>telegramCommander.ts\<close>

datatype Kind = KOperator | KVault | KPublic | KEnrollment

datatype BotCommand = BotPause | BotResume | BotStatus | BotHelp

datatype Command = UserCmd "string \<Rightarrow> Request" | OpCmd "string \<Rightarrow> OpRequest" | BotCmd BotCommand

text \<open>\<open>te_vault\<close>: the vault is enabled and was wired; \<open>te_configIo\<close>: the configuration file can be read and
  written; \<open>te_now\<close> is \<open>Date.now()\<close>.\<close>

record TgEnv =
  tg_op :: OpEnv
  tg_operatorUserId :: int
  tg_vault :: bool
  tg_configIo :: bool
  tg_now :: int

record Commander =
  tc_offset :: int
  tc_session :: Session
  tc_enabled :: bool
  tc_dispatched :: "int list"
  tc_answered :: "string list"

type_synonym 'a tgm = "(Commander, 'a) exn"

definition onSession :: "'a cmd \<Rightarrow> 'a tgm" where
  "onSession m s = (case m (tc_session s) of (r, t) \<Rightarrow> (r, s\<lparr>tc_session := t\<rparr>))"

text \<open>The registrations of \<open>main.ts\<close>; the texts are handed to the handler, which ignores it where it takes none.\<close>

definition registry :: "bool \<Rightarrow> string \<Rightarrow> (Kind \<times> Command) option" where
  "registry vault name =
     (case map_of
        [(''pause'', (KOperator, BotCmd BotPause)), (''resume'', (KOperator, BotCmd BotResume)),
         (''status'', (KOperator, BotCmd BotStatus)), (''help'', (KOperator, BotCmd BotHelp))] name of
        Some h \<Rightarrow> Some h
      | None \<Rightarrow>
          if \<not> vault then None
          else map_of
            [(''account'', (KEnrollment, UserCmd (\<lambda>_. Account))), (''accept'', (KEnrollment, UserCmd (\<lambda>_. Accept))),
             (''decline'', (KEnrollment, UserCmd (\<lambda>_. Decline))), (''deposit'', (KVault, UserCmd (\<lambda>_. Deposit))),
             (''balance'', (KVault, UserCmd (\<lambda>_. Balance))), (''withdraw'', (KVault, UserCmd Withdraw)),
             (''setwhitelist'', (KVault, UserCmd SetWhitelist)), (''cancelwhitelist'', (KVault, UserCmd (\<lambda>_. CancelWhitelist))),
             (''menu'', (KEnrollment, UserCmd (\<lambda>_. Menu))), (''stats'', (KPublic, UserCmd (\<lambda>_. Stats))),
             (''pausevault'', (KOperator, OpCmd (\<lambda>_. PauseVault))), (''resumevault'', (KOperator, OpCmd (\<lambda>_. ResumeVault))),
             (''vaultstatus'', (KOperator, OpCmd (\<lambda>_. VaultStatus))), (''forceprocess'', (KOperator, OpCmd ForceProcess)),
             (''recreditdeposit'', (KOperator, OpCmd RecreditDeposit)), (''resettotp'', (KOperator, OpCmd ResetTotp))] name)"

definition setEnabled :: "TgEnv \<Rightarrow> bool \<Rightarrow> unit tgm" where
  "setEnabled e enabled =
     (if \<not> tg_configIo e then ret ()
      else
        andThen (modify (\<lambda>s. s\<lparr>tc_enabled := enabled\<rparr>)) (\<lambda>_.
        onSession (onStore (modify (recordOperatorAction
          \<lparr>oa_ts = tg_now e, oa_command = ''telegram:'' @ (if enabled then ''resume'' else ''pause''), oa_osUser = ''telegram''\<rparr>)))))"

text \<open>Without access to the file, the bot counts as enabled.\<close>

definition isEnabled :: "TgEnv \<Rightarrow> Commander \<Rightarrow> bool" where
  "isEnabled e s \<longleftrightarrow> (if tg_configIo e then tc_enabled s else True)"

definition botStatusText :: "TgEnv \<Rightarrow> bool \<Rightarrow> db \<Rightarrow> frag list" where
  "botStatusText e enabled d =
     joinLines (
       [if enabled then [Cp 0x1F7E2, Lit '' Enabled''] else [Cp 0x1F534, Lit '' Paused''],
        if isDegraded d then [Cp 0x1F7E1, Lit '' DEGRADED''] else [Cp 0x2705, Lit '' Healthy''],
        Lit ''Position: '' # (case getCurrentPosition d of Some p \<Rightarrow> [Lit (take 8 (sp_nftMint p)), Lit ''...''] | None \<Rightarrow> [Lit ''none''])] @
       (case getCurrentPosition d of
          Some p \<Rightarrow> [[Lit ''Range: $'', Fixed 6 (sp_lowerUsd p), Lit '' '', Cp 0x2013, Lit '' $'', Fixed 6 (sp_upperUsd p)]]
        | None \<Rightarrow> []) @
       [[Lit ''Rebalances today: '', Num (of_nat (getRebalancesToday (tg_now e) d))]])"

definition helpText :: "frag list" where
  "helpText = joinLines
     [[Lit ''Commands:''],
      [Lit ''/pause '', Cp 0x2014, Lit '' stop rebalancing (position stays open)''],
      [Lit ''/resume '', Cp 0x2014, Lit '' re-enable bot + clear degraded flag''],
      [Lit ''/status '', Cp 0x2014, Lit '' show current state''],
      [Lit ''/help '', Cp 0x2014, Lit '' this message'']]"

definition botCommand :: "TgEnv \<Rightarrow> int \<Rightarrow> BotCommand \<Rightarrow> unit tgm" where
  "botCommand e chatId c =
     (case c of
        BotPause \<Rightarrow>
          andThen (setEnabled e False) (\<lambda>_.
          onSession (tell (tg_op e) chatId
            [Cp 0x23F8, Lit '' Bot PAUSED. Position stays open but no rebalances will occur. Send /resume to re-enable.'']))
      | BotResume \<Rightarrow>
          andThen (setEnabled e True) (\<lambda>_.
          andThen (onSession (onStore (modify (setDegraded (tg_now e) False ''cleared via telegram /resume'')))) (\<lambda>_.
          onSession (tell (tg_op e) chatId [Cp 0x25B6, Cp 0xFE0F, Lit '' Bot RESUMED. Degraded flag also cleared.''])))
      | BotStatus \<Rightarrow>
          andThen (gets (\<lambda>s. botStatusText e (isEnabled e s) (ch_db (tc_session s)))) (\<lambda>text.
          onSession (tell (tg_op e) chatId text))
      | BotHelp \<Rightarrow> onSession (tell (tg_op e) chatId helpText))"

definition runCommand :: "TgEnv \<Rightarrow> int \<Rightarrow> int \<Rightarrow> string \<Rightarrow> Command \<Rightarrow> unit tgm" where
  "runCommand e chatId userId text c =
     (case c of
        UserCmd req \<Rightarrow> onSession (handle (oe_cmd (tg_op e)) chatId userId (req text))
      | OpCmd req \<Rightarrow> onSession (handleOp (tg_op e) chatId userId (req text))
      | BotCmd b \<Rightarrow> botCommand e chatId b)"

definition registered :: "int \<Rightarrow> Commander \<Rightarrow> bool" where
  "registered userId s \<longleftrightarrow> getUser userId (ch_db (tc_session s)) \<noteq> None"

definition dispatch :: "TgEnv \<Rightarrow> int \<Rightarrow> int \<Rightarrow> string \<Rightarrow> unit tgm" where
  "dispatch e chatId userId text =
     andThen (gets (registered userId)) (\<lambda>known.
     case matchCommand text of
       None \<Rightarrow>
         if tg_vault e \<and> known then onSession (handle (oe_cmd (tg_op e)) chatId userId (Message text)) else ret ()
     | Some name \<Rightarrow>
         (case registry (tg_vault e) name of
            None \<Rightarrow> ret ()
          | Some (kind, c) \<Rightarrow>
              (case kind of
                 KPublic \<Rightarrow> runCommand e chatId userId text c
               | KEnrollment \<Rightarrow> runCommand e chatId userId text c
               | KOperator \<Rightarrow> if userId = tg_operatorUserId e then runCommand e chatId userId text c else ret ()
               | KVault \<Rightarrow> if known then runCommand e chatId userId text c else ret ())))"

record CallbackQuery =
  cq_id :: string
  cq_from :: int
  cq_chat :: "int option"
  cq_data :: "string option"

text \<open>The router is set when the vault is wired with buttons; errors are logged, and the query is always
  answered.\<close>

definition dispatchCallback :: "TgEnv \<Rightarrow> CallbackQuery \<Rightarrow> unit tgm" where
  "dispatchCallback e cb =
     andThen
       (case cq_chat cb of
          Some chatId \<Rightarrow>
            if truthy (cq_data cb) \<and> tg_vault e \<and> cc_uiButtons (ce_config (oe_cmd (tg_op e)))
            then tryCatch (onSession (route (oe_cmd (tg_op e)) chatId (cq_from cb) (the (cq_data cb)))) (\<lambda>_. ret ())
            else ret ()
        | None \<Rightarrow> ret ())
       (\<lambda>_. modify (\<lambda>s. s\<lparr>tc_answered := tc_answered s @ [cq_id cb]\<rparr>))"

record TgMessage =
  tm_chat :: int
  tm_from :: "int option"
  tm_text :: "string option"

record Update =
  up_id :: int
  up_callback :: "CallbackQuery option"
  up_message :: "TgMessage option"

definition processUpdate :: "TgEnv \<Rightarrow> Update \<Rightarrow> unit tgm" where
  "processUpdate e u =
     (case up_callback u of
        Some cb \<Rightarrow> dispatchCallback e cb
      | None \<Rightarrow>
          (case up_message u of
             Some m \<Rightarrow>
               if truthy (tm_text m)
               then dispatch e (tm_chat m) (case tm_from m of Some f \<Rightarrow> f | None \<Rightarrow> tm_chat m) (trim (the (tm_text m)))
               else ret ()
           | None \<Rightarrow> ret ()))"

text \<open>The loop over one batch: a throw leaves it, and with it the rest of the batch.\<close>

fun processBatch :: "(Update \<Rightarrow> unit tgm) \<Rightarrow> Update list \<Rightarrow> unit tgm" where
  "processBatch process [] = ret ()"
| "processBatch process (u # us) =
     andThen (modify (\<lambda>s. s\<lparr>tc_offset := up_id u + 1, tc_dispatched := tc_dispatched s @ [up_id u]\<rparr>)) (\<lambda>_.
     andThen (process u) (\<lambda>_. processBatch process us))"

text \<open>One round of \<open>pollLoop\<close>: \<open>getUpdates\<close> is the answer of the service to the offset, \<open>None\<close> a failed request;
  whatever is thrown is logged.\<close>

definition pollOnce :: "(Update \<Rightarrow> unit tgm) \<Rightarrow> (int \<Rightarrow> Update list option) \<Rightarrow> unit tgm" where
  "pollOnce process getUpdates =
     andThen (gets (\<lambda>s. getUpdates (tc_offset s))) (\<lambda>answer.
     case answer of
       None \<Rightarrow> ret ()
     | Some us \<Rightarrow> tryCatch (processBatch process us) (\<lambda>_. ret ()))"

fun pollRounds :: "(Update \<Rightarrow> unit tgm) \<Rightarrow> (int \<Rightarrow> Update list option) list \<Rightarrow> unit tgm" where
  "pollRounds process [] = ret ()"
| "pollRounds process (g # gs) = andThen (pollOnce process g) (\<lambda>_. pollRounds process gs)"

end
