(* ===== verification/Telegram_Properties.thy ===== *)
theory Telegram_Properties
  imports Telegram
begin

text \<open>
  The properties of the Telegram side: every button reaches a handler, operator commands are reserved to
  the operator, no update of anybody else moves anything of value without the second factor, and
  every update is handed over exactly once, in order, also when handlers throw.
\<close>

section \<open>Buttons\<close>

definition buttonsOf :: "InlineKeyboardMarkup \<Rightarrow> string list" where
  "buttonsOf k = map kb_callback_data (concat k)"

definition keyboards :: "InlineKeyboardMarkup list" where
  "keyboards = [welcomeKeyboard, mainMenuKeyboard, cancelKeyboard, disclaimerKeyboard, settingsKeyboard,
     withdrawAmountKeyboard, postDepositKeyboard, postBalanceKeyboard, postActionKeyboard]"

definition retries :: "string list" where
  "retries = [''act:balance'', ''act:deposit'', ''act:withdraw'', ''nav:create_account'', ''nav:settings'', ''wl:cancel'', ''wl:set'']"

text \<open>The router knows the callback data of every button of every keyboard, and of the error keyboard with each
  of the retry actions the handlers pass to it; so no button of the bot is dead.\<close>

theorem buttons_routed:
  "(\<forall>k\<in>set keyboards. \<forall>b\<in>set (buttonsOf k). routeOf b \<noteq> None) \<and>
   (\<forall>r\<in>set retries. \<forall>b\<in>set (buttonsOf (errorKeyboard (Some r))). routeOf b \<noteq> None)"
  by (simp add: keyboards_def retries_def buttonsOf_def routeOf_def button_def errorKeyboard_def truthy_def
      welcomeKeyboard_def mainMenuKeyboard_def cancelKeyboard_def disclaimerKeyboard_def settingsKeyboard_def
      withdrawAmountKeyboard_def postDepositKeyboard_def postBalanceKeyboard_def postActionKeyboard_def)

theorem buttons_routed_witness:
  "routeOf (kb_callback_data (button [] ''nav:home'')) \<noteq> None"
  using buttons_routed by (simp add: button_def keyboards_def buttonsOf_def postActionKeyboard_def)

section \<open>Authorisation\<close>

definition sender :: "Update \<Rightarrow> int" where
  "sender u = (case up_callback u of Some cb \<Rightarrow> cq_from cb
     | None \<Rightarrow> (case up_message u of Some m \<Rightarrow> (case tm_from m of Some f \<Rightarrow> f | None \<Rightarrow> tm_chat m) | None \<Rightarrow> 0))"

text \<open>What an update does to the session of the user it comes from.\<close>

definition guarded :: "CmdEnv \<Rightarrow> int \<Rightarrow> Session \<Rightarrow> Session \<Rightarrow> bool" where
  "guarded e u s s' \<longleftrightarrow> (\<exists>t. codeUsed e u (trim t) s s') \<or>
     ch_unlockedUntil s' = ch_unlockedUntil s \<and> (wasUnlocked e u s \<or> valuables (ch_db s') = valuables (ch_db s))"

lemma guarded_refl [simp]: "guarded e u s s"
  by (simp add: guarded_def)

lemma handle_guarded: "undisturbed e \<Longrightarrow> guarded e u s (snd (handle e c u req s))"
  using authorised_request [of e req u s c] by (auto simp: guarded_def)

lemma route_guarded: "undisturbed e \<Longrightarrow> guarded e u s (snd (route e c u b s))"
  by (auto simp: route_def handle_guarded ret_def simp del: handle.simps split: option.splits ButtonAction.splits)
    (auto simp: guarded_def reply_def andThen_def setPending_def clearPending_def modify_def Let_def)

lemma onSession_session [simp]: "tc_session (snd (onSession m s)) = snd (m (tc_session s))"
  by (simp add: onSession_def split_beta)

lemma callback_guarded:
  "undisturbed (oe_cmd (tg_op e)) \<Longrightarrow> guarded (oe_cmd (tg_op e)) (cq_from cb) (tc_session s) (tc_session (snd (dispatchCallback e cb s)))"
  using route_guarded [of "oe_cmd (tg_op e)" "cq_from cb" "tc_session s" "the (cq_chat cb)" "the (cq_data cb)"]
  by (auto simp: dispatchCallback_def andThen_def tryCatch_def ret_def modify_def onSession_def split: option.splits prod.splits sum.splits)

lemma registry_kind:
  assumes "registry v name = Some (k, c)" "k \<noteq> KOperator"
  shows "\<exists>req. c = UserCmd req"
  using assms by (auto simp: registry_def split: if_splits option.splits)

lemma dispatch_guarded:
  assumes "undisturbed (oe_cmd (tg_op e))" "u \<noteq> tg_operatorUserId e"
  shows "guarded (oe_cmd (tg_op e)) u (tc_session s) (tc_session (snd (dispatch e c u text s)))"
proof (cases "matchCommand text")
  case None
  then show ?thesis using assms by (simp add: dispatch_def andThen_def gets_def ret_def handle_guarded del: handle.simps)
next
  case (Some name)
  show ?thesis
  proof (cases "registry (tg_vault e) name")
    case None
    with Some show ?thesis by (simp add: dispatch_def andThen_def gets_def ret_def)
  next
    case h: (Some h)
    obtain k c' where k: "h = (k, c')" by fastforce
    show ?thesis
    proof (cases "k = KOperator")
      case True
      with Some h k assms show ?thesis by (simp add: dispatch_def andThen_def gets_def ret_def)
    next
      case False
      then obtain req where "c' = UserCmd req" using registry_kind h k by blast
      with Some h k False assms show ?thesis
        by (cases k) (simp_all add: dispatch_def andThen_def gets_def ret_def runCommand_def handle_guarded del: handle.simps)
    qed
  qed
qed


text \<open>A commander with one member, and an update that brings his code.\<close>

definition tg_demo :: TgEnv where
  "tg_demo = \<lparr>tg_op = op_demo, tg_operatorUserId = 1, tg_vault = True, tg_configIo = True, tg_now = 5\<rparr>"

definition commander_demo :: Commander where
  "commander_demo = \<lparr>tc_offset = 0, tc_session = session_demo, tc_enabled = True, tc_dispatched = [], tc_answered = []\<rparr>"

definition update_demo :: Update where
  "update_demo = \<lparr>up_id = 3, up_callback = None,
     up_message = Some \<lparr>tm_chat = 7, tm_from = Some 7, tm_text = Some ''123456''\<rparr>\<rparr>"


section \<open>The switches of the operator\<close>

definition switches :: "db \<Rightarrow> _" where
  "switches d = (flags d, operator_actions d, position_state d, rebalance_log d)"

definition switchesKept :: "CmdEnv \<Rightarrow> Session \<Rightarrow> Session \<Rightarrow> bool" where
  "switchesKept e s s' \<longleftrightarrow> (undisturbed e \<longrightarrow> switches (ch_db s') = switches (ch_db s))"

lemma switches_ops [simp]:
  "switches (writeAudit ts t ev det d) = switches d" "switches (setTotp u a b v d) = switches d"
  "switches (setTotpLastCounter u c d) = switches d" "switches (snd (createUser u r x a b c0 c1 d)) = switches d"
  "switches (snd (enqueueWithdrawal u y sb fs q d)) = switches d"
  "switches (snd (enqueueWhitelistChange u oa na rt ta st d)) = switches d"
  "switches (setWhitelistImmediate u w t' d) = switches d" "switches (snd (cancelPending u rs d)) = switches d"
  by (auto simp: switches_def writeAudit_def setTotp_def setTotpLastCounter_def updateUser_def createUser_def
      enqueueWithdrawal_def enqueueWhitelistChange_def setWhitelistImmediate_def cancelPending_def
      cancelPendingWhitelist_def updateChange_def split: option.splits)

lemma switches_enrollment [simp]:
  "switches (snd (accept e u now d)) = switches d" "switches (snd (beginTotpEnrollment e u d)) = switches d"
  "switches (snd (confirmTotp e u code now d)) = switches d" "switches (snd (requestChange cd u a now d)) = switches d"
proof -
  show "switches (snd (accept e u now d)) = switches d"
    by (auto simp: accept_def andThen_def gets_def ret_def lift_def split: option.splits sum.splits prod.splits)
      (metis switches_ops(4) snd_conv)+
  show "switches (snd (beginTotpEnrollment e u d)) = switches d"
    by (auto simp: beginTotpEnrollment_def andThen_def gets_def ret_def lift_def throw_def modify_def
        split: option.splits sum.splits prod.splits)
  show "switches (snd (confirmTotp e u code now d)) = switches d"
    by (auto simp: confirmTotp_def andThen_def gets_def ret_def lift_def modify_def Let_def
        split: option.splits sum.splits prod.splits)
  show "switches (snd (requestChange cd u a now d)) = switches d"
    by (auto simp: requestChange_def andThen_def gets_def throw_def withTransaction_def atomically_def split_beta Let_def
        split: option.splits sum.splits)
qed

interpretation csk: session_law "switchesKept e" e u for e u
  by unfold_locales (auto simp: switchesKept_def undisturbed_def)

lemma stays_onStore_switches: "(\<And>d. switches (snd (m d)) = switches d) \<Longrightarrow> stays (switchesKept e) (onStore m)"
  by (simp add: stays_def onStore_def split_beta switchesKept_def)

interpretation csr: request_law "switchesKept e" e u for e u
proof unfold_locales
  show "stays (switchesKept e) (verifyTotp e u code)" for code
    unfolding stays_def
  proof
    show "switchesKept e s (snd (verifyTotp e u code s))" for s
      by (cases rule: verifyTotp_cases [of e u code s]) (auto simp: switchesKept_def)
  qed
  have "stays (switchesKept e) (queueWithdrawal e u c a y n)" for c a y n
    unfolding queueWithdrawal_def Let_def
    by (auto intro!: csk.law_rules stays_onStore_switches simp: split_beta postingEvents_def)
  then show "stays (switchesKept e) (doWithdraw e u c amount)" for c amount
    unfolding doWithdraw_def Let_def by (auto intro!: csk.law_rules split: option.splits)
qed (auto simp: switchesKept_def split_beta intro!: stays_onStore_switches)

definition botSwitches :: "Commander \<Rightarrow> _" where
  "botSwitches s = (tc_enabled s, switches (ch_db (tc_session s)))"

lemma onSession_enabled [simp]: "tc_enabled (snd (onSession m s)) = tc_enabled s"
  by (simp add: onSession_def split_beta)

lemma handle_switches: "undisturbed e \<Longrightarrow> switches (ch_db (snd (handle e c u req s))) = switches (ch_db s)"
  using staysD [OF csr.stays_handle, of e s c u req] by (simp add: switchesKept_def)

lemma route_switches: "undisturbed e \<Longrightarrow> switches (ch_db (snd (route e c u b s))) = switches (ch_db s)"
  by (auto simp: route_def handle_switches ret_def reply_def andThen_def setPending_def clearPending_def modify_def Let_def
      simp del: handle.simps split: option.splits ButtonAction.splits)

text \<open>Only the operator turns switches. No update of anybody else changes whether the bot is enabled, the flags that
  pause the vault or mark the bot as degraded, the log of operator actions, or the position and
  rebalance records.\<close>

theorem only_operator_switches:
  assumes "ce_meanwhile (oe_cmd (tg_op e)) = (\<lambda>_ d. d)" "sender up \<noteq> tg_operatorUserId e"
  shows "botSwitches (snd (processUpdate e up s)) = botSwitches s"
proof -
  have q: "undisturbed (oe_cmd (tg_op e))" using assms by (simp add: undisturbed_def)
  have "botSwitches (snd (dispatch e c u x s)) = botSwitches s" if "u \<noteq> tg_operatorUserId e" for c u x
  proof (cases "matchCommand x")
    case None
    then show ?thesis using q by (simp add: dispatch_def andThen_def gets_def ret_def botSwitches_def handle_switches del: handle.simps)
  next
    case (Some name)
    then show ?thesis
      using q that registry_kind [of "tg_vault e" name]
      by (cases "registry (tg_vault e) name")
        (auto simp: dispatch_def andThen_def gets_def ret_def botSwitches_def runCommand_def handle_switches
          simp del: handle.simps split: Kind.splits Command.splits if_splits)
  qed
  moreover have "botSwitches (snd (dispatchCallback e cb s)) = botSwitches s" for cb
    using route_switches [OF q, of "the (cq_chat cb)" "cq_from cb" "the (cq_data cb)" "tc_session s"]
    by (auto simp: dispatchCallback_def andThen_def tryCatch_def ret_def modify_def onSession_def botSwitches_def
        split: option.splits prod.splits sum.splits)
  ultimately show ?thesis using assms(2)
    by (auto simp: processUpdate_def sender_def ret_def split: option.splits)
qed

theorem only_operator_switches_witness:
  "botSwitches (snd (processUpdate tg_demo update_demo commander_demo)) = botSwitches commander_demo"
  by (rule only_operator_switches) (simp_all add: tg_demo_def op_demo_def cmd_demo_def update_demo_def sender_def)

section \<open>Polling\<close>

definition pollState :: "Commander \<Rightarrow> int \<times> int list" where
  "pollState s = (tc_offset s, tc_dispatched s)"

lemma onSession_poll [simp]: "pollState (snd (onSession m s)) = pollState s"
  by (simp add: onSession_def split_beta pollState_def)

lemma botCommand_poll: "pollState (snd (botCommand e c b s)) = pollState s"
proof -
  have "pollState (snd (andThen m f s)) = pollState s"
    if "\<And>s. pollState (snd (m s)) = pollState s" "\<And>x s. pollState (snd (f x s)) = pollState s" for m f s
    using that(1) [of s] that(2) by (auto simp: andThen_def split: prod.splits sum.splits)
  note seq = this
  have "pollState (snd (setEnabled e en s)) = pollState s" for en s
    unfolding setEnabled_def by (auto intro!: seq simp: modify_def ret_def) (simp_all add: pollState_def)
  then show ?thesis
    by (auto simp: botCommand_def gets_def intro!: seq split: BotCommand.splits)
qed

lemma dispatch_poll: "pollState (snd (dispatch e c u x s)) = pollState s"
  by (auto simp: dispatch_def andThen_def gets_def ret_def runCommand_def botCommand_poll
      split: option.splits Kind.splits Command.splits)

lemma processUpdate_poll: "pollState (snd (processUpdate e up s)) = pollState s"
proof -
  have "pollState (snd (dispatchCallback e cb s)) = pollState s" for cb
    by (auto simp: dispatchCallback_def andThen_def tryCatch_def ret_def modify_def onSession_def pollState_def
        split: option.splits prod.splits sum.splits)
  then show ?thesis by (auto simp: processUpdate_def ret_def dispatch_poll split: option.splits)
qed

lemma processBatch_poll:
  assumes "\<And>up s. pollState (snd (process up s)) = pollState s"
  shows "\<exists>m \<le> length us. (us \<noteq> [] \<longrightarrow> 0 < m) \<and> pollState (snd (processBatch process us s)) =
    (if m = 0 then tc_offset s else up_id (us ! (m - 1)) + 1, tc_dispatched s @ map up_id (take m us))"
proof (induction us arbitrary: s)
  case Nil
  then show ?case by (simp add: ret_def pollState_def)
next
  case (Cons u us)
  let ?s = "s\<lparr>tc_offset := up_id u + 1, tc_dispatched := tc_dispatched s @ [up_id u]\<rparr>"
  obtain r t where t: "process u ?s = (r, t)" by fastforce
  then have p: "tc_offset t = up_id u + 1" "tc_dispatched t = tc_dispatched s @ [up_id u]"
    using assms [of u ?s] by (simp_all add: pollState_def)
  show ?case
  proof (cases r)
    case (Inl x)
    with t p show ?thesis
      by (intro exI [of _ 1]) (simp add: andThen_def modify_def pollState_def)
  next
    case (Inr x)
    obtain m where "m \<le> length us" "pollState (snd (processBatch process us t)) =
        (if m = 0 then tc_offset t else up_id (us ! (m - 1)) + 1, tc_dispatched t @ map up_id (take m us))"
      using Cons.IH by blast
    with t p Inr show ?thesis
      by (intro exI [of _ "Suc m"]) (auto simp: andThen_def modify_def nth_Cons')
  qed
qed

text \<open>What the service answers: the updates from the offset on, in order, at most some number of them, but at least
  one if there is one; or the request fails.\<close>

definition serves :: "Update list \<Rightarrow> (int \<Rightarrow> Update list option) \<Rightarrow> bool" where
  "serves feed g \<longleftrightarrow> (\<forall>off us. g off = Some us \<longrightarrow>
     (\<exists>k>0. us = take k (filter (\<lambda>u. off \<le> up_id u) feed)))"

definition handed :: "Update list \<Rightarrow> nat \<Rightarrow> Commander \<Rightarrow> bool" where
  "handed feed n s \<longleftrightarrow> n \<le> length feed \<and> tc_dispatched s = map up_id (take n feed) \<and>
     filter (\<lambda>u. tc_offset s \<le> up_id u) feed = drop n feed"

lemma filter_from_drop:
  assumes "sorted_wrt (\<lambda>u v. up_id u < up_id v) feed" "n < length feed"
  shows "filter (\<lambda>u. up_id (feed ! n) + 1 \<le> up_id u) feed = drop (Suc n) feed"
  using assms
proof (induction feed arbitrary: n)
  case (Cons a feed)
  show ?case
  proof (cases n)
    case 0
    then have "\<forall>u\<in>set feed. up_id a + 1 \<le> up_id u" using Cons.prems by auto
    with 0 show ?thesis by (simp add: filter_id_conv)
  next
    case (Suc m)
    then have "feed ! m \<in> set feed" using Cons.prems by simp
    then have "up_id a < up_id (feed ! m)" using Cons.prems by simp
    then have "\<not> up_id (feed ! m) + 1 \<le> up_id a" by linarith
    with Suc Cons show ?thesis by simp
  qed
qed simp

lemma pollOnce_handed:
  assumes "sorted_wrt (\<lambda>u v. up_id u < up_id v) feed" "serves feed g" "handed feed n s"
    and p: "\<And>up s. pollState (snd (process up s)) = pollState s"
  shows "\<exists>r t n'. pollOnce process g s = (Inr r, t) \<and> handed feed n' t \<and> n \<le> n' \<and>
    (g (tc_offset s) \<noteq> None \<and> n < length feed \<longrightarrow> n < n')"
proof (cases "g (tc_offset s)")
  case None
  then show ?thesis using assms(3) by (auto simp: pollOnce_def andThen_def gets_def ret_def)
next
  case (Some us)
  then obtain k where k: "0 < k" "us = take k (drop n feed)"
    using assms(2) [unfolded serves_def, rule_format, OF Some] assms(3) by (auto simp: handed_def)
  obtain m where m: "m \<le> length us" "us \<noteq> [] \<longrightarrow> 0 < m" "pollState (snd (processBatch process us s)) =
    (if m = 0 then tc_offset s else up_id (us ! (m - 1)) + 1, tc_dispatched s @ map up_id (take m us))"
    using processBatch_poll [where process = process and us = us and s = s, OF p] by blast
  let ?t = "snd (processBatch process us s)"
  have run: "pollOnce process g s = (Inr (), ?t)"
    using Some by (auto simp: pollOnce_def andThen_def gets_def tryCatch_def ret_def split: prod.splits sum.splits)
  have tk: "take m us = take m (drop n feed)" "m \<le> length feed - n" using m(1) k by simp_all
  have nth: "us ! (m - 1) = feed ! (n + m - 1)" if "0 < m"
  proof -
    obtain j where "m = Suc j" using \<open>0 < m\<close> by (cases m) auto
    then show ?thesis using m(1) k assms(3) by (simp add: handed_def)
  qed
  have "filter (\<lambda>u. tc_offset ?t \<le> up_id u) feed = drop (n + m) feed"
  proof (cases "m = 0")
    case True
    then show ?thesis using m(3) assms(3) by (simp add: pollState_def handed_def)
  next
    case False
    then have "tc_offset ?t = up_id (feed ! (n + m - 1)) + 1" using m(3) nth by (simp add: pollState_def)
    moreover have "n + m - 1 < length feed" using False tk(2) assms(3) by (auto simp: handed_def)
    ultimately show ?thesis using filter_from_drop [OF assms(1), of "n + m - 1"] False by simp
  qed
  then have "handed feed (n + m) ?t"
    using m(3) tk assms(3) by (auto simp: handed_def pollState_def take_add)
  then show ?thesis using run m(2) k by (intro exI conjI) (auto simp: handed_def)
qed

lemma pollRounds_handed:
  assumes "sorted_wrt (\<lambda>u v. up_id u < up_id v) feed" "\<forall>g\<in>set gs. serves feed g" "handed feed n s"
    and p: "\<And>up s. pollState (snd (process up s)) = pollState s"
  shows "\<exists>r t n'. pollRounds process gs s = (Inr r, t) \<and> handed feed n' t \<and>
    (\<forall>m. length (filter (\<lambda>g. \<forall>off. g off \<noteq> None) gs) = m \<longrightarrow> min (length feed) (n + m) \<le> n')"
  using assms(2,3)
proof (induction gs arbitrary: n s)
  case Nil
  then show ?case by (auto simp: ret_def handed_def)
next
  case (Cons g gs)
  obtain r t n1 where t: "pollOnce process g s = (Inr r, t)" "handed feed n1 t" "n \<le> n1"
    "g (tc_offset s) \<noteq> None \<and> n < length feed \<longrightarrow> n < n1"
    using pollOnce_handed [where process = process, OF assms(1) _ Cons.prems(2) p, of g] Cons.prems(1) by auto
  obtain r' t' n2 where t': "pollRounds process gs t = (Inr r', t')" "handed feed n2 t'"
    "min (length feed) (n1 + length (filter (\<lambda>g. \<forall>off. g off \<noteq> None) gs)) \<le> n2"
    using Cons.IH [OF _ t(2)] Cons.prems(1) by auto
  have "n \<le> length feed" using Cons.prems(2) by (simp add: handed_def)
  then show ?case using t t' by (auto simp: andThen_def)
qed

text \<open>C15: every update is handed to the handlers exactly once and in order. If the service keeps the updates of a feed
  with increasing numbers and answers a request with the first ones from the offset on, then after
  any number of polls, some of which may fail, what was handed over is a prefix of the feed without
  gaps or repetitions, whatever the handlers do or throw; and after as many successful polls as
  there are updates it is all of them.\<close>

theorem updates_exactly_once:
  assumes "sorted_wrt (\<lambda>u v. up_id u < up_id v) feed" "\<forall>g\<in>set gs. serves feed g"
    and "tc_dispatched s = []" "\<forall>u\<in>set feed. tc_offset s \<le> up_id u"
  shows "\<exists>t n. pollRounds (processUpdate e) gs s = (Inr (), t) \<and> n \<le> length feed \<and>
     tc_dispatched t = map up_id (take n feed) \<and>
     (length feed \<le> length (filter (\<lambda>g. \<forall>off. g off \<noteq> None) gs) \<longrightarrow> tc_dispatched t = map up_id feed)"
proof -
  have "handed feed 0 s" using assms(3,4) by (simp add: handed_def filter_id_conv)
  from pollRounds_handed [where process = "processUpdate e", OF assms(1,2) this processUpdate_poll] obtain r t n where
    t: "pollRounds (processUpdate e) gs s = (Inr r, t)" "handed feed n t"
      "min (length feed) (length (filter (\<lambda>g. \<forall>off. g off \<noteq> None) gs)) \<le> n" by auto
  then show ?thesis by (intro exI [of _ t] exI [of _ n]) (auto simp: handed_def)
qed

theorem updates_exactly_once_witness:
  "\<exists>t n. pollRounds (processUpdate tg_demo) [\<lambda>off :: int. Some (if off \<le> 3 then [update_demo] else [])] commander_demo = (Inr (), t) \<and>
     n \<le> length [update_demo] \<and> tc_dispatched t = map up_id (take n [update_demo]) \<and>
     (length [update_demo] \<le> length (filter (\<lambda>g. \<forall>off. g off \<noteq> None) [\<lambda>off :: int. Some (if off \<le> 3 then [update_demo] else [])]) \<longrightarrow>
        tc_dispatched t = map up_id [update_demo])"
proof (rule updates_exactly_once)
  show "\<forall>g\<in>set [\<lambda>off :: int. Some (if off \<le> 3 then [update_demo] else [])]. serves [update_demo] g"
    by (auto simp: serves_def update_demo_def intro: exI [of _ 1])
qed (simp_all add: commander_demo_def update_demo_def)

end
