(* ===== verification/Lifecycle.thy ===== *)
theory Lifecycle
  imports Cli Telegram_Properties
begin

text \<open>
  The contract of the vault with a depositor, as a small state machine for one withdrawal: \<open>wstep\<close> moves it through its
  phases and counts how often it was paid. The machine itself pays at most once. The lemmas show that the program
  refines it: whatever a tick, a request, the operator or the command line does to the database and the chain is, for
  every single withdrawal, a sequence of steps of this machine.
\<close>

section \<open>The abstract machine\<close>

datatype Phase = Absent | Waiting | Working | Sent | Paid | Refused

text \<open>A payment is a step of its own, so that a process that stops right after it is covered: the withdrawal then stays
  in work, and no step leads from there to another payment.\<close>

inductive wstep :: "Phase \<times> nat \<Rightarrow> Phase \<times> nat \<Rightarrow> bool" where
  enqueue: "wstep (Absent, 0) (Waiting, 0)"
| take: "wstep (Waiting, 0) (Working, 0)"
| reject: "wstep (Working, 0) (Refused, 0)"
| requeue: "wstep (Refused, 0) (Waiting, 0)"
| pay: "wstep (Working, 0) (Working, 1)"
| record_sig: "wstep (Working, 1) (Sent, 1)"
| settle: "wstep (Sent, 1) (Paid, 1)"

inductive_cases wstep_fromE: "wstep (p, n) x"

code_pred wstep .

lemma wsteps_paid_once:
  assumes "wstep\<^sup>*\<^sup>* (Absent, 0) (p, n)"
  shows "n \<le> 1 \<and> (p \<in> {Sent, Paid} \<longrightarrow> n = 1) \<and> (p \<in> {Absent, Waiting, Refused} \<longrightarrow> n = 0)"
proof -
  have "\<forall>p n. x = (p, n) \<longrightarrow> (n = 0 \<and> p \<in> {Absent, Waiting, Working, Refused}) \<or> (n = 1 \<and> p \<in> {Working, Sent, Paid})"
    if "wstep\<^sup>*\<^sup>* (Absent, 0) x" for x
    using that by induction (auto elim: wstep.cases)
  with assms show ?thesis by fastforce
qed

section \<open>The abstraction\<close>

definition phase :: "(WithdrawalStatus \<times> string option) option \<Rightarrow> Phase" where
  "phase st =
     (case st of
        None \<Rightarrow> Absent
      | Some (Queued, _) \<Rightarrow> Waiting
      | Some (Processing, None) \<Rightarrow> Working
      | Some (Processing, Some _) \<Rightarrow> Sent
      | Some (Completed, _) \<Rightarrow> Paid
      | Some (Failed, _) \<Rightarrow> Refused)"

definition withdrawalAt :: "db \<Rightarrow> payout list \<Rightarrow> int \<Rightarrow> Phase \<times> nat" where
  "withdrawalAt d ps i = (phase (rowState d i), length (filter (\<lambda>p. po_id p = i) ps))"

definition simulated :: "db \<times> payout list \<Rightarrow> db \<times> payout list \<Rightarrow> bool" where
  "simulated s s' \<longleftrightarrow> (\<forall>i. wstep\<^sup>*\<^sup>* (withdrawalAt (fst s) (snd s) i) (withdrawalAt (fst s') (snd s') i))"

interpretation sim: store_order simulated
  by unfold_locales (auto simp: simulated_def intro: rtranclp_trans)

lemma unpaid_phase:
  assumes "payoutsSafe d ps" "rowState d i = None \<or> (\<exists>k g. rowState d i = Some (k, g) \<and> k \<in> {Queued, Failed})"
  shows "filter (\<lambda>p. po_id p = i) ps = []"
  using assms by (auto simp: payoutsSafe_def paidRow_def filter_empty_conv)

lemma wsteps_to_waiting: "wstep\<^sup>*\<^sup>* (Absent, 0) (Waiting, 0)" "wstep\<^sup>*\<^sup>* (Refused, 0) (Waiting, 0)"
  by (rule r_into_rtranclp [of wstep], rule wstep.enqueue, rule r_into_rtranclp [of wstep], rule wstep.requeue)

lemma row_evolves_simulated:
  assumes "payoutsSafe d ps" "row_evolves (getWithdrawalById i d) (getWithdrawalById i d')"
    and "filter (\<lambda>p. po_id p = i) ps' = filter (\<lambda>p. po_id p = i) ps"
  shows "wstep\<^sup>*\<^sup>* (withdrawalAt d ps i) (withdrawalAt d' ps' i)"
proof (cases "getWithdrawalById i d' = getWithdrawalById i d")
  case True
  then show ?thesis using assms(3) by (simp add: withdrawalAt_def rowState_def)
next
  case False
  then have rows: "rowState d i = None \<and> (\<exists>g. rowState d' i = Some (Queued, g))
      \<or> (\<exists>g h. rowState d i = Some (Failed, g) \<and> rowState d' i = Some (Queued, h))"
    using assms(2) by (auto simp: row_evolves_def rowState_def requeuedRow_def split: option.splits)
  then have "filter (\<lambda>p. po_id p = i) ps = []" using unpaid_phase [OF assms(1)] by blast
  with rows assms(3) show ?thesis
    by (auto simp: withdrawalAt_def phase_def wsteps_to_waiting)
qed

lemma evolves_simulated:
  assumes "store_wf d" "payoutsSafe d ps" "evolves d d'"
  shows "simulated (d, ps) (d', ps)"
  using assms row_evolves_simulated by (simp add: simulated_def evolves_def)

lemma wsteps_from_waiting:
  "wstep\<^sup>*\<^sup>* (Waiting, 0) (Refused, 0)" "wstep\<^sup>*\<^sup>* (Waiting, 0) (Working, 1)" "wstep\<^sup>*\<^sup>* (Waiting, 0) (Sent, 1)"
  "wstep\<^sup>*\<^sup>* (Waiting, 0) (Paid, 1)"
proof -
  have w: "wstep\<^sup>*\<^sup>* (Waiting, 0) (Working, 0)" by (rule r_into_rtranclp [of wstep]) (rule wstep.take)
  then show "wstep\<^sup>*\<^sup>* (Waiting, 0) (Refused, 0)" by (rule rtranclp.rtrancl_into_rtrancl) (rule wstep.reject)
  show p: "wstep\<^sup>*\<^sup>* (Waiting, 0) (Working, 1)" using w by (rule rtranclp.rtrancl_into_rtrancl) (rule wstep.pay)
  then show s: "wstep\<^sup>*\<^sup>* (Waiting, 0) (Sent, 1)" by (rule rtranclp.rtrancl_into_rtrancl) (rule wstep.record_sig)
  then show "wstep\<^sup>*\<^sup>* (Waiting, 0) (Paid, 1)" by (rule rtranclp.rtrancl_into_rtrancl) (rule wstep.settle)
qed

lemma drained_simulated:
  assumes "honest e" "payoutsSafe d ps" "getWithdrawalById (w_id w) d = Some w" "w_status w = Queued" "drained e w ps d d' ps'"
  shows "simulated (d, ps) (d', ps')"
  unfolding simulated_def fst_conv snd_conv
proof
  fix i
  obtain new where new: "ps' = ps @ new" "\<forall>p\<in>set new. po_id p = w_id w" "length new \<le> 1"
    using assms(5) by (auto simp: drained_def payoutOf_def)
  show "wstep\<^sup>*\<^sup>* (withdrawalAt d ps i) (withdrawalAt d' ps' i)"
  proof (cases "i = w_id w")
    case False
    then have "filter (\<lambda>p. po_id p = i) ps' = filter (\<lambda>p. po_id p = i) ps" using new by (auto simp: filter_empty_conv)
    moreover have "row_evolves (getWithdrawalById i d) (getWithdrawalById i d')"
      using drained_others [OF assms(5)] False by (simp add: others_def)
    ultimately show ?thesis using row_evolves_simulated [OF assms(2)] by blast
  next
    case True
    have q: "rowState d i = Some (Queued, w_txSig w)" using True assms(3,4) by (simp add: rowState_def)
    then have none: "filter (\<lambda>p. po_id p = i) ps = []" using unpaid_phase [OF assms(2)] by blast
    then have start: "withdrawalAt d ps i = (Waiting, 0)" using q by (simp add: withdrawalAt_def phase_def)
    have "withdrawalAt d' ps' i \<in> {(Refused, 0), (Working, 1), (Sent, 1), (Paid, 1)}"
      using assms(1,5) none True by (auto simp: drained_def settled_def withdrawalAt_def phase_def payoutOf_def honest_def)
    then show ?thesis using wsteps_from_waiting start by auto
  qed
qed

lemma drainRows_simulated:
  assumes "\<And>i. calmExec (env i)" "\<And>i. honest (env i)"
  shows "store_wf d \<Longrightarrow> payoutsSafe d ps \<Longrightarrow> queuedRows ws d \<Longrightarrow> simulated (d, ps) (snd (drainRows c env ws (d, ps)))"
proof (induction ws arbitrary: d ps)
  case Nil
  then show ?case by (simp add: exn_simps sim.refl)
next
  case (Cons w ws)
  have w: "getWithdrawalById (w_id w) d = Some w" "w_status w = Queued"
    using Cons.prems(3) by (auto simp: queuedRows_def)
  obtain r d1 ps1 where run: "drainOne c (env (w_id w)) (w_id w) (d, ps) = (r, (d1, ps1))" by (metis prod.exhaust)
  note one = drainOne_outcome [OF assms(1) Cons.prems(1) w run]
  then have d1: "store_wf d1" "others (w_id w) d d1" using drained_others by blast+
  have "payoutsSafe d1 ps1" using payoutsSafe_drained [OF assms(2) Cons.prems(2) w] one by blast
  with Cons.IH [OF d1(1)] queuedRows_others [OF Cons.prems(3) d1(2)]
  have "simulated (d1, ps1) (snd (drainRows c env ws (d1, ps1)))" by blast
  moreover have "simulated (d, ps) (d1, ps1)" using drained_simulated [OF assms(2) Cons.prems(2) w] one by blast
  moreover have "drainRows c env (w # ws) (d, ps) = drainRows c env ws (d1, ps1)"
    using run one by (simp add: drainRows_Cons exn_simps del: drainRows.simps)
  ultimately show ?case using sim.trans by metis
qed

section \<open>The program refines the machine\<close>

definition refines :: "'i bot \<Rightarrow> 'i bot \<Rightarrow> bool" where
  "refines s s' \<longleftrightarrow> (vaultInv s \<longrightarrow> vaultInv s' \<and> simulated (b_db s, b_payouts s) (b_db s', b_payouts s'))"

lemma refines_evolves:
  "evolves (b_db s) (b_db s') \<Longrightarrow> b_payouts s' = b_payouts s \<Longrightarrow> refines s s'"
  using vaultInv_evolves [of s s'] evolves_simulated [of "b_db s" "b_payouts s" "b_db s'"] by (auto simp: refines_def vaultInv_def)

lemma refines_same: "b_db s' = b_db s \<Longrightarrow> b_payouts s' = b_payouts s \<Longrightarrow> refines s s'"
  by (rule refines_evolves) (simp_all add: ev.refl)

interpretation ref: store_order "refines :: 'i bot \<Rightarrow> 'i bot \<Rightarrow> bool"
  by unfold_locales (auto simp: refines_def sim.refl intro: sim.trans)

lemma refines_drain:
  assumes "calmTick te" shows "refines s (snd (vaultDrain cfg te s))"
proof -
  let ?env = "\<lambda>i. wireExec (b_priceHistory s) (te_exec te i)"
  have env: "calmExec (?env i)" "honest (?env i)" for i
    using assms by (simp_all add: calmTick_def calmExec_def honest_def wireExec_def)
  have "simulated (b_db s, b_payouts s) (snd (drain (mc_exec cfg) ?env (b_db s, b_payouts s)))" if "vaultInv s"
    using drainRows_simulated [where env = ?env, OF env] queuedRows_list that by (auto simp: drain_def exn_simps vaultInv_def)
  then show ?thesis
    using vaultDrain_inv [OF assms] by (auto simp: refines_def vaultDrain_def overPayouts_def split_beta)
qed

interpretation life: tick_law "\<lambda>s s'. calmTick te \<longrightarrow> refines s s'" cfg te for cfg te
proof (unfold_locales, goal_cases)
  case (1 s)
  then show ?case by (simp add: ref.refl)
next
  case (2 s t u)
  then show ?case using ref.trans by blast
next
  case (3 a)
  show ?case using vaultPoll_evolves by (auto simp: stays_def intro!: refines_evolves)
next
  case (4 mid position)
  show ?case by (auto simp: stays_def calmTick_def intro!: refines_evolves overEffects_evolves [OF evl_executeRebalance])
next
  case 5
  show ?case using refines_drain by (auto simp: stays_def)
next
  case (6 sev msg)
  show ?case by (auto simp: stays_def intro!: refines_evolves overEffects_evolves [OF evl_notify])
next
  case 7
  show ?case by (auto simp: stays_def overDb_def split_beta intro!: refines_evolves)
next
  case (8 s)
  then show ?case by (auto simp: calmTick_def intro!: refines_evolves)
qed (auto intro!: refines_same)

lemma refines_tick: "calmTick te \<Longrightarrow> refines s (tick cfg te s)"
proof -
  have "calmTick te \<longrightarrow> refines s (tick cfg te s)"
    by (intro life.keeps_tick life.keeps_polled) (auto intro!: refines_same)
  then show "calmTick te \<Longrightarrow> refines s (tick cfg te s)" by simp
qed

lemma refines_overEffects: "stays evolvesLog m \<Longrightarrow> refines s (snd (overEffects m s))"
  by (rule refines_evolves) (simp_all add: overEffects_evolves)

section \<open>Updates\<close>

definition tgEvolves :: "TgEnv \<Rightarrow> Commander \<Rightarrow> Commander \<Rightarrow> bool" where
  "tgEvolves e s s' \<longleftrightarrow> opEvolves (tg_op e) (tc_session s) (tc_session s')"

interpretation tge: store_order "tgEvolves e" for e
  by unfold_locales (auto simp: tgEvolves_def ope.refl intro: ope.trans)

lemma stays_onSession: "stays (opEvolves (tg_op e)) m \<Longrightarrow> stays (tgEvolves e) (onSession m)"
  by (simp add: stays_def tgEvolves_def)

lemma stays_handle_op: "stays (opEvolves oe) (handle (oe_cmd oe) c u req)"
  using staysD [OF cev.stays_handle, of "oe_cmd oe" _ c u req] by (simp add: stays_def opEvolves_def cmdEvolves_def del: handle.simps)

lemma stays_session_plain:
  "stays (opEvolves oe) (setPending u p)" "stays (opEvolves oe) (clearPending u)" "stays (opEvolves oe) (reply (oe_cmd oe) c t (withKeyboard k))"
  by (auto simp: stays_def opEvolves_def ev.refl setPending_def clearPending_def reply_def modify_def andThen_def Let_def)

lemma stays_route: "stays (opEvolves oe) (route (oe_cmd oe) c u b)"
  unfolding route_def
  by (auto intro!: ope.stays_pure ope.stays_andThen stays_session_plain stays_handle_op simp del: handle.simps
      split: option.splits ButtonAction.splits)

lemma stays_switch: "tc_session (f s) = tc_session s \<Longrightarrow> tgEvolves e s (f s)"
  by (simp add: tgEvolves_def ope.refl)

lemmas tg_rules = tge.stays_pure tge.stays_andThen tge.stays_tryCatch tge.stays_modify stays_onStore_op ev.stays_modify stays_switch evolves_aux
  stays_onSession stays_tell stays_handle_op stays_handleOp stays_route

lemma stays_botCommand: "stays (tgEvolves e) (botCommand e c b)"
  unfolding botCommand_def setEnabled_def by (auto intro!: tg_rules split: BotCommand.splits)

lemma stays_dispatch: "stays (tgEvolves e) (dispatch e c u x)"
  unfolding dispatch_def runCommand_def
  by (auto intro!: tg_rules stays_botCommand simp del: handle.simps split: option.splits Kind.splits Command.splits)

lemma stays_processUpdate: "stays (tgEvolves e) (processUpdate e up)"
  unfolding processUpdate_def dispatchCallback_def
  by (auto intro!: tg_rules stays_dispatch split: option.splits)

section \<open>The command line\<close>

text \<open>The commands that write to the database, other than the founding.\<close>

datatype CliCommand = ClearDegraded | ForceRebalance | CollectFees | EmergencyExit | CloseOrphan string | Reconcile

definition runCli :: "RebConfig \<Rightarrow> rat \<Rightarrow> 'i CliEnv \<Rightarrow> CliCommand \<Rightarrow> ('i, CliExit) rebm" where
  "runCli cfg divergenceBps e c =
     (case c of
        ClearDegraded \<Rightarrow> runClearDegraded e
      | ForceRebalance \<Rightarrow> runForceRebalance cfg divergenceBps e
      | CollectFees \<Rightarrow> runCollectFees cfg divergenceBps e
      | EmergencyExit \<Rightarrow> runEmergencyExit cfg e
      | CloseOrphan nftMint \<Rightarrow> runCloseOrphan cfg e nftMint
      | Reconcile \<Rightarrow> runReconcile e)"

lemma stays_runCli: "calmReb (cx_rebalance e) \<Longrightarrow> stays evolvesLog (runCli cfg bps e c)"
  by (cases c) (simp_all add: runCli_def stays_commands stays_rebalances)

lemma evolves_runBootstrap:
  assumes "store_wf d" "is_double (bp_initialNavUsd p)" shows "evolves d (snd (runBootstrap p d))"
proof -
  obtain r d' where run: "runBootstrap p d = (r, d')" by (cases "runBootstrap p d")
  from assms(1) run show ?thesis
    by (cases rule: runBootstrap_cases) (simp_all add: run ev.refl evolves_founded assms)
qed

lemma refines_runBootstrap:
  assumes "is_double (bp_initialNavUsd p)" shows "refines s (s\<lparr>b_db := snd (runBootstrap p (b_db s))\<rparr>)"
proof (cases "vaultInv s")
  case True
  then show ?thesis using evolves_runBootstrap [OF _ assms] by (intro refines_evolves) (simp_all add: vaultInv_def)
qed (simp add: refines_def)

end
