(* ===== verification/Config.thy ===== *)
theory Config
  imports Cli
begin

text \<open>
  \<open>src/src/config.ts\<close> and how \<open>main.ts\<close> hands the configuration on. The YAML parser and zod are parameters of
  \<open>loadConfig\<close>; what zod is documented to do with the schema, to return only data that meet its constraints, is the
  predicate \<open>conforms\<close>, and the constraints themselves are \<open>botConfigOk\<close> with the predicates for its parts. The
  properties are what the rest of the program may rely on with any accepted configuration, and one accepted
  configuration with which the bot never rebalances.
\<close>

section \<open>The types\<close>

datatype VenueName = RaydiumVenue | MeteoraVenue

datatype FeeCollectionMode = OnRebalance | Scheduled

datatype FeeHandling = Compound | Sweep

record MevProtectionConfig =
  mv_enabled :: bool
  mv_blockEngineUrl :: string
  mv_tipLamports :: rat
  mv_bundleTimeoutMs :: rat

record VaultConfig =
  vc_enabled :: bool
  vc_withdrawalFeeBps :: rat
  vc_minDepositUsd :: rat
  vc_minWithdrawalUsd :: rat
  vc_maxDailyWithdrawalsPerUser :: rat
  vc_maxDailyWithdrawalUsdPerUser :: rat
  vc_maxPendingWithdrawals :: rat
  vc_depositMinConfirms :: rat
  vc_whitelistCooldownHours :: rat
  vc_operatorTelegramId :: rat
  vc_uiButtons :: bool

record BotConfig =
  bc_venue :: VenueName
  bc_enabled :: bool
  bc_mevProtection :: "MevProtectionConfig option"
  bc_poolAddress :: string
  bc_bertMint :: string
  bc_rangeWidthPct :: rat
  bc_sustainedMinutes :: rat
  bc_minRebalanceIntervalMin :: rat
  bc_maxRebalancesPerDay :: rat
  bc_maxSlippageBps :: rat
  bc_maxDrawdownPct :: rat
  bc_drawdownWindowMin :: rat
  bc_maxPositionUsd :: rat
  bc_oracleDivergenceBps :: rat
  bc_oracleStaleMinutes :: rat
  bc_rpcOutageMinutes :: rat
  bc_minSolBalance :: rat
  bc_hardPauseSolBalance :: rat
  bc_minSolFloorLamports :: rat
  bc_priorityFeeMicroLamports :: rat
  bc_pollIntervalSec :: rat
  bc_feeCollectionMode :: FeeCollectionMode
  bc_feeHandling :: FeeHandling
  bc_rpcPrimary :: string
  bc_rpcFallback :: string
  bc_keyfilePath :: string
  bc_statePath :: string
  bc_killSwitchFilePath :: string
  bc_heartbeatPath :: string
  bc_notifier :: "NotifierChannels option"
  bc_dryRun :: bool
  bc_vault :: "VaultConfig option"

section \<open>The schema\<close>

definition numIn :: "rat \<Rightarrow> rat \<Rightarrow> rat \<Rightarrow> bool" where
  "numIn lo hi x \<longleftrightarrow> lo \<le> x \<and> x \<le> hi"

definition intIn :: "rat \<Rightarrow> rat \<Rightarrow> rat \<Rightarrow> bool" where
  "intIn lo hi x \<longleftrightarrow> isInteger x \<and> numIn lo hi x"

definition positiveInt :: "rat \<Rightarrow> bool" where
  "positiveInt x \<longleftrightarrow> isInteger x \<and> 0 < x"

text \<open>\<open>url\<close> is the test of \<open>z.string().url()\<close>.\<close>

definition notifierOk :: "(string \<Rightarrow> bool) \<Rightarrow> NotifierChannels \<Rightarrow> bool" where
  "notifierOk url n \<longleftrightarrow>
     (case nc_telegram n of None \<Rightarrow> True
      | Some t \<Rightarrow> 1 \<le> length (tch_botToken t) \<and> 1 \<le> length (tch_chatIdInfo t) \<and> 1 \<le> length (tch_chatIdCritical t))
     \<and> (case nc_discord n of None \<Rightarrow> True | Some d \<Rightarrow> url (dch_webhookInfo d) \<and> url (dch_webhookCritical d))
     \<and> (nc_telegram n \<noteq> None \<or> nc_discord n \<noteq> None)"

definition mevProtectionOk :: "(string \<Rightarrow> bool) \<Rightarrow> MevProtectionConfig \<Rightarrow> bool" where
  "mevProtectionOk url m \<longleftrightarrow>
     url (mv_blockEngineUrl m) \<and> intIn 1000 10000000 (mv_tipLamports m) \<and> intIn 5000 60000 (mv_bundleTimeoutMs m)"

definition vaultConfigOk :: "VaultConfig \<Rightarrow> bool" where
  "vaultConfigOk v \<longleftrightarrow>
     intIn 0 1000 (vc_withdrawalFeeBps v) \<and> 0 < vc_minDepositUsd v \<and> 0 < vc_minWithdrawalUsd v
     \<and> positiveInt (vc_maxDailyWithdrawalsPerUser v) \<and> 0 < vc_maxDailyWithdrawalUsdPerUser v
     \<and> positiveInt (vc_maxPendingWithdrawals v) \<and> isInteger (vc_depositMinConfirms v) \<and> 0 \<le> vc_depositMinConfirms v
     \<and> positiveInt (vc_whitelistCooldownHours v) \<and> isInteger (vc_operatorTelegramId v)"

definition botConfigOk :: "(string \<Rightarrow> bool) \<Rightarrow> BotConfig \<Rightarrow> bool" where
  "botConfigOk url c \<longleftrightarrow>
     (case bc_mevProtection c of None \<Rightarrow> True | Some m \<Rightarrow> mevProtectionOk url m)
     \<and> 32 \<le> length (bc_poolAddress c) \<and> 32 \<le> length (bc_bertMint c)
     \<and> numIn 1 100 (bc_rangeWidthPct c)
     \<and> intIn 1 120 (bc_sustainedMinutes c)
     \<and> intIn 5 1440 (bc_minRebalanceIntervalMin c)
     \<and> intIn 1 48 (bc_maxRebalancesPerDay c)
     \<and> intIn 1 500 (bc_maxSlippageBps c)
     \<and> numIn 1 50 (bc_maxDrawdownPct c)
     \<and> intIn 5 240 (bc_drawdownWindowMin c)
     \<and> 0 < bc_maxPositionUsd c
     \<and> intIn 1 500 (bc_oracleDivergenceBps c)
     \<and> intIn 1 60 (bc_oracleStaleMinutes c)
     \<and> intIn 1 30 (bc_rpcOutageMinutes c)
     \<and> 0 < bc_minSolBalance c \<and> 0 < bc_hardPauseSolBalance c
     \<and> positiveInt (bc_minSolFloorLamports c) \<and> positiveInt (bc_priorityFeeMicroLamports c)
     \<and> intIn 10 300 (bc_pollIntervalSec c)
     \<and> url (bc_rpcPrimary c) \<and> url (bc_rpcFallback c)
     \<and> 1 \<le> length (bc_keyfilePath c) \<and> 1 \<le> length (bc_statePath c) \<and> 1 \<le> length (bc_killSwitchFilePath c)
     \<and> 1 \<le> length (bc_heartbeatPath c)
     \<and> (case bc_notifier c of None \<Rightarrow> True | Some n \<Rightarrow> notifierOk url n)
     \<and> (case bc_vault c of None \<Rightarrow> True | Some v \<Rightarrow> vaultConfigOk v)
     \<and> bc_hardPauseSolBalance c < bc_minSolBalance c"

section \<open>Loading\<close>

fun joinStrings :: "string \<Rightarrow> string list \<Rightarrow> string" where
  "joinStrings sep [] = ''''"
| "joinStrings sep [x] = x"
| "joinStrings sep (x # y # xs) = x @ sep @ joinStrings sep (y # xs)"

definition configError :: "string \<Rightarrow> js_error" where
  "configError message = ''ConfigError: '' @ message"

text \<open>\<open>safeParse\<close> is \<open>BotConfigSchema.safeParse\<close>: the issues with their paths, or the data.\<close>

definition loadConfig :: "(string \<Rightarrow> 'raw result) \<Rightarrow> ('raw \<Rightarrow> (string list \<times> string) list + BotConfig) \<Rightarrow> string \<Rightarrow> BotConfig result" where
  "loadConfig parseYaml safeParse yamlText =
     (case parseYaml yamlText of
        Inl e \<Rightarrow> Inl (configError (''YAML parse failed: '' @ e))
      | Inr raw \<Rightarrow>
          (case safeParse raw of
             Inl issues \<Rightarrow> Inl (configError (joinStrings ''; '' (map (\<lambda>(path, message). joinStrings ''.'' path @ '': '' @ message) issues)))
           | Inr c \<Rightarrow> Inr c))"

definition loadConfigFromFile ::
    "(string \<Rightarrow> string result) \<Rightarrow> (string \<Rightarrow> 'raw result) \<Rightarrow> ('raw \<Rightarrow> (string list \<times> string) list + BotConfig) \<Rightarrow> string \<Rightarrow> BotConfig result" where
  "loadConfigFromFile readFile parseYaml safeParse path = thenR (readFile path) (loadConfig parseYaml safeParse)"

definition conforms :: "(string \<Rightarrow> bool) \<Rightarrow> ('raw \<Rightarrow> (string list \<times> string) list + BotConfig) \<Rightarrow> bool" where
  "conforms url safeParse \<longleftrightarrow> (\<forall>raw c. safeParse raw = Inr c \<longrightarrow> botConfigOk url c)"

lemma loadConfig_ok: "conforms url safeParse \<Longrightarrow> loadConfig parseYaml safeParse yaml = Inr c \<Longrightarrow> botConfigOk url c"
  by (auto simp: conforms_def loadConfig_def split: sum.splits)

section \<open>What main.ts makes of it\<close>

definition strategyParams :: "BotConfig \<Rightarrow> StrategyParams" where
  "strategyParams c =
     \<lparr>st_rangeWidthPct = bc_rangeWidthPct c, st_sustainedMinutes = bc_sustainedMinutes c,
      st_minRebalanceIntervalMin = bc_minRebalanceIntervalMin c, st_maxRebalancesPerDay = bc_maxRebalancesPerDay c,
      st_oracleStaleMinutes = bc_oracleStaleMinutes c, st_pollIntervalSec = bc_pollIntervalSec c\<rparr>"

text \<open>The fields that the rebalancer reads; the tip accounts are what \<open>refreshTipAccounts\<close> fetched.\<close>

definition jitoOf :: "string \<Rightarrow> string list \<Rightarrow> BotConfig \<Rightarrow> JitoClient option" where
  "jitoOf payer tipAccounts c =
     (case bc_mevProtection c of
        None \<Rightarrow> None
      | Some m \<Rightarrow> if mv_enabled m then Some \<lparr>jc_payer = payer, jc_tipAccounts = tipAccounts, jc_tipLamports = mv_tipLamports m\<rparr> else None)"

definition rebConfig :: "JitoClient option \<Rightarrow> BotConfig \<Rightarrow> RebConfig" where
  "rebConfig jito c =
     \<lparr>rc_maxDrawdownPct = bc_maxDrawdownPct c, rc_maxRebalancesPerDay = bc_maxRebalancesPerDay c,
      rc_rangeWidthPct = bc_rangeWidthPct c, rc_minSolFloorLamports = \<lfloor>bc_minSolFloorLamports c\<rfloor>,
      rc_maxPositionUsd = bc_maxPositionUsd c, rc_priorityFeeMicroLamports = bc_priorityFeeMicroLamports c,
      rc_dryRun = bc_dryRun c, rc_jito = jito\<rparr>"

definition commandsConfig :: "VaultConfig \<Rightarrow> CommandsConfig" where
  "commandsConfig v =
     \<lparr>cc_withdrawalFeeBps = vc_withdrawalFeeBps v, cc_minWithdrawalUsd = vc_minWithdrawalUsd v,
      cc_maxDailyWithdrawalsPerUser = nat \<lfloor>vc_maxDailyWithdrawalsPerUser v\<rfloor>,
      cc_maxDailyWithdrawalUsdPerUser = vc_maxDailyWithdrawalUsdPerUser v,
      cc_maxPendingWithdrawals = nat \<lfloor>vc_maxPendingWithdrawals v\<rfloor>, cc_uiButtons = vc_uiButtons v\<rparr>"

definition cooldownMs :: "VaultConfig \<Rightarrow> rat" where
  "cooldownMs v = nmul (vc_whitelistCooldownHours v) 3600000"

text \<open>The vault does not start without an operator; \<open>number\<close> is \<open>Number(text)\<close>, \<open>None\<close> if it is not finite. The
  result is the operator's user id, \<open>None\<close> when no commander is started.\<close>

definition operatorUserId :: "(string \<Rightarrow> rat option) \<Rightarrow> BotConfig \<Rightarrow> rat option result" where
  "operatorUserId number c =
     (let enabled = (case bc_vault c of Some v \<Rightarrow> vc_enabled v | None \<Rightarrow> False)
      in if enabled \<and> (case bc_vault c of Some v \<Rightarrow> vc_operatorTelegramId v = 0 | None \<Rightarrow> True)
         then Inl (''vault.enabled=true but vault.operatorTelegramId is missing - refusing to start'')
         else case bc_notifier c of
           None \<Rightarrow> Inr None
         | Some n \<Rightarrow>
             (case nc_telegram n of
                None \<Rightarrow> Inr None
              | Some t \<Rightarrow>
                  Inr (if enabled then map_option vc_operatorTelegramId (bc_vault c) else number (tch_chatIdInfo t))))"

section \<open>What the rest of the program relies on\<close>

lemma newRange_proper:
  assumes "is_double (mp_bertUsd mid)" "0 \<le> mp_bertUsd mid" "0 \<le> rc_rangeWidthPct cfg" "rc_rangeWidthPct cfg \<le> 100"
  shows "mp_bertUsd mid / 4 - 2 * tiny \<le> fst (newRange cfg mid)" "fst (newRange cfg mid) \<le> mp_bertUsd mid"
    "mp_bertUsd mid \<le> snd (newRange cfg mid)" "0 \<le> fst (newRange cfg mid)"
proof -
  define c where "c = mp_bertUsd mid"
  define q where "q = ndiv (rc_rangeWidthPct cfg) 100"
  define h where "h = ndiv (nmul c q) 2"
  have c: "fl c = c" "0 \<le> c" using assms by (simp_all add: c_def is_double_def)
  have "0 \<le> q" "q \<le> 1" using dbl.rnd_fraction [of "rc_rangeWidthPct cfg" 100] assms by (simp_all add: q_def ndiv_def)
  then have "0 \<le> nmul c q" "nmul c q \<le> c" using dbl.rnd_scale [OF c] by (simp_all add: nmul_def)
  then have h: "0 \<le> h" "h \<le> fl (c / 2)" unfolding h_def ndiv_def by (simp add: fl_nonneg, intro fl_mono) simp
  have le: "h \<le> c" using h(2) dbl.rnd_le_double [OF c(1), of "c / 2"] c(2) by simp
  have r: "fst (newRange cfg mid) = fl (c - h)" "snd (newRange cfg mid) = fl (c + h)"
    by (simp_all add: newRange_def Let_def c_def q_def h_def nsub_def nadd_def)
  have "h \<le> c / 2 * (1 + roundoff) + tiny" using h(2) dbl.rnd_upper [of "c / 2"] c(2) by simp
  moreover have "(c - h) * (1 - roundoff) - tiny \<le> fl (c - h)" using dbl.rnd_lower [of "c - h"] le by simp
  moreover have "0 \<le> tiny" by (simp add: tiny_def)
  ultimately show "mp_bertUsd mid / 4 - 2 * tiny \<le> fst (newRange cfg mid)"
    unfolding r(1) c_def [symmetric] using c(2) by (simp add: roundoff_def algebra_simps)
  show "fst (newRange cfg mid) \<le> mp_bertUsd mid" "0 \<le> fst (newRange cfg mid)"
    unfolding r(1) c_def [symmetric] using dbl.rnd_remainder [OF c(1) h(1) le] by simp_all
  show "mp_bertUsd mid \<le> snd (newRange cfg mid)"
    unfolding r(2) c_def [symmetric] using dbl.rnd_ge_double [OF c(1), of "c + h"] h(1) by simp
qed

lemma drawdownThreshold_range:
  assumes "1 \<le> rc_maxDrawdownPct cfg" "rc_maxDrawdownPct cfg \<le> 50"
  shows "1 / 2 \<le> drawdownThreshold cfg" "drawdownThreshold cfg < 1"
proof -
  let ?q = "ndiv (rc_maxDrawdownPct cfg) 100"
  have "fl (1 / 128) \<le> ?q" "?q \<le> fl (1 / 2)" unfolding ndiv_def using assms by (intro fl_mono; simp)+
  then have q: "1 / 128 \<le> ?q" "?q \<le> 1 / 2" using fl_dyadic [of 1 7] by simp_all
  have "fl (1 / 2) \<le> drawdownThreshold cfg" "drawdownThreshold cfg \<le> fl (127 / 128)"
    unfolding drawdownThreshold_def nsub_def using q by (intro fl_mono; simp)+
  then show "1 / 2 \<le> drawdownThreshold cfg" "drawdownThreshold cfg < 1" using fl_dyadic [of 127 7] by simp_all
qed

text \<open>Samples that are at least \<open>p\<close> milliseconds apart.\<close>

definition spaced :: "int \<Rightarrow> MidPrice list \<Rightarrow> bool" where
  "spaced p history \<longleftrightarrow> sorted_wrt (\<lambda>a b. mp_ts a + p \<le> mp_ts b) history"

lemma spaced_span:
  assumes "spaced p history" "history \<noteq> []"
  shows "mp_ts (hd history) + p * (int (length history) - 1) \<le> mp_ts (last history)"
  using assms
proof (induction history rule: rev_induct)
  case (snoc x xs)
  show ?case
  proof (cases "xs = []")
    case False
    then have "mp_ts (last xs) + p \<le> mp_ts x" using snoc.prems(1) by (simp add: spaced_def sorted_wrt_append)
    moreover have "mp_ts (hd xs) + p * (int (length xs) - 1) \<le> mp_ts (last xs)"
      using snoc.IH False snoc.prems(1) by (simp add: spaced_def sorted_wrt_append)
    ultimately show ?thesis using False by (simp add: algebra_simps)
  qed simp
qed simp

lemma few_recent:
  assumes "spaced (1000 * poll) (bs_priceHistory state)" "list_all (\<lambda>s. mp_ts s \<le> bs_now state) (bs_priceHistory state)"
    and "st_sustainedMinutes params = of_int m" "1 \<le> m" "m \<le> 120" "0 \<le> bs_now state" "bs_now state < 2 ^ 52"
    and "60 * m < poll * (m - 1)"
  shows "of_nat (length (recentSamples params state)) < st_sustainedMinutes params"
proof (rule ccontr)
  assume "\<not> ?thesis"
  then have l: "m \<le> int (length (recentSamples params state))" using assms(3) by (simp add: not_less)
  have "nmul (of_int m) 60000 = of_int (m * 60000)"
    using assms(4,5) fl_of_int [of "m * 60000"] by (simp add: nmul_def)
  then have cutoff: "nsub (of_int (bs_now state)) (nmul (st_sustainedMinutes params) 60000) = of_int (bs_now state - m * 60000)"
    using assms(3-7) fl_of_int [of "bs_now state - m * 60000"] by (simp add: nsub_def)
  define recent where "recent = recentSamples params state"
  have recent: "recent = filter (\<lambda>s. bs_now state - m * 60000 \<le> mp_ts s) (bs_priceHistory state)"
    unfolding recent_def recentSamples_def Let_def cutoff of_int_le_iff by simp
  have "recent \<noteq> []" using l assms(4) by (auto simp: recent_def)
  moreover from this have "bs_now state - m * 60000 \<le> mp_ts (hd recent)" "mp_ts (last recent) \<le> bs_now state"
    using assms(2) hd_in_set [of recent] last_in_set [of recent] by (auto simp: recent list_all_iff)
  moreover have "spaced (1000 * poll) recent" using assms(1) by (simp add: recent spaced_def sorted_wrt_filter)
  ultimately have "1000 * poll * (int (length recent) - 1) \<le> m * 60000" using spaced_span by fastforce
  moreover have "0 < poll"
  proof (rule ccontr)
    assume "\<not> 0 < poll"
    then have "poll * (m - 1) \<le> 0" using assms(4) by (simp add: mult_nonpos_nonneg)
    then show False using assms(4,8) by linarith
  qed
  then have "1000 * poll * (m - 1) \<le> 1000 * poll * (int (length recent) - 1)" using l by (simp add: recent_def)
  ultimately show False using assms(8) by linarith
qed

text \<open>C22: What a configuration that was accepted guarantees to the rest of the program. The price history is long enough
  for the samples that the strategy asks for. The range that a rebalance opens is a proper one around the price, and its
  lower bound is not below a quarter of the price, up to the least double. The threshold of the drawdown breaker lies
  between one half and one. The fee of a withdrawal is a part of its shares, and a change of the withdrawal address waits for
  an hour at least. If the vault is on and the bot gets past the check of the operator, then the commander, if one is
  started, obeys the operator of the vault and no other.\<close>

theorem accepted_config_safe:
  assumes "conforms url safeParse" "loadConfig parseYaml safeParse yaml = Inr c" "is_double (mp_bertUsd mid)" "0 \<le> mp_bertUsd mid"
  shows "st_sustainedMinutes (strategyParams c) \<le> of_nat MAX_HISTORY_SAMPLES
    \<and> mp_bertUsd mid / 4 - 2 * tiny \<le> fst (newRange (rebConfig jito c) mid)
    \<and> 0 \<le> fst (newRange (rebConfig jito c) mid) \<and> fst (newRange (rebConfig jito c) mid) \<le> mp_bertUsd mid
    \<and> mp_bertUsd mid \<le> snd (newRange (rebConfig jito c) mid)
    \<and> 1 / 2 \<le> drawdownThreshold (rebConfig jito c) \<and> drawdownThreshold (rebConfig jito c) < 1
    \<and> (\<forall>v. bc_vault c = Some v \<longrightarrow> 3600000 \<le> cooldownMs v
         \<and> (\<forall>s. is_double s \<longrightarrow> 0 \<le> s \<longrightarrow> 0 \<le> fst (splitFee s (cc_withdrawalFeeBps (commandsConfig v)))
              \<and> fst (splitFee s (cc_withdrawalFeeBps (commandsConfig v))) \<le> s)
         \<and> (\<forall>op. vc_enabled v \<longrightarrow> operatorUserId number c = Inr (Some op) \<longrightarrow> op = vc_operatorTelegramId v \<and> op \<noteq> 0))"
proof -
  note ok = loadConfig_ok [OF assms(1,2), unfolded botConfigOk_def intIn_def numIn_def]
  have range: "0 \<le> rc_rangeWidthPct (rebConfig jito c)" "rc_rangeWidthPct (rebConfig jito c) \<le> 100"
    using ok by (simp_all add: rebConfig_def)
  have threshold: "1 / 2 \<le> drawdownThreshold (rebConfig jito c)" "drawdownThreshold (rebConfig jito c) < 1"
    by (rule drawdownThreshold_range; use ok in \<open>simp add: rebConfig_def\<close>)+
  have vault: "3600000 \<le> cooldownMs v
      \<and> (\<forall>s. is_double s \<longrightarrow> 0 \<le> s \<longrightarrow> 0 \<le> fst (splitFee s (cc_withdrawalFeeBps (commandsConfig v)))
           \<and> fst (splitFee s (cc_withdrawalFeeBps (commandsConfig v))) \<le> s)
      \<and> (\<forall>op. vc_enabled v \<longrightarrow> operatorUserId number c = Inr (Some op) \<longrightarrow> op = vc_operatorTelegramId v \<and> op \<noteq> 0)"
    if v: "bc_vault c = Some v" for v
  proof (intro conjI allI impI)
    have w: "vaultConfigOk v" using ok v by simp
    have "1 \<le> vc_whitelistCooldownHours v"
      using w by (simp add: vaultConfigOk_def positiveInt_def isInteger_def) (metis floor_less_iff int_one_le_iff_zero_less not_less of_int_0 of_int_1 of_int_le_iff zero_less_floor)
    then have "fl 3600000 \<le> cooldownMs v" unfolding cooldownMs_def nmul_def by (intro fl_mono) simp
    then show "3600000 \<le> cooldownMs v" by simp
    fix s :: rat assume "is_double s" "0 \<le> s"
    then show "0 \<le> fst (splitFee s (cc_withdrawalFeeBps (commandsConfig v)))" "fst (splitFee s (cc_withdrawalFeeBps (commandsConfig v))) \<le> s"
      using w by (simp_all add: splitFee_range commandsConfig_def vaultConfigOk_def intIn_def numIn_def)
  next
    fix op assume "vc_enabled v" "operatorUserId number c = Inr (Some op)"
    then show "op = vc_operatorTelegramId v" "op \<noteq> 0"
      using v by (auto simp: operatorUserId_def Let_def split: if_splits option.splits)
  qed
  show ?thesis
    using ok vault threshold newRange_proper [OF assms(3,4) range] by (simp add: strategyParams_def MAX_HISTORY_SAMPLES_def)
qed

definition vaultcfg_demo :: VaultConfig where
  "vaultcfg_demo = \<lparr>vc_enabled = True, vc_withdrawalFeeBps = 30, vc_minDepositUsd = 10, vc_minWithdrawalUsd = 5,
     vc_maxDailyWithdrawalsPerUser = 3, vc_maxDailyWithdrawalUsdPerUser = 1000, vc_maxPendingWithdrawals = 50,
     vc_depositMinConfirms = 1, vc_whitelistCooldownHours = 24, vc_operatorTelegramId = 42, vc_uiButtons = True\<rparr>"

definition slow_demo :: BotConfig where
  "slow_demo = \<lparr>bc_venue = MeteoraVenue, bc_enabled = True, bc_mevProtection = None, bc_poolAddress = replicate 44 CHR ''p'',
     bc_bertMint = replicate 44 CHR ''b'', bc_rangeWidthPct = 20, bc_sustainedMinutes = 30, bc_minRebalanceIntervalMin = 60,
     bc_maxRebalancesPerDay = 6, bc_maxSlippageBps = 100, bc_maxDrawdownPct = 15, bc_drawdownWindowMin = 30,
     bc_maxPositionUsd = 5000, bc_oracleDivergenceBps = 100, bc_oracleStaleMinutes = 5, bc_rpcOutageMinutes = 5,
     bc_minSolBalance = 1 / 8, bc_hardPauseSolBalance = 1 / 32, bc_minSolFloorLamports = 100000000,
     bc_priorityFeeMicroLamports = 10000, bc_pollIntervalSec = 120, bc_feeCollectionMode = OnRebalance, bc_feeHandling = Compound,
     bc_rpcPrimary = ''https://a'', bc_rpcFallback = ''https://b'', bc_keyfilePath = ''k'', bc_statePath = ''s'',
     bc_killSwitchFilePath = ''f'', bc_heartbeatPath = ''h'', bc_notifier = None, bc_dryRun = False, bc_vault = Some vaultcfg_demo\<rparr>"

definition parse_demo :: "BotConfig \<Rightarrow> (string list \<times> string) list + BotConfig" where
  "parse_demo c = (if botConfigOk (\<lambda>s. take 8 s = ''https://'') c then Inr c else Inl [([], ''invalid'')])"

lemma parse_demo_conforms: "conforms (\<lambda>s. take 8 s = ''https://'') parse_demo"
  by (simp add: conforms_def parse_demo_def)

lemma slow_demo_loads: "loadConfig (\<lambda>_. Inr slow_demo) parse_demo yaml = Inr slow_demo"
proof -
  have "botConfigOk (\<lambda>s. take 8 s = ''https://'') slow_demo"
    by (simp add: botConfigOk_def slow_demo_def intIn_def numIn_def positiveInt_def isInteger_def vaultConfigOk_def vaultcfg_demo_def)
  then show ?thesis by (simp add: loadConfig_def parse_demo_def)
qed

theorem accepted_config_safe_witness:
  "3600000 \<le> cooldownMs vaultcfg_demo \<and> 2 \<le> snd (newRange (rebConfig None slow_demo) (midAt 2 5))
   \<and> drawdownThreshold (rebConfig None slow_demo) < 1"
proof -
  have "is_double (mp_bertUsd (midAt 2 5))" "0 \<le> mp_bertUsd (midAt 2 5)" by (simp_all add: midAt_def is_double_def)
  note safe = accepted_config_safe [OF parse_demo_conforms slow_demo_loads this]
  have "bc_vault slow_demo = Some vaultcfg_demo" "mp_bertUsd (midAt 2 5) = 2" by (simp_all add: slow_demo_def midAt_def)
  then show ?thesis using safe [of None Map.empty] by simp
qed

section \<open>A poll that is too slow\<close>

text \<open>C26: The strategy compares a number of samples with a number of minutes. When the bot polls so slowly that the window of
  \<open>n\<close> minutes holds fewer than \<open>n\<close> samples, which the schema accepts for any interval of more than a minute and a
  window that is long enough, it never rebalances, with the samples one interval apart as the loop takes them, however long the price stays out of the range.\<close>

theorem slow_poll_never_rebalances:
  assumes "conforms url safeParse" "loadConfig parseYaml safeParse yaml = Inr c"
    and "60 * bc_sustainedMinutes c < bc_pollIntervalSec c * (bc_sustainedMinutes c - 1)"
    and "spaced (1000 * \<lfloor>bc_pollIntervalSec c\<rfloor>) (bs_priceHistory state)" "list_all (\<lambda>s. mp_ts s \<le> bs_now state) (bs_priceHistory state)"
    and "0 \<le> bs_now state" "bs_now state < 2 ^ 52"
  shows "decide state (strategyParams c) \<noteq> REBALANCE reason center"
proof -
  have ok: "isInteger (bc_sustainedMinutes c)" "1 \<le> bc_sustainedMinutes c" "bc_sustainedMinutes c \<le> 120" "isInteger (bc_pollIntervalSec c)"
    using loadConfig_ok [OF assms(1,2)] by (simp_all add: botConfigOk_def intIn_def numIn_def)
  define m p where "m = \<lfloor>bc_sustainedMinutes c\<rfloor>" and "p = \<lfloor>bc_pollIntervalSec c\<rfloor>"
  have m: "bc_sustainedMinutes c = of_int m" "bc_pollIntervalSec c = of_int p"
    unfolding m_def p_def using ok(1,4) [unfolded isInteger_def, symmetric] .
  have "(of_int (60 * m) :: rat) < of_int (p * (m - 1))" using assms(3) by (simp add: m)
  then have slow: "60 * m < p * (m - 1)" by (simp only: of_int_less_iff)
  have window: "st_sustainedMinutes (strategyParams c) = of_int m" "1 \<le> m" "m \<le> 120"
    using ok(2,3) by (simp_all add: strategyParams_def m(1))
  have "of_nat (length (recentSamples (strategyParams c) state)) < st_sustainedMinutes (strategyParams c)"
    by (rule few_recent [OF assms(4) [folded p_def] assms(5) window assms(6,7) slow])
  then show ?thesis by (auto simp: decide_def Let_def split: option.splits)
qed

theorem slow_poll_never_rebalances_witness:
  "\<not> inRange (po_range position_demo) 4 \<and>
   (\<nexists>r x. decide \<lparr>bs_price = Some (midAt 4 240000), bs_priceHistory = [midAt 4 0, midAt 4 120000, midAt 4 240000], bs_position = Some position_demo,
     bs_lastRebalanceAt = None, bs_rebalancesToday = 0, bs_killSwitchTripped = False, bs_degraded = False, bs_now = 240000\<rparr> (strategyParams slow_demo)
     = REBALANCE r x)"
proof -
  let ?s = "\<lparr>bs_price = Some (midAt 4 240000), bs_priceHistory = [midAt 4 0, midAt 4 120000, midAt 4 240000], bs_position = Some position_demo,
     bs_lastRebalanceAt = None, bs_rebalancesToday = 0, bs_killSwitchTripped = False, bs_degraded = False, bs_now = 240000\<rparr>"
  have "decide ?s (strategyParams slow_demo) \<noteq> REBALANCE r x" for r x
    by (rule slow_poll_never_rebalances [OF parse_demo_conforms slow_demo_loads])
      (simp_all add: slow_demo_def spaced_def midAt_def)
  then show ?thesis by (auto simp: inRange_def position_demo_def)
qed

end
