(* ===== verification/Startup.thy ===== *)
theory Startup
  imports Lifecycle Config
begin

text \<open>
  The two entry points of the program: \<open>main\<close> of \<open>src/src/main.ts\<close> up to its loop, and \<open>src/src/cli/index.ts\<close> with
  its options. The lemmas show when the bot starts at all and when it starts with the vault; the properties, that a vault
  needs a Telegram channel, and that the founding of the vault from the command line happens completely or not at all.
\<close>

section \<open>venueClient.ts\<close>

datatype AnyVenue = MeteoraImpl MeteoraClient | RaydiumImpl RaydiumClient

text \<open>Before \<open>init\<close>, the field \<open>bertIsX\<close> is not set.\<close>

definition createVenueClient :: "VenueName \<Rightarrow> string \<Rightarrow> string \<Rightarrow> string \<Rightarrow> AnyVenue" where
  "createVenueClient kind poolAddress bertMint payer =
     (case kind of
        MeteoraVenue \<Rightarrow> MeteoraImpl \<lparr>mt_poolAddress = poolAddress, mt_bertMint = bertMint, mt_payer = Some payer, mt_bertIsX = False\<rparr>
      | RaydiumVenue \<Rightarrow> RaydiumImpl \<lparr>rd_poolAddress = poolAddress, rd_bertMint = bertMint, rd_payer = Some payer, rd_cache = None\<rparr>)"

section \<open>main.ts\<close>

text \<open>The token account of a new deposit address: a failure is logged and forgotten. \<open>parse\<close> is \<open>new PublicKey\<close>,
  \<open>existing\<close> the look-up of the account.\<close>

definition ensureAta ::
    "(string \<Rightarrow> string result) \<Rightarrow> ata_fn \<Rightarrow> string \<Rightarrow> string \<Rightarrow> (string \<Rightarrow> bool result) \<Rightarrow> (instr list \<Rightarrow> string result) \<Rightarrow> string \<Rightarrow> unit result" where
  "ensureAta parse ata payer bertMint existing submitTx addr =
     (case thenR (parse addr) (\<lambda>owner.
           thenR (ata bertMint owner False) (\<lambda>account.
           thenR (existing account) (\<lambda>present.
             if present then Inr ''''
             else submitTx [CreateAtaIdempotent payer account owner bertMint]))) of
        Inl _ \<Rightarrow> Inr ()
      | Inr _ \<Rightarrow> Inr ())"

record BootEnv =
  bo_config :: "BotConfig result"
  bo_payer :: "string result"
  bo_init :: "unit result"
  bo_parseKey :: "string \<Rightarrow> string result"
  bo_tipAnswer :: "(string list option \<times> string option) result"
  bo_defaultTips :: "string list"
  bo_samples :: "PriceSample option result list"
  bo_getPosition :: "string \<Rightarrow> rat \<Rightarrow> PositionSnapshot option result"
  bo_masterKey :: "string option"
  bo_decode :: "string \<Rightarrow> bytes"
  bo_ata :: ata_fn
  bo_ataExists :: "bool result"
  bo_submitTx :: "instr list \<Rightarrow> string result"

text \<open>What runs after the start: the client, the Jito client, the parameters of the strategy, the user id that the
  commander obeys if there is a commander, and whether the vault runs and has buttons.\<close>

record Booted =
  bd_client :: AnyVenue
  bd_jito :: "JitoClient option"
  bd_params :: StrategyParams
  bd_operator :: "rat option"
  bd_vault :: bool
  bd_router :: bool

text \<open>The part of the vault wiring that can throw. Whatever it throws is logged, and the vault stays off.\<close>

definition wireVault :: "BootEnv \<Rightarrow> BotConfig \<Rightarrow> string \<Rightarrow> unit result" where
  "wireVault e c payer =
     thenR (loadMasterKey (bo_masterKey e) (bo_decode e)) (\<lambda>masterKey.
     thenR (bo_parseKey e (bc_bertMint c)) (\<lambda>bertMint.
     thenR (preflightVaultAta (bo_ata e) payer bertMint (bo_ataExists e) (bo_submitTx e)) (\<lambda>_. Inr ())))"

definition vaultEnabled :: "BotConfig \<Rightarrow> bool" where
  "vaultEnabled c \<longleftrightarrow> (case bc_vault c of Some v \<Rightarrow> vc_enabled v | None \<Rightarrow> False)"

text \<open>The vault is wired inside the block of the Telegram commander.\<close>

definition vaultWired :: "BootEnv \<Rightarrow> BotConfig \<Rightarrow> string \<Rightarrow> rat option \<Rightarrow> bool" where
  "vaultWired e c payer operator \<longleftrightarrow> operator \<noteq> None \<and> vaultEnabled c \<and> wireVault e c payer = Inr ()"

definition bootBody :: "BootEnv \<Rightarrow> ('i, CliExit + Booted) rebm" where
  "bootBody e =
     andThen (lift (bo_config e)) (\<lambda>c.
     andThen (lift (bo_payer e)) (\<lambda>payer.
     andThen (lift (bo_init e)) (\<lambda>_.
     andThen (startUp (bo_samples e) (bo_getPosition e)) (\<lambda>exit.
       if exit \<noteq> Returned then ret (Inl exit)
       else
         andThen (lift (operatorUserId stringToNumber c)) (\<lambda>operator.
         andThen (notify INFO [Lit (''bert-mm-bot started (dryRun='' @ (if bc_dryRun c then ''true'' else ''false'') @ '')'')]) (\<lambda>_.
         ret (Inr \<lparr>bd_client = createVenueClient (bc_venue c) (bc_poolAddress c) (bc_bertMint c) payer,
                   bd_jito = jitoOf payer (refreshTipAccounts (bo_parseKey e) (bo_tipAnswer e) (bo_defaultTips e)) c,
                   bd_params = strategyParams c, bd_operator = operator, bd_vault = vaultWired e c payer operator,
                   bd_router = (vaultWired e c payer operator \<and> (case bc_vault c of Some v \<Rightarrow> vc_uiButtons v | None \<Rightarrow> False))\<rparr>)))))))"

text \<open>\<open>main().catch\<close>.\<close>

definition boot :: "BootEnv \<Rightarrow> ('i, CliExit + Booted) rebm" where
  "boot e = tryCatch (bootBody e) (\<lambda>_. ret (Inl (Exit 1)))"

section \<open>cli/index.ts\<close>

text \<open>\<open>parseInt(text, 10)\<close>; no digits give NaN.\<close>

definition parseIntDec :: "string \<Rightarrow> int option" where
  "parseIntDec text =
     (let s = dropWhile isWs text;
          signed = (case s of c # _ \<Rightarrow> c = CHR ''-'' \<or> c = CHR ''+'' | [] \<Rightarrow> False);
          neg = (case s of c # _ \<Rightarrow> c = CHR ''-'' | [] \<Rightarrow> False);
          ds = takeWhile isDigit (if signed then tl s else s);
          n = \<lfloor>fl (of_nat (digitsVal ds))\<rfloor>
      in if ds = [] then None else Some (if neg then - n else n))"

definition parseDays :: "string \<Rightarrow> int result" where
  "parseDays text =
     (case parseIntDec text of
        None \<Rightarrow> Inl ''--days must be a positive integer''
      | Some n \<Rightarrow> if n < 1 then Inl ''--days must be a positive integer'' else Inr n)"

definition parseInitialNav :: "string \<Rightarrow> rat result" where
  "parseInitialNav text =
     (case stringToNumber text of
        None \<Rightarrow> Inl ''--initial-nav-usd must be a positive number''
      | Some n \<Rightarrow> if n \<le> 0 then Inl ''--initial-nav-usd must be a positive number'' else Inr n)"

definition parseOperatorId :: "string \<Rightarrow> rat result" where
  "parseOperatorId text =
     (case stringToNumber text of
        None \<Rightarrow> Inl ''--operator-telegram-id must be an integer''
      | Some n \<Rightarrow> if isInteger n then Inr n else Inl ''--operator-telegram-id must be an integer'')"

datatype CliArgs =
    StatusArgs
  | PauseArgs bool
  | CommandArgs CliCommand
  | ReportArgs string
  | BootstrapArgs string "string option"

datatype CliOutput =
    Ended CliExit
  | Switched bool
  | ShowStatus StatusOutput
  | ShowReport Report
  | Founded BootstrapResult

record 'i ProgramEnv =
  pr_config :: "BotConfig result"
  pr_cli :: "'i CliEnv"
  pr_configIo :: "unit result"
  pr_masterKey :: "string option"
  pr_decode :: "string \<Rightarrow> bytes"
  pr_payer :: "string result"
  pr_parseKey :: "string \<Rightarrow> string result"
  pr_ata :: ata_fn
  pr_ataExists :: "string \<Rightarrow> bool result"
  pr_submitTx :: "instr list \<Rightarrow> string result"
  pr_cipher :: cipher
  pr_keypair :: "string \<times> bytes"
  pr_iv :: bytes

definition bootstrapParams :: "'i ProgramEnv \<Rightarrow> bytes \<Rightarrow> string \<Rightarrow> string \<Rightarrow> rat \<Rightarrow> rat \<Rightarrow> BootstrapParams" where
  "bootstrapParams e masterKey payer bertMint operator nav =
     \<lparr>bp_cipher = pr_cipher e, bp_keypair = pr_keypair e, bp_iv = pr_iv e, bp_masterKey = masterKey,
      bp_operatorTelegramId = \<lfloor>operator\<rfloor>, bp_initialNavUsd = nav,
      bp_ensureAta = ensureAta (pr_parseKey e) (pr_ata e) payer bertMint (pr_ataExists e) (pr_submitTx e),
      bp_now = cx_now (pr_cli e)\<rparr>"

definition bootstrapAction :: "'i ProgramEnv \<Rightarrow> string \<Rightarrow> string option \<Rightarrow> BootstrapResult dbm" where
  "bootstrapAction e navText operatorText =
     andThen (lift (parseInitialNav navText)) (\<lambda>nav.
     andThen (lift (case operatorText of None \<Rightarrow> Inr None | Some t \<Rightarrow> thenR (parseOperatorId t) (\<lambda>n. Inr (Some n)))) (\<lambda>operator.
     andThen (lift (pr_config e)) (\<lambda>c.
       case bc_vault c of
         None \<Rightarrow> throw ''vault-bootstrap: config has no `vault` section; add it before bootstrapping''
       | Some v \<Rightarrow>
           andThen (lift (loadMasterKey (pr_masterKey e) (pr_decode e))) (\<lambda>masterKey.
           andThen (lift (pr_payer e)) (\<lambda>payer.
           andThen (lift (pr_parseKey e (bc_bertMint c))) (\<lambda>bertMint.
             runBootstrap (bootstrapParams e masterKey payer bertMint
               (case operator of Some n \<Rightarrow> n | None \<Rightarrow> vc_operatorTelegramId v) nav)))))))"

text \<open>\<open>vault-pause\<close> writes the switch to the configuration file; the state of the engine is otherwise untouched.\<close>

definition switchAction :: "'i ProgramEnv \<Rightarrow> bool \<Rightarrow> bool \<Rightarrow> ('i, CliOutput) rebm" where
  "switchAction e pause enabled s =
     (case runPause (pr_cli e) (pr_configIo e) pause (fst s, enabled) of
        (Inl err, st) \<Rightarrow> (Inl err, (fst st, snd s))
      | (Inr _, st) \<Rightarrow> (Inr (Switched (snd st)), (fst st, snd s)))"

definition cliAction :: "'i ProgramEnv \<Rightarrow> CliArgs \<Rightarrow> ('i, CliOutput) rebm" where
  "cliAction e args =
     (case args of
        StatusArgs \<Rightarrow>
          andThen (lift (pr_config e)) (\<lambda>c.
          andThen (onDb (gets (runStatus (bc_enabled c) (cx_now (pr_cli e))))) (\<lambda>status. ret (ShowStatus status)))
      | PauseArgs pause \<Rightarrow>
          andThen (lift (pr_config e)) (\<lambda>c. switchAction e pause (bc_enabled c))
      | CommandArgs command \<Rightarrow>
          andThen (lift (pr_config e)) (\<lambda>c.
          andThen (runCli (rebConfig None c) (bc_oracleDivergenceBps c) (pr_cli e) command) (\<lambda>exit. ret (Ended exit)))
      | ReportArgs days \<Rightarrow>
          andThen (lift (parseDays days)) (\<lambda>n.
          andThen (lift (pr_config e)) (\<lambda>_.
          andThen (onDb (gets (runReport n (cx_now (pr_cli e))))) (\<lambda>report. ret (ShowReport report))))
      | BootstrapArgs nav operator \<Rightarrow> andThen (onDb (bootstrapAction e nav operator)) (\<lambda>result. ret (Founded result)))"

text \<open>\<open>program.parseAsync(...).catch\<close>.\<close>

definition runProgram :: "'i ProgramEnv \<Rightarrow> CliArgs \<Rightarrow> ('i, CliOutput) rebm" where
  "runProgram e args = tryCatch (cliAction e args) (\<lambda>_. ret (Ended (Exit 1)))"

section \<open>The start of the bot\<close>

text \<open>Database and chain agree, as far as the position can be read.\<close>

definition agrees :: "BootEnv \<Rightarrow> db \<Rightarrow> bool" where
  "agrees e d \<longleftrightarrow>
     (case getCurrentPosition d of
        None \<Rightarrow> True
      | Some p \<Rightarrow>
          (case bo_getPosition e (sp_nftMint p) (tickSolUsd (fetchAllSources (bo_samples e))) of
             Inl _ \<Rightarrow> False
           | Inr onchain \<Rightarrow> reconcile (Some p) onchain = OK_MATCH))"

lemma reconcile_match: "reconcile (Some p) onchain \<in> {OK_MATCH} \<or> (\<exists>reason. reconcile (Some p) onchain = MISMATCH reason)"
  by (auto simp: reconcile_def split: option.splits)

lemma startUp_cases:
  assumes "startUp (bo_samples e) (bo_getPosition e) (d, es) = (r, s')"
  obtains (thrown) err where "r = Inl err" "s' = (d, es)"
  | (agreed) "r = Inr Returned" "s' = (d, es)" "agrees e d"
  | (refused) m where "r = Inr (Exit 2)" "s' = (d, es @ [Notified CRITICAL m])"
proof (cases "getCurrentPosition d")
  case None
  then show ?thesis using assms agreed by (auto simp: startUp_def exn_simps reconcile_def agrees_def)
next
  case (Some p)
  show ?thesis
  proof (cases "bo_getPosition e (sp_nftMint p) (tickSolUsd (fetchAllSources (bo_samples e)))")
    case (Inl err)
    with Some assms show ?thesis by (auto simp: startUp_def exn_simps intro: thrown)
  next
    case (Inr onchain)
    with Some assms show ?thesis
      using reconcile_match [of p onchain] by (auto simp: startUp_def exn_simps agrees_def intro: agreed refused)
  qed
qed

definition hasTelegram :: "BotConfig \<Rightarrow> bool" where
  "hasTelegram c \<longleftrightarrow> (case bc_notifier c of None \<Rightarrow> False | Some n \<Rightarrow> nc_telegram n \<noteq> None)"

lemma operatorUserId_Some:
  assumes "operatorUserId number c = Inr op"
  shows "vaultEnabled c \<Longrightarrow> op = (if hasTelegram c then map_option vc_operatorTelegramId (bc_vault c) else None)"
    and "\<not> hasTelegram c \<Longrightarrow> op = None"
  using assms by (auto simp: operatorUserId_def vaultEnabled_def hasTelegram_def Let_def split: option.splits if_splits)

lemma vaultWired_iff:
  "operatorUserId number c = Inr op \<Longrightarrow> vaultWired e c payer op \<longleftrightarrow> hasTelegram c \<and> vaultEnabled c \<and> wireVault e c payer = Inr ()"
  using operatorUserId_Some [of number c op] by (auto simp: vaultWired_def vaultEnabled_def split: option.splits)

lemma bootBody_cases:
  assumes "bootBody e (d, es) = (r, s')"
  obtains (thrown) err new where "r = Inl err" "s' = (d, es @ new)" "landed new = []" "asked new = []"
  | (exited) new where "r = Inr (Inl (Exit 2))" "s' = (d, es @ new)" "landed new = []" "asked new = []"
  | (started) c payer op new b where "r = Inr (Inr b)" "s' = (d, es @ new)" "landed new = []" "asked new = []"
      "bo_config e = Inr c" "bo_payer e = Inr payer" "bo_init e = Inr ()" "agrees e d" "operatorUserId stringToNumber c = Inr op"
      "bd_operator b = op" "bd_vault b = vaultWired e c payer op" "bd_params b = strategyParams c"
      "bd_client b = createVenueClient (bc_venue c) (bc_poolAddress c) (bc_bertMint c) payer"
proof -
  obtain r1 s1 where st: "startUp (bo_samples e) (bo_getPosition e) (d, es) = (r1, s1)" by (cases "startUp (bo_samples e) (bo_getPosition e) (d, es)")
  show ?thesis
  proof (cases "\<exists>c payer. bo_config e = Inr c \<and> bo_payer e = Inr payer \<and> bo_init e = Inr ()")
    case False
    then show ?thesis
      using assms by (cases "bo_config e"; cases "bo_payer e"; cases "bo_init e") (auto simp: bootBody_def exn_simps intro!: thrown [of _ "[]"])
  next
    case True
    then obtain c payer where c: "bo_config e = Inr c" "bo_payer e = Inr payer" "bo_init e = Inr ()" by blast
    from st show ?thesis
    proof (cases rule: startUp_cases)
      case (thrown err)
      with c st assms show ?thesis by (auto simp: bootBody_def exn_simps intro!: that(1) [of _ "[]"])
    next
      case (refused m)
      with c st assms show ?thesis by (auto simp: bootBody_def exn_simps intro!: that(2) [of "[Notified CRITICAL m]"])
    next
      case agreed
      show ?thesis
      proof (cases "operatorUserId stringToNumber c")
        case (Inl err)
        with c st agreed assms show ?thesis by (auto simp: bootBody_def exn_simps intro!: that(1) [of _ "[]"])
      next
        case (Inr op)
        let ?m = "Notified INFO [Lit (''bert-mm-bot started (dryRun='' @ (if bc_dryRun c then ''true'' else ''false'') @ '')'')]"
        from Inr c st agreed assms show ?thesis
          by (intro that(3) [of _ "[?m]" c payer op]) (auto simp: bootBody_def exn_simps)
      qed
    qed
  qed
qed

lemma boot_run:
  assumes "boot e (d, es) = (Inr (Inr b), s')"
  shows "\<exists>c payer. bo_config e = Inr c \<and> bo_payer e = Inr payer \<and> bo_init e = Inr () \<and> agrees e d
    \<and> (bd_vault b \<longleftrightarrow> hasTelegram c \<and> vaultEnabled c \<and> wireVault e c payer = Inr ())
    \<and> (bd_vault b \<longrightarrow> bd_operator b = map_option vc_operatorTelegramId (bc_vault c))"
proof -
  obtain r1 s1 where run: "bootBody e (d, es) = (r1, s1)" by (cases "bootBody e (d, es)")
  then show ?thesis
  proof (cases rule: bootBody_cases)
    case (started c payer op new b1)
    then have "b1 = b" using run assms by (auto simp: boot_def tryCatch_def)
    with started show ?thesis
      using vaultWired_iff [OF started(9), of e payer] operatorUserId_Some(1) [OF started(9)] by auto
  qed (use run assms in \<open>auto simp: boot_def tryCatch_def ret_def\<close>)
qed


text \<open>C35: A vault needs a Telegram channel. The comment in \<open>main.ts\<close> says that the vault runs in the loop also when Telegram is
  not configured, but it is wired inside the block of the commander: with the vault enabled and only a Discord channel, the
  bot starts without the vault, and in no number of ticks sweeps a deposit or pays a queued withdrawal.\<close>

theorem vault_needs_telegram:
  assumes "boot e (d, es) = (Inr (Inr b), s')" "bo_config e = Inr c" "vaultEnabled c" "\<not> hasTelegram c" "mc_vault cfg = bd_vault b"
  shows "\<not> bd_vault b \<and> b_payouts (ticks cfg tes s) = b_payouts s \<and> b_sweeps (ticks cfg tes s) = b_sweeps s"
proof -
  have "\<not> bd_vault b"
    using boot_run [OF assms(1)] assms(2,4) by auto
  then show ?thesis using idle_ticks [of cfg s tes] assms(5) by (simp add: idle_def)
qed

definition discord_demo :: BotConfig where
  "discord_demo = slow_demo\<lparr>bc_notifier := Some \<lparr>nc_telegram = None,
     nc_discord = Some \<lparr>dch_webhookInfo = ''https://d'', dch_webhookCritical = ''https://e''\<rparr>\<rparr>\<rparr>"

definition boot_env_demo :: BootEnv where
  "boot_env_demo = \<lparr>bo_config = Inr discord_demo, bo_payer = Inr ''payer'', bo_init = Inr (), bo_parseKey = Inr, bo_tipAnswer = Inl ''down'',
     bo_defaultTips = [''tip''], bo_samples = [], bo_getPosition = (\<lambda>_ _. Inr None), bo_masterKey = Some ''key'',
     bo_decode = (\<lambda>_. replicate 32 0), bo_ata = (\<lambda>m w _. Inr (w @ m)), bo_ataExists = Inr True, bo_submitTx = (\<lambda>_. Inr ''sig'')\<rparr>"

lemma boot_demo_run: "\<exists>b s'. boot boot_env_demo (init_db, []) = (Inr (Inr b), s')"
  by (simp add: boot_def bootBody_def exn_simps boot_env_demo_def startUp_def getCurrentPosition_def init_db_def reconcile_def
      operatorUserId_def discord_demo_def slow_demo_def vaultcfg_demo_def Let_def)


theorem vault_needs_telegram_witness:
  "\<exists>b s'. boot boot_env_demo (init_db, [] :: nat effect list) = (Inr (Inr b), s') \<and> \<not> bd_vault b
     \<and> b_payouts (ticks (main_demo\<lparr>mc_vault := bd_vault b\<rparr>) [tick_demo False] (start queue_demo)) = []"
proof -
  obtain b and s' :: "db \<times> nat effect list" where run: "boot boot_env_demo (init_db, []) = (Inr (Inr b), s')" using boot_demo_run by blast
  have c: "bo_config boot_env_demo = Inr discord_demo" "vaultEnabled discord_demo" "\<not> hasTelegram discord_demo"
    by (simp_all add: boot_env_demo_def vaultEnabled_def hasTelegram_def discord_demo_def slow_demo_def vaultcfg_demo_def)
  have m: "mc_vault (main_demo\<lparr>mc_vault := bd_vault b\<rparr>) = bd_vault b" by simp
  from vault_needs_telegram [OF run c m, of "[tick_demo False]" "start queue_demo"] run show ?thesis
    by (auto simp: start_def)
qed

section \<open>The command line\<close>

lemma finiteDouble_Some: "finiteDouble x = Some y \<Longrightarrow> is_double y"
  by (auto simp: finiteDouble_def is_double_def Let_def split: if_splits)

lemma stringToNumber_double: "stringToNumber text = Some x \<Longrightarrow> is_double x"
  by (auto simp: stringToNumber_def Let_def Option.bind_eq_Some_conv dest: finiteDouble_Some
      split: option.splits if_splits list.splits) (simp_all add: is_double_def)

lemma parseInitialNav_ok: "parseInitialNav text = Inr n \<Longrightarrow> 0 < n \<and> is_double n"
  by (auto simp: parseInitialNav_def stringToNumber_double split: option.splits if_splits)

lemma ensureAta_ok [simp]: "ensureAta parse ata payer mint existing submitTx addr = Inr ()"
  by (simp add: ensureAta_def split: sum.splits)

lemma bootstrapAction_cases:
  assumes "store_wf d" "bootstrapAction e navText operatorText d = (r, d')"
  obtains (refused) err where "r = Inl err" "d' = d"
  | (opened) c v nav operator masterKey payer mint enc p where "pr_config e = Inr c" "bc_vault c = Some v" "parseInitialNav navText = Inr nav"
      "operatorText = None \<and> operator = vc_operatorTelegramId v \<or> (\<exists>t. operatorText = Some t \<and> parseOperatorId t = Inr operator)"
      "p = bootstrapParams e masterKey payer mint operator nav" "vault_users d = []" "length masterKey = 32"
      "d' = founded p enc d" "r = Inr \<lparr>br_operatorTelegramId = \<lfloor>operator\<rfloor>, br_depositAddress = fst (pr_keypair e),
         br_initialShares = nav, br_navPerShare = 1\<rparr>"
proof -
  define chosen where "chosen = (case operatorText of None \<Rightarrow> Inr None | Some t \<Rightarrow> thenR (parseOperatorId t) (\<lambda>n. Inr (Some n)))"
  show ?thesis
  proof (cases "\<exists>c v nav op masterKey payer mint. pr_config e = Inr c \<and> bc_vault c = Some v \<and> parseInitialNav navText = Inr nav
      \<and> chosen = Inr op \<and> loadMasterKey (pr_masterKey e) (pr_decode e) = Inr masterKey \<and> pr_payer e = Inr payer
      \<and> pr_parseKey e (bc_bertMint c) = Inr mint")
    case False
    then have "\<exists>err. bootstrapAction e navText operatorText d = (Inl err, d)"
      unfolding bootstrapAction_def chosen_def [symmetric]
      by (cases "parseInitialNav navText"; cases chosen; cases "pr_config e"; cases "loadMasterKey (pr_masterKey e) (pr_decode e)";
          cases "pr_payer e"; cases "pr_parseKey e (bc_bertMint (projr (pr_config e)))") (auto simp: exn_simps split: option.splits)
    then show ?thesis using assms(2) refused by auto
  next
    case True
    then obtain c v nav op masterKey payer mint where c: "pr_config e = Inr c" "bc_vault c = Some v" "parseInitialNav navText = Inr nav"
      "chosen = Inr op" "loadMasterKey (pr_masterKey e) (pr_decode e) = Inr masterKey" "pr_payer e = Inr payer"
      "pr_parseKey e (bc_bertMint c) = Inr mint" by blast
    define operator where "operator = (case op of Some n \<Rightarrow> n | None \<Rightarrow> vc_operatorTelegramId v)"
    define p where "p = bootstrapParams e masterKey payer mint operator nav"
    have run: "runBootstrap p d = (r, d')"
      using assms(2) c by (simp add: bootstrapAction_def chosen_def exn_simps p_def operator_def)
    have op: "operatorText = None \<and> operator = vc_operatorTelegramId v \<or> (\<exists>t. operatorText = Some t \<and> parseOperatorId t = Inr operator)"
      using c(4) by (cases operatorText) (auto simp: chosen_def operator_def thenR_def split: sum.splits)
    from assms(1) run show ?thesis
    proof (cases rule: runBootstrap_cases)
      case (opened enc)
      then show ?thesis
        using that(2) [OF c(1-3) op p_def, of enc] by (simp add: p_def bootstrapParams_def thenR_def)
    qed (use refused in blast)
  qed
qed

text \<open>C10: The founding from the command line happens completely or not at all. Whatever the options, the environment variable,
  the files and the node, \<open>vault-bootstrap\<close> either exits with code 1 and changes nothing, or reports success, and then the
  vault had no user before, its only user is now the operator given by the option or else by the configuration, and he holds
  as many shares as the opening value that was typed, which is positive.\<close>

theorem cli_bootstrap_atomic:
  assumes "store_wf d" "runProgram e (BootstrapArgs navText operatorText) (d, es) = (r, (d', es'))"
  shows "es' = es \<and> (r = Inr (Ended (Exit 1)) \<and> d' = d
    \<or> (\<exists>c v nav operator result. pr_config e = Inr c \<and> bc_vault c = Some v \<and> parseInitialNav navText = Inr nav \<and> 0 < nav
        \<and> (operatorText = None \<and> operator = vc_operatorTelegramId v \<or> (\<exists>t. operatorText = Some t \<and> parseOperatorId t = Inr operator))
        \<and> r = Inr (Founded result) \<and> br_operatorTelegramId result = \<lfloor>operator\<rfloor> \<and> br_initialShares result = nav
        \<and> vault_users d = [] \<and> map u_telegram_id (vault_users d') = [\<lfloor>operator\<rfloor>]
        \<and> (\<forall>u. getShares u d' = (if u = \<lfloor>operator\<rfloor> then nav else 0))))"
proof -
  obtain r1 d1 where run: "bootstrapAction e navText operatorText d = (r1, d1)" by (cases "bootstrapAction e navText operatorText d")
  have all: "runProgram e (BootstrapArgs navText operatorText) (d, es) =
      ((case r1 of Inl err \<Rightarrow> Inr (Ended (Exit 1)) | Inr result \<Rightarrow> Inr (Founded result)), (d1, es))"
    by (cases r1) (simp_all add: runProgram_def cliAction_def exn_simps onDb_def run tryCatch_def andThen_def ret_def)
  from assms(1) run show ?thesis
  proof (cases rule: bootstrapAction_cases)
    case (refused err)
    with all assms(2) show ?thesis by simp
  next
    case (opened c v nav operator masterKey payer mint enc p)
    have nav: "0 < nav" "is_double nav" using parseInitialNav_ok [OF opened(3)] by simp_all
    have p: "bp_initialNavUsd p = nav" "bp_operatorTelegramId p = \<lfloor>operator\<rfloor>" using opened(5) by (simp_all add: bootstrapParams_def)
    have dbl: "is_double (bp_initialNavUsd p)" using nav(2) p(1) by simp
    note eff = founded_effect [OF assms(1) opened(6) dbl, where enc = enc, unfolded p]
    show ?thesis
      using all assms(2) opened eff(1,2) nav(1) by auto
  qed
qed

definition program_demo :: "nat ProgramEnv" where
  "program_demo = \<lparr>pr_config = Inr slow_demo, pr_cli = cli_demo, pr_configIo = Inr (), pr_masterKey = Some ''key'',
     pr_decode = (\<lambda>_. replicate 32 0), pr_payer = Inr ''payer'', pr_parseKey = Inr, pr_ata = (\<lambda>m w _. Inr (w @ m)),
     pr_ataExists = (\<lambda>_. Inl ''rpc down''), pr_submitTx = (\<lambda>_. Inl ''rpc down''), pr_cipher = null_cipher,
     pr_keypair = (''opkey'', [1, 2]), pr_iv = replicate 12 0\<rparr>"

theorem cli_bootstrap_atomic_witness:
  "getShares 42 (fst (snd (runProgram program_demo (BootstrapArgs ''500'' None) (init_db, [])))) = 500"
proof -
  have "vaultInv (start init_db)" by (rule vaultInv_init)
  then have i: "store_wf init_db" by (simp add: vaultInv_def start_def)
  obtain r d' es' where run: "runProgram program_demo (BootstrapArgs ''500'' None) (init_db, []) = (r, (d', es'))" by (metis prod.exhaust)
  have "stringToNumber ''500'' = Some 500"
    by (simp add: stringToNumber_def Let_def trim_def isWs_def parseRadix_def parseUnsigned_def isDigit_def digitsVal_def digitVal_def
        finiteDouble_def radixOf_def)
  then have n: "parseInitialNav ''500'' = Inr 500" by (simp add: parseInitialNav_def)
  let ?p = "bootstrapParams program_demo (replicate 32 0) ''payer'' (bc_bertMint slow_demo) 42 500"
  have action: "bootstrapAction program_demo ''500'' None init_db = runBootstrap ?p init_db"
    by (simp add: bootstrapAction_def exn_simps n) (simp add: program_demo_def slow_demo_def vaultcfg_demo_def exn_simps loadMasterKey_def truthy_def)
  obtain x d1 where boot: "runBootstrap ?p init_db = (Inr x, d1)"
  proof (cases "runBootstrap ?p init_db")
    case (Pair x d1)
    from i Pair show ?thesis
    proof (cases rule: runBootstrap_cases)
      case (refused err)
      then show ?thesis by (simp add: init_db_def bootstrapParams_def)
    next
      case (opened enc)
      with Pair show ?thesis by (intro that) (simp add: bootstrapParams_def thenR_def)
    qed
  qed
  have "r = Inr (Founded x)"
    using run by (simp add: runProgram_def cliAction_def onDb_def action boot tryCatch_def andThen_def ret_def)
  with cli_bootstrap_atomic [OF i run] n run show ?thesis
    by (auto simp: program_demo_def slow_demo_def vaultcfg_demo_def)
qed

section \<open>Both entry points keep the vault\<close>

lemma evolves_runPause: "evolves d (fst (snd (runPause e io b (d, en))))"
  by (cases io) (auto simp: runPause_def andThen_def lift_def modify_def onDb_def ret_def ev.refl)

lemma stays_bootstrapAction: "stays evolves (bootstrapAction e navText operatorText)"
  unfolding stays_def
proof
  fix d
  obtain r d' where run: "bootstrapAction e navText operatorText d = (r, d')" by (cases "bootstrapAction e navText operatorText d")
  show "evolves d (snd (bootstrapAction e navText operatorText d))"
  proof (cases "store_wf d")
    case True
    from True run show ?thesis
    proof (cases rule: bootstrapAction_cases)
      case (opened c v nav operator masterKey payer mint enc p)
      have "is_double (bp_initialNavUsd p)" using parseInitialNav_ok [OF opened(3)] opened(5) by (simp add: bootstrapParams_def)
      then show ?thesis using evolves_founded [OF True opened(6)] run opened(8) by simp
    qed (simp add: run ev.refl)
  qed (simp add: evolves_def)
qed

lemma stays_switchAction: "stays evolvesLog (switchAction e pause enabled)"
proof -
  have "evolvesLog (d, es) (snd (switchAction e pause enabled (d, es)))" for d es
    using evolves_runPause [of d "pr_cli e" "pr_configIo e" pause enabled]
    by (auto simp: switchAction_def evolvesLog_def split: prod.splits sum.splits)
  then show ?thesis by (simp add: stays_def)
qed

lemma stays_runProgram:
  assumes "calmReb (cx_rebalance (pr_cli e))" shows "stays evolvesLog (runProgram e args)"
proof -
  have "stays evolvesLog (cliAction e args)"
    unfolding cliAction_def
    by (auto intro!: evl_rules stays_switchAction stays_runCli [OF assms] stays_bootstrapAction split: CliArgs.splits)
  then show ?thesis unfolding runProgram_def by (auto intro!: evl_rules)
qed

lemma stays_boot: "stays evolvesLog (boot e)"
  unfolding stays_def
proof
  fix s :: "db \<times> 'a effect list"
  obtain d es where s: "s = (d, es)" by (cases s)
  obtain r s' where run: "bootBody e (d, es) = (r, s')" by (cases "bootBody e (d, es)")
  then show "evolvesLog s (snd (boot e s))"
    by (cases rule: bootBody_cases) (auto simp: s boot_def tryCatch_def ret_def run evolvesLog_def ev.refl)
qed

end
