(* ===== verification/Transport.thy ===== *)
theory Transport
  imports Telegram_Properties Cli
begin

text \<open>
  What leaves the process by HTTP: \<open>reply\<close>, \<open>deleteMessage\<close> and \<open>answerCallbackQuery\<close> of
  \<open>src/src/telegramCommander.ts\<close> and the posts of \<open>src/src/notifier.ts\<close>. \<open>fetch\<close> is a parameter, the requests and the timers
  that were set are the state. The lemmas show that no request throws and how many there are; the property follows
  the secret of the second factor to the message that carries it.
\<close>

section \<open>Requests\<close>

datatype HttpRequest =
    SendMessage int "frag list" "InlineKeyboardMarkup option" bool
  | SendPhoto int "frag list" string "InlineKeyboardMarkup option" bool
  | DeleteMessage int int
  | AnswerCallbackQuery string "string option"
  | Posted Post

text \<open>\<open>ha_messageId\<close> is what \<open>res.json()\<close> yields: it may throw, and the answer may have no numeric id.\<close>

record HttpAnswer =
  ha_ok :: bool
  ha_messageId :: "int option result"

type_synonym http = "HttpRequest \<Rightarrow> HttpAnswer result"

text \<open>A timer: its delay and the message it deletes.\<close>

record Outbox =
  ob_requests :: "HttpRequest list"
  ob_timers :: "(int \<times> int \<times> int) list"

type_synonym 'a httpm = "(Outbox, 'a) exn"

definition fetch :: "http \<Rightarrow> HttpRequest \<Rightarrow> HttpAnswer httpm" where
  "fetch h r = andThen (modify (\<lambda>ob. ob\<lparr>ob_requests := ob_requests ob @ [r]\<rparr>)) (\<lambda>_. lift (h r))"

text \<open>A request whose failure is only logged.\<close>

definition fetchLogged :: "http \<Rightarrow> HttpRequest \<Rightarrow> unit httpm" where
  "fetchLogged h r = tryCatch (andThen (fetch h r) (\<lambda>_. ret ())) (\<lambda>_. ret ())"

section \<open>telegramCommander.ts\<close>

definition replyRequest :: "int \<Rightarrow> frag list \<Rightarrow> extras \<Rightarrow> HttpRequest" where
  "replyRequest chatId text x =
     (if truthy (ex_photoBase64 x) then SendPhoto chatId text (the (ex_photoBase64 x)) (ex_keyboard x) (ex_markdown x)
      else SendMessage chatId text (ex_keyboard x) (ex_markdown x))"

definition scheduleDelete :: "int \<Rightarrow> int \<Rightarrow> HttpAnswer \<Rightarrow> unit httpm" where
  "scheduleDelete chatId selfDestructMs res =
     tryCatch
       (andThen (lift (ha_messageId res)) (\<lambda>messageId.
          case messageId of
            Some i \<Rightarrow> modify (\<lambda>ob. ob\<lparr>ob_timers := ob_timers ob @ [(selfDestructMs, chatId, i)]\<rparr>)
          | None \<Rightarrow> ret ()))
       (\<lambda>_. ret ())"

definition sendReply :: "http \<Rightarrow> int \<Rightarrow> frag list \<Rightarrow> extras \<Rightarrow> unit httpm" where
  "sendReply h chatId text x =
     tryCatch
       (andThen (fetch h (replyRequest chatId text x)) (\<lambda>res.
          case ex_selfDestructMs x of
            Some ms \<Rightarrow> if ms \<noteq> 0 \<and> ha_ok res then scheduleDelete chatId ms res else ret ()
          | None \<Rightarrow> ret ()))
       (\<lambda>_. ret ())"

definition deleteMessage :: "http \<Rightarrow> int \<Rightarrow> int \<Rightarrow> unit httpm" where
  "deleteMessage h chatId messageId = fetchLogged h (DeleteMessage chatId messageId)"

definition answerCallbackQuery :: "http \<Rightarrow> string \<Rightarrow> string option \<Rightarrow> unit httpm" where
  "answerCallbackQuery h queryId text =
     fetchLogged h (AnswerCallbackQuery queryId (if truthy text then text else None))"

text \<open>The replies of a handler, in the order in which it makes them.\<close>

fun sendReplies :: "http \<Rightarrow> Reply list \<Rightarrow> unit httpm" where
  "sendReplies h [] = ret ()"
| "sendReplies h (r # rs) = andThen (sendReply h (rp_chatId r) (rp_text r) (rp_extras r)) (\<lambda>_. sendReplies h rs)"

text \<open>A timer that fires.\<close>

definition fire :: "http \<Rightarrow> int \<times> int \<times> int \<Rightarrow> unit httpm" where
  "fire h t = (case t of (_, chatId, messageId) \<Rightarrow> deleteMessage h chatId messageId)"

section \<open>notifier.ts\<close>

definition postDiscord :: "http \<Rightarrow> string \<Rightarrow> frag list \<Rightarrow> unit httpm" where
  "postDiscord h url content = fetchLogged h (Posted (PostDiscord url content))"

definition postTelegram :: "http \<Rightarrow> string \<Rightarrow> string \<Rightarrow> frag list \<Rightarrow> unit httpm" where
  "postTelegram h token chatId text = fetchLogged h (Posted (PostTelegram token chatId text))"

fun sendAll :: "http \<Rightarrow> Post list \<Rightarrow> unit httpm" where
  "sendAll h [] = ret ()"
| "sendAll h (PostDiscord url content # ps) = andThen (postDiscord h url content) (\<lambda>_. sendAll h ps)"
| "sendAll h (PostTelegram token chatId text # ps) = andThen (postTelegram h token chatId text) (\<lambda>_. sendAll h ps)"

definition notifierSend :: "http \<Rightarrow> NotifierChannels \<Rightarrow> int \<Rightarrow> Severity \<Rightarrow> frag list \<Rightarrow> unit httpm" where
  "notifierSend h channels now sev message = sendAll h (sendPosts channels now sev message)"

section \<open>What a request does\<close>

lemma fetch_run [exn_simps]: "fetch h r ob = (h r, ob\<lparr>ob_requests := ob_requests ob @ [r]\<rparr>)"
  by (simp add: fetch_def exn_simps)

lemma fetchLogged_run [exn_simps]: "fetchLogged h r ob = (Inr (), ob\<lparr>ob_requests := ob_requests ob @ [r]\<rparr>)"
  by (cases "h r") (simp_all add: fetchLogged_def exn_simps)

text \<open>The timers that a reply sets.\<close>

definition timersOf :: "http \<Rightarrow> int \<Rightarrow> frag list \<Rightarrow> extras \<Rightarrow> (int \<times> int \<times> int) list" where
  "timersOf h chatId text x =
     (case (ex_selfDestructMs x, h (replyRequest chatId text x)) of
        (Some ms, Inr res) \<Rightarrow>
          (case ha_messageId res of Inr (Some i) \<Rightarrow> if ms \<noteq> 0 \<and> ha_ok res then [(ms, chatId, i)] else [] | _ \<Rightarrow> [])
      | _ \<Rightarrow> [])"

lemma sendReply_run [exn_simps]:
  "sendReply h chatId text x ob = (Inr (), ob\<lparr>ob_requests := ob_requests ob @ [replyRequest chatId text x],
     ob_timers := ob_timers ob @ timersOf h chatId text x\<rparr>)"
  by (cases "h (replyRequest chatId text x)")
    (auto simp: sendReply_def scheduleDelete_def timersOf_def exn_simps split: option.splits sum.splits)

lemma sendReplies_run [exn_simps]:
  "sendReplies h rs ob = (Inr (), ob\<lparr>ob_requests := ob_requests ob @ map (\<lambda>r. replyRequest (rp_chatId r) (rp_text r) (rp_extras r)) rs,
     ob_timers := ob_timers ob @ concat (map (\<lambda>r. timersOf h (rp_chatId r) (rp_text r) (rp_extras r)) rs)\<rparr>)"
  by (induction rs arbitrary: ob) (simp_all add: exn_simps)

lemma sendAll_run [exn_simps]: "sendAll h ps ob = (Inr (), ob\<lparr>ob_requests := ob_requests ob @ map Posted ps\<rparr>)"
  by (induction ps arbitrary: ob rule: sendAll.induct) (simp_all add: postDiscord_def postTelegram_def exn_simps)

section \<open>The secret of the second factor\<close>

lemma onStore_replies: "onStore m s = (r, t) \<Longrightarrow> ch_replies t = ch_replies s"
  by (auto simp: onStore_def split: prod.splits)

lemma silent_effects:
  "onStore (accept en u now) s = (r1, t) \<Longrightarrow> ch_replies t = ch_replies s"
  "onStore (gets f) s = (r2, t) \<Longrightarrow> r2 = Inr (f (ch_db s)) \<and> ch_replies t = ch_replies s"
  "onStore (beginTotpEnrollment en u) s = (Inr secret, t) \<Longrightarrow> secret = en_secret en \<and> ch_replies t = ch_replies s"
  "setPending u p s = (r3, t) \<Longrightarrow> ch_replies t = ch_replies s" "clearPending u s = (r4, t) \<Longrightarrow> ch_replies t = ch_replies s"
  "nowMs e s = (r5, t) \<Longrightarrow> ch_replies t = ch_replies s" "clearSetupFailures u s = (r6, t) \<Longrightarrow> ch_replies t = ch_replies s"
  "auditWrite ts u ev det s = (r7, t) \<Longrightarrow> ch_replies t = ch_replies s" "lift x s = (r8, t) \<Longrightarrow> t = s"
  "reply e c txt ex s = (r9, t) \<Longrightarrow> ch_replies t = ch_replies s @ [\<lparr>rp_chatId = c, rp_text = txt, rp_extras = ex\<rparr>]"
  by (auto simp: onStore_def beginTotpEnrollment_def andThen_def gets_def throw_def lift_def modify_def ret_def auditWrite_def
      setPending_def clearPending_def nowMs_def clearSetupFailures_def reply_def Let_def
      split: prod.splits if_splits sum.splits)

lemma accept_reply:
  assumes "handleAccept e chatId u s = (Inr (), s')" "ch_pending s u = Some PDisclaimer"
  shows "\<exists>r. ch_replies s' = ch_replies s @ [r] \<and> Lit (en_secret (ce_enroll e)) \<in> set (rp_text r)
    \<and> ex_selfDestructMs (rp_extras r) = None"
  using assms
  by (auto simp: handleAccept_def gets_def kb_def noExtras_def andThen_Inr dest!: silent_effects)

lemma account_reply:
  assumes "handleAccount e chatId u s = (Inr (), s')" "getUser u (ch_db s) = Some v" "vu_totpEnrolledAt v = None"
  shows "\<exists>r. ch_replies s' = ch_replies s @ [r] \<and> Lit (en_secret (ce_enroll e)) \<in> set (rp_text r)
    \<and> ex_selfDestructMs (rp_extras r) = Some 300000 \<and> rp_chatId r = chatId"
  using assms
  by (auto simp: handleAccount_def kb_def noExtras_def andThen_Inr dest!: silent_effects)

text \<open>Every request is answered with the id of the message.\<close>

definition delivers :: "http \<Rightarrow> bool" where
  "delivers h \<longleftrightarrow> (\<forall>r. \<exists>res i. h r = Inr res \<and> ha_ok res \<and> ha_messageId res = Inr (Some i))"

text \<open>C36: The secret of the second factor stays in the chat. A user who asks again for the secret before confirming it gets it in
  a message that is deleted after five minutes. But the first time, when the user accepts the terms, the message that
  carries the secret and its QR code sets no timer: the bot never deletes it.\<close>

theorem enrollment_secret_lingers:
  assumes "delivers h" "handleAccept e chatId u s = (Inr (), s')" "ch_pending s u = Some PDisclaimer"
    and "handleAccount e2 chatId2 v t = (Inr (), t')" "getUser v (ch_db t) = Some vu" "vu_totpEnrolledAt vu = None"
  shows "(\<exists>r ob'. ch_replies s' = ch_replies s @ [r] \<and> Lit (en_secret (ce_enroll e)) \<in> set (rp_text r)
      \<and> sendReplies h [r] ob = (Inr (), ob') \<and> ob_timers ob' = ob_timers ob)
    \<and> (\<exists>r ob' i. ch_replies t' = ch_replies t @ [r] \<and> Lit (en_secret (ce_enroll e2)) \<in> set (rp_text r)
      \<and> sendReplies h [r] ob = (Inr (), ob') \<and> ob_timers ob' = ob_timers ob @ [(300000, chatId2, i)])"
proof
  obtain r where r: "ch_replies s' = ch_replies s @ [r]" "Lit (en_secret (ce_enroll e)) \<in> set (rp_text r)"
    "ex_selfDestructMs (rp_extras r) = None" using accept_reply [OF assms(2,3)] by blast
  then show "\<exists>r ob'. ch_replies s' = ch_replies s @ [r] \<and> Lit (en_secret (ce_enroll e)) \<in> set (rp_text r)
      \<and> sendReplies h [r] ob = (Inr (), ob') \<and> ob_timers ob' = ob_timers ob"
    by (simp add: exn_simps timersOf_def)
  obtain q where q: "ch_replies t' = ch_replies t @ [q]" "Lit (en_secret (ce_enroll e2)) \<in> set (rp_text q)"
    "ex_selfDestructMs (rp_extras q) = Some 300000" "rp_chatId q = chatId2" using account_reply [OF assms(4-6)] by blast
  obtain res i where "h (replyRequest chatId2 (rp_text q) (rp_extras q)) = Inr res" "ha_ok res" "ha_messageId res = Inr (Some i)"
    using assms(1) unfolding delivers_def by blast
  with q show "\<exists>r ob' i. ch_replies t' = ch_replies t @ [r] \<and> Lit (en_secret (ce_enroll e2)) \<in> set (rp_text r)
      \<and> sendReplies h [r] ob = (Inr (), ob') \<and> ob_timers ob' = ob_timers ob @ [(300000, chatId2, i)]"
    by (simp add: exn_simps timersOf_def)
qed

definition http_demo :: http where
  "http_demo r = Inr \<lparr>ha_ok = True, ha_messageId = Inr (Some 5)\<rparr>"

definition accept_demo :: Session where
  "accept_demo = session_demo\<lparr>ch_db := init_db, ch_pending := [7 \<mapsto> PDisclaimer]\<rparr>"

definition account_demo :: Session where
  "account_demo = session_demo\<lparr>ch_db := user_demo\<rparr>"

theorem enrollment_secret_lingers_witness:
  "\<exists>r ob'. Lit ''NEW'' \<in> set (rp_text r) \<and> ch_replies (snd (handleAccept cmd_demo 1 7 accept_demo)) = [r]
     \<and> sendReplies http_demo [r] \<lparr>ob_requests = [], ob_timers = []\<rparr> = (Inr (), ob') \<and> ob_timers ob' = []"
proof -
  have h: "delivers http_demo" by (simp add: delivers_def http_demo_def)
  have ok: "fst (handleAccept cmd_demo 1 7 accept_demo) = Inr ()" "fst (handleAccount cmd_demo 1 7 account_demo) = Inr ()"
    by (simp_all add: handleAccept_def handleAccount_def exn_simps accept_demo_def account_demo_def session_demo_def cmd_demo_def
        clearPending_def setPending_def nowMs_def onStore_def auditWrite_def clearSetupFailures_def reply_def kb_def Let_def
        accept_def beginTotpEnrollment_def encrypt_def null_cipher_def init_db_def getUser_def findUserRow_def createUser_def
        user_demo_def writeAudit_def rowToUser_def emptyTable_def)
  have a: "handleAccept cmd_demo 1 7 accept_demo = (Inr (), snd (handleAccept cmd_demo 1 7 accept_demo))"
    "handleAccount cmd_demo 1 7 account_demo = (Inr (), snd (handleAccount cmd_demo 1 7 account_demo))"
    using ok by (simp_all add: prod_eq_iff)
  have p: "ch_pending accept_demo 7 = Some PDisclaimer" by (simp add: accept_demo_def)
  have u: "getUser 7 (ch_db account_demo) = Some (the (getUser 7 (ch_db account_demo)))"
    "vu_totpEnrolledAt (the (getUser 7 (ch_db account_demo))) = None" by code_simp+
  have n: "ch_replies accept_demo = []" "en_secret (ce_enroll cmd_demo) = ''NEW''"
    by (simp_all add: accept_demo_def session_demo_def cmd_demo_def)
  from enrollment_secret_lingers [OF h a(1) p a(2) u, of "\<lparr>ob_requests = [], ob_timers = []\<rparr>"] show ?thesis
    by (auto simp: n)
qed

end
