(* ===== verification/Bundle_Poll.thy ===== *)
theory Bundle_Poll
  imports Config
begin

text \<open>
  The loop of \<open>src/src/jitoClient.ts\<close> that waits for a bundle, with its clock: \<open>while (Date.now() < deadline)\<close>. In
  \<open>Tx_Submitter\<close> the loop is the recursion \<open>pollBundle\<close> over the answers that arrive before the deadline; here it is the
  loop itself, which might as well run for ever, and the property is that it ends, within how many requests, and that its
  result is that of the recursion.
\<close>

section \<open>The loop\<close>

text \<open>What one answer to \<open>getBundleStatuses\<close> decides; an answer that cannot be read, a bundle that is not known yet and
  one that failed all mean to ask again.\<close>

definition bundleVerdict :: "string \<Rightarrow> BundleStatus option result \<Rightarrow> string option" where
  "bundleVerdict expectedSig answer =
     (case answer of
        Inr (Some status) \<Rightarrow>
          if bu_err status \<noteq> None then None
          else if bu_confirmation status = Some ''confirmed'' \<or> bu_confirmation status = Some ''finalized''
          then Some (case bu_transaction status of Some g \<Rightarrow> g | None \<Rightarrow> expectedSig)
          else None
      | _ \<Rightarrow> None)"

text \<open>\<open>clock n\<close> is \<open>Date.now()\<close> at the start of the round \<open>n\<close>, \<open>ask n\<close> the answer in that round. The value is the
  result and the number of requests; no value means that the loop does not end.\<close>

partial_function (option) pollUntil ::
    "(nat \<Rightarrow> int) \<Rightarrow> rat \<Rightarrow> (nat \<Rightarrow> BundleStatus option result) \<Rightarrow> string \<Rightarrow> nat \<Rightarrow> (string option \<times> nat) option" where
  "pollUntil clock deadline ask expectedSig n =
     (if of_int (clock n) < deadline
      then (case bundleVerdict expectedSig (ask n) of
              Some sig \<Rightarrow> Some (Some sig, Suc n)
            | None \<Rightarrow> pollUntil clock deadline ask expectedSig (Suc n))
      else Some (None, n))"

definition waitBundle ::
    "(nat \<Rightarrow> int) \<Rightarrow> int \<Rightarrow> rat \<Rightarrow> (nat \<Rightarrow> BundleStatus option result) \<Rightarrow> string \<Rightarrow> (string option \<times> nat) option" where
  "waitBundle clock now timeout ask expectedSig = pollUntil clock (nadd (of_int now) timeout) ask expectedSig 0"

section \<open>It ends\<close>

lemma pollBundle_Cons:
  "pollBundle expectedSig (x # polls) = (case bundleVerdict expectedSig x of Some sig \<Rightarrow> Some sig | None \<Rightarrow> pollBundle expectedSig polls)"
  by (cases x; cases "projr x") (auto simp: bundleVerdict_def split: option.splits)

text \<open>As long as every round takes its time, the time that is left is a measure.\<close>

lemma pollUntil_ends:
  assumes "\<forall>n. clock n + 1500 \<le> clock (Suc n)"
  shows "\<exists>r k. pollUntil clock (of_int deadline) ask expectedSig n = Some (r, k) \<and> n \<le> k
    \<and> r = pollBundle expectedSig (map ask [n..<k]) \<and> (n < k \<longrightarrow> clock (k - 1) < deadline)"
proof (induction "nat (deadline - clock n)" arbitrary: n rule: less_induct)
  case less
  show ?case
  proof (cases "clock n < deadline \<and> bundleVerdict expectedSig (ask n) = None")
    case True
    have "nat (deadline - clock (Suc n)) < nat (deadline - clock n)" using spec [OF assms, of n] True by simp
    from less [OF this] obtain r k where k: "pollUntil clock (of_int deadline) ask expectedSig (Suc n) = Some (r, k)"
      "Suc n \<le> k" "r = pollBundle expectedSig (map ask [Suc n..<k])" "Suc n < k \<longrightarrow> clock (k - 1) < deadline" by blast
    have "[n..<k] = n # [Suc n..<k]" using k(2) by (simp add: upt_conv_Cons)
    moreover have "clock (k - 1) < deadline" using k(2,4) True by (cases "k = Suc n") auto
    ultimately show ?thesis
      using k True by (intro exI [of _ r] exI [of _ k]) (simp add: pollUntil.simps [of clock _ ask _ n] pollBundle_Cons)
  next
    case False
    then show ?thesis
      by (cases "clock n < deadline") (auto simp: pollUntil.simps [of clock _ ask _ n] pollBundle_Cons)
  qed
qed

lemma clock_runs:
  assumes "\<forall>n. clock n + 1500 \<le> clock (Suc n)" shows "clock 0 + 1500 * int n \<le> clock n"
proof (induction n)
  case (Suc n)
  then show ?case using spec [OF assms, of n] by simp
qed simp

text \<open>C24: The wait for a bundle ends. With any accepted configuration, and whatever the block engine answers or fails to
  answer, at most forty requests are made, provided that a round takes at least the 1.5 seconds it sleeps; the result is what
  the first of the answers that decides says, and that the bundle did not land if none does.\<close>

theorem bundle_wait_ends:
  assumes "conforms url safeParse" "loadConfig parseYaml safeParse yaml = Inr c" "bc_mevProtection c = Some m"
    and "\<forall>n. clock n + 1500 \<le> clock (Suc n)" "now \<le> clock 0" "0 \<le> now" "now < 2 ^ 52"
  shows "\<exists>r k. waitBundle clock now (mv_bundleTimeoutMs m) ask expectedSig = Some (r, k) \<and> k \<le> 40
    \<and> r = pollBundle expectedSig (map ask [0..<k])"
proof -
  have m: "isInteger (mv_bundleTimeoutMs m)" "5000 \<le> mv_bundleTimeoutMs m" "mv_bundleTimeoutMs m \<le> 60000"
    using loadConfig_ok [OF assms(1,2)] assms(3) by (simp_all add: botConfigOk_def mevProtectionOk_def intIn_def numIn_def)
  define t where "t = \<lfloor>mv_bundleTimeoutMs m\<rfloor>"
  have t: "mv_bundleTimeoutMs m = of_int t" unfolding t_def using m(1) [unfolded isInteger_def] by (rule sym)
  have range: "5000 \<le> t" "t \<le> 60000" using m(2,3) by (simp_all add: t)
  then have deadline: "nadd (of_int now) (mv_bundleTimeoutMs m) = of_int (now + t)"
    using assms(6,7) fl_of_int [of "now + t"] by (simp add: nadd_def t)
  obtain r k where k: "pollUntil clock (of_int (now + t)) ask expectedSig 0 = Some (r, k)"
    "r = pollBundle expectedSig (map ask [0..<k])" "0 < k \<longrightarrow> clock (k - 1) < now + t"
    using pollUntil_ends [OF assms(4)] by blast
  have "k \<le> 40"
  proof (cases "0 < k")
    case True
    then have "clock 0 + 1500 * int (k - 1) < now + t" using k(3) clock_runs [OF assms(4), of "k - 1"] by linarith
    then show ?thesis using True assms(5) range by linarith
  qed simp
  then show ?thesis using k unfolding waitBundle_def deadline by blast
qed

definition mev_demo :: BotConfig where
  "mev_demo = slow_demo\<lparr>bc_mevProtection := Some \<lparr>mv_enabled = True, mv_blockEngineUrl = ''https://c'', mv_tipLamports = 100000,
     mv_bundleTimeoutMs = 30000\<rparr>\<rparr>"

theorem bundle_wait_ends_witness:
  "\<exists>k \<le> 40. waitBundle (\<lambda>n. 1500 * int n) 0 30000 (\<lambda>_. Inl ''down'') ''sig'' = Some (None, k)"
proof -
  have "botConfigOk (\<lambda>s. take 8 s = ''https://'') mev_demo"
    using slow_demo_loads [of "[]"]
    by (simp add: botConfigOk_def mev_demo_def loadConfig_def parse_demo_def mevProtectionOk_def intIn_def numIn_def isInteger_def
        split: if_splits)
  then have load: "loadConfig (\<lambda>_. Inr mev_demo) parse_demo [] = Inr mev_demo" by (simp add: loadConfig_def parse_demo_def)
  have none: "pollBundle ''sig'' (map (\<lambda>_. Inl ''down'') xs) = None" for xs :: "nat list" by (induction xs) simp_all
  obtain mv where mv: "bc_mevProtection mev_demo = Some mv" "mv_bundleTimeoutMs mv = 30000" by (simp add: mev_demo_def)
  have "\<exists>r k. waitBundle (\<lambda>n. 1500 * int n) 0 (mv_bundleTimeoutMs mv) (\<lambda>_. Inl ''down'') ''sig'' = Some (r, k) \<and> k \<le> 40
    \<and> r = pollBundle ''sig'' (map (\<lambda>_. Inl ''down'') [0..<k])"
    by (rule bundle_wait_ends [OF parse_demo_conforms load mv(1)]) simp_all
  then show ?thesis by (auto simp: none mv(2))
qed

end
