(* ===== verification/Scripts.thy ===== *)
theory Scripts
  imports Raydium
begin

text \<open>
  The scripts under \<open>src/scripts/\<close> that send transactions: \<open>rescue-tx.ts\<close>, which empties the hot wallet after its key
  leaked, \<open>create-meteora-pool.ts\<close> and \<open>seed-swap.ts\<close>. What the node, the SDK, the files and the price services answer is
  in a record of the environment; a script that throws exits with code 1. The state of the last two is the list of
  transactions handed to the node. The lemmas show under which guards a transaction is sent; the property, when the rescue
  works.
\<close>

text \<open>\<open>parseFloat(text)\<close>: the longest prefix that is a decimal literal; no such prefix gives NaN. A text that begins with
  \<open>Infinity\<close> or denotes a number beyond the doubles is taken for one that is not a number.\<close>

definition parseFloat :: "string \<Rightarrow> rat option" where
  "parseFloat text =
     (let s = dropWhile isWs text;
          signed = (case s of c # _ \<Rightarrow> c = CHR ''-'' \<or> c = CHR ''+'' | [] \<Rightarrow> False);
          neg = (case s of c # _ \<Rightarrow> c = CHR ''-'' | [] \<Rightarrow> False);
          u = (if signed then tl s else s)
      in case List.map_filter (\<lambda>n. parseUnsigned (take n u)) (rev [0..<Suc (length u)]) of
           [] \<Rightarrow> None
         | x # _ \<Rightarrow> finiteDouble (if neg then - x else x))"

section \<open>rescue-tx.ts\<close>

datatype RescueStep =
    CreateAta string string string string
  | is_TokenTransfer: TokenTransfer string string string int
  | SolTransfer string string rat

text \<open>The argument, the parsing of a key, the wallet of the key file, the derivation of token accounts, whether the token account
  of the destination exists, the amount on that of the wallet, and what the node says of balance, rent and transaction.\<close>

record RescueEnv =
  re_dest :: "string option"
  re_parseKey :: "string \<Rightarrow> string result"
  re_payer :: "string result"
  re_ata :: ata_fn
  re_toAtaInfo :: "bool result"
  re_fromAccount :: "int result"
  re_balance :: "int result"
  re_rentExempt :: "int result"
  re_send :: "RescueStep list \<Rightarrow> string result"

definition rescueSteps :: "string \<Rightarrow> string \<Rightarrow> string \<Rightarrow> string \<Rightarrow> bool \<Rightarrow> int result \<Rightarrow> rat \<Rightarrow> RescueStep list" where
  "rescueSteps payer dest fromAta toAta present fromAccount lamportsToSend =
     (if present then [] else [CreateAta payer toAta dest BERT_MINT])
     @ (case fromAccount of
          Inl _ \<Rightarrow> []
        | Inr amount \<Rightarrow> if amount > 0 then [TokenTransfer fromAta toAta payer amount] else [])
     @ (if lamportsToSend > 0 then [SolTransfer payer dest lamportsToSend] else [])"

definition rescue :: "RescueEnv \<Rightarrow> string result" where
  "rescue e =
     (if \<not> truthy (re_dest e) then Inl ''usage: rescue-tx.ts <destination>''
      else
        thenR (re_parseKey e (the (re_dest e))) (\<lambda>dest.
        thenR (re_payer e) (\<lambda>payer.
        thenR (re_ata e BERT_MINT payer False) (\<lambda>fromAta.
        thenR (re_ata e BERT_MINT dest False) (\<lambda>toAta.
        thenR (re_toAtaInfo e) (\<lambda>present.
        thenR (re_balance e) (\<lambda>balance.
        thenR (re_rentExempt e) (\<lambda>rentExempt.
          re_send e (rescueSteps payer dest fromAta toAta present (re_fromAccount e)
            (nsub (nsub (of_int balance) (of_int rentExempt)) 5000))))))))))"

section \<open>create-meteora-pool.ts\<close>

record PresetEntry =
  pe_publicKey :: string
  pe_binStep :: int
  pe_baseFactor :: int

definition BIN_STEP :: int where
  "BIN_STEP = 10"

definition BASE_FACTOR :: int where
  "BASE_FACTOR = 10000"

definition FALLBACK_PRICE :: rat where
  "FALLBACK_PRICE = fl (125 / 1000000)"

text \<open>\<open>--list-presets\<close>: the presets of low fee, each with its fee, in the order of the fees.\<close>

definition presetFee :: "PresetEntry \<Rightarrow> rat" where
  "presetFee p = ndiv (nmul (nmul (of_int (pe_binStep p)) (of_int (pe_baseFactor p))) 10) (10 ^ 9)"

definition lowFeePresets :: "PresetEntry list \<Rightarrow> (PresetEntry \<times> rat) list" where
  "lowFeePresets ps = sort_key snd (filter (\<lambda>p. snd p \<le> fl (3 / 1000)) (map (\<lambda>p. (p, presetFee p)) ps))"

text \<open>The value of \<open>rpcPrimary\<close> is \<open>None\<close> when it is not a string.\<close>

definition loadRpcUrl :: "string option result \<Rightarrow> string result" where
  "loadRpcUrl config = thenR config (\<lambda>rpc. if truthy rpc then Inr (the rpc) else Inl ''rpcPrimary not found or empty'')"

text \<open>\<open>mathLog\<close> is \<open>Math.log\<close>, whose last digits the language leaves to the implementation.\<close>

definition priceToActiveBinId :: "(rat \<Rightarrow> rat) \<Rightarrow> rat \<Rightarrow> int \<Rightarrow> int" where
  "priceToActiveBinId mathLog price binStep = \<lfloor>ndiv (mathLog price) (mathLog (nadd 1 (ndiv (of_int binStep) 10000)))\<rfloor>"

fun firstPrice :: "string option list \<Rightarrow> rat option" where
  "firstPrice [] = None"
| "firstPrice (priceNative # pairs) =
     (if \<not> truthy priceNative then firstPrice pairs
      else case parseFloat (the priceNative) of
          Some price \<Rightarrow> if price > 0 then Some price else firstPrice pairs
        | None \<Rightarrow> firstPrice pairs)"

text \<open>\<open>dex\<close> holds the native prices of the pairs, if the answer has pairs; \<open>jup\<close> the price of the entry, if there is one.\<close>

definition fetchBertSolPrice :: "string option list option http \<Rightarrow> string option http \<Rightarrow> rat" where
  "fetchBertSolPrice dex jup =
     (case (case dex of Inr (Some (Some pairs)) \<Rightarrow> firstPrice pairs | _ \<Rightarrow> None) of
        Some price \<Rightarrow> price
      | None \<Rightarrow>
          (case (case jup of Inr (Some price) \<Rightarrow> firstPrice [price] | _ \<Rightarrow> None) of
             Some price \<Rightarrow> price
           | None \<Rightarrow> FALLBACK_PRICE))"

record 'i PoolEnv =
  cr_dryRun :: bool
  cr_config :: "string option result"
  cr_wallet :: "string result"
  cr_balance :: "int result"
  cr_pair :: "string \<Rightarrow> string \<Rightarrow> string option result"
  cr_presets :: "(PresetEntry list option \<times> PresetEntry list option) result"
  cr_dex :: "string option list option http"
  cr_jup :: "string option http"
  cr_ln :: "rat \<Rightarrow> rat"
  cr_createLbPair :: "string \<Rightarrow> string \<Rightarrow> string \<Rightarrow> int \<Rightarrow> int \<Rightarrow> string \<Rightarrow> int \<Rightarrow> 'i result"
  cr_send :: "'i \<Rightarrow> string result"
  cr_pairAfter :: "string \<Rightarrow> string \<Rightarrow> string option result"

datatype PoolOutcome = PoolExists string | PoolDryRun int | PoolCreated string "string option"

text \<open>Both orders of the tokens; a look-up that throws counts as no pool.\<close>

definition existingPool :: "(string \<Rightarrow> string \<Rightarrow> string option result) \<Rightarrow> string option" where
  "existingPool pair =
     (case pair BERT_MINT SOL_MINT of
        Inr (Some pool) \<Rightarrow> Some pool
      | _ \<Rightarrow> (case pair SOL_MINT BERT_MINT of Inr found \<Rightarrow> found | Inl _ \<Rightarrow> None))"

text \<open>After the creation the reverse order is tried only when the first look-up throws.\<close>

definition createdPool :: "(string \<Rightarrow> string \<Rightarrow> string option result) \<Rightarrow> string option" where
  "createdPool pair =
     (case pair BERT_MINT SOL_MINT of
        Inr found \<Rightarrow> found
      | Inl _ \<Rightarrow> (case pair SOL_MINT BERT_MINT of Inr found \<Rightarrow> found | Inl _ \<Rightarrow> None))"

definition matchingPreset :: "PresetEntry list option \<times> PresetEntry list option \<Rightarrow> PresetEntry option" where
  "matchingPreset found =
     find (\<lambda>p. pe_binStep p = BIN_STEP \<and> pe_baseFactor p = BASE_FACTOR)
       ((case fst found of Some ps \<Rightarrow> ps | None \<Rightarrow> []) @ (case snd found of Some ps \<Rightarrow> ps | None \<Rightarrow> []))"

definition sendTx :: "('i \<Rightarrow> string result) \<Rightarrow> 'i \<Rightarrow> ('i list, string) exn" where
  "sendTx send tx = andThen (modify (\<lambda>sent. sent @ [tx])) (\<lambda>_. lift (send tx))"

definition createPool :: "'i PoolEnv \<Rightarrow> ('i list, PoolOutcome) exn" where
  "createPool e =
     andThen (lift (loadRpcUrl (cr_config e))) (\<lambda>_.
     andThen (lift (cr_wallet e)) (\<lambda>wallet.
     andThen (lift (cr_balance e)) (\<lambda>balanceLamports.
       if ndiv (of_int balanceLamports) (10 ^ 9) < fl (5 / 100)
       then throw ''Insufficient SOL balance. Need at least 0.05 SOL for rent + tx fees.''
       else
         case existingPool (cr_pair e) of
           Some pool \<Rightarrow> ret (PoolExists pool)
         | None \<Rightarrow>
             andThen (lift (cr_presets e)) (\<lambda>presets.
               case matchingPreset presets of
                 None \<Rightarrow> throw ''No matching preset parameter found. Choose a valid (binStep, baseFactor) combo from the list above.''
               | Some preset \<Rightarrow>
                   let activeId = priceToActiveBinId (cr_ln e) (fetchBertSolPrice (cr_dex e) (cr_jup e)) BIN_STEP
                   in if cr_dryRun e then ret (PoolDryRun activeId)
                      else
                        andThen (lift (cr_createLbPair e wallet BERT_MINT SOL_MINT BIN_STEP BASE_FACTOR (pe_publicKey preset) activeId)) (\<lambda>tx.
                        andThen (sendTx (cr_send e) tx) (\<lambda>sig.
                        ret (PoolCreated sig (createdPool (cr_pairAfter e)))))))))"

section \<open>seed-swap.ts\<close>

definition SWAP_AMOUNT_BERT_RAW :: int where
  "SWAP_AMOUNT_BERT_RAW = 100000000"

definition seedSlippageBps :: int where
  "seedSlippageBps = 500"

text \<open>The configuration holds the pool and the mint. \<open>se_quote\<close> is \<open>swapQuote\<close> over \<open>getBinArrayForSwap\<close>: amount, whether Y is
  bought, slippage.\<close>

record 'i SeedEnv =
  se_dryRun :: bool
  se_config :: "(string \<times> string) result"
  se_wallet :: "string result"
  se_create :: "string \<Rightarrow> 'i Dlmm result"
  se_quote :: "int \<Rightarrow> bool \<Rightarrow> int \<Rightarrow> int result"
  se_send :: "'i tx \<Rightarrow> string result"

definition seedSwap :: "'i SeedEnv \<Rightarrow> ('i tx list, string option) exn" where
  "seedSwap e =
     andThen (lift (se_config e)) (\<lambda>(poolAddress, bertMint).
     andThen (lift (se_wallet e)) (\<lambda>_.
     andThen (lift (se_create e poolAddress)) (\<lambda>dl.
     andThen (lift (dl_refetchStates dl)) (\<lambda>_.
       let bertIsX = (dl_tokenX dl = bertMint);
           inToken = (if bertIsX then dl_tokenX dl else dl_tokenY dl);
           outToken = (if bertIsX then dl_tokenY dl else dl_tokenX dl)
       in andThen (lift (dl_activeBin dl)) (\<lambda>_.
          andThen (lift (se_quote e SWAP_AMOUNT_BERT_RAW bertIsX seedSlippageBps)) (\<lambda>minOut.
            if se_dryRun e then ret None
            else
              andThen (lift (dl_swap dl inToken outToken SWAP_AMOUNT_BERT_RAW minOut)) (\<lambda>tx.
              andThen (sendTx (se_send e) tx) (\<lambda>sig. ret (Some sig)))))))))"

section \<open>What is sent\<close>

lemma firstPrice_pos: "firstPrice ps = Some p \<Longrightarrow> 0 < p"
  by (induction ps rule: firstPrice.induct) (auto split: if_splits option.splits)

lemma fetchBertSolPrice_pos: "0 < fetchBertSolPrice dex jup"
proof -
  have "0 < FALLBACK_PRICE" using dbl.rnd_lower [of "125 / 1000000"] by (simp add: FALLBACK_PRICE_def roundoff_def tiny_def)
  then show ?thesis
    unfolding fetchBertSolPrice_def by (auto split: option.splits sum.splits dest: firstPrice_pos)
qed

lemma matchingPreset_ok: "matchingPreset found = Some p \<Longrightarrow> pe_binStep p = BIN_STEP \<and> pe_baseFactor p = BASE_FACTOR"
  by (auto simp: matchingPreset_def find_Some_iff)

text \<open>The pool is created at most once, never in a dry run, and only if neither look-up found one.\<close>

lemma createPool_sends:
  assumes "createPool e sent = (r, sent')" "sent' \<noteq> sent"
  shows "\<not> cr_dryRun e \<and> existingPool (cr_pair e) = None \<and> (\<exists>tx wallet presets preset. sent' = sent @ [tx] \<and> cr_wallet e = Inr wallet
    \<and> cr_presets e = Inr presets \<and> matchingPreset presets = Some preset
    \<and> cr_createLbPair e wallet BERT_MINT SOL_MINT BIN_STEP BASE_FACTOR (pe_publicKey preset)
        (priceToActiveBinId (cr_ln e) (fetchBertSolPrice (cr_dex e) (cr_jup e)) BIN_STEP) = Inr tx)"
  using assms
  by (auto simp: createPool_def sendTx_def andThen_def lift_def modify_def ret_def throw_def Let_def
      split: sum.splits option.splits if_splits)

text \<open>The seed swap sells one fixed amount of BERT, at most once, and nothing in a dry run.\<close>

lemma seedSwap_sells:
  assumes "seedSwap e sent = (r, sent')" "sent' \<noteq> sent"
  shows "\<not> se_dryRun e \<and> (\<exists>pool bert dl tx m. sent' = sent @ [tx] \<and> se_config e = Inr (pool, bert) \<and> se_create e pool = Inr dl
    \<and> (if dl_tokenX dl = bert then dl_swap dl bert (dl_tokenY dl) SWAP_AMOUNT_BERT_RAW m
       else dl_swap dl (dl_tokenY dl) (dl_tokenX dl) SWAP_AMOUNT_BERT_RAW m) = Inr tx)"
  using assms
  by (auto simp: seedSwap_def sendTx_def andThen_def lift_def modify_def ret_def throw_def Let_def
      split: sum.splits option.splits if_splits prod.splits)

section \<open>The rescue\<close>

text \<open>The lamports that a transaction takes from the wallet: the fee, what it sends, and the rent of a token account it
  creates. The node executes no transaction that takes more than the wallet has.\<close>

fun stepDebit :: "rat \<Rightarrow> RescueStep \<Rightarrow> rat" where
  "stepDebit ataRent (CreateAta payer account owner mint) = ataRent"
| "stepDebit ataRent (SolTransfer from to lamports) = lamports"
| "stepDebit ataRent (TokenTransfer from to owner amount) = 0"

definition debit :: "rat \<Rightarrow> RescueStep list \<Rightarrow> rat" where
  "debit ataRent steps = 5000 + sum_list (map (stepDebit ataRent) steps)"

definition settles :: "rat \<Rightarrow> int \<Rightarrow> (RescueStep list \<Rightarrow> string result) \<Rightarrow> bool" where
  "settles ataRent balance send \<longleftrightarrow> (\<forall>steps sig. send steps = Inr sig \<longrightarrow> debit ataRent steps \<le> of_int balance)"

lemma lamports_exact:
  assumes "0 \<le> rent" "rent + 5000 < balance" "balance < 2 ^ 53"
  shows "nsub (nsub (of_int balance) (of_int rent)) 5000 = of_int (balance - rent - 5000)"
proof -
  have "nsub (of_int balance) (of_int rent) = of_int (balance - rent)"
    using fl_of_int [of "balance - rent"] assms by (simp add: nsub_def)
  then show ?thesis using fl_of_int [of "balance - rent - 5000"] assms by (simp add: nsub_def)
qed

lemma rescue_sent:
  assumes "rescue e = Inr sig" "re_balance e = Inr balance" "re_rentExempt e = Inr rent"
    and "0 \<le> rent" "rent + 5000 < balance" "balance < 2 ^ 53"
  obtains payer dest fromAta toAta present where "re_toAtaInfo e = Inr present"
    "re_send e (rescueSteps payer dest fromAta toAta present (re_fromAccount e) (of_int (balance - rent - 5000))) = Inr sig"
  using assms(1-3) lamports_exact [OF assms(4-6)]
  by (auto simp: rescue_def thenR_Inr split: if_splits)

text \<open>C37: The rescue of a leaked wallet. When it reports success, one transaction has moved the BERT balance it read and all SOL but
  the rent and the fee. But it keeps back only the rent of the wallet, not that of the token account it may have to create:
  to a destination that has no BERT account yet it always fails, and then neither SOL nor BERT is rescued. And when the account of the wallet cannot
  be read, for whatever reason, the success that is reported leaves all BERT behind.\<close>

theorem rescue_outcome:
  assumes "settles (of_int ataRent) balance (re_send e)" "re_balance e = Inr balance" "re_rentExempt e = Inr rent"
    and "0 \<le> rent" "rent < ataRent" "rent + 5000 < balance" "balance < 2 ^ 53"
  shows "(re_toAtaInfo e = Inr False \<longrightarrow> (\<exists>err. rescue e = Inl err))
    \<and> (\<forall>sig. rescue e = Inr sig \<longrightarrow> (\<exists>payer dest fromAta toAta steps. re_send e steps = Inr sig
          \<and> SolTransfer payer dest (of_int (balance - rent - 5000)) \<in> set steps
          \<and> (\<forall>amount. re_fromAccount e = Inr amount \<and> 0 < amount \<longrightarrow> TokenTransfer fromAta toAta payer amount \<in> set steps)
          \<and> (\<forall>err. re_fromAccount e = Inl err \<longrightarrow> \<not> list_ex is_TokenTransfer steps)))"
proof
  have "re_toAtaInfo e \<noteq> Inr False" if "rescue e = Inr sig" for sig
  proof
    assume fresh: "re_toAtaInfo e = Inr False"
    from that assms(2-4,6,7) obtain payer dest fromAta toAta present where s: "re_toAtaInfo e = Inr present"
      "re_send e (rescueSteps payer dest fromAta toAta present (re_fromAccount e) (of_int (balance - rent - 5000))) = Inr sig"
      by (rule rescue_sent)
    then have "debit (of_int ataRent) (rescueSteps payer dest fromAta toAta False (re_fromAccount e) (of_int (balance - rent - 5000)))
        \<le> of_int balance" using assms(1) fresh by (simp add: settles_def)
    then have "(of_int ataRent :: rat) \<le> of_int rent"
      using assms(6) by (simp add: debit_def rescueSteps_def split: sum.splits if_splits)
    then show False using assms(5) by simp
  qed
  then show "re_toAtaInfo e = Inr False \<longrightarrow> (\<exists>err. rescue e = Inl err)" by (cases "rescue e") auto
  show "\<forall>sig. rescue e = Inr sig \<longrightarrow> (\<exists>payer dest fromAta toAta steps. re_send e steps = Inr sig
          \<and> SolTransfer payer dest (of_int (balance - rent - 5000)) \<in> set steps
          \<and> (\<forall>amount. re_fromAccount e = Inr amount \<and> 0 < amount \<longrightarrow> TokenTransfer fromAta toAta payer amount \<in> set steps)
          \<and> (\<forall>err. re_fromAccount e = Inl err \<longrightarrow> \<not> list_ex is_TokenTransfer steps))"
  proof (intro allI impI)
    fix sig
    assume "rescue e = Inr sig"
    from this assms(2-4,6,7) obtain payer dest fromAta toAta present where s: "re_toAtaInfo e = Inr present"
      "re_send e (rescueSteps payer dest fromAta toAta present (re_fromAccount e) (of_int (balance - rent - 5000))) = Inr sig"
      by (rule rescue_sent)
    have "0 < (of_int (balance - rent - 5000) :: rat)" using assms(6) by simp
    with s(2) show "\<exists>payer dest fromAta toAta steps. re_send e steps = Inr sig
          \<and> SolTransfer payer dest (of_int (balance - rent - 5000)) \<in> set steps
          \<and> (\<forall>amount. re_fromAccount e = Inr amount \<and> 0 < amount \<longrightarrow> TokenTransfer fromAta toAta payer amount \<in> set steps)
          \<and> (\<forall>err. re_fromAccount e = Inl err \<longrightarrow> \<not> list_ex is_TokenTransfer steps)"
      by (intro exI [of _ payer] exI [of _ dest] exI [of _ fromAta] exI [of _ toAta] exI conjI) (assumption | simp add: rescueSteps_def)+
  qed
qed

text \<open>A wallet with one SOL and 700 BERT; a node that executes what the wallet can pay.\<close>

definition rescue_demo :: "bool \<Rightarrow> RescueEnv" where
  "rescue_demo present = \<lparr>re_dest = Some ''safe'', re_parseKey = Inr, re_payer = Inr ''payer'', re_ata = (\<lambda>m w _. Inr (w @ m)),
     re_toAtaInfo = Inr present, re_fromAccount = Inr 700000000, re_balance = Inr 1000000000, re_rentExempt = Inr 890880,
     re_send = (\<lambda>steps. if debit 2039280 steps \<le> 1000000000 then Inr ''sig'' else Inl ''insufficient lamports'')\<rparr>"

theorem rescue_outcome_witness:
  "(\<exists>err. rescue (rescue_demo False) = Inl err) \<and> rescue (rescue_demo True) = Inr ''sig''"
proof
  have s: "settles (of_int 2039280) 1000000000 (re_send (rescue_demo False))"
    by (simp add: settles_def rescue_demo_def)
  have e: "re_balance (rescue_demo False) = Inr 1000000000" "re_rentExempt (rescue_demo False) = Inr 890880"
    "re_toAtaInfo (rescue_demo False) = Inr False" by (simp_all add: rescue_demo_def)
  from rescue_outcome [OF s e(1,2)] e(3) show "\<exists>err. rescue (rescue_demo False) = Inl err" by simp
  show "rescue (rescue_demo True) = Inr ''sig''"
    using lamports_exact [of 890880 1000000000]
    by (simp add: rescue_def rescue_demo_def truthy_def rescueSteps_def debit_def)
qed

end
