(* ===== verification/Spec2Isabelle.thy ===== *)
theory Spec2Isabelle
  imports Startup Transport Bundle_Poll Scripts
begin

text \<open>
  \<^bold>\<open>Bert-MM-Bot\<close>, a market-making bot for one token (BERT) on Solana with a vault in which other people deposit.
  This development models the TypeScript sources under \<open>src/src/\<close> and \<open>src/scripts/\<close> and proves what makes them correct.

  \<^bold>\<open>The program.\<close> One process runs a loop (\<open>main.ts\<close>). A tick reads prices from several sources and forms a trusted one
  (\<open>priceOracle.ts\<close>, \<open>priceFetchers.ts\<close>), looks for deposits and sweeps them into the main wallet for shares (\<open>vault/\<close>),
  reads the position of the bot from the venue (\<open>meteoraClient.ts\<close> or \<open>raydiumClient.ts\<close>), decides (\<open>strategy.ts\<close>),
  possibly closes the position and opens a new one (\<open>rebalancer.ts\<close>, through \<open>txSubmitter.ts\<close> and \<open>jitoClient.ts\<close>), pays
  queued withdrawals and activates withdrawal addresses. Between two ticks, and while a tick waits for the network,
  Telegram updates are handled: requests of users (\<open>vault/commands.ts\<close>) and of the operator
  (\<open>vault/operatorCommands.ts\<close>), dispatched by \<open>telegramCommander.ts\<close>. A command line (\<open>cli/\<close>) works on the same SQLite
  database. The parts share that database, the chain and a few flags.

  \<^bold>\<open>How it is modelled.\<close> The database is the record \<open>db\<close> with one field per table; a method of a store is a function on
  it. Code that can throw is a function in the monad \<open>('s, 'a) exn\<close> of the prelude, which returns an error or a value and
  the new state, and keeps the writes made before a throw, as the code does; \<open>withTransaction\<close> is the construct that undoes
  them. JavaScript numbers are rationals that are rounded to IEEE double precision after every operation (\<open>Js_Number\<close>);
  overflow to infinity and NaN are not modelled. A \<open>bigint\<close> is an \<open>int\<close>. What the program cannot decide is in a record
  of the environment that each operation takes: the answers of nodes and services, the clock, whether a transaction
  landed whatever was reported, a database fault, and the writes of other tasks during an \<open>await\<close>, as functions named
  \<open>meanwhile\<close>. The properties hold for all environments, or for those with a named property such as \<open>truthful\<close>, \<open>honest\<close>
  or \<open>calmTick\<close>. Logs of what landed on chain (payouts, sweeps, effects) are part of the state.

  \<^bold>\<open>The theories\<close>, in the order of the imports, and what they show:
  \<^item> \<open>Prelude\<close>: the monad, \<open>stays\<close> and the locale \<open>store_order\<close>, with which a relation between the states before and after
    is carried through programs; facts on lists and tables. \<open>Js_Number\<close>, \<open>Js_String\<close>: numbers and strings of the language.
  \<^item> \<open>State_Store\<close> (\<open>stateStore.ts\<close>), \<open>Depositor_Store\<close> (\<open>vault/depositorStore.ts\<close>, \<open>vault/types.ts\<close>), \<open>Share_Math\<close>
    (\<open>vault/shareMath.ts\<close>, \<open>vault/navSnapshot.ts\<close>): the tables and the arithmetic. \<open>Store_Laws\<close>: the invariant \<open>store_wf\<close> and what
    each write keeps. \<open>Evolution\<close>: \<open>evolves\<close>, what any task may do to the tables while another one waits, and the audit log
    as a ledger: every share balance is the replay of its postings.
  \<^item> \<open>Credit\<close> (\<open>depositWatcher.ts\<close>, \<open>sweeper.ts\<close>, \<open>depositPipeline.ts\<close>, \<open>creditEngine.ts\<close>, \<open>audit.ts\<close>): a deposit is credited once, for
    what arrived, after a confirmed sweep. \<open>Withdrawal\<close> (\<open>withdrawalBuilder.ts\<close>, \<open>withdrawalExecutor.ts\<close>): a withdrawal is
    paid at most once under any interleaving and any fault.
  \<^item> \<open>Cooldowns\<close>, \<open>Rate_Limiter\<close>, \<open>Enrollment\<close> (with \<open>encryption.ts\<close> and \<open>totp.ts\<close>): the delay of a new withdrawal address, the
    bound on guesses of codes, and codes that cannot be used twice.
  \<^item> \<open>Ui_Keyboards\<close>, \<open>Commands\<close>, \<open>Command_Laws\<close>, \<open>Command_Safety\<close>, \<open>Command_Properties\<close>: the requests of users. The locales
    say what a relation must allow of the primitive effects, and derive it for every handler; the interpretations give the
    invariants, the isolation of users, and that nothing moves without the second factor. \<open>Operator_Commands\<close>,
    \<open>Operator_Properties\<close>, \<open>Telegram\<close>, \<open>Telegram_Properties\<close>: the operator's commands, the callback router and the commander.
  \<^item> \<open>Price_Oracle\<close>, \<open>Strategy\<close> (with \<open>reconciler.ts\<close>), \<open>Tx_Submitter\<close> (with \<open>jitoClient.ts\<close>), \<open>Rebalancer\<close>,
    \<open>Rebalance_Properties\<close>: trusted prices, the decision table, when a transaction landed, and what every result of a
    rebalance means. The locale \<open>landing\<close> of the submitters is interpreted for the plain and the protected one.
  \<^item> \<open>Venue\<close>, \<open>Meteora\<close>, \<open>Raydium\<close>: the two clients, with the laws the rest relies on as the locale \<open>venue\<close>, interpreted for
    both; the partial close and the swap of Meteora.
  \<^item> \<open>Vault_Tick\<close> (\<open>vault/tick.ts\<close>), \<open>Main_Loop\<close>, \<open>Main_Properties\<close> (\<open>main.ts\<close>): the tick. The locale \<open>tick_law\<close> carries a relation
    through a whole tick; the interpretations give the kill switch, the failing node, the price history and the invariant.
  \<^item> \<open>Cli\<close> (\<open>cli/\<close>, the start-up reconciliation of \<open>main.ts\<close>, \<open>vault/preflight.ts\<close>, \<open>notifier.ts\<close>): the founding of the vault and
    the operator's commands. \<open>Config\<close> (\<open>config.ts\<close>): what an accepted configuration guarantees. \<open>Bundle_Poll\<close>: the loop of
    \<open>jitoClient.ts\<close> that waits for a bundle, with its clock, and that it ends. \<open>Transport\<close>: the HTTP requests and the timers of
    \<open>telegramCommander.ts\<close> and \<open>notifier.ts\<close>, and what becomes of the message with the secret.
  \<^item> \<open>Startup\<close>: the entry points, \<open>main\<close> up to its loop and \<open>cli/index.ts\<close> with its options and exit codes: when the bot and its
    vault start, and the founding from the command line. \<open>Scripts\<close> (\<open>scripts/\<close>): the rescue of a leaked wallet, the
    creation of the pool and the seed swap.
  \<^item> \<open>Lifecycle\<close>: an abstract machine for one withdrawal, and that every part of the program refines it.
  \<^item> This theory: the steps of the whole system in any order, its invariant, its refinement of the machine, and that the
    assumption on lost transfers cannot be dropped.

  \<^bold>\<open>Bounds.\<close> No fuel is used: the loops of the model are recursions over a list (the rows of a query, the attempts of a
  submission, the answers of a poll) or a fixed number of retries as in the code, so that their definitions are total. The
  one loop that ends by the clock, \<open>pollUntil\<close>, is a partial function, and is proved to end within 40 rounds. The two
  loops that run for ever, the main loop and the Telegram poll, are modelled by one turn and by sequences of turns.
  Timestamps are assumed below \<open>2^52\<close> where the code computes with them as numbers.

  \<^bold>\<open>What the properties found.\<close> Some properties state behaviour that the code does not intend: a transfer that is reported
  as timed out but lands is paid twice after a requeue; the typed amount of a withdrawal escapes the daily limits; the
  \<open>reconcile\<close> command stores bounds of zero; the drawdown breaker compares a position with itself; a slow poll never
  rebalances; a Raydium pool with BERT as its first token is traded the wrong way; the message with the secret of the second
  factor is never deleted; an enabled vault does not run without Telegram; and the rescue of a leaked wallet fails for a
  destination that has no token account.

  \<^bold>\<open>Not modelled.\<close> The SDKs of the venues, the Solana and SPL libraries, zod, the YAML parser, the cipher and the OTP library
  are parameters, since their sources are not part of the repository; with zod, the filling in of defaults. So are
  the files that are read, the key pair, \<open>fetch\<close>, the parser of commander, and the construction of the clients of a command
  (\<open>cli/_helpers.ts\<close>). The logger and the scripts that only print (\<open>rehearsal.ts\<close>, \<open>inspect-pool.ts\<close>, \<open>_probe-presets.ts\<close>) are
  left out. The rounding of the texts of reports is left symbolic (\<open>frag\<close>). Two ticks of one process do not
  overlap, because the loop awaits each tick.
\<close>

section \<open>The whole system\<close>

text \<open>The steps of the system. A tick; a Telegram update that is handled between two ticks, in whatever session the
  handlers are in; a run of the operator's command line, which is a process of its own on the same database and may found the vault;
  and a restart, which goes through the start of the bot, keeps the database and what is on chain and loses the variables
  of the process. What is handled during a tick, an update or a command are the \<open>meanwhile\<close>
  functions of its environment.\<close>

inductive reachable :: "MainCfg \<Rightarrow> 'i bot \<Rightarrow> bool" for cfg :: MainCfg where
  initially: "reachable cfg (start init_db)"
| ticked: "reachable cfg s \<Longrightarrow> calmTick te \<Longrightarrow> reachable cfg (tick cfg te s)"
| updated: "reachable cfg s \<Longrightarrow> ch_db (tc_session c) = b_db s \<Longrightarrow> calmCmd (oe_cmd (tg_op e)) \<Longrightarrow>
    (\<And>d. evolves d (oe_meanwhile (tg_op e) d)) \<Longrightarrow>
    reachable cfg (s\<lparr>b_db := ch_db (tc_session (snd (processUpdate e up c)))\<rparr>)"
| commanded: "reachable cfg s \<Longrightarrow> calmReb (cx_rebalance (pr_cli pe)) \<Longrightarrow> reachable cfg (snd (overEffects (runProgram pe args) s))"
| restarted: "reachable cfg s \<Longrightarrow> overEffects (boot be) s = (Inr (Inr b), s') \<Longrightarrow>
    reachable cfg (s'\<lparr>b_priceHistory := [], b_ticksInRange := 0, b_ticksTotal := 0, b_lastHourlyReport := h, b_lastAlerted := None\<rparr>)"

inductive_cases reachableE: "reachable cfg s"

text \<open>Every step refines the withdrawal machine, and keeps the price history within its bound.\<close>

lemma reachable_refines:
  fixes s :: "'i bot"
  assumes "reachable cfg s" shows "refines (start init_db) s \<and> historyBounded s"
  using assms
proof induction
  case initially
  then show ?case by (simp add: ref.refl) (simp add: historyBounded_def start_def)
next
  case (ticked s te)
  then show ?case using ref.trans refines_tick history_tick by blast
next
  case (updated s c e up)
  have "evolves (ch_db (tc_session c)) (ch_db (tc_session (snd (processUpdate e up c))))"
    using staysD [OF stays_processUpdate, of e c up] updated by (simp add: tgEvolves_def opEvolves_def)
  then have "refines s (s\<lparr>b_db := ch_db (tc_session (snd (processUpdate e up c)))\<rparr>)"
    using updated by (intro refines_evolves) simp_all
  with updated show ?case using ref.trans by (auto simp: historyBounded_def)
next
  case (commanded s pe args)
  then show ?case using ref.trans [OF _ refines_overEffects [OF stays_runProgram]] by (auto simp: historyBounded_def overEffects_def split_beta)
next
  case (restarted s be b s' h)
  have "refines s s'" using refines_overEffects [OF stays_boot [of be], of s] restarted by simp
  moreover have "refines s' (s'\<lparr>b_priceHistory := [], b_ticksInRange := 0, b_ticksTotal := 0, b_lastHourlyReport := h, b_lastAlerted := None\<rparr>)"
    by (rule refines_same) simp_all
  ultimately have "refines (start init_db) (s'\<lparr>b_priceHistory := [], b_ticksInRange := 0, b_ticksTotal := 0,
      b_lastHourlyReport := h, b_lastAlerted := None\<rparr>)"
    using restarted.IH by (blast intro: ref.trans)
  then show ?case by (simp add: historyBounded_def)
qed

lemma reachable_inv:
  fixes s :: "'i bot"
  assumes "reachable cfg s"
  shows "vaultInv s \<and> simulated (init_db, []) (b_db s, b_payouts s) \<and> historyBounded s"
proof -
  have "vaultInv (start init_db :: 'i bot)" by (rule vaultInv_init)
  then show ?thesis using reachable_refines [OF assms] by (simp add: refines_def) (simp add: start_def)
qed





section \<open>A transfer that is lost\<close>

text \<open>The node reports a time-out for a transfer that lands.\<close>

definition lost_demo :: ExecEnv where
  "lost_demo = exec_demo\<lparr>ee_transfer := (\<lambda>_ _ _. Inl ''timeout''), ee_landed := Some ''lost''\<rparr>"

definition failed_demo :: db where
  "failed_demo = failedAudit lost_demo row_demo ''timeout'' (failWithdrawal 1 ''timeout'' 10 (setWithdrawalProcessing 1 queue_demo))"

definition requeued_demo :: db where
  "requeued_demo = snd (requeueFailedWithdrawal 1 failed_demo)"

definition quoted_demo :: Quote where
  "quoted_demo = \<lparr>q_navPerShare = 1, q_netShares = 9, q_usdOwed = 9, q_needSol = 9000000000, q_needBert = 9000000\<rparr>"

lemma processOne_row:
  assumes "find (\<lambda>r. w_id r = 1) (listWithdrawalsByStatus Processing d) = Some row_demo" "totalShares sum_list d = 100"
    and "e = exec_demo \<or> e = lost_demo"
  shows "processOne execcfg_demo e 1 (d, ps) = payWithdrawal execcfg_demo e row_demo quoted_demo (d, ps)"
proof -
  have "quoteWithdrawal execcfg_demo (1/2, 1/2) (1000000000, 0) 100 row_demo d = Inr quoted_demo"
    using assms(2)
    by (simp add: quoteWithdrawal_def execcfg_demo_def spendable_def computeNav_def Let_def row_demo_def quoted_demo_def
        computeNavPerShare_def usdForShares_def splitUsdIntoTokens_def SOL_DECIMALS_def BERT_DECIMALS_def num_op_defs)
  then show ?thesis
    using assms(1,3)
    by (auto simp: processOne_def processRow_def ensureReserves_def exec_demo_def lost_demo_def exn_simps Let_def
        spendable_def execcfg_demo_def quoted_demo_def onDb_def)
qed

lemma first_drain:
  "drain execcfg_demo (\<lambda>_. lost_demo) (queue_demo, []) = (Inr (), (failed_demo, [payoutOf row_demo quoted_demo ''lost'']))"
proof -
  let ?d = "setWithdrawalProcessing 1 queue_demo"
  have row: "find (\<lambda>r. w_id r = 1) (listWithdrawalsByStatus Processing ?d) = Some row_demo" by code_simp
  have total: "totalShares sum_list ?d = 100" by code_simp
  have q: "listWithdrawalsByStatus Queued queue_demo = [row_demo\<lparr>w_status := Queued\<rparr>]" by code_simp
  have "payWithdrawal execcfg_demo lost_demo row_demo quoted_demo (?d, []) =
      (Inr (), (failed_demo, [payoutOf row_demo quoted_demo ''lost'']))"
    by (simp add: payWithdrawal_def exn_simps lost_demo_def exec_demo_def failed_demo_def) (simp add: row_demo_def)
  then show ?thesis
    using processOne_row [OF row total, of lost_demo "[]"] q
    by (simp add: drain_def exn_simps row_demo_def)
qed

lemma second_drain:
  "\<exists>d'. drain execcfg_demo (\<lambda>_. exec_demo) (requeued_demo, ps) = (Inr (), (d', ps @ [payoutOf row_demo quoted_demo ''sig'']))"
proof -
  let ?d = "setWithdrawalProcessing 1 requeued_demo"
  have row: "find (\<lambda>r. w_id r = 1) (listWithdrawalsByStatus Processing ?d) = Some row_demo" by code_simp
  have total: "totalShares sum_list ?d = 100" by code_simp
  have q: "listWithdrawalsByStatus Queued requeued_demo = [row_demo\<lparr>w_status := Queued\<rparr>]" by code_simp
  have "\<exists>d' r. payWithdrawal execcfg_demo exec_demo row_demo quoted_demo (?d, ps) =
      (r, (d', ps @ [payoutOf row_demo quoted_demo ''sig'']))"
    by (simp add: payWithdrawal_def exn_simps exec_demo_def onDb_def emit_def split: prod.splits)
  then show ?thesis
    using processOne_row [OF row total, of exec_demo ps] q
    by (auto simp: drain_def exn_simps tryCatch_def andThen_def onDb_def modify_def row_demo_def ret_def split: sum.splits)
qed


end
